(* ===== verification/Prelude.thy ===== *)
theory Prelude
  imports Complex_Main "HOL-Library.Log_Nat"
begin

text \<open>
  Shared material of the development: the collections of rewrite rules that the symbolic
  execution of the wallet's programs uses, and generic facts about lists, powers of two and
  decimal digits that several components need.
\<close>

section \<open>Rule collections\<close>

named_theorems js_eval \<open>evaluation of the JavaScript value and text operations\<close>
named_theorems wp_eval \<open>weakest-precondition equations of the program combinators\<close>
named_theorems prog_defs \<open>definitions of the translated programs, unfolded on demand\<close>

section \<open>Powers of two\<close>

lemma powi_two_pos [simp]: "0 < (2::rat) powi e"
  by (simp add: zero_less_power_int)

lemma powi_two_mono: "a \<le> b \<Longrightarrow> (2::rat) powi a \<le> 2 powi b"
  by (rule power_int_increasing) simp_all

lemma powi_two_strict: "(2::rat) powi a < 2 powi b \<longleftrightarrow> a < b"
proof
  assume *: "(2::rat) powi a < 2 powi b"
  show "a < b"
  proof (rule ccontr)
    assume "\<not> a < b"
    then have "(2::rat) powi b \<le> 2 powi a" by (intro powi_two_mono) simp
    with * show False by simp
  qed
next
  assume "a < b"
  then show "(2::rat) powi a < 2 powi b"
    by (intro power_int_strict_increasing) simp_all
qed

lemma powi_two_add: "(2::rat) powi (a + b) = 2 powi a * 2 powi b"
  by (simp add: power_int_add)

lemma powi_two_diff: "(2::rat) powi (a - b) = 2 powi a / 2 powi b"
  by (simp add: power_int_diff)

lemma powi_two_nat: "(2::rat) powi (int n) = of_int (2 ^ n)"
  by simp

lemma powi_two_int: "0 \<le> k \<Longrightarrow> (2::rat) powi k = of_int (2 ^ nat k)"
  by (simp add: power_int_def)

lemma powi_ratio: "b \<le> a \<Longrightarrow> (2::rat) powi a / 2 powi b = of_int (2 ^ nat (a - b))"
  by (subst powi_two_diff [symmetric]) (simp add: power_int_def)

lemma bitlen_rat_bounds:
  assumes "0 < a"
  shows "(2::rat) powi (bitlen a - 1) \<le> of_int a" "of_int a < (2::rat) powi (bitlen a)"
proof -
  have la: "1 \<le> bitlen a" using assms by (simp add: bitlen_alt_def)
  have "of_int (2 ^ nat (bitlen a - 1)) \<le> (of_int a :: rat)"
    using bitlen_bounds [OF assms] by (intro iffD2 [OF of_int_le_iff]) simp
  then show "(2::rat) powi (bitlen a - 1) \<le> of_int a"
    using la by (simp add: power_int_def)
  have "of_int a < (of_int (2 ^ nat (bitlen a)) :: rat)"
    using bitlen_bounds [OF assms] by (intro iffD2 [OF of_int_less_iff]) simp
  then show "of_int a < (2::rat) powi (bitlen a)"
    using la by (simp add: power_int_def)
qed

lemma abs_scaled_diff: "0 < u \<Longrightarrow> \<bar>n * u - x\<bar> = \<bar>n - x / u\<bar> * (u :: rat)"
proof -
  assume u: "0 < u"
  have "n * u - x = (n - x / u) * u" using u by (simp add: left_diff_distrib)
  then show ?thesis using u by (simp add: abs_mult)
qed

section \<open>Lists\<close>

lemma takeWhile_all [simp]: "(\<forall>x\<in>set xs. P x) \<Longrightarrow> takeWhile P (xs @ ys) = xs @ takeWhile P ys"
  by (induction xs) auto

lemma dropWhile_all [simp]: "(\<forall>x\<in>set xs. P x) \<Longrightarrow> dropWhile P (xs @ ys) = dropWhile P ys"
  by (induction xs) auto

end
