(* ===== verification/JsNumber.thy ===== *)
theory JsNumber
  imports Prelude
begin

text \<open>
  JavaScript numbers. The wallet computes amounts, heights and hash rates with IEEE 754
  doubles, so a number is a rational value that every operation rounds to the nearest double
  (ties to even), or an infinity, or NaN. Negative zero is identified with zero: none of the
  modelled code can tell them apart.
\<close>

section \<open>Rounding to doubles\<close>

text \<open>The exponent of the leading bit of a positive rational.\<close>

definition log2_floor :: "rat \<Rightarrow> int" where
  "log2_floor x =
     (let (a, b) = quotient_of x; e = bitlen a - bitlen b
      in if 2 powi e \<le> x then e else e - 1)"

text \<open>Rounding to an integer, ties to even, and the step of the double format at a value.\<close>

definition round_even :: "rat \<Rightarrow> int" where
  "round_even y =
     (let f = \<lfloor>y\<rfloor>; r = y - of_int f
      in if r < 1/2 then f else if 1/2 < r then f + 1 else if even f then f else f + 1)"

definition ulp_exp :: "rat \<Rightarrow> int" where
  "ulp_exp x = max (log2_floor \<bar>x\<bar> - 52) (- 1074)"

definition round_double :: "rat \<Rightarrow> rat" where
  "round_double x =
     (if x = 0 then 0
      else of_int (round_even (x / 2 powi (ulp_exp x))) * 2 powi (ulp_exp x))"

section \<open>Properties of the rounding\<close>

lemma log2_floor_bounds:
  assumes "0 < x"
  shows "2 powi (log2_floor x) \<le> x" "x < 2 powi (log2_floor x + 1)"
proof -
  obtain a b where q: "quotient_of x = (a, b)" by force
  have b: "0 < b" using quotient_of_denom_pos [OF q] .
  have x: "x = of_int a / of_int b" using quotient_of_div [OF q] .
  have a: "0 < a" using assms b unfolding x by (simp add: zero_less_divide_iff)
  note A = bitlen_rat_bounds [OF a] and B = bitlen_rat_bounds [OF b]
  have "(2::rat) powi (bitlen a - 1) / 2 powi (bitlen b) < x"
    unfolding x using A B a b by (intro frac_less2) auto
  then have lo: "2 powi (bitlen a - bitlen b - 1) < x"
    by (simp add: powi_two_diff powi_two_add field_simps)
  have "x < (2::rat) powi (bitlen a) / 2 powi (bitlen b - 1)"
    unfolding x using A B a b by (intro frac_less) auto
  then have hi: "x < 2 powi (bitlen a - bitlen b + 1)"
    by (simp add: powi_two_diff powi_two_add field_simps)
  show "2 powi (log2_floor x) \<le> x" "x < 2 powi (log2_floor x + 1)"
    using lo hi by (auto simp: log2_floor_def q Let_def)
qed

lemma log2_floor_unique:
  assumes "2 powi e \<le> x" "x < 2 powi (e + 1)"
  shows "log2_floor x = e"
proof -
  have x: "0 < x" using assms(1) powi_two_pos [of e] by linarith
  note B = log2_floor_bounds [OF x]
  have "(2::rat) powi e < 2 powi (log2_floor x + 1)" using assms(1) B(2) by linarith
  moreover have "(2::rat) powi (log2_floor x) < 2 powi (e + 1)" using assms(2) B(1) by linarith
  ultimately show ?thesis by (simp add: powi_two_strict)
qed

lemma log2_floor_mono:
  assumes "0 < x" "x \<le> y"
  shows "log2_floor x \<le> log2_floor y"
proof -
  have "(2::rat) powi (log2_floor x) < 2 powi (log2_floor y + 1)"
    using log2_floor_bounds [of x] log2_floor_bounds [of y] assms by linarith
  then show ?thesis by (simp add: powi_two_strict)
qed

lemma round_even_of_int [simp]: "round_even (of_int n) = n"
  by (simp add: round_even_def)

lemma round_even_near: "\<bar>of_int (round_even y) - y\<bar> \<le> 1/2"
  by (auto simp: round_even_def Let_def abs_if) linarith+

lemma round_even_mono: "x \<le> y \<Longrightarrow> round_even x \<le> round_even y"
proof -
  assume le: "x \<le> y"
  have fl: "\<lfloor>x\<rfloor> \<le> \<lfloor>y\<rfloor>" using le by (rule floor_mono)
  show ?thesis
  proof (cases "\<lfloor>x\<rfloor> = \<lfloor>y\<rfloor>")
    case True
    then show ?thesis using le by (auto simp: round_even_def Let_def)
  next
    case False
    then have "\<lfloor>x\<rfloor> + 1 \<le> \<lfloor>y\<rfloor>" using fl by linarith
    moreover have "round_even x \<le> \<lfloor>x\<rfloor> + 1" "\<lfloor>y\<rfloor> \<le> round_even y"
      by (auto simp: round_even_def Let_def)
    ultimately show ?thesis by linarith
  qed
qed

lemma round_even_le: "y \<le> of_int n \<Longrightarrow> round_even y \<le> n"
  using round_even_mono [of y "of_int n"] by simp

lemma round_even_ge: "of_int n \<le> y \<Longrightarrow> n \<le> round_even y"
  using round_even_mono [of "of_int n" y] by simp

lemma round_even_minus: "round_even (- y) = - round_even y"
proof (cases "y = of_int \<lfloor>y\<rfloor>")
  case True
  then show ?thesis by (metis of_int_minus round_even_of_int)
next
  case False
  have "\<lfloor>- y\<rfloor> = - \<lfloor>y\<rfloor> - 1" using False by linarith
  then show ?thesis by (auto simp: round_even_def Let_def)
qed

lemma round_double_integral:
  assumes "x / 2 powi (ulp_exp x) = of_int n"
  shows "round_double x = x"
  using assms by (auto simp: round_double_def) (metis nonzero_eq_divide_eq powi_two_pos less_irrefl)

lemma ulp_exp_le:
  assumes "x \<noteq> 0" "\<bar>x\<bar> < 2 powi (e + 53)" "- 1074 \<le> e"
  shows "ulp_exp x \<le> e"
proof -
  have "(2::rat) powi (log2_floor \<bar>x\<bar>) < 2 powi (e + 53)"
    using log2_floor_bounds(1) [of "\<bar>x\<bar>"] assms by simp
  then show ?thesis using assms by (simp add: powi_two_strict ulp_exp_def)
qed

lemma round_double_exact_strict:
  assumes "x = of_int m * 2 powi e" "\<bar>m\<bar> < 2 ^ 53" "- 1074 \<le> e"
  shows "round_double x = x"
proof (cases "x = 0")
  case True
  then show ?thesis by (simp add: round_double_def)
next
  case False
  have "\<bar>x\<bar> = of_int \<bar>m\<bar> * 2 powi e" unfolding assms(1) by (simp add: abs_mult)
  also have "\<dots> < of_int (2 ^ 53) * 2 powi e"
    using assms(2) by (intro mult_strict_right_mono) (simp_all only: of_int_less_iff powi_two_pos)
  also have "\<dots> = 2 powi (e + 53)" by (simp add: powi_two_add)
  finally have E: "ulp_exp x \<le> e" using False assms(3) by (intro ulp_exp_le)
  define E where "E = ulp_exp x"
  have "(2::rat) powi e / 2 powi E = of_int (2 ^ nat (e - E))"
    using E powi_two_int [of "e - E"] by (simp add: E_def powi_two_diff)
  then have "of_int m * (2::rat) powi e / 2 powi E = of_int (m * 2 ^ nat (e - E))"
    by (metis of_int_mult times_divide_eq_right)
  then have "x / 2 powi (ulp_exp x) = of_int (m * 2 ^ nat (e - E))"
    by (simp only: assms(1) E_def)
  then show ?thesis by (rule round_double_integral)
qed

lemma round_double_exact:
  assumes "x = of_int m * 2 powi e" "\<bar>m\<bar> \<le> 2 ^ 53" "- 1074 \<le> e"
  shows "round_double x = x"
proof (cases "\<bar>m\<bar> = 2 ^ 53")
  case True
  then consider "m = 2 ^ 53" | "m = - (2 ^ 53)" by linarith
  then have "\<exists>k. \<bar>k\<bar> < 2 ^ 53 \<and> x = of_int k * 2 powi (e + 1)"
  proof cases
    case 1
    then show ?thesis by (intro exI [of _ "2 ^ 52"]) (simp add: assms(1) powi_two_add)
  next
    case 2
    then show ?thesis by (intro exI [of _ "- (2 ^ 52)"]) (simp add: assms(1) powi_two_add)
  qed
  then show ?thesis using assms(3) by (metis round_double_exact_strict add_increasing2 zero_le_one)
next
  case False
  then show ?thesis using assms by (intro round_double_exact_strict) auto
qed

lemma round_double_of_int [simp]: "\<bar>n\<bar> \<le> 2 ^ 53 \<Longrightarrow> round_double (of_int n) = of_int n"
  by (rule round_double_exact [of _ n 0]) simp_all

lemma round_double_minus: "round_double (- x) = - round_double x"
  by (simp add: round_double_def ulp_exp_def round_even_minus)

lemma round_double_0 [simp]: "round_double 0 = 0"
  by (simp add: round_double_def)

lemma round_double_error:
  "\<bar>round_double x - x\<bar> \<le> 2 powi (ulp_exp x) / 2"
proof (cases "x = 0")
  case False
  let ?u = "(2::rat) powi (ulp_exp x)"
  have "\<bar>round_double x - x\<bar> = \<bar>of_int (round_even (x / ?u)) - x / ?u\<bar> * ?u"
    using False abs_scaled_diff [of ?u "of_int (round_even (x / ?u))" x]
    by (simp only: round_double_def powi_two_pos if_False)
  also have "\<dots> \<le> 1/2 * ?u"
    using round_even_near [of "x / ?u"] by (intro mult_right_mono) (auto simp: less_imp_le)
  finally show ?thesis by simp
qed simp

lemma round_double_rel_error:
  assumes "2 powi (- 1022) \<le> \<bar>x\<bar>"
  shows "\<bar>round_double x - x\<bar> \<le> \<bar>x\<bar> * 2 powi (- 53)"
proof -
  have x: "0 < \<bar>x\<bar>" using assms powi_two_pos [of "- 1022"] by linarith
  have "(2::rat) powi (- 1022) < 2 powi (log2_floor \<bar>x\<bar> + 1)"
    using log2_floor_bounds(2) [OF x] assms by linarith
  then have "ulp_exp x = log2_floor \<bar>x\<bar> - 52"
    unfolding powi_two_strict by (simp add: ulp_exp_def)
  then have "2 powi (ulp_exp x) / 2 = 2 powi (log2_floor \<bar>x\<bar>) * (2::rat) powi (- 53)"
    by (simp add: powi_two_diff power_int_minus)
  also have "\<dots> \<le> \<bar>x\<bar> * 2 powi (- 53)"
    using log2_floor_bounds(1) [OF x] by (intro mult_right_mono) simp_all
  finally show ?thesis using round_double_error [of x] by linarith
qed

lemma round_double_pow2:
  assumes "- 1074 \<le> e" shows "round_double (2 powi e) = 2 powi e"
  using round_double_exact [of _ 1 e] assms by simp

lemma round_double_mono_same:
  assumes "0 < x" "x \<le> y" "ulp_exp x = ulp_exp y"
  shows "round_double x \<le> round_double y"
  using assms round_even_mono [of "x / 2 powi (ulp_exp y)" "y / 2 powi (ulp_exp y)"]
  by (simp add: round_double_def divide_right_mono)

lemma round_double_scaled:
  "x \<noteq> 0 \<Longrightarrow> round_double x / 2 powi (ulp_exp x) = of_int (round_even (x / 2 powi (ulp_exp x)))"
  by (simp add: round_double_def)

lemma round_double_ge_pow2:
  assumes "2 powi e \<le> y" "ulp_exp y \<le> e"
  shows "2 powi e \<le> round_double y"
proof -
  let ?u = "(2::rat) powi (ulp_exp y)"
  have "0 < y" using assms(1) powi_two_pos [of e] by linarith
  have "2 powi e / ?u \<le> y / ?u" using assms(1) by (intro divide_right_mono) simp_all
  then have "2 ^ nat (e - ulp_exp y) \<le> round_even (y / ?u)"
    unfolding powi_ratio [OF assms(2)] by (rule round_even_ge)
  then have "2 powi e / ?u \<le> round_double y / ?u"
    using \<open>0 < y\<close> unfolding powi_ratio [OF assms(2)] by (simp only: round_double_scaled of_int_le_iff)
  then show ?thesis by (simp add: divide_le_cancel)
qed

lemma round_double_le_pow2:
  assumes "0 < y" "y \<le> 2 powi e" "ulp_exp y \<le> e"
  shows "round_double y \<le> 2 powi e"
proof -
  let ?u = "(2::rat) powi (ulp_exp y)"
  have "y / ?u \<le> 2 powi e / ?u" using assms(2) by (intro divide_right_mono) simp_all
  then have "round_even (y / ?u) \<le> 2 ^ nat (e - ulp_exp y)"
    unfolding powi_ratio [OF assms(3)] by (rule round_even_le)
  then have "round_double y / ?u \<le> 2 powi e / ?u"
    using assms(1) unfolding powi_ratio [OF assms(3)] by (simp only: round_double_scaled of_int_le_iff)
  then show ?thesis by (simp add: divide_le_cancel)
qed

lemma round_double_mono_pos:
  assumes "0 < x" "x \<le> y"
  shows "round_double x \<le> round_double y"
proof (cases "ulp_exp x = ulp_exp y")
  case True
  then show ?thesis using assms by (intro round_double_mono_same)
next
  case False
  have y: "0 < y" using assms by linarith
  define e where "e = log2_floor y"
  have le: "log2_floor x \<le> e" unfolding e_def using assms by (rule log2_floor_mono)
  then have E: "ulp_exp y = e - 52" "log2_floor x < e" "ulp_exp x \<le> e"
    using False assms y by (auto simp: ulp_exp_def e_def)
  have "x \<le> 2 powi e"
    using log2_floor_bounds(2) [OF assms(1)] E(2) powi_two_mono [of "log2_floor x + 1" e] by linarith
  then have "round_double x \<le> 2 powi e" using assms(1) E(3) by (intro round_double_le_pow2)
  also have "\<dots> \<le> round_double y"
    using log2_floor_bounds(1) [OF y] E(1) by (intro round_double_ge_pow2) (simp_all add: e_def)
  finally show ?thesis .
qed

lemma round_double_nonneg: "0 \<le> x \<Longrightarrow> 0 \<le> round_double x"
  using round_even_mono [of 0 "x / 2 powi (ulp_exp x)"] round_even_of_int [of 0]
  by (auto simp: round_double_def)

lemma round_double_nonpos: "x \<le> 0 \<Longrightarrow> round_double x \<le> 0"
  using round_double_nonneg [of "- x"] by (simp add: round_double_minus)

lemma round_double_mono: "x \<le> y \<Longrightarrow> round_double x \<le> round_double y"
proof -
  assume le: "x \<le> y"
  consider "0 < x" | "y < 0" | "x \<le> 0" "0 \<le> y" by linarith
  then show ?thesis
  proof cases
    case 1
    then show ?thesis using le by (rule round_double_mono_pos)
  next
    case 2
    then have "round_double (- y) \<le> round_double (- x)"
      using le by (intro round_double_mono_pos) simp_all
    then show ?thesis by (simp add: round_double_minus)
  next
    case 3
    then show ?thesis using round_double_nonneg round_double_nonpos by (meson order_trans)
  qed
qed

lemma round_double_double: "\<exists>m e. round_double x = of_int m * 2 powi e \<and> \<bar>m\<bar> \<le> 2 ^ 53 \<and> - 1074 \<le> e"
proof (cases "x = 0")
  case True
  then show ?thesis by (intro exI [of _ 0]) simp
next
  case False
  let ?u = "(2::rat) powi (ulp_exp x)" and ?m = "round_even (x / 2 powi (ulp_exp x))"
  have x: "0 < \<bar>x\<bar>" using False by simp
  have "\<bar>x\<bar> < 2 powi (log2_floor \<bar>x\<bar> + 1)" using log2_floor_bounds(2) [OF x] .
  also have "\<dots> \<le> 2 powi (ulp_exp x + 53)" by (intro powi_two_mono) (simp add: ulp_exp_def)
  finally have "\<bar>x / ?u\<bar> \<le> of_int (2 ^ 53)" by (simp add: powi_two_add field_simps)
  then have "of_int (- (2 ^ 53)) \<le> x / ?u" "x / ?u \<le> of_int (2 ^ 53)" by (simp_all only: of_int_minus abs_le_iff, linarith)
  then have "- (2 ^ 53) \<le> ?m" "?m \<le> 2 ^ 53"
    by (blast intro: round_even_ge, blast intro: round_even_le)
  then show ?thesis using False
    by (intro exI [of _ ?m] exI [of _ "ulp_exp x"]) (auto simp: round_double_def ulp_exp_def)
qed

lemma round_double_idem [simp]: "round_double (round_double x) = round_double x"
  using round_double_double [of x] round_double_exact by blast

text \<open>
  What the wallet's arithmetic needs of a rounding function: it is monotone, idempotent and
  odd. Doubles and decimal fractions of fixed length both have it.
\<close>

locale grid_rounding =
  fixes r :: "rat \<Rightarrow> rat"
  assumes r_mono: "x \<le> y \<Longrightarrow> r x \<le> r y"
    and r_idem: "r (r x) = r x"
    and r_odd: "r (- x) = - r x"
begin

lemma r_zero: "r 0 = 0"
  using r_odd [of 0] by simp

lemma r_nonneg: "0 \<le> x \<Longrightarrow> 0 \<le> r x"
  using r_mono [of 0 x] by (simp add: r_zero)

lemma r_upper: "x \<le> g \<Longrightarrow> r g = g \<Longrightarrow> r x \<le> g"
  using r_mono [of x g] by simp

lemma r_lower: "g \<le> x \<Longrightarrow> r g = g \<Longrightarrow> g \<le> r x"
  using r_mono [of g x] by simp

lemma r_abs: "r \<bar>x\<bar> = \<bar>r x\<bar>"
  using r_nonneg [of x] r_nonneg [of "- x"] by (cases "0 \<le> x") (auto simp: abs_if r_odd)

end

interpretation dbl: grid_rounding round_double
  by unfold_locales (simp_all add: round_double_mono round_double_minus)

section \<open>Numbers\<close>

datatype jsnum = NaN | PosInf | NegInf | Fin rat

definition rnd :: "rat \<Rightarrow> jsnum" where
  "rnd x =
     (let y = round_double x
      in if 2 powi 1024 \<le> y then PosInf else if y \<le> - (2 powi 1024) then NegInf else Fin y)"

section \<open>Arithmetic and comparisons\<close>

instantiation jsnum :: "{plus, minus, times, divide, uminus}"
begin

fun uminus_jsnum :: "jsnum \<Rightarrow> jsnum" where
  "- NaN = NaN"
| "- PosInf = NegInf"
| "- NegInf = PosInf"
| "- Fin a = Fin (- a)"

fun plus_jsnum :: "jsnum \<Rightarrow> jsnum \<Rightarrow> jsnum" where
  "Fin a + Fin b = rnd (a + b)"
| "NaN + _ = NaN"
| "_ + NaN = NaN"
| "PosInf + NegInf = NaN"
| "NegInf + PosInf = NaN"
| "PosInf + _ = PosInf"
| "_ + PosInf = PosInf"
| "NegInf + _ = NegInf"
| "_ + NegInf = NegInf"

definition minus_jsnum :: "jsnum \<Rightarrow> jsnum \<Rightarrow> jsnum" where
  "a - b = a + (- b :: jsnum)"

definition inf_of_sign :: "rat \<Rightarrow> jsnum" where
  "inf_of_sign s = (if 0 < s then PosInf else if s < 0 then NegInf else NaN)"

fun times_jsnum :: "jsnum \<Rightarrow> jsnum \<Rightarrow> jsnum" where
  "Fin a * Fin b = rnd (a * b)"
| "NaN * _ = NaN"
| "_ * NaN = NaN"
| "Fin a * PosInf = inf_of_sign a"
| "Fin a * NegInf = inf_of_sign (- a)"
| "PosInf * Fin a = inf_of_sign a"
| "NegInf * Fin a = inf_of_sign (- a)"
| "PosInf * PosInf = PosInf"
| "PosInf * NegInf = NegInf"
| "NegInf * PosInf = NegInf"
| "NegInf * NegInf = PosInf"

fun divide_jsnum :: "jsnum \<Rightarrow> jsnum \<Rightarrow> jsnum" where
  "divide_jsnum (Fin a) (Fin b) = (if b = 0 then inf_of_sign a else rnd (a / b))"
| "divide_jsnum NaN _ = NaN"
| "divide_jsnum _ NaN = NaN"
| "divide_jsnum (Fin a) _ = Fin 0"
| "divide_jsnum PosInf (Fin b) = (if 0 \<le> b then PosInf else NegInf)"
| "divide_jsnum NegInf (Fin b) = (if 0 \<le> b then NegInf else PosInf)"
| "divide_jsnum _ _ = NaN"

instance ..

end

instantiation jsnum :: ord
begin

text \<open>The relational operators of the language: every comparison with NaN is false.\<close>

fun less_jsnum :: "jsnum \<Rightarrow> jsnum \<Rightarrow> bool" where
  "Fin a < Fin b \<longleftrightarrow> a < b"
| "NaN < _ \<longleftrightarrow> False"
| "_ < NaN \<longleftrightarrow> False"
| "NegInf < b \<longleftrightarrow> b \<noteq> NegInf"
| "a < PosInf \<longleftrightarrow> a \<noteq> PosInf"
| "PosInf < _ \<longleftrightarrow> False"
| "_ < NegInf \<longleftrightarrow> False"

definition less_eq_jsnum :: "jsnum \<Rightarrow> jsnum \<Rightarrow> bool" where
  "a \<le> b \<longleftrightarrow> a < b \<or> (a = b \<and> a \<noteq> (NaN :: jsnum))"

instance ..

end

section \<open>The Math and Number functions the wallet uses\<close>

fun is_finite_num :: "jsnum \<Rightarrow> bool" where
  "is_finite_num (Fin _) = True"
| "is_finite_num _ = False"

fun math_floor :: "jsnum \<Rightarrow> jsnum" where
  "math_floor (Fin a) = Fin (of_int \<lfloor>a\<rfloor>)"
| "math_floor n = n"

fun math_ceil :: "jsnum \<Rightarrow> jsnum" where
  "math_ceil (Fin a) = Fin (of_int \<lceil>a\<rceil>)"
| "math_ceil n = n"

fun math_round :: "jsnum \<Rightarrow> jsnum" where
  "math_round (Fin a) = Fin (of_int \<lfloor>a + 1/2\<rfloor>)"
| "math_round n = n"

definition math_max :: "jsnum \<Rightarrow> jsnum \<Rightarrow> jsnum" where
  "math_max a b = (if a = NaN \<or> b = NaN then NaN else if a < b then b else a)"

definition math_min :: "jsnum \<Rightarrow> jsnum \<Rightarrow> jsnum" where
  "math_min a b = (if a = NaN \<or> b = NaN then NaN else if b < a then b else a)"

text \<open>The remainder operator truncates towards zero; it is exact.\<close>

fun js_rem :: "jsnum \<Rightarrow> jsnum \<Rightarrow> jsnum" where
  "js_rem (Fin a) (Fin b) =
     (if b = 0 then NaN
      else Fin (a - b * of_int (if 0 \<le> a / b then \<lfloor>a / b\<rfloor> else \<lceil>a / b\<rceil>)))"
| "js_rem (Fin a) PosInf = Fin a"
| "js_rem (Fin a) NegInf = Fin a"
| "js_rem _ _ = NaN"

definition of_nat_num :: "nat \<Rightarrow> jsnum" where
  "of_nat_num n = rnd (of_nat n)"

end
