(* ===== verification/JsText.thy ===== *)
theory JsText
  imports JsNumber
begin

text \<open>
  JavaScript strings as the wallet uses them, and the conversions between numbers and text:
  the String methods, Number(text), parseInt, String(number) and toFixed. A string is the list
  of the bytes of its UTF-8 form; the literals of the source that are not ASCII are the named
  byte sequences below. Lengths and slices therefore count bytes, which is what the language
  counts for the ASCII addresses, hashes and amounts these operations are applied to, and the
  change of case acts on ASCII letters.
\<close>

section \<open>Literals of the source outside ASCII\<close>

abbreviation (input) em_dash :: string where "em_dash \<equiv> [CHR 0xE2, CHR 0x80, CHR 0x94]"
abbreviation (input) en_dash :: string where "en_dash \<equiv> [CHR 0xE2, CHR 0x80, CHR 0x93]"
abbreviation (input) mid_dot :: string where "mid_dot \<equiv> [CHR 0xC2, CHR 0xB7]"
abbreviation (input) right_arrow :: string where "right_arrow \<equiv> [CHR 0xE2, CHR 0x86, CHR 0x92]"
abbreviation (input) up_arrow :: string where "up_arrow \<equiv> [CHR 0xE2, CHR 0x86, CHR 0x91]"
abbreviation (input) down_arrow :: string where "down_arrow \<equiv> [CHR 0xE2, CHR 0x86, CHR 0x93]"
abbreviation (input) hook_arrow :: string where "hook_arrow \<equiv> [CHR 0xE2, CHR 0x86, CHR 0xA9]"
abbreviation (input) hourglass :: string where "hourglass \<equiv> [CHR 0xE2, CHR 0x8F, CHR 0xB3]"
abbreviation (input) stop_button :: string where "stop_button \<equiv> [CHR 0xE2, CHR 0x8F, CHR 0xB9]"
abbreviation (input) pick_sign :: string where "pick_sign \<equiv> [CHR 0xE2, CHR 0x9B, CHR 0x8F]"
abbreviation (input) gear_sign :: string where "gear_sign \<equiv> [CHR 0xE2, CHR 0x9A, CHR 0x99]"
abbreviation (input) check_sign :: string where "check_sign \<equiv> [CHR 0xE2, CHR 0x9C, CHR 0x93]"
abbreviation (input) check_box :: string where "check_box \<equiv> [CHR 0xE2, CHR 0x9C, CHR 0x85]"
abbreviation (input) lock_sign :: string where
  "lock_sign \<equiv> [CHR 0xF0, CHR 0x9F, CHR 0x94, CHR 0x92]"
abbreviation (input) cycle_sign :: string where
  "cycle_sign \<equiv> [CHR 0xF0, CHR 0x9F, CHR 0x94, CHR 0x84]"
abbreviation (input) link_sign :: string where
  "link_sign \<equiv> [CHR 0xF0, CHR 0x9F, CHR 0x94, CHR 0x97]"
abbreviation (input) mailbox_sign :: string where
  "mailbox_sign \<equiv> [CHR 0xF0, CHR 0x9F, CHR 0x93, CHR 0xAD]"
abbreviation (input) warning_sign :: string where
  "warning_sign \<equiv> [CHR 0xE2, CHR 0x9A, CHR 0xA0, CHR 0xEF, CHR 0xB8, CHR 0x8F]"
abbreviation (input) newline :: string where "newline \<equiv> [CHR 0x0A]"

section \<open>String methods\<close>

definition starts_with :: "string \<Rightarrow> string \<Rightarrow> bool" where
  "starts_with s p \<longleftrightarrow> take (length p) s = p"

definition ends_with :: "string \<Rightarrow> string \<Rightarrow> bool" where
  "ends_with s p \<longleftrightarrow> starts_with (rev s) (rev p)"

fun str_includes :: "string \<Rightarrow> string \<Rightarrow> bool" where
  "str_includes [] p \<longleftrightarrow> p = []"
| "str_includes (c # s) p \<longleftrightarrow> starts_with (c # s) p \<or> str_includes s p"

definition slice_first :: "nat \<Rightarrow> string \<Rightarrow> string" where
  "slice_first n s = take n s"

definition slice_last :: "nat \<Rightarrow> string \<Rightarrow> string" where
  "slice_last n s = drop (length s - n) s"

definition pad_end :: "string \<Rightarrow> nat \<Rightarrow> string \<Rightarrow> string" where
  "pad_end s n p = s @ take (n - length s) (concat (replicate n p))"

fun split_on :: "char \<Rightarrow> string \<Rightarrow> string list" where
  "split_on c [] = [[]]"
| "split_on c (x # xs) =
     (if x = c then [] # split_on c xs
      else (case split_on c xs of [] \<Rightarrow> [[x]] | w # ws \<Rightarrow> (x # w) # ws))"

fun join_with :: "string \<Rightarrow> string list \<Rightarrow> string" where
  "join_with s [] = []"
| "join_with s [x] = x"
| "join_with s (x # y # ys) = x @ s @ join_with s (y # ys)"

definition lower_char :: "char \<Rightarrow> char" where
  "lower_char c = (let n = (of_char c :: nat) in if 65 \<le> n \<and> n \<le> 90 then char_of (n + 32) else c)"

definition to_lower :: "string \<Rightarrow> string" where
  "to_lower s = map lower_char s"

text \<open>White space and line terminators of the language, each as its UTF-8 bytes.\<close>

definition ws_seqs :: "string list" where
  "ws_seqs =
     [[CHR 0x09], [CHR 0x0A], [CHR 0x0B], [CHR 0x0C], [CHR 0x0D], [CHR 0x20],
      [CHR 0xC2, CHR 0xA0], [CHR 0xEF, CHR 0xBB, CHR 0xBF], [CHR 0xE1, CHR 0x9A, CHR 0x80],
      [CHR 0xE2, CHR 0x80, CHR 0x80], [CHR 0xE2, CHR 0x80, CHR 0x81],
      [CHR 0xE2, CHR 0x80, CHR 0x82], [CHR 0xE2, CHR 0x80, CHR 0x83],
      [CHR 0xE2, CHR 0x80, CHR 0x84], [CHR 0xE2, CHR 0x80, CHR 0x85],
      [CHR 0xE2, CHR 0x80, CHR 0x86], [CHR 0xE2, CHR 0x80, CHR 0x87],
      [CHR 0xE2, CHR 0x80, CHR 0x88], [CHR 0xE2, CHR 0x80, CHR 0x89],
      [CHR 0xE2, CHR 0x80, CHR 0x8A], [CHR 0xE2, CHR 0x80, CHR 0xA8],
      [CHR 0xE2, CHR 0x80, CHR 0xA9], [CHR 0xE2, CHR 0x80, CHR 0xAF],
      [CHR 0xE2, CHR 0x81, CHR 0x9F], [CHR 0xE3, CHR 0x80, CHR 0x80]]"

text \<open>The number of bytes of the white-space character a string starts with, 0 for none.\<close>

definition ws_len :: "string list \<Rightarrow> string \<Rightarrow> nat" where
  "ws_len seqs s = (case find (\<lambda>p. starts_with s p) seqs of None \<Rightarrow> 0 | Some p \<Rightarrow> length p)"

function strip_ws :: "string list \<Rightarrow> string \<Rightarrow> string" where
  "strip_ws seqs s =
     (if ws_len seqs s = 0 \<or> s = [] then s else strip_ws seqs (drop (ws_len seqs s) s))"
  by pat_completeness auto
termination
  by (relation "measure (\<lambda>(seqs, s). length s)") auto

declare strip_ws.simps [simp del]

definition trim_start :: "string \<Rightarrow> string" where
  "trim_start s = strip_ws ws_seqs s"

definition trim :: "string \<Rightarrow> string" where
  "trim s = rev (strip_ws (map rev ws_seqs) (rev (trim_start s)))"

text \<open>split(/\s+/): the maximal runs of characters that are not white space.\<close>

function words_ws :: "string \<Rightarrow> string \<Rightarrow> string list" where
  "words_ws acc s =
     (if s = [] then [rev acc]
      else if ws_len ws_seqs s = 0 then words_ws (hd s # acc) (tl s)
      else rev acc # words_ws [] (strip_ws ws_seqs s))"
  by pat_completeness auto

lemma strip_ws_length: "length (strip_ws seqs s) \<le> length s"
proof (induction seqs s rule: strip_ws.induct)
  case (1 seqs s)
  show ?case
  proof (cases "ws_len seqs s = 0 \<or> s = []")
    case False
    then have "length (strip_ws seqs (drop (ws_len seqs s) s)) \<le> length (drop (ws_len seqs s) s)"
      by (rule "1")
    then show ?thesis using False by (simp add: strip_ws.simps [of seqs s])
  qed (simp add: strip_ws.simps [of seqs s])
qed

lemma strip_ws_shorter:
  assumes "ws_len seqs s \<noteq> 0" "s \<noteq> []"
  shows "length (strip_ws seqs s) < length s"
proof -
  have "strip_ws seqs s = strip_ws seqs (drop (ws_len seqs s) s)"
    using assms by (simp add: strip_ws.simps [of seqs s])
  then have "length (strip_ws seqs s) \<le> length s - ws_len seqs s"
    by (metis strip_ws_length length_drop)
  moreover have "0 < length s" using assms(2) by simp
  ultimately show ?thesis using assms(1) by linarith
qed

termination words_ws
  by (relation "measure (\<lambda>(acc, s). length s)") (auto intro: strip_ws_shorter)

declare words_ws.simps [simp del]

section \<open>Decimal digits\<close>

definition is_digit :: "char \<Rightarrow> bool" where
  "is_digit c \<longleftrightarrow> (let n = (of_char c :: nat) in 48 \<le> n \<and> n \<le> 57)"

definition digit_val :: "char \<Rightarrow> int" where
  "digit_val c = of_char c - 48"

definition digit_char :: "int \<Rightarrow> char" where
  "digit_char d = char_of (48 + d)"

definition parse_digits :: "string \<Rightarrow> int" where
  "parse_digits s = foldl (\<lambda>n c. 10 * n + digit_val c) 0 s"

function digits_of :: "int \<Rightarrow> string" where
  "digits_of n = (if n < 10 then [digit_char n] else digits_of (n div 10) @ [digit_char (n mod 10)])"
  by pat_completeness auto
termination
  by (relation "measure nat") auto

declare digits_of.simps [simp del]

definition int_str :: "int \<Rightarrow> string" where
  "int_str i = (if i < 0 then CHR ''-'' # digits_of (- i) else digits_of i)"

section \<open>Text to numbers\<close>

text \<open>
  The value of a decimal literal: an integer part, an optional fraction and an optional
  exponent, with at least one digit before the exponent.
\<close>

definition exponent_part :: "string \<Rightarrow> int option" where
  "exponent_part s =
     (case s of
        [] \<Rightarrow> Some 0
      | c # r \<Rightarrow>
          (if c = CHR ''e'' \<or> c = CHR ''E'' then
             (let (neg, ds) = (case r of [] \<Rightarrow> (False, r)
                | x # xs \<Rightarrow> if x = CHR ''-'' then (True, xs)
                            else if x = CHR ''+'' then (False, xs) else (False, r))
              in if ds \<noteq> [] \<and> list_all is_digit ds
                 then Some (if neg then - parse_digits ds else parse_digits ds) else None)
           else None))"

definition decimal_value :: "string \<Rightarrow> rat option" where
  "decimal_value s =
     (let ip = takeWhile is_digit s; r = dropWhile is_digit s;
          (fp, r') = (case r of [] \<Rightarrow> ([], [])
            | c # cs \<Rightarrow> if c = CHR ''.'' then (takeWhile is_digit cs, dropWhile is_digit cs) else ([], r))
      in if ip = [] \<and> fp = [] then None
         else map_option (\<lambda>e. of_int (parse_digits (ip @ fp)) * 10 powi (e - int (length fp)))
                (exponent_part r'))"

definition radix_digit :: "int \<Rightarrow> char \<Rightarrow> int option" where
  "radix_digit b c =
     (let n = (of_char (lower_char c) :: int);
          v = (if 48 \<le> n \<and> n \<le> 57 then n - 48 else if 97 \<le> n \<and> n \<le> 122 then n - 87 else 99)
      in if v < b then Some v else None)"

fun radix_value :: "int \<Rightarrow> int \<Rightarrow> string \<Rightarrow> int option" where
  "radix_value b n [] = Some n"
| "radix_value b n (c # cs) =
     (case radix_digit b c of None \<Rightarrow> None | Some v \<Rightarrow> radix_value b (b * n + v) cs)"

text \<open>Number(text), for text whose surrounding white space is already removed.\<close>

definition unsigned_number :: "string \<Rightarrow> jsnum" where
  "unsigned_number s =
     (if s = ''Infinity'' then PosInf
      else case decimal_value s of None \<Rightarrow> NaN | Some v \<Rightarrow> rnd v)"

definition string_to_number :: "string \<Rightarrow> jsnum" where
  "string_to_number t =
     (let s = trim t in
      case s of
        [] \<Rightarrow> Fin 0
      | [c] \<Rightarrow> unsigned_number s
      | c # d # r \<Rightarrow>
          if c = CHR ''+'' then unsigned_number (d # r)
          else if c = CHR ''-'' then - unsigned_number (d # r)
          else if c = CHR ''0'' \<and> r \<noteq> [] \<and> lower_char d \<in> {CHR ''x'', CHR ''o'', CHR ''b''} then
            (let b = (if lower_char d = CHR ''x'' then 16 else if lower_char d = CHR ''o'' then 8 else 2)
             in case radix_value b 0 r of None \<Rightarrow> NaN | Some v \<Rightarrow> rnd (of_int v))
          else unsigned_number s)"

text \<open>parseInt(text, 10): the longest prefix of digits after white space and a sign.\<close>

definition parse_int :: "string \<Rightarrow> jsnum" where
  "parse_int t =
     (let s = trim_start t;
          (neg, r) = (case s of [] \<Rightarrow> (False, s)
            | c # cs \<Rightarrow> if c = CHR ''-'' then (True, cs)
                        else if c = CHR ''+'' then (False, cs) else (False, s));
          ds = takeWhile is_digit r
      in if ds = [] then NaN
         else rnd (if neg then - of_int (parse_digits ds) else of_int (parse_digits ds)))"

section \<open>Numbers to text\<close>

definition zeros :: "nat \<Rightarrow> string" where
  "zeros n = replicate n (CHR ''0'')"

text \<open>The decimal exponent n with 10^(n-1) <= x < 10^n of a positive number.\<close>

fun small_exp :: "nat \<Rightarrow> rat \<Rightarrow> int" where
  "small_exp 0 x = 0"
| "small_exp (Suc f) x = (if 1 \<le> x then 1 else small_exp f (10 * x) - 1)"

definition dec_exp :: "rat \<Rightarrow> int" where
  "dec_exp x = (if 1 \<le> x then int (length (digits_of \<lfloor>x\<rfloor>)) else small_exp 400 x)"

text \<open>
  The digits of String(x): the shortest decimal that rounds to the double x, the one closest
  to x where several are as short. Every double has one of at most 17 digits.
\<close>

definition digit_candidate :: "rat \<Rightarrow> int \<Rightarrow> nat \<Rightarrow> int option" where
  "digit_candidate x n k =
     (let y = x * 10 powi (int k - n); lo = \<lfloor>y\<rfloor>; hi = \<lceil>y\<rceil>;
          good = (\<lambda>s. round_double (of_int s * 10 powi (n - int k)) = x)
      in if good lo \<and> (\<not> good hi \<or> y - of_int lo \<le> of_int hi - y) then Some lo
         else if good hi then Some hi else None)"

fun shortest_digits :: "nat \<Rightarrow> rat \<Rightarrow> int \<Rightarrow> nat \<Rightarrow> int \<times> nat" where
  "shortest_digits 0 x n k = (\<lfloor>x * 10 powi (int k - n)\<rfloor>, k)"
| "shortest_digits (Suc f) x n k =
     (case digit_candidate x n k of Some s \<Rightarrow> (s, k) | None \<Rightarrow> shortest_digits f x n (Suc k))"

definition decimal_text :: "string \<Rightarrow> int \<Rightarrow> string" where
  "decimal_text ds n =
     (let k = int (length ds) in
      if k \<le> n \<and> n \<le> 21 then ds @ zeros (nat (n - k))
      else if 0 < n \<and> n \<le> 21 then take (nat n) ds @ ''.'' @ drop (nat n) ds
      else if - 6 < n \<and> n \<le> 0 then ''0.'' @ zeros (nat (- n)) @ ds
      else (let e = n - 1;
                ex = ''e'' @ (if 0 \<le> e then ''+'' else ''-'') @ digits_of \<bar>e\<bar>
            in if length ds = 1 then ds @ ex else take 1 ds @ ''.'' @ drop 1 ds @ ex))"

definition positive_text :: "rat \<Rightarrow> string" where
  "positive_text x =
     (let n = dec_exp x; (s, k) = shortest_digits 17 x n 1
      in if s = 10 ^ k then decimal_text ''1'' (n + 1) else decimal_text (digits_of s) n)"

fun num_to_string :: "jsnum \<Rightarrow> string" where
  "num_to_string NaN = ''NaN''"
| "num_to_string PosInf = ''Infinity''"
| "num_to_string NegInf = ''-Infinity''"
| "num_to_string (Fin x) =
     (if x = 0 then ''0'' else if x < 0 then CHR ''-'' # positive_text (- x) else positive_text x)"

text \<open>
  toFixed(d): the integer nearest to x * 10^d, the larger one on a tie, written with d digits
  after the point.
\<close>

definition fixed_digits :: "nat \<Rightarrow> rat \<Rightarrow> int" where
  "fixed_digits d x = \<lfloor>x * 10 ^ d + 1/2\<rfloor>"

definition fixed_text :: "nat \<Rightarrow> int \<Rightarrow> string" where
  "fixed_text d n =
     (if d = 0 then digits_of n
      else (let m = digits_of n; z = zeros (d + 1 - length m) @ m; k = length z - d
            in take k z @ ''.'' @ drop k z))"

fun to_fixed :: "nat \<Rightarrow> jsnum \<Rightarrow> string" where
  "to_fixed d (Fin x) =
     (if 10 ^ 21 \<le> \<bar>x\<bar> then num_to_string (Fin x)
      else (if x < 0 then ''-'' else []) @ fixed_text d (fixed_digits d \<bar>x\<bar>))"
| "to_fixed d n = num_to_string n"

end
