(* ===== verification/JsValue.thy ===== *)
theory JsValue
  imports JsText "HOL-Library.Multiset"
begin

text \<open>
  Dynamic values of the language: what JSON bodies, IPC messages and contract results hold. The
  conversions follow the language: truthiness, property access (which throws on undefined and
  null), ToNumber, ToString, the relational operators, object spread.
\<close>

datatype jsval =
    Undefined
  | Null
  | Bool bool
  | Num jsnum
  | Big int
  | Str string
  | Arr "jsval list"
  | Obj "(string \<times> jsval) list"

section \<open>Truthiness and logical operators\<close>

fun truthy :: "jsval \<Rightarrow> bool" where
  "truthy Undefined = False"
| "truthy Null = False"
| "truthy (Bool b) = b"
| "truthy (Num n) = (n \<noteq> NaN \<and> n \<noteq> Fin 0)"
| "truthy (Big i) = (i \<noteq> 0)"
| "truthy (Str s) = (s \<noteq> [])"
| "truthy (Arr _) = True"
| "truthy (Obj _) = True"

text \<open>The operator \<open>||\<close>: the first operand if it is truthy, else the second.\<close>

definition js_or :: "jsval \<Rightarrow> jsval \<Rightarrow> jsval" where
  "js_or a b = (if truthy a then a else b)"

definition nullish :: "jsval \<Rightarrow> bool" where
  "nullish v \<longleftrightarrow> v = Undefined \<or> v = Null"

section \<open>Properties\<close>

definition obj_get :: "(string \<times> jsval) list \<Rightarrow> string \<Rightarrow> jsval" where
  "obj_get fs k = (case map_of fs k of None \<Rightarrow> Undefined | Some v \<Rightarrow> v)"

fun obj_put :: "(string \<times> jsval) list \<Rightarrow> string \<Rightarrow> jsval \<Rightarrow> (string \<times> jsval) list" where
  "obj_put [] k v = [(k, v)]"
| "obj_put ((k', v') # fs) k v = (if k' = k then (k, v) # fs else (k', v') # obj_put fs k v)"

definition num_of_nat :: "nat \<Rightarrow> jsval" where
  "num_of_nat n = Num (Fin (of_nat n))"

text \<open>
  \<open>jprop v k\<close> is the value of v.k where v is neither undefined nor null, and Undefined as the
  optional access v?.k yields otherwise; the program model throws for the plain access.
\<close>

fun jprop :: "jsval \<Rightarrow> string \<Rightarrow> jsval" where
  "jprop (Obj fs) k = obj_get fs k"
| "jprop (Arr xs) k = (if k = ''length'' then num_of_nat (length xs) else Undefined)"
| "jprop (Str s) k = (if k = ''length'' then num_of_nat (length s) else Undefined)"
| "jprop _ k = Undefined"

text \<open>Reading an element of an array by its position; Undefined beyond the end.\<close>

fun elem_at :: "jsval \<Rightarrow> nat \<Rightarrow> jsval" where
  "elem_at (Arr xs) i = (if i < length xs then xs ! i else Undefined)"
| "elem_at (Str s) i = (if i < length s then Str [s ! i] else Undefined)"
| "elem_at _ i = Undefined"

text \<open>The properties an object spread copies, and the object it builds.\<close>

fun spread_props :: "jsval \<Rightarrow> (string \<times> jsval) list" where
  "spread_props (Obj fs) = fs"
| "spread_props (Arr xs) = zip (map (\<lambda>i. int_str (int i)) [0..<length xs]) xs"
| "spread_props (Str s) = zip (map (\<lambda>i. int_str (int i)) [0..<length s]) (map (\<lambda>c. Str [c]) s)"
| "spread_props _ = []"

definition obj_spread :: "(string \<times> jsval) list \<Rightarrow> jsval \<Rightarrow> (string \<times> jsval) list" where
  "obj_spread fs v = foldl (\<lambda>o' (k, x). obj_put o' k x) fs (spread_props v)"

section \<open>Conversions\<close>

fun to_str :: "jsval \<Rightarrow> string" where
  "to_str Undefined = ''undefined''"
| "to_str Null = ''null''"
| "to_str (Bool b) = (if b then ''true'' else ''false'')"
| "to_str (Num n) = num_to_string n"
| "to_str (Big i) = int_str i"
| "to_str (Str s) = s"
| "to_str (Arr xs) = join_with '','' (map (\<lambda>x. if nullish x then [] else to_str x) xs)"
| "to_str (Obj _) = ''[object Object]''"

fun to_number :: "jsval \<Rightarrow> jsnum" where
  "to_number Undefined = NaN"
| "to_number Null = Fin 0"
| "to_number (Bool b) = Fin (if b then 1 else 0)"
| "to_number (Num n) = n"
| "to_number (Big i) = rnd (of_int i)"
| "to_number (Str s) = string_to_number s"
| "to_number (Arr xs) = string_to_number (to_str (Arr xs))"
| "to_number (Obj _) = NaN"

definition js_isNaN :: "jsval \<Rightarrow> bool" where
  "js_isNaN v \<longleftrightarrow> to_number v = NaN"

section \<open>Comparisons\<close>

text \<open>Strict equality of the primitive values the code compares.\<close>

definition strict_eq :: "jsval \<Rightarrow> jsval \<Rightarrow> bool" where
  "strict_eq a b \<longleftrightarrow> a = b \<and> a \<noteq> Num NaN"

fun str_less :: "string \<Rightarrow> string \<Rightarrow> bool" where
  "str_less s [] = False"
| "str_less [] (y # ys) = True"
| "str_less (x # xs) (y # ys) =
     ((of_char x :: nat) < of_char y \<or> (x = y \<and> str_less xs ys))"

definition js_less :: "jsval \<Rightarrow> jsval \<Rightarrow> bool" where
  "js_less a b =
     (case (a, b) of
        (Str s, Str t) \<Rightarrow> str_less s t
      | (Big i, Big j) \<Rightarrow> i < j
      | _ \<Rightarrow> to_number a < to_number b)"

definition js_lesseq :: "jsval \<Rightarrow> jsval \<Rightarrow> bool" where
  "js_lesseq a b =
     (case (a, b) of
        (Str s, Str t) \<Rightarrow> \<not> str_less t s
      | (Big i, Big j) \<Rightarrow> i \<le> j
      | _ \<Rightarrow> to_number a \<le> to_number b)"

section \<open>Errors\<close>

text \<open>A thrown Error is an object with its message; the language's own errors carry their name.\<close>

definition mk_error :: "string \<Rightarrow> jsval" where
  "mk_error m = Obj [(''message'', Str m)]"

definition type_error :: "string \<Rightarrow> jsval" where
  "type_error m = Obj [(''name'', Str ''TypeError''), (''message'', Str m)]"

definition reference_error :: "string \<Rightarrow> jsval" where
  "reference_error x = Obj [(''name'', Str ''ReferenceError''), (''message'', Str (x @ '' is not defined''))]"

text \<open>new Error(m), and the error of JSON.parse on a malformed text.\<close>

definition new_error :: "jsval \<Rightarrow> jsval" where
  "new_error m = mk_error (if m = Undefined then [] else to_str m)"

definition syntax_error :: jsval where
  "syntax_error = Obj [(''name'', Str ''SyntaxError''), (''message'', Str ''Unexpected token in JSON'')]"

section \<open>Defaults, counters, sorting\<close>

text \<open>A default parameter applies to undefined only.\<close>

definition or_default :: "jsval \<Rightarrow> jsval \<Rightarrow> jsval" where
  "or_default v d = (if v = Undefined then d else v)"

abbreviation jint :: "int \<Rightarrow> jsval" where
  "jint n \<equiv> Num (Fin (of_int n))"

fun js_inc :: "jsval \<Rightarrow> jsval" where
  "js_inc (Big i) = Big (i + 1)"
| "js_inc v = Num (to_number v + Fin 1)"

text \<open>
  Array.prototype.sort with a comparator: stable, and a comparison that is not a number counts as
  zero.
\<close>

fun sort_insert :: "('a \<Rightarrow> 'a \<Rightarrow> jsnum) \<Rightarrow> 'a \<Rightarrow> 'a list \<Rightarrow> 'a list" where
  "sort_insert cmp x [] = [x]"
| "sort_insert cmp x (y # ys) = (if Fin 0 < cmp x y then y # sort_insert cmp x ys else x # y # ys)"

definition js_sort :: "('a \<Rightarrow> 'a \<Rightarrow> jsnum) \<Rightarrow> 'a list \<Rightarrow> 'a list" where
  "js_sort cmp xs = foldr (sort_insert cmp) xs []"

definition str_cmp :: "string \<Rightarrow> string \<Rightarrow> jsnum" where
  "str_cmp a b = (if str_less a b then Fin (-1) else if str_less b a then Fin 1 else Fin 0)"

section \<open>Facts\<close>

lemma set_sort_insert [simp]: "set (sort_insert cmp x ys) = insert x (set ys)"
  by (induction ys) auto

lemma length_sort_insert [simp]: "length (sort_insert cmp x ys) = Suc (length ys)"
  by (induction ys) auto

lemma js_sort_Nil [simp]: "js_sort cmp [] = []"
  by (simp add: js_sort_def)

lemma js_sort_Cons: "js_sort cmp (x # xs) = sort_insert cmp x (js_sort cmp xs)"
  by (simp add: js_sort_def)

lemma mset_sort_insert [simp]: "mset (sort_insert cmp x ys) = add_mset x (mset ys)"
  by (induction ys) auto

lemma mset_js_sort [simp]: "mset (js_sort cmp xs) = mset xs"
  by (induction xs) (simp_all add: js_sort_Cons)

lemma set_js_sort [simp]: "set (js_sort cmp xs) = set xs"
  by (induction xs) (simp_all add: js_sort_Cons)

lemma length_js_sort [simp]: "length (js_sort cmp xs) = length xs"
  by (induction xs) (simp_all add: js_sort_Cons)

lemma js_sort_sorted_wrt:
  assumes total: "\<And>x y. x \<in> set xs \<Longrightarrow> y \<in> set xs \<Longrightarrow> \<not> Fin 0 < cmp x y \<Longrightarrow> R x y"
    and swap: "\<And>x y. x \<in> set xs \<Longrightarrow> y \<in> set xs \<Longrightarrow> Fin 0 < cmp x y \<Longrightarrow> R y x"
    and trans: "\<And>x y z. R x y \<Longrightarrow> R y z \<Longrightarrow> R x z"
  shows "sorted_wrt R (js_sort cmp xs)"
proof -
  have ins: "sorted_wrt R ys \<Longrightarrow> insert x (set ys) \<subseteq> set xs \<Longrightarrow> sorted_wrt R (sort_insert cmp x ys)" for x ys
  proof (induction ys)
    case (Cons y ys)
    show ?case
    proof (cases "Fin 0 < cmp x y")
      case True
      then have "R y x" using Cons.prems by (intro swap) auto
      then show ?thesis using Cons True by auto
    next
      case False
      then have "R x y" using Cons.prems by (intro total) auto
      then show ?thesis using Cons.prems False by (auto intro: trans)
    qed
  qed simp
  have "set ys \<subseteq> set xs \<Longrightarrow> sorted_wrt R (js_sort cmp ys)" for ys
    by (induction ys) (auto simp: js_sort_Cons intro!: ins)
  then show ?thesis by blast
qed

lemma truthy_js_or [simp]: "truthy (js_or a b) \<longleftrightarrow> truthy a \<or> truthy b"
  by (simp add: js_or_def)

lemma obj_get_put_same [simp]: "obj_get (obj_put fs k v) k = v"
  by (induction fs k v rule: obj_put.induct) (auto simp: obj_get_def)

lemma obj_get_put_other [simp]: "k' \<noteq> k \<Longrightarrow> obj_get (obj_put fs k v) k' = obj_get fs k'"
  by (induction fs k v rule: obj_put.induct) (auto simp: obj_get_def)

lemma obj_get_Nil [simp, js_eval]: "obj_get [] k = Undefined"
  by (simp add: obj_get_def)

lemma obj_get_Cons [simp, js_eval]: "obj_get ((k', v) # fs) k = (if k' = k then v else obj_get fs k)"
  by (simp add: obj_get_def)

text \<open>The record laws of the object representation, used where options and replies are built.\<close>

locale property_store =
  fixes get :: "'o \<Rightarrow> 'k \<Rightarrow> 'v" and put :: "'o \<Rightarrow> 'k \<Rightarrow> 'v \<Rightarrow> 'o"
  assumes get_put_same: "get (put s k v) k = v"
    and get_put_other: "k' \<noteq> k \<Longrightarrow> get (put s k v) k' = get s k'"
begin

lemma get_foldl_notin:
  "k \<notin> fst ` set kvs \<Longrightarrow> get (foldl (\<lambda>s (j, v). put s j v) s kvs) k = get s k"
  by (induction kvs arbitrary: s) (auto simp: get_put_other)

lemma get_foldl_in:
  "distinct (map fst kvs) \<Longrightarrow> (k, v) \<in> set kvs \<Longrightarrow>
   get (foldl (\<lambda>s (j, v). put s j v) s kvs) k = v"
  by (induction kvs arbitrary: s) (auto simp: get_foldl_notin get_put_same rev_image_eqI)

end

interpretation props: property_store obj_get obj_put
  by unfold_locales simp_all

lemma spread_keeps:
  "k \<notin> fst ` set (spread_props v) \<Longrightarrow> obj_get (obj_spread fs v) k = obj_get fs k"
  unfolding obj_spread_def by (rule props.get_foldl_notin)

lemma spread_overrides:
  "distinct (map fst (spread_props v)) \<Longrightarrow> (k, x) \<in> set (spread_props v) \<Longrightarrow>
   obj_get (obj_spread fs v) k = x"
  unfolding obj_spread_def by (rule props.get_foldl_in)

end
