(* ===== verification/JsJson.thy ===== *)
theory JsJson
  imports JsValue
begin

text \<open>
  JSON.parse and JSON.stringify on the byte form of strings. The wallet stores its Nexus keys
  and its node configuration as JSON files and exchanges JSON with the daemon, the wallet
  service and the bridge. Integer-like keys keep their written position.
\<close>

section \<open>Writing\<close>

definition hex_digit :: "nat \<Rightarrow> char" where
  "hex_digit d = (if d < 10 then char_of (48 + d) else char_of (87 + d))"

definition json_char :: "char \<Rightarrow> string" where
  "json_char c =
     (let n = (of_char c :: nat) in
      if n = 34 then [CHR 0x5C, CHR 0x22]
      else if n = 92 then [CHR 0x5C, CHR 0x5C]
      else if n = 8 then [CHR 0x5C, CHR ''b'']
      else if n = 9 then [CHR 0x5C, CHR ''t'']
      else if n = 10 then [CHR 0x5C, CHR ''n'']
      else if n = 12 then [CHR 0x5C, CHR ''f'']
      else if n = 13 then [CHR 0x5C, CHR ''r'']
      else if n < 32 then [CHR 0x5C, CHR ''u'', CHR ''0'', CHR ''0'', hex_digit (n div 16), hex_digit (n mod 16)]
      else [c])"

definition json_string :: "string \<Rightarrow> string" where
  "json_string s = [CHR 0x22] @ concat (map json_char s) @ [CHR 0x22]"

text \<open>
  \<open>json_text ind pad v\<close>: None for undefined, which JSON leaves out; \<open>ind\<close> is the indentation
  step (empty for the compact form) and \<open>pad\<close> the current indentation.
\<close>

definition json_sep :: "string \<Rightarrow> string \<Rightarrow> string" where
  "json_sep ind pad = (if ind = [] then [] else [CHR 0x0A] @ pad)"

definition json_block :: "string \<Rightarrow> string \<Rightarrow> char \<Rightarrow> char \<Rightarrow> string list \<Rightarrow> string" where
  "json_block ind pad l r items =
     (if items = [] then [l, r]
      else [l] @ json_sep ind (pad @ ind) @ join_with ('','' @ json_sep ind (pad @ ind)) items
           @ json_sep ind pad @ [r])"

fun json_text :: "string \<Rightarrow> string \<Rightarrow> jsval \<Rightarrow> string option" where
  "json_text ind pad Undefined = None"
| "json_text ind pad Null = Some ''null''"
| "json_text ind pad (Bool b) = Some (if b then ''true'' else ''false'')"
| "json_text ind pad (Num n) = Some (if is_finite_num n then num_to_string n else ''null'')"
| "json_text ind pad (Big i) = None"
| "json_text ind pad (Str s) = Some (json_string s)"
| "json_text ind pad (Arr xs) =
     Some (json_block ind pad (CHR ''['') (CHR '']'')
       (map (\<lambda>x. case json_text ind (pad @ ind) x of None \<Rightarrow> ''null'' | Some t \<Rightarrow> t) xs))"
| "json_text ind pad (Obj fs) =
     Some (json_block ind pad (CHR ''{'') (CHR ''}'')
       (concat (map (\<lambda>(k, v). case json_text ind (pad @ ind) v of None \<Rightarrow> []
          | Some t \<Rightarrow> [json_string k @ (if ind = [] then '':'' else '': '') @ t]) fs)))"

definition JSON_stringify :: "jsval \<Rightarrow> string" where
  "JSON_stringify v = (case json_text [] [] v of None \<Rightarrow> ''undefined'' | Some t \<Rightarrow> t)"

definition JSON_stringify_2 :: "jsval \<Rightarrow> string" where
  "JSON_stringify_2 v = (case json_text ''  '' [] v of None \<Rightarrow> ''undefined'' | Some t \<Rightarrow> t)"

section \<open>Reading\<close>

definition is_json_ws :: "char \<Rightarrow> bool" where
  "is_json_ws c \<longleftrightarrow> c \<in> {CHR 0x20, CHR 0x09, CHR 0x0A, CHR 0x0D}"

definition skip_ws :: "string \<Rightarrow> string" where
  "skip_ws s = dropWhile is_json_ws s"

definition utf8_encode :: "int \<Rightarrow> string" where
  "utf8_encode n =
     (if n < 128 then [char_of n]
      else if n < 2048 then [char_of (192 + n div 64), char_of (128 + n mod 64)]
      else if n < 65536 then
        [char_of (224 + n div 4096), char_of (128 + n div 64 mod 64), char_of (128 + n mod 64)]
      else [char_of (240 + n div 262144), char_of (128 + n div 4096 mod 64),
            char_of (128 + n div 64 mod 64), char_of (128 + n mod 64)])"

text \<open>Four hexadecimal digits of a Unicode escape.\<close>

definition hex4 :: "string \<Rightarrow> (int \<times> string) option" where
  "hex4 s =
     (if length s < 4 then None
      else map_option (\<lambda>n. (n, drop 4 s)) (radix_value 16 0 (take 4 s)))"

definition unicode_escape :: "string \<Rightarrow> (string \<times> string) option" where
  "unicode_escape s =
     (case hex4 s of
        None \<Rightarrow> None
      | Some (hi, r) \<Rightarrow>
          (if 55296 \<le> hi \<and> hi \<le> 56319 \<and> starts_with r [CHR 0x5C, CHR ''u''] then
             (case hex4 (drop 2 r) of
                None \<Rightarrow> None
              | Some (lo, r') \<Rightarrow>
                  (if 56320 \<le> lo \<and> lo \<le> 57343
                   then Some (utf8_encode (65536 + (hi - 55296) * 1024 + (lo - 56320)), r')
                   else Some (utf8_encode hi, r)))
           else Some (utf8_encode hi, r)))"

definition simple_escape :: "char \<Rightarrow> char option" where
  "simple_escape c =
     (if c = CHR 0x22 then Some (CHR 0x22) else if c = CHR 0x5C then Some (CHR 0x5C)
      else if c = CHR ''/'' then Some (CHR ''/'') else if c = CHR ''b'' then Some (CHR 0x08)
      else if c = CHR ''f'' then Some (CHR 0x0C) else if c = CHR ''n'' then Some (CHR 0x0A)
      else if c = CHR ''r'' then Some (CHR 0x0D) else if c = CHR ''t'' then Some (CHR 0x09) else None)"

fun read_string :: "nat \<Rightarrow> string \<Rightarrow> string \<Rightarrow> (string \<times> string) option" where
  "read_string 0 acc s = None"
| "read_string (Suc f) acc [] = None"
| "read_string (Suc f) acc (c # s) =
     (if c = CHR 0x22 then Some (acc, s)
      else if (of_char c :: nat) < 32 then None
      else if c = CHR 0x5C then
        (case s of
           [] \<Rightarrow> None
         | d # r \<Rightarrow>
             (if d = CHR ''u'' then
                (case unicode_escape r of None \<Rightarrow> None | Some (t, r') \<Rightarrow> read_string f (acc @ t) r')
              else (case simple_escape d of None \<Rightarrow> None | Some x \<Rightarrow> read_string f (acc @ [x]) r)))
      else read_string f (acc @ [c]) s)"

definition is_num_char :: "char \<Rightarrow> bool" where
  "is_num_char c \<longleftrightarrow> is_digit c \<or> c \<in> {CHR ''+'', CHR ''-'', CHR ''.'', CHR ''e'', CHR ''E''}"

text \<open>The number grammar of JSON: no leading zeros, digits on both sides of the point.\<close>

definition json_number :: "string \<Rightarrow> jsnum option" where
  "json_number t =
     (let neg = starts_with t ''-''; u = (if neg then drop 1 t else t);
          ip = takeWhile is_digit u; r = dropWhile is_digit u;
          frac_ok = (starts_with r ''.'' \<longrightarrow> takeWhile is_digit (drop 1 r) \<noteq> [])
      in if ip = [] \<or> (length ip > 1 \<and> hd ip = CHR ''0'') \<or> \<not> frac_ok then None
         else map_option (\<lambda>v. rnd (if neg then - v else v)) (decimal_value u))"

fun read_value :: "nat \<Rightarrow> string \<Rightarrow> (jsval \<times> string) option"
  and read_elems :: "nat \<Rightarrow> jsval list \<Rightarrow> string \<Rightarrow> (jsval \<times> string) option"
  and read_members :: "nat \<Rightarrow> (string \<times> jsval) list \<Rightarrow> string \<Rightarrow> (jsval \<times> string) option" where
  "read_value 0 s = None"
| "read_value (Suc f) s =
     (let t = skip_ws s in
      if t = [] then None
      else if hd t = CHR 0x22 then
        map_option (\<lambda>(x, r). (Str x, r)) (read_string (length t) [] (tl t))
      else if hd t = CHR ''['' then
        (let r = skip_ws (tl t) in
         if starts_with r '']'' then Some (Arr [], tl r) else read_elems f [] (tl t))
      else if hd t = CHR ''{'' then
        (let r = skip_ws (tl t) in
         if starts_with r ''}'' then Some (Obj [], tl r) else read_members f [] (tl t))
      else if starts_with t ''true'' then Some (Bool True, drop 4 t)
      else if starts_with t ''false'' then Some (Bool False, drop 5 t)
      else if starts_with t ''null'' then Some (Null, drop 4 t)
      else map_option (\<lambda>n. (Num n, dropWhile is_num_char t)) (json_number (takeWhile is_num_char t)))"
| "read_elems 0 acc s = None"
| "read_elems (Suc f) acc s =
     (case read_value f s of
        None \<Rightarrow> None
      | Some (v, r) \<Rightarrow>
          (let t = skip_ws r in
           if starts_with t '','' then read_elems f (acc @ [v]) (tl t)
           else if starts_with t '']'' then Some (Arr (acc @ [v]), tl t) else None))"
| "read_members 0 acc s = None"
| "read_members (Suc f) acc s =
     (let t = skip_ws s in
      if \<not> starts_with t [CHR 0x22] then None
      else case read_string (length t) [] (tl t) of
        None \<Rightarrow> None
      | Some (k, r) \<Rightarrow>
          (let u = skip_ws r in
           if \<not> starts_with u '':'' then None
           else case read_value f (tl u) of
             None \<Rightarrow> None
           | Some (v, r') \<Rightarrow>
               (let x = skip_ws r' in
                if starts_with x '','' then read_members f (obj_put acc k v) (tl x)
                else if starts_with x ''}'' then Some (Obj (obj_put acc k v), tl x) else None)))"

text \<open>
  Each nesting step and each list element spends one unit of fuel and consumes at least one
  byte of the text, so the length of the text is enough fuel.
\<close>

definition JSON_parse :: "string \<Rightarrow> jsval option" where
  "JSON_parse s =
     (case read_value (Suc (2 * length s)) s of
        None \<Rightarrow> None
      | Some (v, r) \<Rightarrow> if skip_ws r = [] then Some v else None)"

end
