(* ===== verification/World.thy ===== *)
theory World
  imports JsJson
begin

text \<open>
  The state the wallet's programs run on and the programs themselves. The wallet has two
  processes: the renderer (src/electron/src/app.js: its State object, the page, the local
  storage, its timers) and the main process (src/electron/main.js: the files it keeps, the
  child processes, the shutdown flag). What is outside both, the daemon, the wallet service,
  the bridge, the Nexus chain, the operating system, answers calls.

  A program takes an environment and a world and yields an outcome (a value, a thrown
  exception, or nothing yet: a promise that stays pending) and the next world; an exception
  keeps the effects made before it. The environment answers every external call by a function
  of all calls made so far, or never answers it, so it is any strategy of the
  outside. At every await other handlers of the program may run; the environment's \<open>meddle\<close> is any change they can make to the shared state. Theorems
  that quantify over environments therefore cover every reply and every interleaving.
\<close>

section \<open>The page\<close>

text \<open>
  Nodes: text, markup assigned through innerHTML, and created elements with their attributes.
\<close>

datatype node =
    Txt string
  | Markup string
  | Element string "(string \<times> string) list" "node list"

record elem =
  el_value :: string
  el_nodes :: "node list"
  el_class :: "string list"
  el_disabled :: bool
  el_style :: "(string \<times> string) list"
  el_attrs :: "(string \<times> string) list"

section \<open>Timers\<close>

text \<open>The closures the renderer hands to setTimeout and setInterval, by what they run.\<close>

datatype callback =
    CbShowSetupOrMain
  | CbInitialLoad nat
  | CbRefreshAll
  | CbBlockPoll
  | CbUpdateBalance
  | CbConfirmPoll jsval nat
  | CbHideConsolidateInfo
  | CbMiningStatus
  | CbRefreshBridgeRelatedViews
  | CbReleasePoll jsval
  | CbBridgePoll jsval
  | CbRefreshWcrylo
  | CbRefreshStaked
  | CbRefreshPending
  | CbBalanceAndWcrylo
  | CbRemoveToast nat

datatype timer = Timeout callback int | Interval callback int

section \<open>State of the two processes\<close>

text \<open>The renderer's State object.\<close>

record app_state =
  ready :: bool
  walletOpen :: bool
  walletName :: string
  currentHeight :: jsval
  activeTab :: string
  refreshTimer :: "nat option"
  blockPoller :: "nat option"
  address :: jsval
  unlockedBalance :: jsnum
  miningActive :: bool
  miningStatusTimer :: "nat option"
  miningStartHeight :: jsval
  nexusAddress :: jsval

text \<open>
  A child process handle: its exit code is null while it runs. The handle of the daemon is a
  stub whose \<open>once\<close> and \<open>kill\<close> do nothing.
\<close>

record proc =
  proc_name :: string
  proc_stub :: bool
  exitCode :: "int option"

text \<open>Calls to the outside.\<close>

datatype call =
    HttpPost int string jsval jsval
  | FetchCall string string jsval
  | FetchBody string
  | ContractRead string string "jsval list"
  | ContractSend string string string "jsval list" jsval
  | TxWait jsval
  | ProviderCall string "jsval list"
  | CreateRandomWallet
  | ShowMessageBox jsval
  | BrowserConfirm string
  | ClipboardWrite string
  | Spawn string "string list"
  | KillProc string string
  | WaitExit string int
  | SendToWindow string jsval
  | FsCall string string
  | OpenPath string
  | OpenExternal string
  | DateNow
  | Sleep int
  | HostCall string
  | ConsoleLog

datatype 'a outcome = Ok 'a | Throw jsval | Pending

record world =
  st :: app_state
  page :: "string \<Rightarrow> elem"
  storage :: "(string \<times> string) list"
  timers :: "(nat \<times> timer) list"
  next_timer :: nat
  bridgeReleasePollTimer :: "nat option"
  cryloBridgePollTimer :: "nat option"
  files :: "(string \<times> string) list"
  dirs :: "string list"
  shuttingDown :: bool
  windowOpen :: bool
  daemonProc :: "proc option"
  walletProc :: "proc option"
  minerProc :: "proc option"
  trace :: "call list"

text \<open>
  The environment. \<open>answer\<close> and \<open>meddle\<close> are described above. The other fields are the
  functions of third-party code the program calls: the ethers library (units, addresses,
  hashing), the locale-dependent formatting of the platform, and the platform's paths.
\<close>

record env =
  answer :: "call list \<Rightarrow> call \<Rightarrow> jsval outcome"
  meddle :: "call list \<Rightarrow> world \<Rightarrow> world"
  parseUnits :: "string \<Rightarrow> nat \<Rightarrow> int outcome"
  formatUnits :: "jsval \<Rightarrow> nat \<Rightarrow> string outcome"
  isAddress :: "jsval \<Rightarrow> bool"
  getAddress :: "jsval \<Rightarrow> string"
  walletAddress :: "jsval \<Rightarrow> string outcome"
  keccakUtf8 :: "jsval \<Rightarrow> string outcome"
  topicHash :: "string \<Rightarrow> string"
  zeroPad32 :: "string \<Rightarrow> string"
  parseLog :: "string list \<Rightarrow> jsval \<Rightarrow> jsval outcome"
  localeNum :: "jsval \<Rightarrow> string"
  localeDate :: "jsnum \<Rightarrow> string"
  isoTime :: "jsval \<Rightarrow> string"
  encodeURI :: "jsval \<Rightarrow> string"
  platform :: string
  isPackaged :: bool
  resourcesPath :: string
  appDir :: string
  userData :: string
  homeDir :: string
  nexusRpcEnv :: string

section \<open>Programs\<close>

type_synonym 'a js = "env \<Rightarrow> world \<Rightarrow> 'a outcome \<times> world"

definition ret :: "'a \<Rightarrow> 'a js" where
  "ret x = (\<lambda>E w. (Ok x, w))"

definition throw :: "jsval \<Rightarrow> 'a js" where
  "throw e = (\<lambda>E w. (Throw e, w))"

definition bind :: "'a js \<Rightarrow> ('a \<Rightarrow> 'b js) \<Rightarrow> 'b js" where
  "bind m f =
     (\<lambda>E w. case m E w of
        (Ok x, w') \<Rightarrow> f x E w'
      | (Throw e, w') \<Rightarrow> (Throw e, w')
      | (Pending, w') \<Rightarrow> (Pending, w'))"

text \<open>Statement sequences.\<close>

definition andthen :: "unit js \<Rightarrow> 'a js \<Rightarrow> 'a js" where
  "andthen m n = bind m (\<lambda>_. n)"

fun block :: "unit js list \<Rightarrow> unit js" where
  "block [] = ret ()"
| "block (m # ms) = andthen m (block ms)"

text \<open>try m catch (e) h.\<close>

definition try_catch :: "'a js \<Rightarrow> (jsval \<Rightarrow> 'a js) \<Rightarrow> 'a js" where
  "try_catch m h =
     (\<lambda>E w. case m E w of
        (Ok x, w') \<Rightarrow> (Ok x, w')
      | (Throw e, w') \<Rightarrow> h e E w'
      | (Pending, w') \<Rightarrow> (Pending, w'))"

definition do_if :: "bool \<Rightarrow> unit js \<Rightarrow> unit js" where
  "do_if b m = (if b then m else ret ())"

definition gets :: "(world \<Rightarrow> 'a) \<Rightarrow> 'a js" where
  "gets f = (\<lambda>E w. (Ok (f w), w))"

definition modify :: "(world \<Rightarrow> world) \<Rightarrow> unit js" where
  "modify f = (\<lambda>E w. (Ok (), f w))"

definition asks :: "(env \<Rightarrow> 'a) \<Rightarrow> 'a js" where
  "asks f = (\<lambda>E w. (Ok (f E), w))"

definition lift_outcome :: "'a outcome \<Rightarrow> 'a js" where
  "lift_outcome r = (\<lambda>E w. (r, w))"

text \<open>A synchronous call to the outside, and an awaited one.\<close>

definition sync_call :: "call \<Rightarrow> jsval js" where
  "sync_call c = (\<lambda>E w. (answer E (trace w) c, w\<lparr>trace := trace w @ [c]\<rparr>))"

definition await_call :: "call \<Rightarrow> jsval js" where
  "await_call c =
     (\<lambda>E w. (answer E (trace w) c,
             (meddle E (trace w @ [c]) w)\<lparr>trace := trace w @ [c]\<rparr>))"

text \<open>The plain property access v.k, which throws on undefined and null.\<close>

definition get_prop :: "jsval \<Rightarrow> string \<Rightarrow> jsval js" where
  "get_prop v k =
     (if nullish v
      then throw (type_error (''Cannot read properties of '' @ to_str v @ '' (reading '' @ k @ '')''))
      else ret (jprop v k))"

text \<open>Calling an async function without awaiting it: its outcome reaches nobody.\<close>

definition spawn_task :: "'a js \<Rightarrow> unit js" where
  "spawn_task m = (\<lambda>E w. (Ok (), snd (m E w)))"

text \<open>for (const x of xs), and a loop that carries a value.\<close>

fun for_each :: "'a list \<Rightarrow> ('a \<Rightarrow> unit js) \<Rightarrow> unit js" where
  "for_each [] f = ret ()"
| "for_each (x # xs) f = andthen (f x) (for_each xs f)"

fun fold_loop :: "'a list \<Rightarrow> 'b \<Rightarrow> ('a \<Rightarrow> 'b \<Rightarrow> 'b js) \<Rightarrow> 'b js" where
  "fold_loop [] s f = ret s"
| "fold_loop (x # xs) s f = bind (f x s) (\<lambda>s'. fold_loop xs s' f)"

text \<open>
  await Promise.all: every task is started whatever the others do; the result is rejected if a
  task is. The tasks run one after the other here; their interleavings are changes by other
  handlers at the awaits inside each.
\<close>

fun join_outcomes :: "'a outcome \<Rightarrow> 'a list outcome \<Rightarrow> 'a list outcome" where
  "join_outcomes (Ok x) (Ok xs) = Ok (x # xs)"
| "join_outcomes (Throw e) _ = Throw e"
| "join_outcomes _ (Throw e) = Throw e"
| "join_outcomes _ _ = Pending"

fun promise_all :: "'a js list \<Rightarrow> 'a list js" where
  "promise_all [] = ret []"
| "promise_all (m # ms) =
     (\<lambda>E w. case m E w of (r, w') \<Rightarrow>
        (case promise_all ms E w' of (rs, w'') \<Rightarrow> (join_outcomes r rs, w'')))"

section \<open>Weakest preconditions\<close>

text \<open>
  \<open>wp E m R w\<close>: running \<open>m\<close> from \<open>w\<close> ends in an outcome and a world that satisfy \<open>R\<close>. The
  equations are stated without the world argument, so that they rewrite the continuations
  inside a weakest precondition too.
\<close>

definition wp :: "env \<Rightarrow> 'a js \<Rightarrow> ('a outcome \<Rightarrow> world \<Rightarrow> bool) \<Rightarrow> world \<Rightarrow> bool" where
  "wp E m R w = (case m E w of (r, w') \<Rightarrow> R r w')"

fun on_ok :: "('a \<Rightarrow> 'w) \<Rightarrow> ('b outcome \<Rightarrow> 'w) \<Rightarrow> 'a outcome \<Rightarrow> 'w" where
  "on_ok k R (Ok x) = k x"
| "on_ok k R (Throw e) = R (Throw e)"
| "on_ok k R Pending = R Pending"

fun on_throw :: "(jsval \<Rightarrow> 'w) \<Rightarrow> ('a outcome \<Rightarrow> 'w) \<Rightarrow> 'a outcome \<Rightarrow> 'w" where
  "on_throw k R (Ok x) = R (Ok x)"
| "on_throw k R (Throw e) = k e"
| "on_throw k R Pending = R Pending"

lemma wp_ret [wp_eval]: "wp E (ret x) R = R (Ok x)"
  by (simp add: wp_def ret_def fun_eq_iff)

lemma wp_throw [wp_eval]: "wp E (throw e) R = R (Throw e)"
  by (simp add: wp_def throw_def fun_eq_iff)

lemma wp_bind [wp_eval]: "wp E (bind m f) R = wp E m (on_ok (\<lambda>x. wp E (f x) R) R)"
  by (auto simp: wp_def bind_def fun_eq_iff split: prod.splits outcome.splits)

lemma wp_andthen [wp_eval]: "wp E (andthen m n) R = wp E m (on_ok (\<lambda>_. wp E n R) R)"
  by (simp add: andthen_def wp_bind)

lemma wp_try_catch [wp_eval]: "wp E (try_catch m h) R = wp E m (on_throw (\<lambda>e. wp E (h e) R) R)"
  by (auto simp: wp_def try_catch_def fun_eq_iff split: prod.splits outcome.splits)

lemma wp_if [wp_eval]: "wp E (if b then m else n) R = (if b then wp E m R else wp E n R)"
  by simp

lemma wp_do_if [wp_eval]: "wp E (do_if b m) R = (if b then wp E m R else R (Ok ()))"
  by (simp add: do_if_def wp_ret)

lemma wp_gets [wp_eval]: "wp E (gets f) R = (\<lambda>w. R (Ok (f w)) w)"
  by (simp add: wp_def gets_def fun_eq_iff)

lemma wp_modify [wp_eval]: "wp E (modify f) R = (\<lambda>w. R (Ok ()) (f w))"
  by (simp add: wp_def modify_def fun_eq_iff)

lemma wp_asks [wp_eval]: "wp E (asks f) R = R (Ok (f E))"
  by (simp add: wp_def asks_def fun_eq_iff)

lemma wp_lift_outcome [wp_eval]: "wp E (lift_outcome r) R = R r"
  by (simp add: wp_def lift_outcome_def fun_eq_iff)

lemma wp_sync_call [wp_eval]:
  "wp E (sync_call c) R = (\<lambda>w. R (answer E (trace w) c) (w\<lparr>trace := trace w @ [c]\<rparr>))"
  by (simp add: wp_def sync_call_def fun_eq_iff)

lemma wp_await_call [wp_eval]:
  "wp E (await_call c) R =
     (\<lambda>w. R (answer E (trace w) c) ((meddle E (trace w @ [c]) w)\<lparr>trace := trace w @ [c]\<rparr>))"
  by (simp add: wp_def await_call_def fun_eq_iff)

lemma wp_get_prop [wp_eval]:
  "wp E (get_prop v k) R =
     (if nullish v
      then R (Throw (type_error (''Cannot read properties of '' @ to_str v @ '' (reading '' @ k @ '')'')))
      else R (Ok (jprop v k)))"
  by (simp add: get_prop_def wp_ret wp_throw)

lemma wp_spawn_task [wp_eval]: "wp E (spawn_task m) R = wp E m (\<lambda>_. R (Ok ()))"
  by (simp add: wp_def spawn_task_def fun_eq_iff split: prod.splits)

lemma wp_promise_all_Nil [wp_eval]: "wp E (promise_all []) R = R (Ok [])"
  by (simp add: wp_ret)

lemma wp_promise_all_Cons [wp_eval]:
  "wp E (promise_all (m # ms)) R = wp E m (\<lambda>r. wp E (promise_all ms) (\<lambda>rs. R (join_outcomes r rs)))"
  by (simp add: wp_def fun_eq_iff split: prod.splits)

declare promise_all.simps(2) [simp del]

lemma wp_block_Nil [wp_eval]: "wp E (block []) R = R (Ok ())"
  by (simp add: wp_ret)

lemma wp_block_Cons [wp_eval]: "wp E (block (m # ms)) R = wp E m (on_ok (\<lambda>_. wp E (block ms) R) R)"
  by (simp add: wp_andthen)

declare block.simps [simp del]

lemma wp_case_option [wp_eval]:
  "wp E (case v of None \<Rightarrow> m | Some x \<Rightarrow> f x) R = (case v of None \<Rightarrow> wp E m R | Some x \<Rightarrow> wp E (f x) R)"
  by (cases v) simp_all

lemma wp_case_prod [wp_eval]:
  "wp E (case v of (x, y) \<Rightarrow> f x y) R = (case v of (x, y) \<Rightarrow> wp E (f x y) R)"
  by (cases v) simp

lemma wp_mono: "wp E m R w \<Longrightarrow> (\<And>r w'. R r w' \<Longrightarrow> R' r w') \<Longrightarrow> wp E m R' w"
  by (auto simp: wp_def split: prod.splits)

lemma wp_result: "m E w = (r, w') \<Longrightarrow> wp E m R w \<Longrightarrow> R r w'"
  by (simp add: wp_def)

lemma wp_run: "wp E m R w \<longleftrightarrow> R (fst (m E w)) (snd (m E w))"
  by (simp add: wp_def split: prod.splits)

lemma on_ok_split: "P (on_ok k R r) \<longleftrightarrow>
   (\<forall>x. r = Ok x \<longrightarrow> P (k x)) \<and> (\<forall>e. r = Throw e \<longrightarrow> P (R (Throw e))) \<and> (r = Pending \<longrightarrow> P (R Pending))"
  by (cases r) simp_all

lemma on_throw_split: "P (on_throw k R r) \<longleftrightarrow>
   (\<forall>x. r = Ok x \<longrightarrow> P (R (Ok x))) \<and> (\<forall>e. r = Throw e \<longrightarrow> P (k e)) \<and> (r = Pending \<longrightarrow> P (R Pending))"
  by (cases r) simp_all

section \<open>Contracts of programs\<close>

text \<open>
  A program contract: whatever the environment answers and whatever other handlers do, the
  calls the program adds to the trace satisfy \<open>ok\<close>, one by one.
\<close>

definition emits_only :: "(call \<Rightarrow> bool) \<Rightarrow> 'a js \<Rightarrow> bool" where
  "emits_only ok m \<longleftrightarrow>
     (\<forall>E w. \<exists>cs. trace (snd (m E w)) = trace w @ cs \<and> list_all ok cs)"

text \<open>
  Thrown values have properties: code outside throws values that are neither undefined nor null,
  and so does the program. This is what the catch blocks that read \<open>e.message\<close> rely on.
\<close>

definition throws_errors :: "env \<Rightarrow> bool" where
  "throws_errors E \<longleftrightarrow>
     (\<forall>h c e. answer E h c = Throw e \<longrightarrow> \<not> nullish e) \<and>
     (\<forall>s d e. parseUnits E s d = Throw e \<longrightarrow> \<not> nullish e) \<and>
     (\<forall>v d e. formatUnits E v d = Throw e \<longrightarrow> \<not> nullish e) \<and>
     (\<forall>k e. walletAddress E k = Throw e \<longrightarrow> \<not> nullish e) \<and>
     (\<forall>v e. keccakUtf8 E v = Throw e \<longrightarrow> \<not> nullish e) \<and>
     (\<forall>a l e. parseLog E a l = Throw e \<longrightarrow> \<not> nullish e)"

definition throws_values :: "'a js \<Rightarrow> bool" where
  "throws_values m \<longleftrightarrow>
     (\<forall>E w e. throws_errors E \<longrightarrow> fst (m E w) = Throw e \<longrightarrow> \<not> nullish e)"

text \<open>A program that yields a value or stays pending, whatever errors the outside raises.\<close>

definition catches_all :: "'a js \<Rightarrow> bool" where
  "catches_all m \<longleftrightarrow> (\<forall>E w e. throws_errors E \<longrightarrow> fst (m E w) \<noteq> Throw e)"

definition never_throws :: "'a js \<Rightarrow> bool" where
  "never_throws m \<longleftrightarrow> (\<forall>E w e. fst (m E w) \<noteq> Throw e)"

lemma emits_onlyI:
  "(\<And>E w. wp E m (\<lambda>_ w'. \<exists>cs. trace w' = trace w @ cs \<and> list_all ok cs) w) \<Longrightarrow> emits_only ok m"
  by (simp add: emits_only_def wp_run)

lemma never_throwsI: "(\<And>E w. wp E m (\<lambda>r _. \<forall>e. r \<noteq> Throw e) w) \<Longrightarrow> never_throws m"
  by (simp add: never_throws_def wp_run)

lemma emits_only_ret [intro, simp]: "emits_only ok (ret x)"
  by (simp add: emits_only_def ret_def)

lemma emits_only_throw [intro, simp]: "emits_only ok (throw e)"
  by (simp add: emits_only_def throw_def)

lemma emits_only_bind [intro]:
  assumes "emits_only ok m" "\<And>x. emits_only ok (f x)"
  shows "emits_only ok (bind m f)"
  unfolding emits_only_def
proof (intro allI)
  fix E w
  obtain cs where cs: "trace (snd (m E w)) = trace w @ cs" "list_all ok cs"
    using assms(1) unfolding emits_only_def by blast
  show "\<exists>cs. trace (snd (bind m f E w)) = trace w @ cs \<and> list_all ok cs"
  proof (cases "m E w")
    case (Pair r w')
    show ?thesis
    proof (cases r)
      case (Ok x)
      obtain ds where "trace (snd (f x E w')) = trace w' @ ds" "list_all ok ds"
        using assms(2) unfolding emits_only_def by blast
      then show ?thesis using cs Pair Ok by (intro exI [of _ "cs @ ds"]) (simp add: bind_def)
    qed (use cs Pair in \<open>auto simp: bind_def\<close>)
  qed
qed

lemma emits_only_andthen [intro]: "emits_only ok m \<Longrightarrow> emits_only ok n \<Longrightarrow> emits_only ok (andthen m n)"
  unfolding andthen_def by (rule emits_only_bind)

lemma emits_only_try_catch [intro]:
  assumes "emits_only ok m" "\<And>e. emits_only ok (h e)"
  shows "emits_only ok (try_catch m h)"
  unfolding emits_only_def
proof (intro allI)
  fix E w
  obtain cs where cs: "trace (snd (m E w)) = trace w @ cs" "list_all ok cs"
    using assms(1) unfolding emits_only_def by blast
  show "\<exists>cs. trace (snd (try_catch m h E w)) = trace w @ cs \<and> list_all ok cs"
  proof (cases "m E w")
    case (Pair r w')
    show ?thesis
    proof (cases r)
      case (Throw e)
      obtain ds where "trace (snd (h e E w')) = trace w' @ ds" "list_all ok ds"
        using assms(2) unfolding emits_only_def by blast
      then show ?thesis using cs Pair Throw by (intro exI [of _ "cs @ ds"]) (simp add: try_catch_def)
    qed (use cs Pair in \<open>auto simp: try_catch_def\<close>)
  qed
qed

lemma emits_only_calls [simp]:
  "emits_only ok (sync_call c) \<longleftrightarrow> ok c" "emits_only ok (await_call c) \<longleftrightarrow> ok c"
  by (auto simp: emits_only_def sync_call_def await_call_def)

lemma emits_only_state [simp, intro]:
  "emits_only ok (gets f)" "emits_only ok (asks g)" "emits_only ok (lift_outcome r)"
  "emits_only ok (get_prop v k)"
  by (auto simp: emits_only_def gets_def asks_def lift_outcome_def get_prop_def throw_def ret_def)

lemma emits_only_modify: "(\<And>w. trace (f w) = trace w) \<Longrightarrow> emits_only ok (modify f)"
  by (simp add: emits_only_def modify_def)

lemma emits_only_spawn_task [intro]: "emits_only ok m \<Longrightarrow> emits_only ok (spawn_task m)"
  by (simp add: emits_only_def spawn_task_def)

lemma emits_only_do_if [intro]: "(b \<Longrightarrow> emits_only ok m) \<Longrightarrow> emits_only ok (do_if b m)"
  by (auto simp: do_if_def)

lemma emits_only_for_each [intro]: "(\<And>x. emits_only ok (f x)) \<Longrightarrow> emits_only ok (for_each xs f)"
  by (induction xs) auto

lemma emits_only_fold_loop [intro]:
  "(\<And>x s. emits_only ok (f x s)) \<Longrightarrow> emits_only ok (fold_loop xs s f)"
  by (induction xs arbitrary: s) auto

lemma emits_only_promise_all [intro]:
  "(\<And>m. m \<in> set ms \<Longrightarrow> emits_only ok m) \<Longrightarrow> emits_only ok (promise_all ms)"
proof (induction ms)
  case (Cons m ms)
  show ?case
    unfolding emits_only_def
  proof (intro allI)
    fix E w
    obtain cs where "trace (snd (m E w)) = trace w @ cs" "list_all ok cs"
      using Cons.prems [of m] unfolding emits_only_def by auto
    moreover obtain ds where
      "trace (snd (promise_all ms E (snd (m E w)))) = trace (snd (m E w)) @ ds" "list_all ok ds"
      using Cons unfolding emits_only_def by (meson list.set_intros(2))
    ultimately show "\<exists>cs. trace (snd (promise_all (m # ms) E w)) = trace w @ cs \<and> list_all ok cs"
      by (intro exI [of _ "cs @ ds"]) (auto simp: promise_all.simps(2) split: prod.splits)
  qed
qed simp

lemma emits_only_block [intro]:
  "(\<And>m. m \<in> set ms \<Longrightarrow> emits_only ok m) \<Longrightarrow> emits_only ok (block ms)"
  by (induction ms) (auto simp: block.simps)

lemma emits_only_weaken: "emits_only ok m \<Longrightarrow> (\<And>c. ok c \<Longrightarrow> ok' c) \<Longrightarrow> emits_only ok' m"
  unfolding emits_only_def by (meson list.pred_mono_strong)

lemma never_throws_ret [intro, simp]: "never_throws (ret x)"
  by (simp add: never_throws_def ret_def)

lemma never_throws_bind [intro]:
  "never_throws m \<Longrightarrow> (\<And>x. never_throws (f x)) \<Longrightarrow> never_throws (bind m f)"
  unfolding never_throws_def bind_def by (auto split: prod.splits outcome.splits) (metis fst_conv)

lemma never_throws_andthen [intro]: "never_throws m \<Longrightarrow> never_throws n \<Longrightarrow> never_throws (andthen m n)"
  unfolding andthen_def by (rule never_throws_bind)

lemma never_throws_state [intro, simp]:
  "never_throws (gets f)" "never_throws (asks g)" "never_throws (modify h)"
  "never_throws (spawn_task m)"
  by (simp_all add: never_throws_def gets_def asks_def modify_def spawn_task_def)

lemma never_throws_try_catch [intro]:
  "(\<And>e. never_throws (h e)) \<Longrightarrow> never_throws (try_catch m h)"
  unfolding never_throws_def try_catch_def by (auto split: prod.splits outcome.splits)

lemma throws_values_never [intro]: "never_throws m \<Longrightarrow> throws_values m"
  by (simp add: never_throws_def throws_values_def)

lemma throws_values_throw [intro]: "\<not> nullish e \<Longrightarrow> throws_values (throw e)"
  by (simp add: throws_values_def throw_def)

lemma throws_values_bind [intro]:
  "throws_values m \<Longrightarrow> (\<And>x. throws_values (f x)) \<Longrightarrow> throws_values (bind m f)"
  unfolding throws_values_def bind_def by (auto split: prod.splits outcome.splits) (metis fst_conv)+

lemma throws_values_andthen [intro]: "throws_values m \<Longrightarrow> throws_values n \<Longrightarrow> throws_values (andthen m n)"
  unfolding andthen_def by (rule throws_values_bind)

lemma throws_values_try_catch [intro]:
  "(\<And>e. throws_values (h e)) \<Longrightarrow> throws_values (try_catch m h)"
  unfolding throws_values_def try_catch_def by (auto split: prod.splits outcome.splits)

lemma throws_values_calls [intro, simp]: "throws_values (sync_call c)" "throws_values (await_call c)"
  by (auto simp: throws_values_def sync_call_def await_call_def throws_errors_def)

lemma throws_values_get_prop [intro, simp]: "throws_values (get_prop v k)"
  by (auto simp: throws_values_def get_prop_def throw_def ret_def type_error_def nullish_def)

lemma throws_values_units [intro]:
  "throws_values (bind (asks (\<lambda>E. parseUnits E s d)) lift_outcome)"
  "throws_values (bind (asks (\<lambda>E. formatUnits E v d)) lift_outcome)"
  "throws_values (bind (asks (\<lambda>E. walletAddress E k)) lift_outcome)"
  "throws_values (bind (asks (\<lambda>E. keccakUtf8 E v)) lift_outcome)"
  "throws_values (bind (asks (\<lambda>E. parseLog E a l)) lift_outcome)"
  by (auto simp: throws_values_def bind_def asks_def lift_outcome_def throws_errors_def)

lemma throws_values_do_if [intro]: "(b \<Longrightarrow> throws_values m) \<Longrightarrow> throws_values (do_if b m)"
  by (auto simp: do_if_def)

lemma throws_values_for_each [intro]: "(\<And>x. throws_values (f x)) \<Longrightarrow> throws_values (for_each xs f)"
  by (induction xs) auto

lemma throws_values_fold_loop [intro]:
  "(\<And>x s. throws_values (f x s)) \<Longrightarrow> throws_values (fold_loop xs s f)"
  by (induction xs arbitrary: s) auto

lemma throws_values_promise_all [intro]:
  assumes "\<And>m. m \<in> set ms \<Longrightarrow> throws_values m"
  shows "throws_values (promise_all ms)"
  using assms
proof (induction ms)
  case (Cons m ms)
  have "throws_values m" "throws_values (promise_all ms)" using Cons by auto
  moreover have "join_outcomes r rs = Throw e \<Longrightarrow> r = Throw e \<or> rs = Throw e" for e r and rs :: "'a list outcome"
    by (cases r; cases rs) auto
  ultimately show ?case
    unfolding throws_values_def promise_all.simps(2) by (auto split: prod.splits) (metis fst_conv)
qed auto

lemma throws_values_block [intro]:
  "(\<And>m. m \<in> set ms \<Longrightarrow> throws_values m) \<Longrightarrow> throws_values (block ms)"
  by (induction ms) (auto simp: block.simps)

lemma error_values [simp]: "\<not> nullish (mk_error m)" "\<not> nullish (type_error m)"
    "\<not> nullish (reference_error m)"
  by (simp_all add: mk_error_def type_error_def reference_error_def nullish_def)

lemma catches_all_never [intro]: "never_throws m \<Longrightarrow> catches_all m"
  by (simp add: never_throws_def catches_all_def)

text \<open>The handler idiom try body catch (e) return with e.message.\<close>

lemma catches_all_message:
  assumes "throws_values m" "\<And>v. never_throws (f v)"
  shows "catches_all (try_catch m (\<lambda>e. bind (get_prop e ''message'') f))"
  unfolding catches_all_def
proof (intro allI impI)
  fix E w e
  assume E: "throws_errors E"
  obtain r w' where m: "m E w = (r, w')" by (cases "m E w")
  show "fst (try_catch m (\<lambda>e. bind (get_prop e ''message'') f) E w) \<noteq> Throw e"
  proof (cases r)
    case (Throw e')
    then have "\<not> nullish e'" using assms(1) E m unfolding throws_values_def by (metis fst_conv)
    then show ?thesis using m Throw assms(2)
      by (simp add: try_catch_def bind_def get_prop_def ret_def never_throws_def)
  qed (use m in \<open>simp_all add: try_catch_def\<close>)
qed

end
