(* ===== verification/Page.thy ===== *)
theory Page
  imports World
begin

text \<open>
  The page of src/electron/src/index.html and the DOM operations the renderer applies to it. No
  code of the renderer creates or removes an element with an id, so the ids of the page are the
  ones the HTML file declares, and document.getElementById yields null exactly for the others.
\<close>

section \<open>Elements of the page\<close>

definition index_ids :: "string list" where
  "index_ids =
     [''app'', ''splash'', ''splash-msg'', ''splash-progress'', ''splash-error'',
      ''setup-screen'', ''setup-cards'', ''form-create'', ''create-name'', ''create-pass'',
      ''create-pass2'', ''create-pass-warning'', ''create-seed-section'',
      ''create-seed-display'', ''create-btn'', ''create-continue-btn'', ''form-open'',
      ''open-select'', ''open-pass'', ''open-pass-warning'', ''open-wallet-btn'',
      ''open-wallet-loading'', ''form-restore'', ''restore-name'', ''restore-seed'',
      ''restore-height'', ''restore-pass'', ''restore-pass-warning'', ''main-screen'',
      ''topbar-wallet-name'', ''sync-dot'', ''sync-label'', ''bal-total'', ''bal-unlocked'',
      ''bal-locked'', ''bal-wcrylo'', ''bal-staked-wcrylo'', ''tab-transactions'',
      ''tx-list-container'', ''tab-send'', ''send-addr'', ''send-max-label'', ''send-amount'',
      ''send-locked-info'', ''advanced-toggle'', ''advanced-fields'', ''send-pid'',
      ''send-note'', ''send-btn'', ''consolidate-btn'', ''consolidate-info'', ''tab-receive'',
      ''receive-address'', ''tab-vesting'', ''vesting-summary'', ''vest-t1'', ''vest-t2'',
      ''vesting-table-container'', ''tab-mining'', ''mining-address'', ''mining-worker'',
      ''mining-pool'', ''mining-mem-info'', ''mining-threads'', ''mining-threads-val'',
      ''mining-status'', ''mining-hashrate'', ''mining-stats'', ''mining-stat-threads'',
      ''mining-stat-height'', ''mining-stat-blocks-found'', ''mining-stat-difficulty'',
      ''mining-stat-network-hashrate'', ''mining-stat-est-block-time'',
      ''mining-stat-blocks-day'', ''mining-stat-daily-rewards'', ''mining-stat-reward'',
      ''mining-mode'', ''mining-btn'', ''tab-nexusTx'', ''nexus-tx-status'', ''nexus-tx-list'',
      ''tab-nexus'', ''nexus-wallet-label'', ''nexus-linked-address'', ''nexus-linked-status'',
      ''bridge-amount'', ''bridge-split-warning'', ''bridge-crylo-address'',
      ''bridge-nexus-address'', ''bridge-status'', ''bridge-out-amount'', ''bridge-out-status'',
      ''nexus-stake-amount'', ''nexus-staking-status'', ''nexus-pending-rewards'',
      ''nexus-node-status'', ''nexus-node-action-status'', ''nexus-gas-status'',
      ''nexus-gas-native'', ''nexus-gas-daily'', ''nexus-gas-activity'',
      ''nexus-gas-action-status'', ''tab-nexusNfts'', ''nexus-status'', ''nexus-nft-list'',
      ''sb-height'', ''sb-peers'', ''sb-nethr'', ''toast-container'']"

definition has_el :: "string \<Rightarrow> bool" where
  "has_el i \<longleftrightarrow> i \<in> set index_ids"

lemma has_el_present [simp]:
  "has_el ''advanced-fields''"
  "has_el ''advanced-toggle''"
  "has_el ''bal-locked''"
  "has_el ''bal-staked-wcrylo''"
  "has_el ''bal-total''"
  "has_el ''bal-unlocked''"
  "has_el ''bal-wcrylo''"
  "has_el ''bridge-amount''"
  "has_el ''bridge-crylo-address''"
  "has_el ''bridge-nexus-address''"
  "has_el ''bridge-out-amount''"
  "has_el ''bridge-out-status''"
  "has_el ''bridge-status''"
  "has_el ''consolidate-btn''"
  "has_el ''consolidate-info''"
  "has_el ''create-btn''"
  "has_el ''create-continue-btn''"
  "has_el ''create-name''"
  "has_el ''create-pass''"
  "has_el ''create-pass2''"
  "has_el ''create-seed-display''"
  "has_el ''create-seed-section''"
  "has_el ''form-create''"
  "has_el ''form-open''"
  "has_el ''form-restore''"
  "has_el ''main-screen''"
  "has_el ''mining-address''"
  "has_el ''mining-btn''"
  "has_el ''mining-hashrate''"
  "has_el ''mining-mem-info''"
  "has_el ''mining-mode''"
  "has_el ''mining-pool''"
  "has_el ''mining-stat-blocks-day''"
  "has_el ''mining-stat-blocks-found''"
  "has_el ''mining-stat-daily-rewards''"
  "has_el ''mining-stat-difficulty''"
  "has_el ''mining-stat-est-block-time''"
  "has_el ''mining-stat-height''"
  "has_el ''mining-stat-network-hashrate''"
  "has_el ''mining-stat-reward''"
  "has_el ''mining-stat-threads''"
  "has_el ''mining-stats''"
  "has_el ''mining-status''"
  "has_el ''mining-threads''"
  "has_el ''mining-threads-val''"
  "has_el ''mining-worker''"
  "has_el ''nexus-gas-action-status''"
  "has_el ''nexus-gas-activity''"
  "has_el ''nexus-gas-daily''"
  "has_el ''nexus-gas-native''"
  "has_el ''nexus-gas-status''"
  "has_el ''nexus-linked-address''"
  "has_el ''nexus-linked-status''"
  "has_el ''nexus-nft-list''"
  "has_el ''nexus-node-action-status''"
  "has_el ''nexus-node-status''"
  "has_el ''nexus-pending-rewards''"
  "has_el ''nexus-stake-amount''"
  "has_el ''nexus-staking-status''"
  "has_el ''nexus-status''"
  "has_el ''nexus-tx-list''"
  "has_el ''nexus-tx-status''"
  "has_el ''nexus-wallet-label''"
  "has_el ''open-pass''"
  "has_el ''open-select''"
  "has_el ''open-wallet-btn''"
  "has_el ''open-wallet-loading''"
  "has_el ''receive-address''"
  "has_el ''restore-height''"
  "has_el ''restore-name''"
  "has_el ''restore-pass''"
  "has_el ''restore-seed''"
  "has_el ''sb-height''"
  "has_el ''sb-nethr''"
  "has_el ''sb-peers''"
  "has_el ''send-addr''"
  "has_el ''send-amount''"
  "has_el ''send-btn''"
  "has_el ''send-locked-info''"
  "has_el ''send-max-label''"
  "has_el ''send-note''"
  "has_el ''send-pid''"
  "has_el ''setup-cards''"
  "has_el ''setup-screen''"
  "has_el ''splash''"
  "has_el ''splash-error''"
  "has_el ''splash-msg''"
  "has_el ''splash-progress''"
  "has_el ''sync-dot''"
  "has_el ''sync-label''"
  "has_el ''toast-container''"
  "has_el ''topbar-wallet-name''"
  "has_el ''tx-list-container''"
  "has_el ''vest-t1''"
  "has_el ''vest-t2''"
  "has_el ''vesting-table-container''"
  by (simp_all add: has_el_def index_ids_def)

lemma has_el_absent [simp]:
  "\<not> has_el ''bridge-crylo-tx''"
  "\<not> has_el ''bridge-integrated-address''"
  "\<not> has_el ''bridge-nexus-tx''"
  "\<not> has_el ''bridge-payment-id''"
  "\<not> has_el ''bridge-submit-btn''"
  "\<not> has_el ''nexus-buy-gas-amount''"
  "\<not> has_el ''nexus-staked-balance''"
  "\<not> has_el ''nexus-wcrylo-balance''"
  "\<not> has_el ''req-amount''"
  by (simp_all add: has_el_def index_ids_def)

section \<open>Access\<close>

definition null_read :: "string \<Rightarrow> jsval" where
  "null_read k = type_error (''Cannot read properties of null (reading '' @ k @ '')'')"

definition null_write :: "string \<Rightarrow> jsval" where
  "null_write k = type_error (''Cannot set properties of null (setting '' @ k @ '')'')"

definition upd_page :: "string \<Rightarrow> (elem \<Rightarrow> elem) \<Rightarrow> world \<Rightarrow> world" where
  "upd_page i f w = w\<lparr>page := (page w)(i := f (page w i))\<rparr>"

text \<open>Writing a property of the element with an id, and changing its class list or style.\<close>

definition write_el :: "string \<Rightarrow> string \<Rightarrow> (elem \<Rightarrow> elem) \<Rightarrow> unit js" where
  "write_el i k f = (if has_el i then modify (upd_page i f) else throw (null_write k))"

definition change_el :: "string \<Rightarrow> string \<Rightarrow> (elem \<Rightarrow> elem) \<Rightarrow> unit js" where
  "change_el i k f = (if has_el i then modify (upd_page i f) else throw (null_read k))"

definition set_text :: "string \<Rightarrow> string \<Rightarrow> unit js" where
  "set_text i s = write_el i ''textContent'' (\<lambda>e. e\<lparr>el_nodes := [Txt s]\<rparr>)"

definition set_html :: "string \<Rightarrow> string \<Rightarrow> unit js" where
  "set_html i s = write_el i ''innerHTML'' (\<lambda>e. e\<lparr>el_nodes := (if s = [] then [] else [Markup s])\<rparr>)"

definition set_value :: "string \<Rightarrow> string \<Rightarrow> unit js" where
  "set_value i s = write_el i ''value'' (\<lambda>e. e\<lparr>el_value := s\<rparr>)"

definition set_disabled :: "string \<Rightarrow> bool \<Rightarrow> unit js" where
  "set_disabled i b = write_el i ''disabled'' (\<lambda>e. e\<lparr>el_disabled := b\<rparr>)"

definition set_class_name :: "string \<Rightarrow> string \<Rightarrow> unit js" where
  "set_class_name i s =
     write_el i ''className'' (\<lambda>e. e\<lparr>el_class := filter (\<lambda>x. x \<noteq> []) (split_on (CHR '' '') s)\<rparr>)"

definition put_assoc :: "string \<Rightarrow> string \<Rightarrow> (string \<times> string) list \<Rightarrow> (string \<times> string) list" where
  "put_assoc k v xs = (k, v) # filter (\<lambda>(k', _). k' \<noteq> k) xs"

definition set_style :: "string \<Rightarrow> string \<Rightarrow> string \<Rightarrow> unit js" where
  "set_style i k v = change_el i ''style'' (\<lambda>e. e\<lparr>el_style := put_assoc k v (el_style e)\<rparr>)"

definition set_attr :: "string \<Rightarrow> string \<Rightarrow> string \<Rightarrow> unit js" where
  "set_attr i k v = change_el i ''setAttribute'' (\<lambda>e. e\<lparr>el_attrs := put_assoc k v (el_attrs e)\<rparr>)"

definition add_class :: "string \<Rightarrow> string \<Rightarrow> unit js" where
  "add_class i c = change_el i ''classList''
     (\<lambda>e. e\<lparr>el_class := (if c \<in> set (el_class e) then el_class e else el_class e @ [c])\<rparr>)"

definition remove_class :: "string \<Rightarrow> string \<Rightarrow> unit js" where
  "remove_class i c = change_el i ''classList'' (\<lambda>e. e\<lparr>el_class := filter (\<lambda>x. x \<noteq> c) (el_class e)\<rparr>)"

definition toggle_class :: "string \<Rightarrow> string \<Rightarrow> bool \<Rightarrow> unit js" where
  "toggle_class i c b = (if b then add_class i c else remove_class i c)"

definition append_node :: "string \<Rightarrow> node \<Rightarrow> unit js" where
  "append_node i n = change_el i ''appendChild'' (\<lambda>e. e\<lparr>el_nodes := el_nodes e @ [n]\<rparr>)"

definition get_value :: "string \<Rightarrow> string js" where
  "get_value i = (if has_el i then gets (\<lambda>w. el_value (page w i)) else throw (null_read ''value''))"

definition has_class :: "string \<Rightarrow> string \<Rightarrow> bool js" where
  "has_class i c =
     (if has_el i then gets (\<lambda>w. c \<in> set (el_class (page w i))) else throw (null_read ''classList''))"

text \<open>The text of a node: markup contributes what stands outside its tags.\<close>

fun strip_tags :: "bool \<Rightarrow> string \<Rightarrow> string" where
  "strip_tags inside [] = []"
| "strip_tags inside (c # cs) =
     (if inside then strip_tags (c \<noteq> CHR ''>'') cs
      else if c = CHR ''<'' then strip_tags True cs else c # strip_tags False cs)"

fun node_text :: "node \<Rightarrow> string" where
  "node_text (Txt s) = s"
| "node_text (Markup s) = strip_tags False s"
| "node_text (Element _ _ ns) = concat (map node_text ns)"

definition text_content :: "elem \<Rightarrow> string" where
  "text_content e = concat (map node_text (el_nodes e))"

definition get_text :: "string \<Rightarrow> string js" where
  "get_text i = (if has_el i then gets (\<lambda>w. text_content (page w i)) else throw (null_read ''textContent''))"

section \<open>Timers\<close>

definition add_timer :: "timer \<Rightarrow> nat js" where
  "add_timer t =
     (\<lambda>E w. (Ok (next_timer w),
             w\<lparr>timers := timers w @ [(next_timer w, t)], next_timer := Suc (next_timer w)\<rparr>))"

definition set_timeout :: "callback \<Rightarrow> int \<Rightarrow> unit js" where
  "set_timeout c ms = bind (add_timer (Timeout c ms)) (\<lambda>_. ret ())"

definition set_interval :: "callback \<Rightarrow> int \<Rightarrow> nat js" where
  "set_interval c ms = add_timer (Interval c ms)"

definition clear_interval :: "nat \<Rightarrow> unit js" where
  "clear_interval i = modify (\<lambda>w. w\<lparr>timers := filter (\<lambda>(j, _). j \<noteq> i) (timers w)\<rparr>)"

section \<open>Weakest preconditions of the page operations\<close>

lemma wp_write_el [wp_eval]:
  "wp E (write_el i k f) R = (if has_el i then (\<lambda>w. R (Ok ()) (upd_page i f w)) else R (Throw (null_write k)))"
  by (simp add: write_el_def wp_eval)

lemma wp_change_el [wp_eval]:
  "wp E (change_el i k f) R = (if has_el i then (\<lambda>w. R (Ok ()) (upd_page i f w)) else R (Throw (null_read k)))"
  by (simp add: change_el_def wp_eval)

lemma wp_get_value [wp_eval]:
  "wp E (get_value i) R =
     (if has_el i then (\<lambda>w. R (Ok (el_value (page w i))) w) else R (Throw (null_read ''value'')))"
  by (simp add: get_value_def wp_eval)

lemma wp_get_text [wp_eval]:
  "wp E (get_text i) R =
     (if has_el i then (\<lambda>w. R (Ok (text_content (page w i))) w) else R (Throw (null_read ''textContent'')))"
  by (simp add: get_text_def wp_eval)

lemma wp_has_class [wp_eval]:
  "wp E (has_class i c) R =
     (if has_el i then (\<lambda>w. R (Ok (c \<in> set (el_class (page w i)))) w) else R (Throw (null_read ''classList'')))"
  by (simp add: has_class_def wp_eval)

lemma wp_add_timer [wp_eval]:
  "wp E (add_timer t) R =
     (\<lambda>w. R (Ok (next_timer w))
        (w\<lparr>timers := timers w @ [(next_timer w, t)], next_timer := Suc (next_timer w)\<rparr>))"
  by (simp add: wp_def add_timer_def fun_eq_iff)

lemmas page_ops [wp_eval] =
  set_text_def set_html_def set_value_def set_disabled_def set_class_name_def set_style_def
  set_attr_def add_class_def remove_class_def toggle_class_def append_node_def
  set_timeout_def set_interval_def clear_interval_def

lemma emits_only_page [simp, intro]:
  "emits_only ok (write_el i k f)" "emits_only ok (change_el i k f)" "emits_only ok (get_value i)"
  "emits_only ok (get_text i)" "emits_only ok (has_class i c)" "emits_only ok (add_timer t)"
  by (auto simp: write_el_def change_el_def get_value_def get_text_def has_class_def
      emits_only_def modify_def throw_def gets_def upd_page_def add_timer_def)

lemma upd_page_page [simp]: "page (upd_page i f w) = (page w)(i := f (page w i))"
  by (simp add: upd_page_def)

lemma upd_page_frame [simp]:
  "st (upd_page i f w) = st w" "storage (upd_page i f w) = storage w"
  "timers (upd_page i f w) = timers w" "next_timer (upd_page i f w) = next_timer w"
  "files (upd_page i f w) = files w" "dirs (upd_page i f w) = dirs w"
  "shuttingDown (upd_page i f w) = shuttingDown w" "windowOpen (upd_page i f w) = windowOpen w"
  "trace (upd_page i f w) = trace w"
  "bridgeReleasePollTimer (upd_page i f w) = bridgeReleasePollTimer w"
  "cryloBridgePollTimer (upd_page i f w) = cryloBridgePollTimer w"
  by (simp_all add: upd_page_def)

end
