(* ===== verification/MainCore.thy ===== *)
theory MainCore
  imports Page
begin

text \<open>
  The core of the main process, src/electron/main.js lines 13 to 345 and 1196 to 1287: constants
  and paths, logging, the JSON-RPC and HTTP helpers, the child processes, the startup sequence,
  the handlers that only forward to the daemon or the wallet service, the wallet list, the miner
  handlers and the application's lifecycle.
\<close>

section \<open>Constants\<close>

definition DAEMON_RPC_PORT :: int where "DAEMON_RPC_PORT = 22641"
definition WALLET_RPC_PORT :: int where "WALLET_RPC_PORT = 22643"
definition WALLET_DIR_NAME :: string where "WALLET_DIR_NAME = ''wallets''"
definition LOG_DIR_NAME :: string where "LOG_DIR_NAME = ''logs''"
definition DATA_DIR_NAME :: string where "DATA_DIR_NAME = ''CryLo-testnet''"
definition CRYLO_DECIMALS :: nat where "CRYLO_DECIMALS = 11"
definition WCRYLO_DECIMALS :: nat where "WCRYLO_DECIMALS = 11"
definition NEXUS_GAS_DECIMALS :: nat where "NEXUS_GAS_DECIMALS = 18"

definition parseWcryloUnits :: "jsval \<Rightarrow> int js" where
  "parseWcryloUnits amountText =
     bind (asks (\<lambda>E. parseUnits E (to_str amountText) WCRYLO_DECIMALS)) lift_outcome"

definition formatWcryloUnits :: "jsval \<Rightarrow> string js" where
  "formatWcryloUnits amount = bind (asks (\<lambda>E. formatUnits E amount WCRYLO_DECIMALS)) lift_outcome"

definition formatNexusGasUnits :: "jsval \<Rightarrow> string js" where
  "formatNexusGasUnits amount = bind (asks (\<lambda>E. formatUnits E amount NEXUS_GAS_DECIMALS)) lift_outcome"

definition NEXUS_RPC_URL :: "env \<Rightarrow> string" where
  "NEXUS_RPC_URL E =
     (if nexusRpcEnv E \<noteq> [] then nexusRpcEnv E
      else ''http://34.118.158.133:9654/ext/bc/EPA2TKpkcmYRdaa4QKMYdFHkjzy5SWuGHEiBwznNspdTqexrQ/rpc'')"

definition BRIDGE_API_URL :: string where
  "BRIDGE_API_URL = ''http://34.118.158.133:8088''"

definition IS_WIN :: "env \<Rightarrow> bool" where "IS_WIN E \<longleftrightarrow> platform E = ''win32''"
definition IS_MAC :: "env \<Rightarrow> bool" where "IS_MAC E \<longleftrightarrow> platform E = ''darwin''"

section \<open>Paths and files\<close>

text \<open>path.join on components that are already normalised.\<close>

definition path_sep :: "env \<Rightarrow> string" where
  "path_sep E = (if IS_WIN E then [CHR 0x5C] else ''/'')"

definition path_join :: "env \<Rightarrow> string list \<Rightarrow> string" where
  "path_join E ps = join_with (path_sep E) ps"

definition getResourcesPath :: "env \<Rightarrow> string" where
  "getResourcesPath E = (if isPackaged E then resourcesPath E else appDir E)"

definition getBinPath :: "env \<Rightarrow> string \<Rightarrow> string" where
  "getBinPath E name =
     (let plat = (if IS_WIN E then ''win'' else if IS_MAC E then ''mac'' else ''linux'');
          ext = (if IS_WIN E then ''.exe'' else [])
      in path_join E [getResourcesPath E, ''bin'', plat, name @ ext])"

definition getUserDataPath :: "env \<Rightarrow> string" where
  "getUserDataPath E = path_join E [userData E]"

definition exists_path :: "string \<Rightarrow> world \<Rightarrow> bool" where
  "exists_path p w \<longleftrightarrow> p \<in> fst ` set (files w) \<or> p \<in> set (dirs w)"

definition fs_existsSync :: "string \<Rightarrow> bool js" where
  "fs_existsSync p = gets (exists_path p)"

definition fs_mkdirSync :: "string \<Rightarrow> unit js" where
  "fs_mkdirSync p =
     bind (sync_call (FsCall ''mkdir'' p))
       (\<lambda>_. modify (\<lambda>w. w\<lparr>dirs := (if p \<in> set (dirs w) then dirs w else p # dirs w)\<rparr>))"

definition fs_readFileSync :: "string \<Rightarrow> string js" where
  "fs_readFileSync p =
     bind (gets (\<lambda>w. map_of (files w) p))
       (\<lambda>c. case c of None \<Rightarrow> throw (mk_error (''ENOENT: no such file or directory, open '' @ p))
          | Some t \<Rightarrow> ret t)"

definition fs_writeFileSync :: "string \<Rightarrow> string \<Rightarrow> unit js" where
  "fs_writeFileSync p t =
     bind (sync_call (FsCall ''write'' p)) (\<lambda>_. modify (\<lambda>w. w\<lparr>files := put_assoc p t (files w)\<rparr>))"

definition fs_appendFile :: "string \<Rightarrow> string \<Rightarrow> unit js" where
  "fs_appendFile p t =
     modify (\<lambda>w. w\<lparr>files := put_assoc p ((case map_of (files w) p of None \<Rightarrow> [] | Some c \<Rightarrow> c) @ t) (files w)\<rparr>)"

definition ensure_dir :: "string \<Rightarrow> string js" where
  "ensure_dir p =
     bind (fs_existsSync p) (\<lambda>ex. andthen (do_if (\<not> ex) (fs_mkdirSync p)) (ret p))"

definition getWalletDir :: "string js" where
  "getWalletDir = bind (asks (\<lambda>E. path_join E [getUserDataPath E, WALLET_DIR_NAME])) ensure_dir"

definition getDataDir :: "string js" where
  "getDataDir = bind (asks (\<lambda>E. path_join E [getUserDataPath E, DATA_DIR_NAME])) ensure_dir"

definition getLogDir :: "string js" where
  "getLogDir = bind (asks (\<lambda>E. path_join E [getUserDataPath E, LOG_DIR_NAME])) ensure_dir"

section \<open>Logging and messages to the window\<close>

definition send_to_window :: "string \<Rightarrow> jsval \<Rightarrow> unit js" where
  "send_to_window channel v =
     bind (gets windowOpen)
       (\<lambda>open'. do_if open' (bind (sync_call (SendToWindow channel v)) (\<lambda>_. ret ())))"

definition max_log_size :: nat where
  "max_log_size = 2 * 1024 * 1024"

definition rotate_log :: "string \<Rightarrow> unit js" where
  "rotate_log p =
     modify (\<lambda>w. case map_of (files w) p of
         None \<Rightarrow> w
       | Some c \<Rightarrow> if max_log_size < length c
           then w\<lparr>files := filter (\<lambda>(q, _). q \<noteq> p) (files w)\<rparr> else w)"

text \<open>The logger is the name and the file it writes to.\<close>

definition makeLogger :: "string \<Rightarrow> (string \<times> string) js" where
  "makeLogger name =
     bind getLogDir (\<lambda>dir.
     bind (asks (\<lambda>E. path_join E [dir, name @ ''.log''])) (\<lambda>logFile.
     andthen (rotate_log logFile) (ret (name, logFile))))"

definition logger_write :: "string \<times> string \<Rightarrow> string \<Rightarrow> unit js" where
  "logger_write logger data' =
     bind (sync_call DateNow) (\<lambda>t.
     bind (asks (\<lambda>E. ''['' @ isoTime E t @ ''] '' @ data')) (\<lambda>line.
     andthen (fs_appendFile (snd logger) line)
       (send_to_window ''log'' (Obj [(''source'', Str (fst logger)), (''line'', Str (trim line))]))))"

definition sendStatus :: "string \<Rightarrow> string \<Rightarrow> unit js" where
  "sendStatus state message =
     send_to_window ''startup-status'' (Obj [(''state'', Str state), (''message'', Str message)])"

section \<open>JSON-RPC and HTTP\<close>

text \<open>
  http.request to 127.0.0.1: the answer is the text of the response, or an error: the connection's
  or the timeout's. The text is parsed once the response has ended.
\<close>

definition parse_text :: "jsval \<Rightarrow> jsval js" where
  "parse_text t = (case JSON_parse (to_str t) of None \<Rightarrow> throw syntax_error | Some v \<Rightarrow> ret v)"

definition rpcCall :: "int \<Rightarrow> jsval \<Rightarrow> jsval \<Rightarrow> jsval \<Rightarrow> jsval js" where
  "rpcCall port method params timeoutMs =
     bind (await_call (HttpPost port ''/json_rpc''
         (Obj [(''jsonrpc'', Str ''2.0''), (''id'', Str ''0''), (''method'', method),
               (''params'', or_default params (Obj []))])
         (or_default timeoutMs (jint 10000)))) (\<lambda>data'.
     bind (parse_text data') (\<lambda>parsed.
     bind (get_prop parsed ''error'') (\<lambda>err.
     if truthy err then bind (get_prop err ''message'') (\<lambda>m. throw (new_error m))
     else get_prop parsed ''result'')))"

definition daemonHttp :: "string \<Rightarrow> jsval \<Rightarrow> jsval \<Rightarrow> jsval js" where
  "daemonHttp path' bodyObj timeoutMs =
     bind (await_call (HttpPost DAEMON_RPC_PORT path' (or_default bodyObj (Obj []))
         (or_default timeoutMs (jint 10000)))) parse_text"

definition daemonRpc :: "jsval \<Rightarrow> jsval \<Rightarrow> jsval js" where
  "daemonRpc method params =
     rpcCall DAEMON_RPC_PORT method (or_default params (Obj [])) Undefined"

definition walletRpc :: "jsval \<Rightarrow> jsval \<Rightarrow> jsval \<Rightarrow> jsval js" where
  "walletRpc method params timeoutMs =
     rpcCall WALLET_RPC_PORT method (or_default params (Obj [])) (or_default timeoutMs (jint 10000))"

text \<open>
  The polling loop of waitForRpc; \<open>n\<close> bounds the attempts followed, and beyond it the promise
  counts as pending.
\<close>

fun rpc_attempt :: "nat \<Rightarrow> int \<Rightarrow> string \<Rightarrow> int \<Rightarrow> jsval \<Rightarrow> unit js" where
  "rpc_attempt 0 port method maxMs start = lift_outcome Pending"
| "rpc_attempt (Suc n) port method maxMs start =
     bind (gets shuttingDown) (\<lambda>stop.
     if stop then throw (mk_error ''shutting down'')
     else bind (try_catch (bind (rpcCall port (Str method) Undefined Undefined) (\<lambda>_. ret True))
                  (\<lambda>_. ret False)) (\<lambda>up.
          if up then ret ()
          else bind (sync_call DateNow) (\<lambda>now.
            if Fin (of_int maxMs) < to_number now - to_number start
            then throw (mk_error (''RPC on port '' @ int_str port @ '' did not start within ''
                   @ num_to_string (Fin (of_int maxMs) div Fin 1000) @ ''s''))
            else bind (await_call (Sleep 1000)) (\<lambda>_. rpc_attempt n port method maxMs start))))"

definition waitForRpc :: "nat \<Rightarrow> int \<Rightarrow> int \<Rightarrow> unit js" where
  "waitForRpc n port maxMs =
     (let method = (if port = DAEMON_RPC_PORT then ''get_info'' else ''get_languages'')
      in bind (sync_call DateNow) (\<lambda>start. rpc_attempt n port method maxMs start))"

section \<open>Child processes\<close>

definition spawnDaemon :: "proc option js" where
  "spawnDaemon =
     bind (makeLogger ''daemon'') (\<lambda>logger.
     andthen (logger_write logger
        (''Using existing CryLo daemon on 127.0.0.1:'' @ int_str DAEMON_RPC_PORT @ newline))
     (ret (Some \<lparr>proc_name = ''daemon'', proc_stub = True, exitCode = None\<rparr>)))"

definition spawnWalletRpc :: "proc option js" where
  "spawnWalletRpc =
     bind (asks (\<lambda>E. getBinPath E ''CryLo-wallet-rpc'')) (\<lambda>bin.
     bind (fs_existsSync bin) (\<lambda>ex.
     if \<not> ex then andthen (sendStatus ''error'' (''Wallet-RPC binary not found: '' @ bin)) (ret None)
     else bind (makeLogger ''wallet-rpc'') (\<lambda>logger.
       bind getWalletDir (\<lambda>walletDir.
       let args = [''--testnet'', ''--rpc-bind-port='' @ int_str WALLET_RPC_PORT,
                   ''--daemon-address=127.0.0.1:'' @ int_str DAEMON_RPC_PORT,
                   ''--wallet-dir='' @ walletDir, ''--disable-rpc-login'', ''--log-level=1'']
       in andthen (logger_write logger (''Spawning wallet-rpc: '' @ bin @ '' '' @ join_with '' '' args @ newline))
          (bind (sync_call (Spawn bin args)) (\<lambda>_.
           ret (Some \<lparr>proc_name = ''wallet-rpc'', proc_stub = False, exitCode = None\<rparr>)))))))"

text \<open>The listener on the exit of the wallet service.\<close>

definition on_wallet_rpc_exit :: "string \<times> string \<Rightarrow> jsval \<Rightarrow> unit js" where
  "on_wallet_rpc_exit logger code =
     andthen (logger_write logger (''Wallet-RPC exited with code '' @ to_str code @ newline))
     (bind (gets shuttingDown) (\<lambda>stop. do_if (\<not> stop) (send_to_window ''wallet-rpc-exit'' code)))"

text \<open>
  \<open>WaitExit\<close> answers a truthy value if the process exits within the time and a falsy one if the
  time is over first. The timer of a process that exited in time still fires, but finds a process that is gone and kills
  nothing. The methods of the daemon's stub do nothing, so its exit is never seen.
\<close>

definition killProc :: "proc option \<Rightarrow> unit js" where
  "killProc p =
     (case p of None \<Rightarrow> ret ()
      | Some pr \<Rightarrow>
          if exitCode pr \<noteq> None then ret ()
          else if proc_stub pr then bind (await_call (Sleep 5000)) (\<lambda>_. ret ())
          else bind (sync_call (KillProc (proc_name pr) ''SIGTERM'')) (\<lambda>_.
               bind (await_call (WaitExit (proc_name pr) 5000)) (\<lambda>exited.
               if truthy exited then ret ()
               else try_catch (bind (sync_call (KillProc (proc_name pr) ''SIGKILL'')) (\<lambda>_. ret ()))
                      (\<lambda>_. ret ()))))"

definition startBackend :: "nat \<Rightarrow> unit js" where
  "startBackend n =
     try_catch
       (andthen (sendStatus ''starting'' ''Starting CryLo daemon...'')
       (bind spawnDaemon (\<lambda>d.
        andthen (modify (\<lambda>w. w\<lparr>daemonProc := d\<rparr>))
        (if d = None then ret ()
         else andthen (sendStatus ''starting'' ''Waiting for daemon RPC...'')
              (andthen (waitForRpc n DAEMON_RPC_PORT 180000)
              (andthen (sendStatus ''starting'' ''Daemon ready. Starting wallet RPC...'')
              (bind spawnWalletRpc (\<lambda>p.
               andthen (modify (\<lambda>w. w\<lparr>walletProc := p\<rparr>))
               (if p = None then ret ()
                else andthen (sendStatus ''starting'' ''Waiting for wallet RPC...'')
                     (andthen (waitForRpc n WALLET_RPC_PORT 60000)
                     (sendStatus ''ready'' ''All services ready.'')))))))))))
       (\<lambda>err. bind (get_prop err ''message'') (\<lambda>m.
          sendStatus ''error'' (''Startup failed: '' @ to_str m)))"

end
