(* ===== verification/MainIpc.thy ===== *)
theory MainIpc
  imports MainCore
begin

text \<open>
  Handlers of the main process that forward to the daemon, to the wallet service or to the
  operating system (src/electron/main.js lines 307 to 345 and 472 to 550), the bridge service
  (lines 758 to 814) and the application's lifecycle (lines 1196 to 1287). A handler takes the
  arguments of the message and yields its reply.
\<close>

section \<open>Replies\<close>

definition ok_reply :: "(string \<times> jsval) list \<Rightarrow> jsval" where
  "ok_reply fs = Obj ((''ok'', Bool True) # fs)"

definition error_reply :: "jsval \<Rightarrow> jsval" where
  "error_reply m = Obj [(''ok'', Bool False), (''error'', m)]"

text \<open>
  The two handler frames of the file: try the body, else reply with \<open>e.message\<close>, or with
  \<open>e.shortMessage || e.reason || e.message\<close>.
\<close>

definition with_message :: "jsval js \<Rightarrow> jsval js" where
  "with_message body =
     try_catch body (\<lambda>e. bind (get_prop e ''message'') (\<lambda>m. ret (error_reply m)))"

definition with_reason :: "jsval js \<Rightarrow> jsval js" where
  "with_reason body =
     try_catch body (\<lambda>e. bind (get_prop e ''shortMessage'') (\<lambda>m.
       ret (error_reply (js_or m (js_or (jprop e ''reason'') (jprop e ''message''))))))"

section \<open>Daemon, wallet service\<close>

definition ipc_daemon_rpc :: "jsval \<Rightarrow> jsval \<Rightarrow> jsval js" where
  "ipc_daemon_rpc method params =
     with_message (bind (daemonRpc method params) (\<lambda>r. ret (ok_reply [(''result'', r)])))"

definition ipc_wallet_rpc :: "jsval \<Rightarrow> jsval \<Rightarrow> jsval \<Rightarrow> jsval js" where
  "ipc_wallet_rpc method params timeoutMs =
     with_message (bind (walletRpc method params (js_or timeoutMs (jint 10000)))
       (\<lambda>r. ret (ok_reply [(''result'', r)])))"

section \<open>Wallet files\<close>

definition dir_entries :: "env \<Rightarrow> string \<Rightarrow> world \<Rightarrow> string list" where
  "dir_entries E dir w =
     (let pre = dir @ path_sep E
      in filter (\<lambda>f. \<not> str_includes f (path_sep E))
           (map (drop (length pre)) (filter (\<lambda>p. starts_with p pre) (map fst (files w) @ dirs w))))"

definition is_wallet_file :: "env \<Rightarrow> world \<Rightarrow> string \<Rightarrow> string \<Rightarrow> bool" where
  "is_wallet_file E w dir f \<longleftrightarrow>
     (let fullPath = path_join E [dir, f]; keysPath = path_join E [dir, f @ ''.keys'']
      in exists_path keysPath w \<and> fullPath \<in> fst ` set (files w) \<and>
         \<not> ends_with f ''.keys'' \<and> \<not> ends_with f ''.address.txt'' \<and> \<not> ends_with f ''.lock'')"

definition ipc_list_wallets :: "jsval js" where
  "ipc_list_wallets =
     with_message
       (bind getWalletDir (\<lambda>dir.
        bind (asks id) (\<lambda>E. bind (gets id) (\<lambda>w.
        let wallets = js_sort str_cmp (filter (is_wallet_file E w dir) (dir_entries E dir w))
        in ret (ok_reply [(''wallets'', Arr (map Str wallets))])))))"

section \<open>Folders, version, dialogs\<close>

definition ipc_open_log_dir :: "jsval js" where
  "ipc_open_log_dir =
     bind getLogDir (\<lambda>d. andthen (spawn_task (sync_call (OpenPath d))) (ret Undefined))"

definition ipc_open_data_dir :: "jsval js" where
  "ipc_open_data_dir =
     bind (asks getUserDataPath) (\<lambda>d. andthen (spawn_task (sync_call (OpenPath d))) (ret Undefined))"

definition ipc_get_version :: "jsval js" where
  "ipc_get_version = sync_call (HostCall ''version'')"

definition ipc_confirm_dialog :: "jsval \<Rightarrow> jsval js" where
  "ipc_confirm_dialog opts =
     bind (get_prop opts ''type'') (\<lambda>ty.
     bind (await_call (ShowMessageBox (Obj
        [(''type'', js_or ty (Str ''question'')),
         (''buttons'', js_or (jprop opts ''buttons'') (Arr [Str ''OK'', Str ''Cancel''])),
         (''defaultId'', jint 0), (''cancelId'', jint 1),
         (''title'', js_or (jprop opts ''title'') (Str [])),
         (''message'', js_or (jprop opts ''message'') (Str []))]))) (\<lambda>result.
     bind (get_prop result ''response'') (\<lambda>r. ret (Bool (strict_eq r (jint 0))))))"

section \<open>Miner\<close>

definition ipc_miner_get_info :: "jsval js" where
  "ipc_miner_get_info =
     bind (sync_call (HostCall ''cpus'')) (\<lambda>cpus.
     bind (get_prop cpus ''length'') (\<lambda>n.
     bind (sync_call (HostCall ''totalmem'')) (\<lambda>m.
     ret (ok_reply [(''cpuCount'', n),
       (''totalMemMB'', Num (math_floor (to_number m div Fin 1024 div Fin 1024)))]))))"

definition ipc_miner_start :: "jsval \<Rightarrow> jsval js" where
  "ipc_miner_start opts =
     with_message
       (bind (get_prop opts ''walletAddress'') (\<lambda>a.
        bind (daemonHttp ''/start_mining'' (Obj
          [(''miner_address'', a),
           (''threads_count'', js_or (jprop opts ''threads'') (jint 2)),
           (''do_background_mining'', Bool False), (''ignore_battery'', Bool True)]) Undefined)
        (\<lambda>result. ret (ok_reply [(''result'', result)]))))"

definition ipc_miner_stop :: "jsval js" where
  "ipc_miner_stop =
     with_message (bind (daemonHttp ''/stop_mining'' (Obj []) Undefined)
       (\<lambda>result. ret (ok_reply [(''result'', result)])))"

definition ipc_miner_get_status :: "jsval js" where
  "ipc_miner_get_status =
     with_message
       (bind (daemonHttp ''/mining_status'' (Obj []) Undefined) (\<lambda>result.
        bind (get_prop result ''active'') (\<lambda>a.
        ret (ok_reply
          [(''running'', Bool (truthy a)),
           (''hashrate'', js_or (jprop result ''speed'') (jint 0)),
           (''threads'', js_or (jprop result ''threads_count'') (jint 0)),
           (''blockReward'', js_or (jprop result ''block_reward'') (jint 0))]))))"

section \<open>Bridge service\<close>

text \<open>
  What the three bridge handlers do with a response: its text is parsed as JSON, an unparsable text
  becomes the error, a failed response is reported with the service's error, the text or the status.
\<close>

definition bridge_reply :: "string \<Rightarrow> jsval \<Rightarrow> jsval js" where
  "bridge_reply url res =
     bind (await_call (FetchBody url)) (\<lambda>text.
     let data' = (case JSON_parse (to_str text) of None \<Rightarrow> Obj [(''error'', text)] | Some d \<Rightarrow> d)
     in bind (get_prop res ''ok'') (\<lambda>ok.
        if \<not> truthy ok
        then bind (get_prop data' ''error'') (\<lambda>err.
             ret (error_reply (js_or err (js_or text (Str (''HTTP '' @ to_str (jprop res ''status'')))))))
        else ret (Obj (obj_spread [(''ok'', Bool True)] data'))))"

definition ipc_bridge_request :: "jsval \<Rightarrow> jsval js" where
  "ipc_bridge_request payload =
     with_message
       (let url = BRIDGE_API_URL @ ''/bridge/request''
        in bind (await_call (FetchCall url ''POST'' payload)) (bridge_reply url))"

definition ipc_bridge_status :: "jsval \<Rightarrow> jsval js" where
  "ipc_bridge_status paymentId =
     with_message
       (bind (asks (\<lambda>E. BRIDGE_API_URL @ ''/bridge/status/'' @ encodeURI E paymentId)) (\<lambda>url.
        bind (await_call (FetchCall url ''GET'' Undefined)) (bridge_reply url)))"

definition ipc_bridge_release_status :: "jsval \<Rightarrow> jsval js" where
  "ipc_bridge_release_status nexusTxHash =
     with_message
       (bind (asks (\<lambda>E. BRIDGE_API_URL @ ''/bridge/release-status/'' @ encodeURI E nexusTxHash)) (\<lambda>url.
        bind (await_call (FetchCall url ''GET'' Undefined)) (bridge_reply url)))"

section \<open>Lifecycle\<close>

text \<open>
  Creating the window and the listener that starts the services once it is shown.
\<close>

definition createWindow :: "unit js" where
  "createWindow =
     andthen (modify (\<lambda>w. w\<lparr>windowOpen := True\<rparr>))
     (bind (asks (\<lambda>E. path_join E [appDir E, ''src'', ''index.html''])) (\<lambda>p.
      andthen (spawn_task (sync_call (HostCall (''loadFile '' @ p)))) (ret ())))"

definition on_ready_to_show :: "nat \<Rightarrow> unit js" where
  "on_ready_to_show n = spawn_task (startBackend n)"

definition on_closed :: "unit js" where
  "on_closed = modify (\<lambda>w. w\<lparr>windowOpen := False\<rparr>)"

definition on_window_all_closed :: "unit js" where
  "on_window_all_closed =
     andthen (modify (\<lambda>w. w\<lparr>shuttingDown := True\<rparr>))
     (bind (gets minerProc) (\<lambda>m. andthen (killProc m)
     (bind (gets walletProc) (\<lambda>p. andthen (killProc p)
     (bind (gets daemonProc) (\<lambda>d. andthen (killProc d)
     (bind (sync_call (HostCall ''quit'')) (\<lambda>_. ret ()))))))))"

definition on_activate :: "unit js" where
  "on_activate = bind (gets windowOpen) (\<lambda>open'. do_if (\<not> open') createWindow)"

text \<open>Navigation: the result says whether it is prevented, or the action of a new window.\<close>

definition on_will_navigate :: "string \<Rightarrow> bool js" where
  "on_will_navigate url =
     (if \<not> starts_with url ''file://''
      then andthen (spawn_task (sync_call (OpenExternal url))) (ret True) else ret False)"

definition on_window_open :: "string \<Rightarrow> jsval js" where
  "on_window_open url =
     andthen (do_if (starts_with url ''https://'' \<or> starts_with url ''http://'')
               (spawn_task (sync_call (OpenExternal url))))
     (ret (Obj [(''action'', Str ''deny'')]))"

end
