(* ===== verification/MainWallet.thy ===== *)
theory MainWallet
  imports MainIpc
begin

text \<open>
  Nexus wallets bound to CryLo wallets, src/electron/main.js lines 347 to 469: the file that keeps
  a binding, its creation, the registration for gas support, and loading the signer. A loaded
  signer is represented by its address.
\<close>

definition is_alnum :: "char \<Rightarrow> bool" where
  "is_alnum c \<longleftrightarrow>
     (let n = (of_char c :: nat) in (48 \<le> n \<and> n \<le> 57) \<or> (65 \<le> n \<and> n \<le> 90) \<or> (97 \<le> n \<and> n \<le> 122))"

text \<open>
  The replacement works on UTF-16 units and the model on UTF-8 bytes, so a character outside ASCII
  may count as more underscores here.
\<close>

definition safeNexusFileName :: "jsval \<Rightarrow> string" where
  "safeNexusFileName cryloAddress =
     map (\<lambda>c. if is_alnum c then c else CHR ''_'') (to_str (js_or cryloAddress (Str [])))"

definition nexus_file :: "jsval \<Rightarrow> string js" where
  "nexus_file name =
     bind getWalletDir (\<lambda>dir.
     asks (\<lambda>E. path_join E [dir, safeNexusFileName name @ ''.nexus.json'']))"

definition registerBoundNexusWallet :: "jsval \<Rightarrow> jsval js" where
  "registerBoundNexusWallet naddr =
     (let url = BRIDGE_API_URL @ ''/nexus/register-bound-wallet''
      in bind (await_call (FetchCall url ''POST'' (Obj [(''nexusAddress'', naddr)]))) (\<lambda>res.
         bind (await_call (FetchBody url)) (\<lambda>text.
         bind (parse_text text) (\<lambda>json.
         bind (get_prop res ''ok'') (\<lambda>rok.
         bind (if truthy rok then get_prop json ''ok'' else ret (Bool False)) (\<lambda>jok.
         if \<not> truthy jok
         then bind (get_prop json ''error'') (\<lambda>err.
              throw (new_error (js_or err (Str ''Failed to register Nexus wallet for gas support''))))
         else ret json))))))"

definition ipc_nexus_wallet_create :: "jsval \<Rightarrow> jsval \<Rightarrow> jsval js" where
  "ipc_nexus_wallet_create wname cryloAddress =
     with_message
       (if \<not> truthy wname \<or> \<not> truthy cryloAddress
        then throw (mk_error ''Open a CryLo wallet before creating a Nexus wallet'')
        else bind (nexus_file wname) (\<lambda>file.
          bind (fs_existsSync file) (\<lambda>ex.
          if ex
          then bind (fs_readFileSync file) (\<lambda>t.
               bind (parse_text (Str t)) (\<lambda>existing.
               bind (get_prop existing ''nexusAddress'') (\<lambda>addr.
               bind (if truthy addr then registerBoundNexusWallet addr else ret Null) (\<lambda>registration.
               ret (ok_reply
                 [(''alreadyExists'', Bool True), (''nexusAddress'', js_or addr (Str [])),
                  (''gasRegistered'', Bool (truthy (jprop registration ''ok'')))])))))
          else bind (sync_call CreateRandomWallet) (\<lambda>wallet.
               bind (sync_call DateNow) (\<lambda>now.
               bind (asks (\<lambda>E. isoTime E now)) (\<lambda>createdAt.
               bind (get_prop wallet ''address'') (\<lambda>addr.
               andthen (fs_writeFileSync file (JSON_stringify_2 (Obj
                 [(''walletName'', wname), (''cryloAddress'', cryloAddress),
                  (''nexusAddress'', addr), (''privateKey'', jprop wallet ''privateKey''),
                  (''createdAt'', Str createdAt)])))
               (bind (registerBoundNexusWallet addr) (\<lambda>registration.
               bind (get_prop registration ''ok'') (\<lambda>gok.
               ret (ok_reply
                 [(''alreadyExists'', Bool False), (''nexusAddress'', addr),
                  (''gasRegistered'', Bool (truthy gok))])))))))))))"

definition ipc_nexus_wallet_load :: "jsval \<Rightarrow> jsval \<Rightarrow> jsval js" where
  "ipc_nexus_wallet_load wname cryloAddress =
     with_message
       (if \<not> truthy wname \<or> \<not> truthy cryloAddress
        then ret (ok_reply [(''nexusAddress'', Str [])])
        else bind (nexus_file wname) (\<lambda>file.
          bind (fs_existsSync file) (\<lambda>ex.
          if \<not> ex then ret (ok_reply [(''nexusAddress'', Str [])])
          else bind (fs_readFileSync file) (\<lambda>t.
               bind (parse_text (Str t)) (\<lambda>data'.
               bind (get_prop data' ''cryloAddress'') (\<lambda>bound.
               if \<not> strict_eq bound cryloAddress then ret (ok_reply [(''nexusAddress'', Str [])])
               else ret (ok_reply [(''nexusAddress'', js_or (jprop data' ''nexusAddress'') (Str []))])))))))"

definition loadBoundNexusWallet :: "jsval \<Rightarrow> jsval \<Rightarrow> string js" where
  "loadBoundNexusWallet wname cryloAddress =
     (if \<not> truthy wname \<or> \<not> truthy cryloAddress
      then throw (mk_error ''Open a CryLo wallet first'')
      else bind (nexus_file wname) (\<lambda>file.
        bind (fs_existsSync file) (\<lambda>ex.
        if \<not> ex then throw (mk_error ''Create a Nexus wallet for this CryLo wallet first'')
        else bind (fs_readFileSync file) (\<lambda>t.
             bind (parse_text (Str t)) (\<lambda>data'.
             bind (get_prop data' ''cryloAddress'') (\<lambda>bound.
             if \<not> strict_eq bound cryloAddress then throw (mk_error ''Invalid Nexus wallet binding'')
             else if \<not> truthy (jprop data' ''privateKey'')
             then throw (mk_error ''Missing Nexus private key'')
             else bind (asks (\<lambda>E. walletAddress E (jprop data' ''privateKey''))) lift_outcome))))))"

end
