(* ===== verification/MainNexus.thy ===== *)
theory MainNexus
  imports MainWallet
begin

text \<open>
  The handlers that read the Nexus chain and send transactions to it, src/electron/main.js lines
  553 to 755, 817 to 1193 and 1289 to 1386. Contract calls and transactions go to the ethers
  library: the trace records the contract, the method, its arguments, the signer and the nonce.
\<close>

section \<open>Contracts\<close>

definition tokenAddress :: string where "tokenAddress = ''0x53E57880dD0865b484AfD0f467BBe8844c9d9727''"
definition nftAddress :: string where "nftAddress = ''0x2C4A328a533C699c318eD65df8C4F3E98D462a56''"
definition vaultAddress :: string where "vaultAddress = ''0xD1946c051c31722d1Dab8698897f0109225e38e1''"
definition bridgeAddress :: string where "bridgeAddress = ''0x5f59a0f0010468E8bc6bbF551ac839a8Ddc964a2''"
definition stakingAddress :: string where "stakingAddress = ''0xA51adce930306362528C5064Eb1E69f906CA830A''"
definition nodeStakingAddress :: string where
  "nodeStakingAddress = ''0x8Ec32977c1Ba0d537fD565c3047A5b7750E83B3a''"
definition GAS_MANAGER_ADDRESS :: string where
  "GAS_MANAGER_ADDRESS = ''0xCB26FebCD655De1946e21db1A17fF9B70Cf536Cf''"

definition read_contract :: "string \<Rightarrow> string \<Rightarrow> jsval list \<Rightarrow> jsval js" where
  "read_contract addr fn args = await_call (ContractRead addr fn args)"

definition send_tx :: "string \<Rightarrow> string \<Rightarrow> string \<Rightarrow> jsval list \<Rightarrow> jsval \<Rightarrow> jsval js" where
  "send_tx signer addr fn args nonce = await_call (ContractSend signer addr fn args nonce)"

definition wait_tx :: "jsval \<Rightarrow> jsval js" where
  "wait_tx tx = await_call (TxWait tx)"

definition pending_nonce :: "string \<Rightarrow> jsval js" where
  "pending_nonce addr = await_call (ProviderCall ''getTransactionCount'' [Str addr, Str ''pending''])"

text \<open>Method calls on values of unknown type: v.toLowerCase(), v.toString(), v[i].\<close>

definition lower_of :: "jsval \<Rightarrow> string js" where
  "lower_of v =
     (case v of Str s \<Rightarrow> ret (to_lower s) | _ \<Rightarrow> throw (type_error ''toLowerCase is not a function''))"

definition text_of :: "jsval \<Rightarrow> string js" where
  "text_of v = (if nullish v then throw (type_error ''Cannot read properties (reading toString)'')
                else ret (to_str v))"

definition item_of :: "jsval \<Rightarrow> nat \<Rightarrow> jsval js" where
  "item_of v i = (if nullish v then throw (type_error ''Cannot read properties of null'')
                  else ret (elem_at v i))"

text \<open>The reply of a confirmed transaction.\<close>

definition tx_reply :: "jsval \<Rightarrow> jsval \<Rightarrow> (string \<times> jsval) list \<Rightarrow> jsval js" where
  "tx_reply tx receipt extra =
     bind (get_prop tx ''hash'') (\<lambda>h. bind (get_prop receipt ''blockNumber'') (\<lambda>b.
     ret (ok_reply ([(''txHash'', h), (''blockNumber'', b)] @ extra))))"

section \<open>NFTs\<close>

text \<open>
  The loop over the token ids below a number. Incrementing stops changing the counter at \<open>2 ^ 53\<close>,
  so a larger bound is never reached.
\<close>

definition counter_loop :: "jsnum \<Rightarrow> 'a \<Rightarrow> (nat \<Rightarrow> 'a \<Rightarrow> 'a js) \<Rightarrow> 'a js" where
  "counter_loop n s f =
     (case n of
        Fin q \<Rightarrow> if q \<le> 2 ^ 53 then fold_loop [0..<nat \<lceil>q\<rceil>] s f else lift_outcome Pending
      | PosInf \<Rightarrow> lift_outcome Pending
      | _ \<Rightarrow> ret s)"

definition scan_token :: "string \<Rightarrow> nat \<Rightarrow> jsval list \<Rightarrow> jsval list js" where
  "scan_token normalizedLinked tokenId owned =
     try_catch
       (bind (read_contract nftAddress ''ownerOf'' [num_of_nat tokenId]) (\<lambda>owner.
        bind (lower_of owner) (\<lambda>lo.
        if lo \<noteq> normalizedLinked then ret owned
        else bind (read_contract nftAddress ''getMintCode'' [num_of_nat tokenId]) (\<lambda>code.
             bind (bind (asks (\<lambda>E. keccakUtf8 E code)) lift_outcome) (\<lambda>codeHash.
             bind (read_contract vaultAddress ''codePools'' [Str codeHash]) (\<lambda>poolData.
             bind (item_of poolData 0) (\<lambda>approved.
             bind (formatWcryloUnits (elem_at poolData 1)) (\<lambda>pool.
             bind (text_of (elem_at poolData 2)) (\<lambda>redeemed.
             ret (owned @ [Obj
               [(''tokenId'', num_of_nat tokenId), (''owner'', owner), (''code'', code),
                (''eligible'', Bool (truthy approved)), (''codePool'', Str pool),
                (''redeemed'', Str redeemed)]]))))))))))
       (\<lambda>_. ret owned)"

definition ipc_nexus_scan_nfts :: "jsval \<Rightarrow> jsval js" where
  "ipc_nexus_scan_nfts linkedAddress =
     with_message
       (let normalizedLinked = to_lower (to_str (js_or linkedAddress (Str [])))
        in bind (asks (\<lambda>E. isAddress E (Str normalizedLinked))) (\<lambda>valid.
           if \<not> valid then ret (error_reply (Str ''Invalid linked Nexus address''))
           else bind (read_contract nftAddress ''nextTokenId'' []) (\<lambda>next'.
                let nextTokenId = to_number next'
                in bind (read_contract tokenAddress ''balanceOf'' [Str vaultAddress]) (\<lambda>vaultBalance.
                   bind (counter_loop nextTokenId [] (scan_token normalizedLinked)) (\<lambda>owned.
                   bind (formatWcryloUnits vaultBalance) (\<lambda>vb.
                   ret (ok_reply [(''linkedAddress'', linkedAddress), (''nextTokenId'', Num nextTokenId),
                     (''vaultBalance'', Str vb), (''nfts'', Arr owned)])))))))"

definition ipc_nexus_buyback_nft :: "jsval \<Rightarrow> jsval \<Rightarrow> jsval \<Rightarrow> jsval js" where
  "ipc_nexus_buyback_nft tokenId wname cryloAddress =
     with_reason
       (bind (loadBoundNexusWallet wname cryloAddress) (\<lambda>wallet.
        let ident = Num (to_number tokenId)
        in bind (read_contract nftAddress ''ownerOf'' [ident]) (\<lambda>owner.
           bind (lower_of owner) (\<lambda>lo.
           if lo \<noteq> to_lower wallet
           then ret (error_reply (Str ''Linked wallet does not own this NFT.''))
           else bind (pending_nonce wallet) (\<lambda>nonce.
                bind (send_tx wallet nftAddress ''approve'' [Str vaultAddress, ident] nonce) (\<lambda>tx.
                bind (wait_tx tx) (\<lambda>_.
                bind (send_tx wallet vaultAddress ''buyBack'' [ident] (js_inc nonce)) (\<lambda>tx.
                bind (wait_tx tx) (\<lambda>receipt.
                bind (read_contract nftAddress ''ownerOf'' [ident]) (\<lambda>newOwner.
                bind (lower_of newOwner) (\<lambda>no.
                bind (get_prop tx ''hash'') (\<lambda>h.
                if no \<noteq> to_lower vaultAddress
                then ret (Obj [(''ok'', Bool False),
                       (''error'', Str (''Buyback transaction completed, but NFT #'' @ to_str ident
                          @ '' is still owned by '' @ to_str newOwner)), (''txHash'', h)])
                else bind (get_prop receipt ''blockNumber'') (\<lambda>b.
                     ret (ok_reply [(''tokenId'', ident), (''txHash'', h), (''blockNumber'', b),
                       (''newOwner'', newOwner)]))))))))))))))"

definition ipc_nexus_burn_nft :: "jsval \<Rightarrow> jsval \<Rightarrow> jsval \<Rightarrow> jsval js" where
  "ipc_nexus_burn_nft tokenId wname cryloAddress =
     with_reason
       (bind (loadBoundNexusWallet wname cryloAddress) (\<lambda>wallet.
        let ident = Num (to_number tokenId)
        in bind (read_contract nftAddress ''ownerOf'' [ident]) (\<lambda>owner.
           bind (lower_of owner) (\<lambda>lo.
           if lo \<noteq> to_lower wallet
           then ret (error_reply (Str ''Linked wallet does not own this NFT.''))
           else bind (pending_nonce wallet) (\<lambda>nonce.
                bind (send_tx wallet nftAddress ''burn'' [ident] nonce) (\<lambda>tx.
                bind (wait_tx tx) (\<lambda>receipt.
                try_catch
                  (bind (read_contract nftAddress ''ownerOf'' [ident]) (\<lambda>_.
                   bind (get_prop tx ''hash'') (\<lambda>h.
                   ret (Obj [(''ok'', Bool False),
                     (''error'', Str (''Burn transaction completed, but NFT #'' @ to_str ident
                        @ '' still exists.'')), (''txHash'', h)]))))
                  (\<lambda>_. bind (get_prop tx ''hash'') (\<lambda>h.
                       bind (get_prop receipt ''blockNumber'') (\<lambda>b.
                       ret (ok_reply [(''tokenId'', ident), (''txHash'', h), (''blockNumber'', b)])))))))))))"

section \<open>wCRYLO: burning, balances, staking\<close>

definition ipc_nexus_burn_for_crylo :: "jsval \<Rightarrow> jsval \<Rightarrow> jsval \<Rightarrow> jsval js" where
  "ipc_nexus_burn_for_crylo amountText wname cryloAddress =
     with_reason
       (bind (loadBoundNexusWallet wname cryloAddress) (\<lambda>wallet.
        bind (parseWcryloUnits amountText) (\<lambda>amount.
        bind (pending_nonce wallet) (\<lambda>nonce.
        bind (send_tx wallet bridgeAddress ''burnForCryLo'' [cryloAddress, Big amount] nonce) (\<lambda>tx.
        bind (wait_tx tx) (\<lambda>receipt. tx_reply tx receipt []))))))"

definition ipc_nexus_wcrylo_balance :: "jsval \<Rightarrow> jsval js" where
  "ipc_nexus_wcrylo_balance linkedAddress =
     with_message
       (bind (asks (\<lambda>E. isAddress E linkedAddress)) (\<lambda>valid.
        if \<not> valid then ret (error_reply (Str ''Invalid Nexus address''))
        else bind (read_contract tokenAddress ''balanceOf'' [linkedAddress]) (\<lambda>balance.
             bind (formatWcryloUnits balance) (\<lambda>b. ret (ok_reply [(''balance'', Str b)])))))"

definition ipc_nexus_staked_balance :: "jsval \<Rightarrow> jsval js" where
  "ipc_nexus_staked_balance linkedAddress =
     with_message
       (bind (asks (\<lambda>E. isAddress E linkedAddress)) (\<lambda>valid.
        if \<not> valid then ret (error_reply (Str ''Invalid Nexus address''))
        else bind (read_contract stakingAddress ''stakedBalance'' [linkedAddress]) (\<lambda>balance.
             bind (formatWcryloUnits balance) (\<lambda>b. ret (ok_reply [(''balance'', Str b)])))))"

definition ipc_nexus_pending_rewards :: "jsval \<Rightarrow> jsval js" where
  "ipc_nexus_pending_rewards linkedAddress =
     with_message
       (bind (asks (\<lambda>E. isAddress E linkedAddress)) (\<lambda>valid.
        if \<not> valid then ret (error_reply (Str ''Invalid Nexus address''))
        else bind (read_contract stakingAddress ''pendingRewards'' [linkedAddress]) (\<lambda>rewards.
             bind (formatWcryloUnits rewards) (\<lambda>b. ret (ok_reply [(''rewards'', Str b)])))))"

definition ipc_nexus_claim_rewards :: "jsval \<Rightarrow> jsval \<Rightarrow> jsval js" where
  "ipc_nexus_claim_rewards wname cryloAddress =
     with_reason
       (bind (loadBoundNexusWallet wname cryloAddress) (\<lambda>wallet.
        bind (send_tx wallet stakingAddress ''claimRewards'' [] Undefined) (\<lambda>tx.
        bind (wait_tx tx) (\<lambda>receipt. tx_reply tx receipt []))))"

definition ipc_nexus_stake_wcrylo :: "jsval \<Rightarrow> jsval \<Rightarrow> jsval \<Rightarrow> jsval js" where
  "ipc_nexus_stake_wcrylo amountText wname cryloAddress =
     with_reason
       (bind (loadBoundNexusWallet wname cryloAddress) (\<lambda>wallet.
        bind (parseWcryloUnits amountText) (\<lambda>amount.
        bind (pending_nonce wallet) (\<lambda>nonce.
        bind (send_tx wallet tokenAddress ''approve'' [Str stakingAddress, Big amount] nonce) (\<lambda>tx.
        bind (wait_tx tx) (\<lambda>_.
        bind (send_tx wallet stakingAddress ''stake'' [Big amount] (js_inc nonce)) (\<lambda>tx.
        bind (wait_tx tx) (\<lambda>receipt. tx_reply tx receipt []))))))))"

definition ipc_nexus_unstake_wcrylo :: "jsval \<Rightarrow> jsval \<Rightarrow> jsval \<Rightarrow> jsval js" where
  "ipc_nexus_unstake_wcrylo amountText wname cryloAddress =
     with_reason
       (bind (loadBoundNexusWallet wname cryloAddress) (\<lambda>wallet.
        bind (parseWcryloUnits amountText) (\<lambda>amount.
        bind (pending_nonce wallet) (\<lambda>nonce.
        bind (send_tx wallet stakingAddress ''unstake'' [Big amount] nonce) (\<lambda>tx.
        bind (wait_tx tx) (\<lambda>receipt. tx_reply tx receipt []))))))"

section \<open>Nodes\<close>

definition ipc_nexus_node_status :: "jsval \<Rightarrow> jsval js" where
  "ipc_nexus_node_status linkedAddress =
     with_reason
       (bind (asks (\<lambda>E. isAddress E linkedAddress)) (\<lambda>valid.
        if \<not> valid then ret (error_reply (Str ''Invalid Nexus address''))
        else bind (read_contract nodeStakingAddress ''nodeTier'' [linkedAddress]) (\<lambda>tier.
             bind (read_contract nodeStakingAddress ''nodeStake'' [linkedAddress]) (\<lambda>stake.
             bind (read_contract nodeStakingAddress ''pendingRewards'' [linkedAddress]) (\<lambda>pending.
             bind (read_contract nodeStakingAddress ''operatorStake'' []) (\<lambda>operatorStake.
             bind (read_contract nodeStakingAddress ''validatorStake'' []) (\<lambda>validatorStake.
             bind (text_of tier) (\<lambda>t.
             bind (formatWcryloUnits stake) (\<lambda>s.
             bind (formatWcryloUnits pending) (\<lambda>p.
             bind (formatWcryloUnits operatorStake) (\<lambda>os.
             bind (formatWcryloUnits validatorStake) (\<lambda>vs.
             ret (ok_reply [(''tier'', Str t), (''stake'', Str s), (''pending'', Str p),
               (''operatorStake'', Str os), (''validatorStake'', Str vs)])))))))))))))"

definition saveOperatorConfig :: "jsval \<Rightarrow> string \<Rightarrow> string \<Rightarrow> string \<Rightarrow> int \<Rightarrow> string \<Rightarrow> jsval js" where
  "saveOperatorConfig cryloAddress nexusAddr tier nodeRpc chainId nodeStakingContract =
     bind (asks (\<lambda>E. path_join E [homeDir E, ''.config'', ''crylo-wallet'', ''operator''])) (\<lambda>dir.
     andthen (fs_mkdirSync dir)
     (bind (asks (\<lambda>E. path_join E [dir, ''operator.json''])) (\<lambda>file.
      bind (sync_call DateNow) (\<lambda>t. bind (asks (\<lambda>E. Str (isoTime E t))) (\<lambda>now.
      bind (fs_existsSync file) (\<lambda>ex.
      bind (if ex
            then try_catch
                   (bind (fs_readFileSync file) (\<lambda>c. bind (parse_text (Str c)) (\<lambda>old.
                    bind (get_prop old ''createdAt'') (\<lambda>c. ret (js_or c now)))))
                   (\<lambda>_. ret now)
            else ret now) (\<lambda>createdAt.
      let config = Obj [(''version'', jint 1), (''cryloAddress'', cryloAddress),
            (''nexusAddress'', Str nexusAddr), (''tier'', Str tier), (''nodeRpc'', Str nodeRpc),
            (''chainId'', jint chainId), (''nodeStakingContract'', Str nodeStakingContract),
            (''createdAt'', createdAt), (''updatedAt'', now)]
      in andthen (fs_writeFileSync file (JSON_stringify_2 config @ newline)) (ret config))))))))"

definition ipc_nexus_register_operator :: "jsval \<Rightarrow> jsval \<Rightarrow> jsval js" where
  "ipc_nexus_register_operator wname cryloAddress =
     with_reason
       (bind (asks NEXUS_RPC_URL) (\<lambda>rpc.
        bind (loadBoundNexusWallet wname cryloAddress) (\<lambda>wallet.
        bind (read_contract nodeStakingAddress ''operatorStake'' []) (\<lambda>amount.
        bind (pending_nonce wallet) (\<lambda>nonce.
        bind (send_tx wallet tokenAddress ''approve'' [Str nodeStakingAddress, amount] nonce) (\<lambda>tx.
        bind (wait_tx tx) (\<lambda>_.
        bind (send_tx wallet nodeStakingAddress ''registerOperator'' [] (js_inc nonce)) (\<lambda>tx.
        bind (wait_tx tx) (\<lambda>receipt.
        bind (saveOperatorConfig cryloAddress wallet ''Operator'' rpc 5546 nodeStakingAddress) (\<lambda>operatorConfig.
        tx_reply tx receipt [(''operatorConfig'', operatorConfig)]))))))))))"

definition ipc_nexus_register_validator :: "jsval \<Rightarrow> jsval \<Rightarrow> jsval js" where
  "ipc_nexus_register_validator wname cryloAddress =
     with_reason
       (bind (asks NEXUS_RPC_URL) (\<lambda>rpc.
        bind (loadBoundNexusWallet wname cryloAddress) (\<lambda>wallet.
        bind (read_contract nodeStakingAddress ''validatorStake'' []) (\<lambda>amount.
        bind (pending_nonce wallet) (\<lambda>nonce.
        bind (send_tx wallet tokenAddress ''approve'' [Str nodeStakingAddress, amount] nonce) (\<lambda>tx.
        bind (wait_tx tx) (\<lambda>_.
        bind (send_tx wallet nodeStakingAddress ''registerValidator'' [] (js_inc nonce)) (\<lambda>tx.
        bind (wait_tx tx) (\<lambda>receipt.
        bind (saveOperatorConfig cryloAddress wallet ''Validator'' rpc 5546 nodeStakingAddress) (\<lambda>operatorConfig.
        tx_reply tx receipt [(''operatorConfig'', operatorConfig)]))))))))))"

definition ipc_nexus_unregister_node :: "jsval \<Rightarrow> jsval \<Rightarrow> jsval js" where
  "ipc_nexus_unregister_node wname cryloAddress =
     with_reason
       (bind (loadBoundNexusWallet wname cryloAddress) (\<lambda>wallet.
        bind (pending_nonce wallet) (\<lambda>nonce.
        bind (send_tx wallet nodeStakingAddress ''unregisterNode'' [] nonce) (\<lambda>tx.
        bind (wait_tx tx) (\<lambda>receipt. tx_reply tx receipt [])))))"

definition ipc_nexus_claim_node_rewards :: "jsval \<Rightarrow> jsval \<Rightarrow> jsval js" where
  "ipc_nexus_claim_node_rewards wname cryloAddress =
     with_reason
       (bind (loadBoundNexusWallet wname cryloAddress) (\<lambda>wallet.
        bind (send_tx wallet nodeStakingAddress ''claimRewards'' [] Undefined) (\<lambda>tx.
        bind (wait_tx tx) (\<lambda>receipt. tx_reply tx receipt []))))"

section \<open>Gas\<close>

text \<open>The elements of \<open>rs\<close> are the seven results of Promise.all, in the order of the source.\<close>

definition ipc_nexus_gas_status :: "jsval \<Rightarrow> jsval js" where
  "ipc_nexus_gas_status linkedAddress =
     with_reason
       (bind (asks (\<lambda>E. isAddress E linkedAddress)) (\<lambda>valid.
        if \<not> valid then ret (error_reply (Str ''Invalid Nexus address''))
        else bind (await_call (ProviderCall ''getBalance'' [linkedAddress])) (\<lambda>nativeBalance.
             bind (promise_all
               [read_contract GAS_MANAGER_ADDRESS ''dailyGasAmount'' [],
                read_contract GAS_MANAGER_ADDRESS ''starterGasAmount'' [],
                read_contract GAS_MANAGER_ADDRESS ''lowGasThreshold'' [],
                read_contract GAS_MANAGER_ADDRESS ''lastGasClaimAt'' [linkedAddress],
                read_contract GAS_MANAGER_ADDRESS ''lastActivityAt'' [linkedAddress],
                read_contract GAS_MANAGER_ADDRESS ''canClaimDailyGas'' [linkedAddress],
                read_contract GAS_MANAGER_ADDRESS ''vaultBalance'' []]) (\<lambda>rs.
             bind (formatNexusGasUnits nativeBalance) (\<lambda>ng.
             bind (formatNexusGasUnits (rs ! 0)) (\<lambda>dg.
             bind (formatNexusGasUnits (rs ! 1)) (\<lambda>sg.
             bind (formatNexusGasUnits (rs ! 2)) (\<lambda>lg.
             bind (formatNexusGasUnits (rs ! 6)) (\<lambda>vb.
             ret (ok_reply [(''nativeGas'', Str ng), (''dailyGasAmount'', Str dg),
               (''starterGasAmount'', Str sg), (''lowGasThreshold'', Str lg),
               (''lastGasClaimAt'', Num (to_number (rs ! 3))),
               (''lastActivityAt'', Num (to_number (rs ! 4))),
               (''canClaim'', rs ! 5), (''vaultBalance'', Str vb)]))))))))))"

definition ipc_nexus_claim_daily_gas :: "jsval \<Rightarrow> jsval \<Rightarrow> jsval js" where
  "ipc_nexus_claim_daily_gas wname cryloAddress =
     with_reason
       (bind (loadBoundNexusWallet wname cryloAddress) (\<lambda>wallet.
        bind (send_tx wallet GAS_MANAGER_ADDRESS ''claimDailyGas'' [] Undefined) (\<lambda>tx.
        bind (wait_tx tx) (\<lambda>receipt. tx_reply tx receipt []))))"

definition ipc_nexus_buy_gas_wcrylo :: "jsval \<Rightarrow> jsval \<Rightarrow> jsval \<Rightarrow> jsval js" where
  "ipc_nexus_buy_gas_wcrylo amountText wname cryloAddress =
     with_reason
       (bind (loadBoundNexusWallet wname cryloAddress) (\<lambda>wallet.
        bind (parseWcryloUnits amountText) (\<lambda>amount.
        bind (pending_nonce wallet) (\<lambda>nonce.
        bind (send_tx wallet tokenAddress ''approve'' [Str GAS_MANAGER_ADDRESS, Big amount] nonce) (\<lambda>tx.
        bind (wait_tx tx) (\<lambda>_.
        bind (send_tx wallet GAS_MANAGER_ADDRESS ''buyGasWithWcrylo'' [Big amount] (js_inc nonce)) (\<lambda>tx.
        bind (wait_tx tx) (\<lambda>receipt. tx_reply tx receipt []))))))))"

end
