(* ===== verification/MainNexusTx.thy ===== *)
theory MainNexusTx
  imports MainNexus
begin

text \<open>
  The handler \<open>nexus-transactions\<close>, src/electron/main.js lines 1388 to 1540: the logs of eleven
  event filters of the last 50000 blocks, turned into the list of transactions the renderer shows.
\<close>

section \<open>Event interfaces\<close>

definition erc20Iface :: "string list" where
  "erc20Iface = [''event Transfer(address indexed from,address indexed to,uint256 value)'']"

definition gasIface :: "string list" where
  "gasIface =
     [''event DailyGasClaimed(address indexed wallet,uint256 amount)'',
      ''event GasPurchased(address indexed wallet,uint256 wcryloAmount,uint256 nativeGasAmount)'',
      ''event StarterGasSent(address indexed wallet,uint256 amount)'']"

definition stakingIface :: "string list" where
  "stakingIface =
     [''event Staked(address indexed user,uint256 amount)'',
      ''event Unstaked(address indexed user,uint256 amount)'',
      ''event RewardsClaimed(address indexed user,uint256 amount)'',
      ''event OperatorRegistered(address indexed user)'',
      ''event ValidatorRegistered(address indexed user)'']"

definition bridgeIface :: "string list" where
  "bridgeIface =
     [''event MintedFromCryLo(bytes32 indexed depositId,address indexed to,uint256 amount)'',
      ''event BurnedForCryLo(address indexed from,string cryloAddress,uint256 amount,uint256 indexed nonce)'']"

section \<open>Collecting logs\<close>

text \<open>An entry of the array \<open>logs\<close>.\<close>

record log_item =
  li_log :: jsval
  li_parsed :: jsval
  li_label :: string

fun js_items :: "jsval \<Rightarrow> jsval list js" where
  "js_items (Arr xs) = ret xs"
| "js_items v = throw (type_error (to_str v @ '' is not iterable''))"

definition push_log :: "string list \<Rightarrow> string \<Rightarrow> jsval \<Rightarrow> log_item list \<Rightarrow> log_item list js" where
  "push_log parser label lg logs =
     try_catch
       (bind (bind (asks (\<lambda>E. parseLog E parser lg)) lift_outcome) (\<lambda>parsed.
        ret (logs @ [\<lparr>li_log = lg, li_parsed = parsed, li_label = label\<rparr>])))
       (\<lambda>_. ret logs)"

definition safeLogs :: "jsval \<Rightarrow> string list \<Rightarrow> string \<Rightarrow> log_item list \<Rightarrow> log_item list js" where
  "safeLogs filter' parser label logs =
     try_catch
       (bind (await_call (ProviderCall ''getLogs'' [filter'])) (\<lambda>got.
        bind (js_items got) (\<lambda>ls. fold_loop ls logs (push_log parser label))))
       (\<lambda>_. ret logs)"

definition log_filter :: "string \<Rightarrow> jsval \<Rightarrow> jsval \<Rightarrow> jsval list \<Rightarrow> jsval" where
  "log_filter addr fromBlock latest topics =
     Obj [(''address'', Str addr), (''fromBlock'', fromBlock), (''toBlock'', latest),
          (''topics'', Arr topics)]"

text \<open>
  The filters in the order the code asks them: contract, topics, interface and label. The topic of
  an event name is the parameter \<open>topicHash\<close>.
\<close>

definition log_queries :: "(string \<Rightarrow> string) \<Rightarrow> string \<Rightarrow> (string \<times> jsval list \<times> string list \<times> string) list" where
  "log_queries topic u =
     [(tokenAddress, [Str (topic ''Transfer''), Str u], erc20Iface, ''wCRYLO Sent''),
      (tokenAddress, [Str (topic ''Transfer''), Null, Str u], erc20Iface, ''wCRYLO Received'')]
     @ map (\<lambda>e. (GAS_MANAGER_ADDRESS, [Str (topic e), Str u], gasIface, e))
         [''DailyGasClaimed'', ''GasPurchased'', ''StarterGasSent'']
     @ map (\<lambda>e. (stakingAddress, [Str (topic e), Str u], stakingIface, e))
         [''Staked'', ''Unstaked'', ''RewardsClaimed'']
     @ map (\<lambda>e. (nodeStakingAddress, [Str (topic e), Str u], stakingIface, e))
         [''OperatorRegistered'', ''ValidatorRegistered'', ''RewardsClaimed'']
     @ [(bridgeAddress, [Str (topic ''MintedFromCryLo''), Null, Str u], bridgeIface, ''Bridge Minted''),
        (bridgeAddress, [Str (topic ''BurnedForCryLo''), Str u], bridgeIface, ''Bridge Burned'')]"

section \<open>From logs to transactions\<close>

text \<open>p.name.includes('Gas') where the name is a text.\<close>

definition name_includes :: "jsval \<Rightarrow> string \<Rightarrow> bool js" where
  "name_includes v p =
     (case v of Str s \<Rightarrow> ret (str_includes s p) | _ \<Rightarrow> throw (type_error ''includes is not a function''))"

definition tx_amount :: "jsval \<Rightarrow> string js" where
  "tx_amount p =
     bind (get_prop p ''name'') (\<lambda>name.
     let args = jprop p ''args''
     in if name = Str ''Transfer''
        then bind (get_prop args ''value'') (\<lambda>v. bind (formatWcryloUnits v) (\<lambda>a. ret (a @ '' wCRYLO'')))
        else if name = Str ''MintedFromCryLo'' \<or> name = Str ''BurnedForCryLo''
        then bind (get_prop args ''amount'') (\<lambda>v. bind (formatWcryloUnits v) (\<lambda>a. ret (a @ '' wCRYLO'')))
        else bind (get_prop args ''amount'') (\<lambda>v.
          if \<not> nullish v
          then bind (formatWcryloUnits v) (\<lambda>a.
               bind (name_includes name ''Gas'') (\<lambda>gas.
               ret (a @ (if gas \<or> name = Str ''StarterGasSent'' then '' CRYLO (GAS)'' else '' wCRYLO''))))
          else if \<not> nullish (jprop args ''wcryloAmount'')
          then bind (formatWcryloUnits (jprop args ''wcryloAmount'')) (\<lambda>a.
               bind (formatNexusGasUnits (jprop args ''nativeGasAmount'')) (\<lambda>g.
               ret (a @ '' wCRYLO '' @ right_arrow @ '' '' @ g @ '' CRYLO (GAS)'')))
          else ret []))"

definition tx_entry :: "log_item \<Rightarrow> jsval list \<Rightarrow> jsval list js" where
  "tx_entry item txs =
     bind (get_prop (li_log item) ''blockNumber'') (\<lambda>bn.
     bind (await_call (ProviderCall ''getBlock'' [bn])) (\<lambda>block.
     let p = li_parsed item
     in bind (tx_amount p) (\<lambda>amount.
        ret (txs @ [Obj
          [(''type'', if jprop p ''name'' = Str ''Transfer'' then Str (li_label item) else jprop p ''name''),
           (''hash'', jprop (li_log item) ''transactionHash''),
           (''blockNumber'', bn),
           (''timestamp'', js_or (jprop block ''timestamp'') (jint 0)),
           (''amount'', Str amount),
           (''address'', jprop (li_log item) ''address'')]]))))"

definition by_block_desc :: "jsval \<Rightarrow> jsval \<Rightarrow> jsnum" where
  "by_block_desc a b = to_number (jprop b ''blockNumber'') - to_number (jprop a ''blockNumber'')"

definition ipc_nexus_transactions :: "jsval \<Rightarrow> jsval js" where
  "ipc_nexus_transactions linkedAddress =
     with_reason
       (bind (asks (\<lambda>E. isAddress E linkedAddress)) (\<lambda>valid.
        if \<not> valid then ret (error_reply (Str ''Invalid Nexus address''))
        else bind (asks (\<lambda>E. zeroPad32 E (getAddress E linkedAddress))) (\<lambda>zeroTopicUser.
             bind (await_call (ProviderCall ''getBlockNumber'' [])) (\<lambda>latest.
             let fromBlock = Num (math_max (Fin 0) (to_number latest - Fin 50000))
             in bind (asks topicHash) (\<lambda>topic.
                bind (fold_loop (log_queries topic zeroTopicUser) []
                  (\<lambda>(addr, topics, parser, label) logs.
                     safeLogs (log_filter addr fromBlock latest topics) parser label logs)) (\<lambda>logs.
                bind (fold_loop logs [] tx_entry) (\<lambda>txs.
                ret (ok_reply [(''latest'', latest), (''fromBlock'', fromBlock),
                  (''transactions'', Arr (take 100 (js_sort by_block_desc txs)))]))))))))"

end
