(* ===== verification/Preload.thy ===== *)
theory Preload
  imports MainNexusTx
begin

text \<open>
  The boundary between the two processes: the registered channels of the main process
  (ipcMain.handle in src/electron/main.js) and the functions the preload script exposes to the page
  as window.crylo (src/electron/preload.js), each of which invokes one channel.
\<close>

section \<open>Dispatch\<close>

definition arg_at :: "jsval list \<Rightarrow> nat \<Rightarrow> jsval" where
  "arg_at args i = (if i < length args then args ! i else Undefined)"

definition ipc_handlers :: "(string \<times> (jsval list \<Rightarrow> jsval js)) list" where
  "ipc_handlers =
     [(''daemon-rpc'', \<lambda>as. ipc_daemon_rpc (arg_at as 0) (arg_at as 1)),
      (''wallet-rpc'', \<lambda>as. ipc_wallet_rpc (arg_at as 0) (arg_at as 1) (arg_at as 2)),
      (''list-wallets'', \<lambda>as. ipc_list_wallets),
      (''nexus-wallet-create'', \<lambda>as. ipc_nexus_wallet_create (arg_at as 0) (arg_at as 1)),
      (''nexus-wallet-load'', \<lambda>as. ipc_nexus_wallet_load (arg_at as 0) (arg_at as 1)),
      (''open-log-dir'', \<lambda>as. ipc_open_log_dir),
      (''open-data-dir'', \<lambda>as. ipc_open_data_dir),
      (''get-version'', \<lambda>as. ipc_get_version),
      (''confirm-dialog'', \<lambda>as. ipc_confirm_dialog (arg_at as 0)),
      (''miner-start'', \<lambda>as. ipc_miner_start (arg_at as 0)),
      (''miner-stop'', \<lambda>as. ipc_miner_stop),
      (''miner-get-status'', \<lambda>as. ipc_miner_get_status),
      (''miner-get-info'', \<lambda>as. ipc_miner_get_info),
      (''nexus-scan-nfts'', \<lambda>as. ipc_nexus_scan_nfts (arg_at as 0)),
      (''nexus-buyback-nft'', \<lambda>as. ipc_nexus_buyback_nft (arg_at as 0) (arg_at as 1) (arg_at as 2)),
      (''nexus-burn-nft'', \<lambda>as. ipc_nexus_burn_nft (arg_at as 0) (arg_at as 1) (arg_at as 2)),
      (''nexus-gas-status'', \<lambda>as. ipc_nexus_gas_status (arg_at as 0)),
      (''nexus-transactions'', \<lambda>as. ipc_nexus_transactions (arg_at as 0)),
      (''nexus-claim-daily-gas'', \<lambda>as. ipc_nexus_claim_daily_gas (arg_at as 0) (arg_at as 1)),
      (''nexus-buy-gas-wcrylo'', \<lambda>as. ipc_nexus_buy_gas_wcrylo (arg_at as 0) (arg_at as 1) (arg_at as 2)),
      (''nexus-wcrylo-balance'', \<lambda>as. ipc_nexus_wcrylo_balance (arg_at as 0)),
      (''nexus-staked-balance'', \<lambda>as. ipc_nexus_staked_balance (arg_at as 0)),
      (''nexus-stake-wcrylo'', \<lambda>as. ipc_nexus_stake_wcrylo (arg_at as 0) (arg_at as 1) (arg_at as 2)),
      (''nexus-pending-rewards'', \<lambda>as. ipc_nexus_pending_rewards (arg_at as 0)),
      (''nexus-claim-rewards'', \<lambda>as. ipc_nexus_claim_rewards (arg_at as 0) (arg_at as 1)),
      (''nexus-unstake-wcrylo'', \<lambda>as. ipc_nexus_unstake_wcrylo (arg_at as 0) (arg_at as 1) (arg_at as 2)),
      (''nexus-node-status'', \<lambda>as. ipc_nexus_node_status (arg_at as 0)),
      (''nexus-register-operator'', \<lambda>as. ipc_nexus_register_operator (arg_at as 0) (arg_at as 1)),
      (''nexus-register-validator'', \<lambda>as. ipc_nexus_register_validator (arg_at as 0) (arg_at as 1)),
      (''nexus-unregister-node'', \<lambda>as. ipc_nexus_unregister_node (arg_at as 0) (arg_at as 1)),
      (''nexus-claim-node-rewards'', \<lambda>as. ipc_nexus_claim_node_rewards (arg_at as 0) (arg_at as 1)),
      (''bridge-request'', \<lambda>as. ipc_bridge_request (arg_at as 0)),
      (''bridge-status'', \<lambda>as. ipc_bridge_status (arg_at as 0)),
      (''bridge-release-status'', \<lambda>as. ipc_bridge_release_status (arg_at as 0)),
      (''nexus-burn-for-crylo'', \<lambda>as. ipc_nexus_burn_for_crylo (arg_at as 0) (arg_at as 1) (arg_at as 2))]"

text \<open>
  ipcRenderer.invoke: the reply of the channel's handler. A rejection of the handler reaches the page
  as an error that names the channel; so does a channel nobody handles.
\<close>

definition invoke :: "string \<Rightarrow> jsval list \<Rightarrow> jsval js" where
  "invoke channel args =
     (case map_of ipc_handlers channel of
        None \<Rightarrow> throw (mk_error (''Error invoking remote method: No handler registered for '' @ channel))
      | Some h \<Rightarrow>
          try_catch (h args)
            (\<lambda>e. throw (mk_error (''Error invoking remote method '' @ channel @ '': '' @ to_str (jprop e ''message'')))))"

section \<open>window.crylo\<close>

definition crylo_daemonRpc :: "jsval \<Rightarrow> jsval \<Rightarrow> jsval js" where
  "crylo_daemonRpc method params = invoke ''daemon-rpc'' [method, params]"

definition crylo_walletRpc :: "jsval \<Rightarrow> jsval \<Rightarrow> jsval \<Rightarrow> jsval js" where
  "crylo_walletRpc method params timeout = invoke ''wallet-rpc'' [method, params, timeout]"

definition crylo_listWallets :: "jsval js" where
  "crylo_listWallets = invoke ''list-wallets'' []"

definition crylo_nexusWalletCreate :: "jsval \<Rightarrow> jsval \<Rightarrow> jsval js" where
  "crylo_nexusWalletCreate wname caddr = invoke ''nexus-wallet-create'' [wname, caddr]"

definition crylo_nexusWalletLoad :: "jsval \<Rightarrow> jsval \<Rightarrow> jsval js" where
  "crylo_nexusWalletLoad wname caddr = invoke ''nexus-wallet-load'' [wname, caddr]"

definition crylo_openLogDir :: "jsval js" where
  "crylo_openLogDir = invoke ''open-log-dir'' []"

definition crylo_openDataDir :: "jsval js" where
  "crylo_openDataDir = invoke ''open-data-dir'' []"

definition crylo_getVersion :: "jsval js" where
  "crylo_getVersion = invoke ''get-version'' []"

definition crylo_confirm :: "jsval \<Rightarrow> jsval js" where
  "crylo_confirm opts = invoke ''confirm-dialog'' [opts]"

definition crylo_minerStart :: "jsval \<Rightarrow> jsval js" where
  "crylo_minerStart opts = invoke ''miner-start'' [opts]"

definition crylo_minerStop :: "jsval js" where
  "crylo_minerStop = invoke ''miner-stop'' []"

definition crylo_minerGetStatus :: "jsval js" where
  "crylo_minerGetStatus = invoke ''miner-get-status'' []"

definition crylo_minerGetInfo :: "jsval js" where
  "crylo_minerGetInfo = invoke ''miner-get-info'' []"

definition crylo_nexusScanNfts :: "jsval \<Rightarrow> jsval js" where
  "crylo_nexusScanNfts linkedAddress = invoke ''nexus-scan-nfts'' [linkedAddress]"

definition crylo_nexusBuyBackNft :: "jsval \<Rightarrow> jsval \<Rightarrow> jsval \<Rightarrow> jsval js" where
  "crylo_nexusBuyBackNft tokenId wname caddr = invoke ''nexus-buyback-nft'' [tokenId, wname, caddr]"

definition crylo_nexusBurnNft :: "jsval \<Rightarrow> jsval \<Rightarrow> jsval \<Rightarrow> jsval js" where
  "crylo_nexusBurnNft tokenId wname caddr = invoke ''nexus-burn-nft'' [tokenId, wname, caddr]"

definition crylo_nexusGasStatus :: "jsval \<Rightarrow> jsval js" where
  "crylo_nexusGasStatus linkedAddress = invoke ''nexus-gas-status'' [linkedAddress]"

definition crylo_nexusTransactions :: "jsval \<Rightarrow> jsval js" where
  "crylo_nexusTransactions linkedAddress = invoke ''nexus-transactions'' [linkedAddress]"

definition crylo_nexusClaimDailyGas :: "jsval \<Rightarrow> jsval \<Rightarrow> jsval js" where
  "crylo_nexusClaimDailyGas wname caddr = invoke ''nexus-claim-daily-gas'' [wname, caddr]"

definition crylo_nexusBuyGasWithWcrylo :: "jsval \<Rightarrow> jsval \<Rightarrow> jsval \<Rightarrow> jsval js" where
  "crylo_nexusBuyGasWithWcrylo amountText wname caddr = invoke ''nexus-buy-gas-wcrylo'' [amountText, wname, caddr]"

definition crylo_nexusWcryloBalance :: "jsval \<Rightarrow> jsval js" where
  "crylo_nexusWcryloBalance linkedAddress = invoke ''nexus-wcrylo-balance'' [linkedAddress]"

definition crylo_nexusStakedBalance :: "jsval \<Rightarrow> jsval js" where
  "crylo_nexusStakedBalance linkedAddress = invoke ''nexus-staked-balance'' [linkedAddress]"

definition crylo_nexusStakeWcrylo :: "jsval \<Rightarrow> jsval \<Rightarrow> jsval \<Rightarrow> jsval js" where
  "crylo_nexusStakeWcrylo amountText wname caddr = invoke ''nexus-stake-wcrylo'' [amountText, wname, caddr]"

definition crylo_nexusPendingRewards :: "jsval \<Rightarrow> jsval js" where
  "crylo_nexusPendingRewards linkedAddress = invoke ''nexus-pending-rewards'' [linkedAddress]"

definition crylo_nexusClaimRewards :: "jsval \<Rightarrow> jsval \<Rightarrow> jsval js" where
  "crylo_nexusClaimRewards wname caddr = invoke ''nexus-claim-rewards'' [wname, caddr]"

definition crylo_nexusUnstakeWcrylo :: "jsval \<Rightarrow> jsval \<Rightarrow> jsval \<Rightarrow> jsval js" where
  "crylo_nexusUnstakeWcrylo amountText wname caddr = invoke ''nexus-unstake-wcrylo'' [amountText, wname, caddr]"

definition crylo_nexusNodeStatus :: "jsval \<Rightarrow> jsval js" where
  "crylo_nexusNodeStatus linkedAddress = invoke ''nexus-node-status'' [linkedAddress]"

definition crylo_nexusRegisterOperator :: "jsval \<Rightarrow> jsval \<Rightarrow> jsval js" where
  "crylo_nexusRegisterOperator wname caddr = invoke ''nexus-register-operator'' [wname, caddr]"

definition crylo_nexusRegisterValidator :: "jsval \<Rightarrow> jsval \<Rightarrow> jsval js" where
  "crylo_nexusRegisterValidator wname caddr = invoke ''nexus-register-validator'' [wname, caddr]"

definition crylo_nexusUnregisterNode :: "jsval \<Rightarrow> jsval \<Rightarrow> jsval js" where
  "crylo_nexusUnregisterNode wname caddr = invoke ''nexus-unregister-node'' [wname, caddr]"

definition crylo_nexusClaimNodeRewards :: "jsval \<Rightarrow> jsval \<Rightarrow> jsval js" where
  "crylo_nexusClaimNodeRewards wname caddr = invoke ''nexus-claim-node-rewards'' [wname, caddr]"

definition crylo_bridgeRequest :: "jsval \<Rightarrow> jsval js" where
  "crylo_bridgeRequest payload = invoke ''bridge-request'' [payload]"

definition crylo_bridgeStatus :: "jsval \<Rightarrow> jsval js" where
  "crylo_bridgeStatus paymentId = invoke ''bridge-status'' [paymentId]"

definition crylo_bridgeReleaseStatus :: "jsval \<Rightarrow> jsval js" where
  "crylo_bridgeReleaseStatus nexusTxHash = invoke ''bridge-release-status'' [nexusTxHash]"

definition crylo_nexusBurnForCryLo :: "jsval \<Rightarrow> jsval \<Rightarrow> jsval \<Rightarrow> jsval js" where
  "crylo_nexusBurnForCryLo amountText wname caddr = invoke ''nexus-burn-for-crylo'' [amountText, wname, caddr]"

lemmas crylo_defs =
  crylo_daemonRpc_def
  crylo_walletRpc_def
  crylo_listWallets_def
  crylo_nexusWalletCreate_def
  crylo_nexusWalletLoad_def
  crylo_openLogDir_def
  crylo_openDataDir_def
  crylo_getVersion_def
  crylo_confirm_def
  crylo_minerStart_def
  crylo_minerStop_def
  crylo_minerGetStatus_def
  crylo_minerGetInfo_def
  crylo_nexusScanNfts_def
  crylo_nexusBuyBackNft_def
  crylo_nexusBurnNft_def
  crylo_nexusGasStatus_def
  crylo_nexusTransactions_def
  crylo_nexusClaimDailyGas_def
  crylo_nexusBuyGasWithWcrylo_def
  crylo_nexusWcryloBalance_def
  crylo_nexusStakedBalance_def
  crylo_nexusStakeWcrylo_def
  crylo_nexusPendingRewards_def
  crylo_nexusClaimRewards_def
  crylo_nexusUnstakeWcrylo_def
  crylo_nexusNodeStatus_def
  crylo_nexusRegisterOperator_def
  crylo_nexusRegisterValidator_def
  crylo_nexusUnregisterNode_def
  crylo_nexusClaimNodeRewards_def
  crylo_bridgeRequest_def
  crylo_bridgeStatus_def
  crylo_bridgeReleaseStatus_def
  crylo_nexusBurnForCryLo_def

section \<open>Subscriptions\<close>

text \<open>
  ipcRenderer.on keeps the listeners of a channel in the order they were added. The functions of window.crylo
  register the page's callback for one channel and drop the event argument.
\<close>

type_synonym subscriptions = "(string \<times> (jsval \<Rightarrow> unit js)) list"

definition ipc_on :: "string \<Rightarrow> (jsval \<Rightarrow> unit js) \<Rightarrow> subscriptions \<Rightarrow> subscriptions" where
  "ipc_on channel cb subs = subs @ [(channel, cb)]"

definition crylo_onStartupStatus :: "(jsval \<Rightarrow> unit js) \<Rightarrow> subscriptions \<Rightarrow> subscriptions" where
  "crylo_onStartupStatus cb = ipc_on ''startup-status'' cb"

definition crylo_onLog :: "(jsval \<Rightarrow> unit js) \<Rightarrow> subscriptions \<Rightarrow> subscriptions" where
  "crylo_onLog cb = ipc_on ''log'' cb"

definition crylo_onDaemonExit :: "(jsval \<Rightarrow> unit js) \<Rightarrow> subscriptions \<Rightarrow> subscriptions" where
  "crylo_onDaemonExit cb = ipc_on ''daemon-exit'' cb"

definition crylo_onWalletRpcExit :: "(jsval \<Rightarrow> unit js) \<Rightarrow> subscriptions \<Rightarrow> subscriptions" where
  "crylo_onWalletRpcExit cb = ipc_on ''wallet-rpc-exit'' cb"

definition crylo_removeAllListeners :: "string \<Rightarrow> subscriptions \<Rightarrow> subscriptions" where
  "crylo_removeAllListeners channel subs = filter (\<lambda>(c, _). c \<noteq> channel) subs"

text \<open>A message of the main process runs the listeners of its channel, one after the other.\<close>

definition emit :: "subscriptions \<Rightarrow> string \<Rightarrow> jsval \<Rightarrow> unit js" where
  "emit subs channel v = for_each (filter (\<lambda>(c, _). c = channel) subs) (\<lambda>(_, cb). cb v)"

end
