(* ===== verification/AppHelpers.thy ===== *)
theory AppHelpers
  imports Preload
begin

text \<open>
  Constants, formatting and conversion helpers of the renderer, src/electron/src/app.js lines 3 to
  84, 449 to 467 and the toast notifications.
\<close>

section \<open>Constants\<close>

definition COIN :: jsnum where "COIN = Fin 100000000000"

record vesting_tier =
  vt_tier :: int
  vt_delay :: int
  vt_label :: string
  vt_cls :: string

definition VESTING_TIERS :: "vesting_tier list" where
  "VESTING_TIERS =
     [\<lparr>vt_tier = 1, vt_delay = 0, vt_label = ''Instant Miner'', vt_cls = ''t1''\<rparr>,
      \<lparr>vt_tier = 2, vt_delay = 18514, vt_label = ''45-Day Vested'', vt_cls = ''t2''\<rparr>]"

definition initial_State :: app_state where
  "initial_State =
     \<lparr>ready = False, walletOpen = False, walletName = [], currentHeight = jint 0,
      activeTab = ''transactions'', refreshTimer = None, blockPoller = None, address = Str [],
      unlockedBalance = Fin 0, miningActive = False, miningStatusTimer = None,
      miningStartHeight = Null, nexusAddress = Undefined\<rparr>"

definition set_state :: "(app_state \<Rightarrow> app_state) \<Rightarrow> unit js" where
  "set_state f = modify (\<lambda>w. w\<lparr>st := f (st w)\<rparr>)"

section \<open>Amounts\<close>

definition fmtDecimalAmount :: "jsval \<Rightarrow> nat \<Rightarrow> string" where
  "fmtDecimalAmount value places =
     (let n = to_number value
      in if \<not> is_finite_num n then to_fixed places (Fin 0) else to_fixed places n)"

text \<open>The test \<open>/^\d+(?:\.\d+)?$/\<close>.\<close>

definition is_decimal :: "string \<Rightarrow> bool" where
  "is_decimal s \<longleftrightarrow>
     takeWhile is_digit s \<noteq> [] \<and>
     (case dropWhile is_digit s of
        [] \<Rightarrow> True
      | c # r \<Rightarrow> c = CHR ''.'' \<and> r \<noteq> [] \<and> list_all is_digit r)"

definition decimalToAtomic :: "jsval \<Rightarrow> nat \<Rightarrow> string \<Rightarrow> string outcome" where
  "decimalToAtomic amountText decimals unitName =
     (let raw = trim (to_str (js_or amountText (Str [])))
      in if raw = [] \<or> string_to_number raw \<le> Fin 0
         then Throw (mk_error (''Enter a valid '' @ unitName @ '' amount.''))
         else if \<not> is_decimal raw then Throw (mk_error (''Invalid '' @ unitName @ '' amount.''))
         else let parts = split_on (CHR ''.'') raw;
                  whole = parts ! 0;
                  fracRaw = (if 1 < length parts then parts ! 1 else [])
              in if decimals < length fracRaw
                 then Throw (mk_error (unitName @ '' supports at most '' @ int_str (int decimals)
                        @ '' decimal places.''))
                 else let frac = pad_end fracRaw decimals ''0''
                      in Ok (int_str (parse_digits whole * 10 ^ decimals
                             + parse_digits (if frac = [] then ''0'' else frac))))"

definition fmt :: "jsval \<Rightarrow> string" where
  "fmt atomic =
     (if nullish atomic \<or> js_isNaN atomic then ''0.0000''
      else to_fixed 4 (to_number atomic div COIN))"

definition fmtFull :: "jsval \<Rightarrow> string" where
  "fmtFull atomic =
     (if nullish atomic \<or> js_isNaN atomic then ''0.000000000000''
      else to_fixed 12 (to_number atomic div COIN))"

definition fmtDate :: "jsval \<Rightarrow> string js" where
  "fmtDate ts =
     (if \<not> truthy ts then ret em_dash else asks (\<lambda>E. localeDate E (to_number ts * Fin 1000)))"

definition shortTxid :: "jsval \<Rightarrow> string js" where
  "shortTxid txid =
     (if \<not> truthy txid then ret em_dash
      else case txid of
             Str s \<Rightarrow> ret (slice_first 8 s @ ''...'' @ slice_last 8 s)
           | _ \<Rightarrow> throw (type_error ''txid.slice is not a function''))"

definition fmtHashrate :: "jsnum \<Rightarrow> string" where
  "fmtHashrate hr =
     (if Fin 1000000000 \<le> hr then to_fixed 2 (hr div Fin 1000000000) @ '' GH/s''
      else if Fin 1000000 \<le> hr then to_fixed 2 (hr div Fin 1000000) @ '' MH/s''
      else if Fin 1000 \<le> hr then to_fixed 2 (hr div Fin 1000) @ '' KH/s''
      else to_fixed 0 hr @ '' H/s'')"

text \<open>The operand \<open>Number(v) || 0\<close>.\<close>

definition num_or_zero :: "jsval \<Rightarrow> jsnum" where
  "num_or_zero v = (let n = to_number v in if n = NaN then Fin 0 else n)"

definition fmtDuration :: "jsval \<Rightarrow> string" where
  "fmtDuration secs =
     (let seconds = math_max (Fin 0) (num_or_zero secs);
          days = math_floor (seconds div Fin 86400);
          hours = math_floor (js_rem seconds (Fin 86400) div Fin 3600);
          minutes = math_floor (js_rem seconds (Fin 3600) div Fin 60)
      in if Fin 0 < days then num_to_string days @ ''d '' @ num_to_string hours @ ''h''
         else if Fin 0 < hours then num_to_string hours @ ''h '' @ num_to_string minutes @ ''m''
         else if Fin 0 < minutes then num_to_string minutes @ ''m''
         else num_to_string (math_floor seconds) @ ''s'')"

section \<open>Text of page properties\<close>

text \<open>Assigning a value to textContent: undefined and null empty the element.\<close>

definition dom_text :: "jsval \<Rightarrow> string" where
  "dom_text v = (if nullish v then [] else to_str v)"

definition locale_text :: "jsval \<Rightarrow> string js" where
  "locale_text v = asks (\<lambda>E. localeNum E v)"

section \<open>Toasts\<close>

text \<open>A toast carries the number of its timer, by which the timer finds it again.\<close>

definition toast_for :: "string \<Rightarrow> string \<Rightarrow> int \<Rightarrow> unit js" where
  "toast_for message kind ms =
     bind (gets next_timer) (\<lambda>i.
     andthen (append_node ''toast-container''
        (Element ''div'' [(''class'', ''toast '' @ kind), (''node'', int_str (int i))] [Txt message]))
     (set_timeout (CbRemoveToast i) ms))"

definition toast :: "string \<Rightarrow> string \<Rightarrow> unit js" where
  "toast message kind = toast_for message kind 4000"

end
