(* ===== verification/AppNexus.thy ===== *)
theory AppNexus
  imports AppHelpers
begin

text \<open>
  The renderer's view of the bound Nexus wallet, src/electron/src/app.js lines 1255 to 1362, 1763 to
  1850, 2081 to 2114, 2237 to 2279 and 2339 to 2402: the bound address, the balances, the node and
  gas status and the transaction list. In the markup built from templates the white space between
  tags is left out.
\<close>

section \<open>Helpers on the page\<close>

text \<open>if (el) el.textContent = s, for an element that may be missing.\<close>

definition set_text_if :: "string \<Rightarrow> string \<Rightarrow> unit js" where
  "set_text_if i s = do_if (has_el i) (set_text i s)"

definition set_html_if :: "string \<Rightarrow> string \<Rightarrow> unit js" where
  "set_html_if i s = do_if (has_el i) (set_html i s)"

definition wallet_name :: "jsval js" where
  "wallet_name = gets (\<lambda>w. Str (walletName (st w)))"

definition wallet_address :: "jsval js" where
  "wallet_address = gets (\<lambda>w. address (st w))"

text \<open>The text of a caught error: \<open>err || dflt\<close> as a text.\<close>

definition text_or :: "jsval \<Rightarrow> string \<Rightarrow> string" where
  "text_or v d = to_str (js_or v (Str d))"

section \<open>The bound address\<close>

definition getLinkedNexusAddress :: "jsval js" where
  "getLinkedNexusAddress = gets (\<lambda>w. js_or (nexusAddress (st w)) (Str []))"

definition ensureCryLoAddressLoaded :: "bool js" where
  "ensureCryLoAddressLoaded =
     bind wallet_address (\<lambda>a.
     if truthy a then ret True
     else bind (crylo_walletRpc (Str ''get_address'') (Obj [(''account_index'', jint 0)]) Undefined) (\<lambda>addrRes.
          bind (get_prop addrRes ''ok'') (\<lambda>ok.
          let result = jprop addrRes ''result''
          in if truthy ok \<and> truthy result \<and> truthy (jprop result ''address'')
             then andthen (set_state (\<lambda>s. s\<lparr>address := jprop result ''address''\<rparr>))
                  (andthen (set_text_if ''receive-address'' (dom_text (jprop result ''address''))) (ret True))
             else ret False)))"

definition setNexusUiAddress :: "jsval \<Rightarrow> unit js" where
  "setNexusUiAddress addr =
     (let a = js_or addr (Str [])
      in block
        [set_state (\<lambda>s. s\<lparr>nexusAddress := a\<rparr>),
         set_text_if ''nexus-wallet-label''
           (if truthy a then ''Bound Nexus Wallet'' else ''Create / Bind Nexus Wallet''),
         do_if (has_el ''nexus-linked-address'')
           (block [set_value ''nexus-linked-address'' (to_str a),
                   set_attr ''nexus-linked-address'' ''value'' (to_str a)]),
         set_text_if ''nexus-linked-status''
           (if truthy a then ''Bound Nexus wallet: '' @ to_str a
            else ''No Nexus wallet created for this CryLo wallet yet.'')])"

definition loadSavedNexusLinkedAddress :: "unit js" where
  "loadSavedNexusLinkedAddress =
     bind ensureCryLoAddressLoaded (\<lambda>loaded.
     if \<not> loaded then setNexusUiAddress (Str [])
     else bind wallet_name (\<lambda>n. bind wallet_address (\<lambda>a.
          bind (crylo_nexusWalletLoad n a) (\<lambda>result.
          bind (get_prop result ''ok'') (\<lambda>ok.
          if truthy ok \<and> truthy (jprop result ''nexusAddress'')
          then setNexusUiAddress (jprop result ''nexusAddress'')
          else setNexusUiAddress (Str []))))))"

definition clearNexusUiForWalletSwitch :: "unit js" where
  "clearNexusUiForWalletSwitch =
     block
       [set_state (\<lambda>s. s\<lparr>nexusAddress := Str []\<rparr>),
        do_if (has_el ''nexus-linked-address'')
          (block [set_value ''nexus-linked-address'' [], set_attr ''nexus-linked-address'' ''value'' []]),
        set_text_if ''nexus-linked-status'' ''No Nexus wallet loaded for this CryLo wallet yet.'',
        set_html_if ''nexus-nft-list'' [],
        set_text_if ''nexus-status''
          ''Create a Nexus wallet to access staking, NFTs, buybacks, and node features.'',
        set_text_if ''nexus-wcrylo-balance'' ''0.0000 wCRYLO'',
        set_text_if ''nexus-staked-balance'' ''0.0000 wCRYLO'',
        set_text_if ''nexus-pending-rewards'' ''0.0000 wCRYLO'']"

section \<open>Balances\<close>

definition wcrylo_html :: "string \<Rightarrow> string" where
  "wcrylo_html s = s @ ''<span class=\"balance-unit\"> wCRYLO</span>''"

definition refreshNexusWcryloBalance :: "unit js" where
  "refreshNexusWcryloBalance =
     (if \<not> has_el ''bal-wcrylo'' then ret ()
      else bind getLinkedNexusAddress (\<lambda>linkedAddress.
        if \<not> truthy linkedAddress then set_html ''bal-wcrylo'' (wcrylo_html em_dash)
        else try_catch
          (bind (crylo_nexusWcryloBalance linkedAddress) (\<lambda>result.
           bind (get_prop result ''ok'') (\<lambda>ok.
           if \<not> truthy ok then set_html ''bal-wcrylo'' (wcrylo_html em_dash)
           else set_html ''bal-wcrylo'' (wcrylo_html (fmtDecimalAmount (jprop result ''balance'') 4)))))
          (\<lambda>_. set_html ''bal-wcrylo'' (wcrylo_html em_dash))))"

definition refreshNexusStakedBalance :: "unit js" where
  "refreshNexusStakedBalance =
     (if \<not> has_el ''bal-staked-wcrylo'' then ret ()
      else bind getLinkedNexusAddress (\<lambda>linkedAddress.
        if \<not> truthy linkedAddress then set_html ''bal-staked-wcrylo'' (wcrylo_html em_dash)
        else try_catch
          (bind (crylo_nexusStakedBalance linkedAddress) (\<lambda>result.
           bind (get_prop result ''ok'') (\<lambda>ok.
           if \<not> truthy ok then set_html ''bal-staked-wcrylo'' (wcrylo_html ''0.0000'')
           else set_html ''bal-staked-wcrylo'' (wcrylo_html (fmtDecimalAmount (jprop result ''balance'') 4)))))
          (\<lambda>_. set_html ''bal-staked-wcrylo'' (wcrylo_html ''0.0000''))))"

definition refreshNexusPendingRewards :: "unit js" where
  "refreshNexusPendingRewards =
     (if \<not> has_el ''nexus-pending-rewards'' then ret ()
      else bind getLinkedNexusAddress (\<lambda>linkedAddress.
        if \<not> truthy linkedAddress then set_text ''nexus-pending-rewards'' em_dash
        else try_catch
          (bind (crylo_nexusPendingRewards linkedAddress) (\<lambda>result.
           bind (get_prop result ''ok'') (\<lambda>ok.
           if \<not> truthy ok then set_text ''nexus-pending-rewards'' ''0.0000''
           else set_text ''nexus-pending-rewards'' (fmtDecimalAmount (jprop result ''rewards'') 6))))
          (\<lambda>_. set_text ''nexus-pending-rewards'' ''0.0000'')))"

section \<open>Node and gas status\<close>

definition tier_name :: "jsval \<Rightarrow> string" where
  "tier_name t = (if t = Str ''2'' then ''Validator'' else if t = Str ''1'' then ''Operator'' else ''None'')"

definition refreshNexusNodeStatus :: "unit js" where
  "refreshNexusNodeStatus =
     (if \<not> has_el ''nexus-node-status'' then ret ()
      else bind getLinkedNexusAddress (\<lambda>linkedAddress.
        if \<not> truthy linkedAddress then set_text ''nexus-node-status'' ''No Nexus wallet linked.''
        else try_catch
          (bind (crylo_nexusNodeStatus linkedAddress) (\<lambda>result.
           bind (get_prop result ''ok'') (\<lambda>ok.
           if \<not> truthy ok
           then set_text ''nexus-node-status'' (text_or (jprop result ''error'') ''Unable to load node status.'')
           else set_html ''nexus-node-status''
             (''Tier: <strong>'' @ tier_name (jprop result ''tier'') @ ''</strong> '' @ mid_dot @ '' ''
              @ ''Stake: <strong>'' @ to_fixed 4 (to_number (jprop result ''stake'')) @ '' wCRYLO</strong> ''
              @ mid_dot @ '' '' @ ''Pending: <strong>'' @ to_fixed 6 (to_number (jprop result ''pending''))
              @ '' wCRYLO</strong>''))))
          (\<lambda>_. set_text ''nexus-node-status'' ''Unable to load node status.'')))"

definition fmtUnix :: "jsval \<Rightarrow> string js" where
  "fmtUnix ts =
     (if \<not> truthy ts then ret ''Never'' else asks (\<lambda>E. localeDate E (to_number ts * Fin 1000)))"

definition refreshNexusGasStatus :: "unit js" where
  "refreshNexusGasStatus =
     bind getLinkedNexusAddress (\<lambda>linkedAddress.
     if \<not> truthy linkedAddress
     then set_text_if ''nexus-gas-status'' ''Gas status: Create/bind a Nexus wallet first.''
     else try_catch
       (bind (crylo_nexusGasStatus linkedAddress) (\<lambda>result.
        bind (get_prop result ''ok'') (\<lambda>ok.
        if \<not> truthy ok
        then set_text_if ''nexus-gas-status'' (''Gas status: '' @ text_or (jprop result ''error'') ''Unavailable'')
        else bind (sync_call DateNow) (\<lambda>t.
          let now = to_number t div Fin 1000;
              lastActivity = jprop result ''lastActivityAt'';
              active = (truthy lastActivity \<and> now - to_number lastActivity \<le> Fin (3 * 24 * 60 * 60))
          in andthen (set_text_if ''nexus-gas-status''
               (if truthy (jprop result ''canClaim'') then ''Gas status: Daily gas available''
                else ''Gas status: '' @ (if active then ''Active / cooldown'' else ''Inactive until Nexus activity'')))
             (andthen (set_text_if ''nexus-gas-native''
               (''Native Gas: '' @ fmtDecimalAmount (jprop result ''nativeGas'') 6 @ '' CRYLO (GAS)''))
             (andthen (set_text_if ''nexus-gas-daily''
               (''Daily Gas: '' @ fmtDecimalAmount (jprop result ''dailyGasAmount'') 6 @ '' CRYLO (GAS) '' @ mid_dot
                @ '' Vault: '' @ fmtDecimalAmount (jprop result ''vaultBalance'') 4 @ '' CRYLO (GAS)''))
             (bind (fmtUnix lastActivity) (\<lambda>a. bind (fmtUnix (jprop result ''lastGasClaimAt'')) (\<lambda>c.
              set_text_if ''nexus-gas-activity''
                (''Last Activity: '' @ a @ '' '' @ mid_dot @ '' Last Claim: '' @ c))))))))))
       (\<lambda>_. set_text_if ''nexus-gas-status'' ''Gas status: error''))"

section \<open>Transactions\<close>

definition nexus_tx_html :: "jsval \<Rightarrow> string js" where
  "nexus_tx_html tx =
     bind (get_prop tx ''timestamp'') (\<lambda>ts.
     bind (if truthy ts then asks (\<lambda>E. localeDate E (to_number ts * Fin 1000)) else ret ''Unknown date'') (\<lambda>date.
     bind (if truthy (jprop tx ''hash'')
           then (case jprop tx ''hash'' of
                   Str h \<Rightarrow> ret (slice_first 10 h @ ''...'' @ slice_last 8 h)
                 | _ \<Rightarrow> throw (type_error ''tx.hash.slice is not a function''))
           else ret em_dash) (\<lambda>shortHash.
     ret (''<div class=\"tx-item\"><div class=\"tx-main\"><div class=\"tx-title\">'' @ to_str (jprop tx ''type'')
       @ ''</div><div class=\"tx-sub\">'' @ date @ '' '' @ mid_dot @ '' Block '' @ to_str (jprop tx ''blockNumber'')
       @ ''</div><div class=\"tx-sub\">TX: '' @ text_or (jprop tx ''hash'') em_dash
       @ ''</div><div class=\"tx-sub\">Contract: '' @ text_or (jprop tx ''address'') em_dash
       @ ''</div></div><div class=\"tx-amount\">'' @ text_or (jprop tx ''amount'') []
       @ ''</div></div>''))))"

definition loadNexusTransactions :: "unit js" where
  "loadNexusTransactions =
     bind getLinkedNexusAddress (\<lambda>linkedAddress.
     if \<not> truthy linkedAddress then set_text_if ''nexus-tx-status'' ''No bound Nexus wallet loaded.''
     else andthen (set_text_if ''nexus-tx-status'' ''Loading Nexus transactions...'')
       (try_catch
         (bind (crylo_nexusTransactions linkedAddress) (\<lambda>result.
          bind (get_prop result ''ok'') (\<lambda>ok.
          if \<not> truthy ok
          then set_text_if ''nexus-tx-status''
                 (''Failed to load Nexus transactions: '' @ text_or (jprop result ''error'') ''Unknown error'')
          else let txs = js_or (jprop result ''transactions'') (Arr [])
            in andthen (set_text_if ''nexus-tx-status''
                 (''Showing '' @ to_str (jprop txs ''length'') @ '' Nexus transactions from blocks ''
                  @ to_str (jprop result ''fromBlock'') @ en_dash @ to_str (jprop result ''latest'') @ ''.''))
               (if \<not> has_el ''nexus-tx-list'' then ret ()
                else if strict_eq (jprop txs ''length'') (jint 0)
                then set_html ''nexus-tx-list''
                       (''<div class=\"empty-state\"><div class=\"empty-icon\">'' @ link_sign
                        @ ''</div>No Nexus transactions found yet.</div>'')
                else bind (js_items txs) (\<lambda>items.
                     bind (fold_loop items [] (\<lambda>tx html. bind (nexus_tx_html tx) (\<lambda>h. ret (html @ h)))) (\<lambda>html.
                     set_html ''nexus-tx-list'' html))))))
         (\<lambda>_. set_text_if ''nexus-tx-status'' ''Failed to load Nexus transactions.'')))"

section \<open>Creating the bound wallet\<close>

definition createBoundNexusWallet :: "unit js" where
  "createBoundNexusWallet =
     bind ensureCryLoAddressLoaded (\<lambda>loaded.
     if \<not> loaded
     then set_text_if ''nexus-linked-status'' ''Open a CryLo wallet before creating a Nexus wallet.''
     else bind wallet_name (\<lambda>n. bind wallet_address (\<lambda>a.
          bind (crylo_nexusWalletCreate n a) (\<lambda>result.
          bind (get_prop result ''ok'') (\<lambda>ok.
          if \<not> truthy ok
          then set_text_if ''nexus-linked-status''
                 (''Failed to create Nexus wallet: '' @ to_str (jprop result ''error''))
          else block [setNexusUiAddress (jprop result ''nexusAddress''), refreshNexusWcryloBalance,
                 refreshNexusStakedBalance, refreshNexusPendingRewards, refreshNexusNodeStatus])))))"

end
