(* ===== verification/AppWallet.thy ===== *)
theory AppWallet
  imports AppNexus
begin

text \<open>
  What the renderer shows of the open CryLo wallet, src/electron/src/app.js lines 392 to 447 and 470
  to 592: synchronisation, balances, the address and the clipboard.
\<close>

section \<open>Values\<close>

text \<open>The operator \<open>+\<close>: a text on either side makes it concatenation.\<close>

definition js_plus :: "jsval \<Rightarrow> jsval \<Rightarrow> jsval" where
  "js_plus a b =
     (case (a, b) of
        (Str s, _) \<Rightarrow> Str (s @ to_str b)
      | (_, Str t) \<Rightarrow> Str (to_str a @ t)
      | _ \<Rightarrow> Num (to_number a + to_number b))"

text \<open>The element at a numeric index.\<close>

definition elem_num :: "jsval \<Rightarrow> jsnum \<Rightarrow> jsval" where
  "elem_num v n =
     (case n of
        Fin q \<Rightarrow> if 0 \<le> q \<and> of_int \<lfloor>q\<rfloor> = q then elem_at v (nat \<lfloor>q\<rfloor>) else Undefined
      | _ \<Rightarrow> Undefined)"

section \<open>Synchronisation\<close>

text \<open>The network hash rate from the headers of the last blocks, inside a try block.\<close>

definition show_range_hashrate :: "jsval \<Rightarrow> unit js" where
  "show_range_hashrate info =
     (bind (crylo_daemonRpc (Str ''get_block_headers_range'')
         (Obj [(''start_height'', Num (to_number (jprop info ''height'') - Fin 11)),
               (''end_height'', Num (to_number (jprop info ''height'') - Fin 1))])) (\<lambda>rangeRes.
     bind (get_prop rangeRes ''ok'') (\<lambda>ok.
     if \<not> truthy ok then ret ()
       else (bind (get_prop (jprop rangeRes ''result'') ''headers'') (\<lambda>headers.
            if truthy headers \<and> js_lesseq (jint 2) (jprop headers ''length'')
         then let n = to_number (jprop headers ''length'');
                  newest = elem_num headers (n - Fin 1);
                  oldest = elem_at headers 0
              in (bind (get_prop newest ''timestamp'') (\<lambda>nt.
                 bind (get_prop oldest ''timestamp'') (\<lambda>ot.
                 let avgTime = (to_number nt - to_number ot) div (n - Fin 1) in
                 do_if (Fin 0 < avgTime)
                  (set_text ''sb-nethr'' (fmtHashrate (to_number (jprop newest ''difficulty'') div avgTime))))))
         else ret ())))))"

definition show_target_hashrate :: "jsval \<Rightarrow> unit js" where
  "show_target_hashrate info =
     do_if (truthy (jprop info ''difficulty''))
       (set_text ''sb-nethr'' (fmtHashrate (to_number (jprop info ''difficulty'') div Fin 210)))"

definition updateSyncStatus :: "unit js" where
  "updateSyncStatus =
     (bind (crylo_daemonRpc (Str ''get_info'') Undefined) (\<lambda>res.
     bind (get_prop res ''ok'') (\<lambda>ok.
     if \<not> truthy ok
       then block [set_class_name ''sync-dot'' ''sync-dot offline'', set_text ''sync-label'' ''Daemon offline'']
       else let info = jprop res ''result'' in (bind (get_prop info ''height'') (\<lambda>h.
           let height = js_or h (jint 0) in
           andthen (set_state (\<lambda>s. s\<lparr>currentHeight := height\<rparr>))
           (bind (locale_text height) (\<lambda>ht.
           andthen (set_text ''sb-height'' ht)
           (andthen (set_text ''sb-peers'' (to_str (js_or (jprop info ''outgoing_connections_count'') (jint 0)) @ ''/''
           @ to_str (js_or (jprop info ''incoming_connections_count'') (jint 0))))
           (andthen ((if js_less (jint 10) h
          then try_catch (show_range_hashrate info) (\<lambda>_. show_target_hashrate info)
          else show_target_hashrate info))
           (andthen (set_class_name ''sync-dot'' ''sync-dot synced'')
           (let target = js_or (jprop info ''target_height'') (jint 0) in
           bind (locale_text height) (\<lambda>ht.
           if js_less height target
         then set_text ''sync-label'' (''Wallet Synced 100% '' @ mid_dot @ '' '' @ ht @ '' blocks'')
         else set_text ''sync-label'' (''Wallet Synced '' @ mid_dot @ '' '' @ ht @ '' blocks'')))))))))))))"

section \<open>Balances\<close>

definition split_tx :: "jsval \<Rightarrow> jsnum \<times> jsnum \<Rightarrow> (jsnum \<times> jsnum) js" where
  "split_tx tx acc =
     (bind (get_prop tx ''type'') (\<lambda>ty.
     if \<not> strict_eq ty (Str ''block'') then ret acc
       else let amounts = (case jprop tx ''amounts'' of Arr xs \<Rightarrow> map to_number xs | _ \<Rightarrow> [])
         in if 2 \<le> length amounts then ret (fst acc + amounts ! 0, snd acc + amounts ! 1)
            else let amount = to_number (js_or (jprop tx ''amount'') (jint 0));
                     half = math_floor (amount div Fin 2)
                 in ret (fst acc + half, snd acc + (amount - half))))"

definition getMinedSplitBalances :: "jsval js" where
  "getMinedSplitBalances =
     (bind (crylo_walletRpc (Str ''get_transfers'') (Obj [(''in'', Bool True)]) Undefined) (\<lambda>res.
     bind (get_prop res ''result'') (\<lambda>result.
     let r = js_or (jprop result ''result'') (js_or result (Obj [])) in
     bind (js_items (js_or (jprop r ''in'') (Arr []))) (\<lambda>txs.
     bind (fold_loop txs (Fin 0, Fin 0) split_tx) (\<lambda>acc.
     ret (Obj [(''found'', Bool (Fin 0 < fst acc + snd acc)), (''total'', Num (fst acc + snd acc)),
                 (''unlocked'', Num (fst acc)), (''locked'', Num (snd acc))]))))))"

definition crylo_html :: "string \<Rightarrow> string" where
  "crylo_html s = s @ ''<span class=\"balance-unit\"> CryLo</span>''"

definition locked_info_text :: "jsval \<Rightarrow> jsnum \<Rightarrow> string" where
  "locked_info_text btu locked =
     (if js_less (jint 0) btu \<and> js_lesseq btu (jint 4)
      then hourglass @ '' '' @ fmt (Num locked) @ '' CryLo locked '' @ em_dash
           @ '' waiting confirmations (~'' @ to_str btu @ '' blocks)''
      else if js_less (jint 4) btu
      then lock_sign @ '' '' @ fmt (Num locked) @ '' CryLo in vesting ('' @ to_str btu @ '' blocks remaining)''
      else lock_sign @ '' '' @ fmt (Num locked) @ '' CryLo locked'')"

definition updateBalance :: "unit js" where
  "updateBalance =
     (bind (crylo_walletRpc (Str ''get_balance'') (Obj [(''account_index'', jint 0)]) Undefined) (\<lambda>res.
     bind (get_prop res ''ok'') (\<lambda>ok.
     if \<not> truthy ok then ret ()
       else let result = jprop res ''result'';
                r = js_or (jprop result ''result'') (js_or result (Obj []));
                total = to_number (js_or (jprop r ''balance'') (jint 0));
                unlocked = to_number (js_or (jprop r ''unlocked_balance'') (jint 0));
                locked = math_max (Fin 0) (total - unlocked)
         in block
           [set_html ''bal-total'' (crylo_html (fmt (Num total))),
            set_html ''bal-unlocked'' (crylo_html (fmt (Num unlocked))),
            set_html ''bal-locked'' (crylo_html (fmt (Num locked))),
            set_text_if ''send-max-label'' (''Available: '' @ fmt (Num unlocked) @ '' CryLo''),
            do_if (has_el ''send-locked-info'')
              (if Fin 0 < locked
               then block
                 [set_text ''send-locked-info''
                    (locked_info_text (js_or (jprop r ''blocks_to_unlock'') (jint 0)) locked),
                  remove_class ''send-locked-info'' ''hidden'']
               else add_class ''send-locked-info'' ''hidden''),
            set_state (\<lambda>s. s\<lparr>unlockedBalance := unlocked\<rparr>)])))"

section \<open>Address\<close>

definition loadAddress :: "unit js" where
  "loadAddress =
     (bind (crylo_walletRpc (Str ''get_address'') (Obj [(''account_index'', jint 0)]) Undefined) (\<lambda>res.
     bind (get_prop res ''ok'') (\<lambda>ok.
     let result = jprop res ''result'' in
     if \<not> truthy ok \<or> \<not> truthy result \<or> \<not> truthy (jprop result ''address'') then ret ()
       else let newAddress = jprop result ''address'' in (bind wallet_address (\<lambda>old.
           andthen (set_state (\<lambda>s. s\<lparr>address := newAddress\<rparr>))
           (andthen (set_text ''receive-address'' (dom_text newAddress))
           (andthen (do_if (\<not> strict_eq old newAddress) clearNexusUiForWalletSwitch)
           (andthen loadSavedNexusLinkedAddress
           (andthen refreshNexusWcryloBalance
           (andthen refreshNexusStakedBalance
           (andthen refreshNexusPendingRewards
                                                         (refreshNexusNodeStatus))))))))))))"

definition copyAddress :: "unit js" where
  "copyAddress =
     (bind wallet_address (\<lambda>a.
     if \<not> truthy a then ret ()
       else spawn_task ((bind (await_call (ClipboardWrite (to_str a))) (\<lambda>_.
                        toast_for ''Address copied!'' ''success'' 2000)))))"

definition copyPaymentRequest :: "unit js" where
  "copyPaymentRequest =
     (bind (get_value ''req-amount'') (\<lambda>amount.
     bind wallet_address (\<lambda>a.
     if \<not> truthy a then toast ''Address not loaded.'' ''error''
       else let req = (if amount \<noteq> [] then ''crylo:'' @ to_str a @ ''?tx_amount='' @ amount else to_str a)
         in spawn_task ((bind (await_call (ClipboardWrite req)) (\<lambda>_.
                        toast_for ''Payment request copied!'' ''success'' 2000))))))"

end
