(* ===== verification/AppTransactions.thy ===== *)
theory AppTransactions
  imports AppWallet
begin

text \<open>
  The transaction list, sending and consolidating, src/electron/src/app.js lines 594 to 806 and 998 to
  1015.
\<close>

section \<open>Transactions\<close>

definition tx_height :: "jsval \<Rightarrow> jsval" where
  "tx_height t = js_or (jprop t ''height'') (jint 0)"

text \<open>The comparator of the transaction list: unconfirmed first, then by height, highest first.\<close>

definition by_height :: "jsval \<Rightarrow> jsval \<Rightarrow> jsnum" where
  "by_height a b =
     (let ha = tx_height a; hb = tx_height b
      in if strict_eq ha (jint 0) \<and> \<not> strict_eq hb (jint 0) then Fin (-1)
         else if strict_eq hb (jint 0) \<and> \<not> strict_eq ha (jint 0) then Fin 1
         else to_number hb - to_number ha)"

definition out_txids :: "jsval list \<Rightarrow> jsval list" where
  "out_txids txs = map (\<lambda>t. jprop t ''txid'') (filter (\<lambda>t. strict_eq (jprop t ''type'') (Str ''out'')) txs)"

record tx_view =
  tv_icon :: string
  tv_cls :: string
  tv_amtCls :: string
  tv_amtSign :: string
  tv_pending :: bool
  tv_badge :: string

definition view_tx :: "jsval list \<Rightarrow> jsval \<Rightarrow> tx_view" where
  "view_tx outs tx =
     (let ty = jprop tx ''type'';
          isMined = strict_eq ty (Str ''block'');
          isOut = (strict_eq ty (Str ''out'') \<or> strict_eq ty (Str ''pending''));
          isPending = (\<not> truthy (jprop tx ''height'') \<or> strict_eq (jprop tx ''height'') (jint 0));
          isChange = (strict_eq ty (Str ''in'') \<and> jprop tx ''txid'' \<in> set outs);
          isLocked = truthy (jprop tx ''locked'')
      in \<lparr>tv_icon = (if isMined then pick_sign else if isOut then up_arrow
                     else if isChange then hook_arrow else down_arrow),
          tv_cls = (if isMined then ''block'' else if isOut then ''out'' else ''in''),
          tv_amtCls = (if isMined then ''mined'' else if isOut then ''negative'' else ''positive''),
          tv_amtSign = (if isOut then ''-'' else ''+''),
          tv_pending = isPending,
          tv_badge =
            (if isPending \<and> \<not> isMined
             then ''<div class=\"tx-locked-badge\" style=\"background:rgba(110,69,226,0.2);color:#a78bfa\">''
                  @ hourglass @ '' Pending</div>''
             else if isChange
             then ''<div class=\"tx-locked-badge\" style=\"background:rgba(79,195,247,0.1);color:#4fc3f7\">''
                  @ hook_arrow @ '' Change</div>''
             else if isLocked then ''<div class=\"tx-locked-badge\">'' @ lock_sign @ '' locked</div>''
             else [])\<rparr>)"

definition tx_item :: "jsval list \<Rightarrow> jsval \<Rightarrow> node js" where
  "tx_item outs tx =
     (let v = view_tx outs tx in (bind ((if tv_pending v
          then ret (''<span style=\"color:var(--accent)\">'' @ hourglass @ '' Unconfirmed</span>'')
          else (bind (locale_text (tx_height tx)) (\<lambda>h.
               ret (''Block '' @ h))))) (\<lambda>where'.
           bind (fmtDate (jprop tx ''timestamp'')) (\<lambda>date.
           ret (Element ''div''
          [(''class'', ''tx-item''),
           (''title'', ''TXID: '' @ to_str (jprop tx ''txid'') @ newline @ ''Amount: ''
             @ fmtFull (jprop tx ''amount'') @ ''  CryLo'' @ newline @ ''Unlock: ''
             @ to_str (js_or (jprop tx ''unlock_time'') (jint 0)))]
          [Markup (''<div class=\"tx-type-badge '' @ tv_cls v @ ''\">'' @ tv_icon v
             @ ''</div><div class=\"tx-info\"><div class=\"tx-txid\">'' @ text_or (jprop tx ''txid'') ''(pending)''
             @ ''</div><div class=\"tx-meta\">'' @ where' @ '' '' @ mid_dot @ '' '' @ date
             @ (if \<not> nullish (jprop tx ''confirmations'') \<and> \<not> tv_pending v
                then '' '' @ mid_dot @ '' '' @ to_str (jprop tx ''confirmations'') @ '' conf'' else [])
             @ ''</div></div>'' @ tv_badge v @ ''<div class=\"tx-amount '' @ tv_amtCls v @ ''\">''
             @ tv_amtSign v @ fmt (jprop tx ''amount'') @ ''  CryLo</div>'')])))))"

definition empty_state :: "string \<Rightarrow> string \<Rightarrow> string" where
  "empty_state icon msg =
     ''<div class=\"empty-state\"><div class=\"empty-icon\">'' @ icon @ ''</div>'' @ msg @ ''</div>''"

definition merged_transfers :: "jsval \<Rightarrow> jsval list js" where
  "merged_transfers r =
     (bind (get_prop r ''in'') (\<lambda>i.
     bind (js_items (js_or i (Arr []))) (\<lambda>ins.
     bind (js_items (js_or (jprop r ''out'') (Arr []))) (\<lambda>outs.
     bind (js_items (js_or (jprop r ''pool'') (Arr []))) (\<lambda>pool.
     bind (js_items (js_or (jprop r ''pending'') (Arr []))) (\<lambda>pending.
     ret (ins @ outs @ pool @ pending)))))))"

definition loadTransactions :: "unit js" where
  "loadTransactions =
     (andthen (set_html ''tx-list-container''
         ''<div class=\"loading-row\"><div class=\"spinner\"></div> Loading transactions...</div>'')
     (bind (crylo_walletRpc (Str ''get_transfers'')
         (Obj [(''in'', Bool True), (''out'', Bool True), (''pending'', Bool True), (''failed'', Bool False),
               (''pool'', Bool True), (''coinbase'', Bool True)]) Undefined) (\<lambda>res.
     bind (get_prop res ''ok'') (\<lambda>ok.
     if \<not> truthy ok
       then set_html ''tx-list-container'' (empty_state warning_sign (to_str (jprop res ''error'')))
       else (bind (merged_transfers (jprop res ''result'')) (\<lambda>txs.
            if txs = [] then set_html ''tx-list-container'' (empty_state mailbox_sign ''No transactions yet'')
         else if list_ex nullish txs then throw (type_error ''Cannot read properties of a transfer'')
         else let sorted = js_sort by_height txs in
           (bind (fold_loop sorted [] (\<lambda>tx acc. (bind (tx_item (out_txids sorted) tx) (\<lambda>n.
           ret (acc @ [n]))))) (\<lambda>items.
           andthen (set_html ''tx-list-container'' [])
           (append_node ''tx-list-container'' (Element ''div'' [(''class'', ''tx-list'')] items))))))))))"

section \<open>Sending\<close>

definition cryloToAtomic :: "jsval \<Rightarrow> string outcome" where
  "cryloToAtomic amountText = decimalToAtomic amountText CRYLO_DECIMALS ''CRYLO''"

definition send_params :: "string \<Rightarrow> string \<Rightarrow> string \<Rightarrow> string \<Rightarrow> jsval" where
  "send_params addr amountAtomic pid note =
     Obj ([(''destinations'', Arr [Obj [(''amount'', Num (string_to_number amountAtomic)), (''address'', Str addr)]]),
           (''account_index'', jint 0)]
          @ (if pid \<noteq> [] then [(''payment_id'', Str pid)] else [])
          @ (if note \<noteq> [] then [(''tx_extra'', Str note)] else []))"

definition sendTx :: "unit js" where
  "sendTx =
     (bind (get_value ''send-addr'') (\<lambda>addr0.
     bind (get_value ''send-amount'') (\<lambda>amt0.
     bind (get_value ''send-pid'') (\<lambda>pid0.
     bind (get_value ''send-note'') (\<lambda>note0.
     let addr = trim addr0; amountText = trim amt0; pid = trim pid0; note = trim note0 in
     if addr = [] then toast ''Please enter a recipient address.'' ''error''
       else case cryloToAtomic (Str amountText) of
         Throw err \<Rightarrow> toast (text_or (jprop err ''message'') ''Please enter a valid amount.'') ''error''
       | Pending \<Rightarrow> lift_outcome Pending
       | Ok amountAtomic \<Rightarrow> (bind (crylo_confirm (Obj
             [(''title'', Str ''Confirm Send''),
              (''message'', Str (''Send '' @ amountText @ ''  CryLo to:'' @ newline @ addr @ newline @ newline
                 @ ''This cannot be undone.'')),
              (''buttons'', Arr [Str ''Send'', Str ''Cancel''])])) (\<lambda>confirmed.
           if \<not> truthy confirmed then ret ()
           else (andthen (set_disabled ''send-btn'' True)
                (andthen (set_text ''send-btn'' ''Sending...'')
                (bind (crylo_walletRpc (Str ''transfer'') (send_params addr amountAtomic pid note) Undefined) (\<lambda>res.
                andthen (set_disabled ''send-btn'' False)
                (andthen (set_text ''send-btn'' (''Send '' @ right_arrow))
                (bind (get_prop res ''ok'') (\<lambda>ok.
                if \<not> truthy ok then toast (''Send failed: '' @ to_str (jprop res ''error'')) ''error''
             else (bind (get_prop (jprop res ''result'') ''tx_hash'') (\<lambda>h.
                  andthen ((case h of
                  Str s \<Rightarrow> toast_for (''Sent! TXID: '' @ slice_first 16 s @ ''...'') ''success'' 6000
                | _ \<Rightarrow> throw (type_error ''tx_hash.slice is not a function'')))
                  (andthen (set_value ''send-addr'' [])
                  (andthen (set_value ''send-amount'' [])
                  (andthen (set_value ''send-pid'' [])
                  (andthen (set_value ''send-note'' [])
                  (set_timeout CbUpdateBalance 3000)))))))))))))))))))))"

definition sendMax :: "unit js" where
  "sendMax =
     (bind (gets (\<lambda>w. unlockedBalance (st w))) (\<lambda>b.
     if \<not> truthy (Num b) then ret ()
       else let fee = math_round (rnd (2 / 100) * COIN);
                maxAmount = math_max (Fin 0) (b - fee)
         in set_value ''send-amount'' (to_fixed 9 (maxAmount div COIN))))"

definition toggleAdvanced :: "unit js" where
  "toggleAdvanced =
     (bind (has_class ''advanced-fields'' ''hidden'') (\<lambda>h.
     if h
       then block [remove_class ''advanced-fields'' ''hidden'',
              set_text ''advanced-toggle'' (gear_sign @ '' Hide advanced options'')]
       else block [add_class ''advanced-fields'' ''hidden'',
              set_text ''advanced-toggle'' (gear_sign @ '' Advanced options'')]))"

section \<open>Consolidating\<close>

definition consolidate_confirm :: jsval where
  "consolidate_confirm = Obj
     [(''type'', Str ''question''), (''title'', Str ''Consolidate UTXOs''),
      (''message'', Str (''This will merge all your small inputs (UTXOs) into one large output by sending your entire balance to yourself.''
         @ newline @ newline
         @ ''This is needed when you have many small mining rewards and want to send large amounts.''
         @ newline @ newline @ ''A small network fee will be deducted.'' @ newline @ newline @ ''Proceed?'')),
      (''buttons'', Arr [Str ''Consolidate'', Str ''Cancel''])]"

text \<open>One tick of the interval that tracks the confirmations of a sweep; \<open>i\<close> is the interval.\<close>

definition confirm_poll :: "jsval \<Rightarrow> nat \<Rightarrow> unit js" where
  "confirm_poll txid i =
     try_catch
       (bind (crylo_walletRpc (Str ''get_transfer_by_txid'') (Obj [(''txid'', txid)]) Undefined) (\<lambda>txRes.
       bind (get_prop txRes ''ok'') (\<lambda>ok.
       let transfer = jprop (jprop txRes ''result'') ''transfer'' in
       if truthy ok \<and> truthy (jprop txRes ''result'') \<and> truthy transfer
         then let conf = js_or (jprop transfer ''confirmations'') (jint 0)
              in if js_lesseq (jint 4) conf
                 then block
                   [clear_interval i,
                    set_text ''consolidate-info''
                      (check_box @ '' Consolidation confirmed! ('' @ to_str conf @ '' blocks)''),
                    set_style ''consolidate-info'' ''color'' ''var(--success)'',
                    set_timeout CbHideConsolidateInfo 10000,
                    spawn_task updateBalance]
                 else set_text ''consolidate-info'' (''Confirming: '' @ to_str conf @ ''/4 blocks...'')
         else ret ())))
       (\<lambda>_. ret ())"

definition sweep :: "jsval \<Rightarrow> unit js" where
  "sweep myAddress =
     (bind (crylo_walletRpc (Str ''sweep_all'')
         (Obj [(''address'', myAddress), (''account_index'', jint 0)]) (jint 300000)) (\<lambda>res.
     bind (get_prop res ''ok'') (\<lambda>ok.
     if \<not> truthy ok
       then block [toast (''Consolidation failed: '' @ to_str (jprop res ''error'')) ''error'',
              set_text ''consolidate-info'' (''Failed: '' @ to_str (jprop res ''error''))]
       else (bind (get_prop (jprop res ''result'') ''tx_hash_list'') (\<lambda>l.
            let txList = js_or l (Arr []); txCount = js_or (jprop txList ''length'') (jint 1) in
            andthen (toast_for (''Consolidation sent! '' @ to_str txCount @ '' transaction(s). Tracking confirmations...'')
           ''success'' 8000)
            (andthen (set_text ''consolidate-info'' (to_str txCount @ '' tx sent. Waiting for 4 block confirmations (0/4)...''))
            (andthen (set_timeout CbUpdateBalance 5000)
            (if js_less (jint 0) (jprop txList ''length'')
         then (bind (gets next_timer) (\<lambda>i.
              bind (set_interval (CbConfirmPoll (elem_at txList 0) i) 30000) (\<lambda>_.
              ret ())))
         else ret ()))))))))"

definition consolidateUtxos :: "unit js" where
  "consolidateUtxos =
     (bind (crylo_walletRpc (Str ''get_address'') (Obj [(''account_index'', jint 0)]) Undefined) (\<lambda>addrRes.
     bind (get_prop addrRes ''ok'') (\<lambda>ok.
     if \<not> truthy ok
       then toast (''Failed to get wallet address: '' @ to_str (jprop addrRes ''error'')) ''error''
       else (bind (get_prop (jprop addrRes ''result'') ''address'') (\<lambda>myAddress.
            bind (crylo_confirm consolidate_confirm) (\<lambda>confirmed.
            if \<not> truthy confirmed then ret ()
         else (andthen (set_disabled ''consolidate-btn'' True)
              (andthen (set_text ''consolidate-btn'' (cycle_sign @ '' Consolidating...''))
              (andthen (set_style ''consolidate-info'' ''display'' ''block'')
              (andthen (set_text ''consolidate-info'' ''Sweeping all outputs to your address...'')
              (andthen (try_catch (sweep myAddress)
             (\<lambda>e. (bind (get_prop e ''message'') (\<lambda>m.
           andthen (toast (''Consolidation error: '' @ to_str m) ''error'')
                          (set_text ''consolidate-info'' (''Error: '' @ to_str m))))))
              (andthen (set_disabled ''consolidate-btn'' False)
              (set_text ''consolidate-btn'' (cycle_sign @ '' Consolidate UTXOs (merge small inputs)''))))))))))))))"

end
