(* ===== verification/AppVesting.thy ===== *)
theory AppVesting
  imports AppTransactions
begin

text \<open>
  The vesting table, src/electron/src/app.js lines 808 to 948.
\<close>

section \<open>Vesting rows\<close>

record vest_row =
  vr_txid :: jsval
  vr_blockH :: jsval
  vr_tier :: int
  vr_label :: string
  vr_cls :: string
  vr_amount :: jsnum
  vr_unlockH :: jsval
  vr_unlocked :: bool
  vr_blocksLeft :: jsnum
  vr_timestamp :: jsval

text \<open>One tier of a mined block: its number, label, class, amount and delay.\<close>

definition vest_row_of :: "jsval \<Rightarrow> jsval \<Rightarrow> int \<times> string \<times> string \<times> jsnum \<times> int \<Rightarrow> vest_row" where
  "vest_row_of curH tx tier =
     (case tier of (t, label, cls, amount, delay) \<Rightarrow>
        let blockH = js_or (jprop tx ''height'') (jint 0);
            unlockH = js_plus blockH (jint delay);
            unlocked = js_lesseq unlockH curH
        in \<lparr>vr_txid = jprop tx ''txid'', vr_blockH = blockH, vr_tier = t, vr_label = label, vr_cls = cls,
            vr_amount = amount, vr_unlockH = unlockH, vr_unlocked = unlocked,
            vr_blocksLeft = (if unlocked then Fin 0 else to_number unlockH - to_number curH),
            vr_timestamp = jprop tx ''timestamp''\<rparr>)"

definition crylo_tiers :: "jsval \<Rightarrow> (int \<times> string \<times> string \<times> jsnum \<times> int) list" where
  "crylo_tiers tx =
     (let amount = to_number (jprop tx ''amount'');
          instantAmount = math_floor (amount div Fin 2);
          vestedAmount = amount - instantAmount
      in [(1, ''Instant Miner'', ''t1'', instantAmount, 0),
          (2, ''45-Day Vested'', ''t2'', vestedAmount, 18514)])"

definition vest_rows :: "jsval \<Rightarrow> jsval list \<Rightarrow> vest_row list" where
  "vest_rows curH mined = concat (map (\<lambda>tx. map (vest_row_of curH tx) (crylo_tiers tx)) mined)"

text \<open>tierTotals[i], summed in the order of the blocks.\<close>

definition tier_total :: "nat \<Rightarrow> jsval list \<Rightarrow> jsnum" where
  "tier_total i mined =
     foldl (\<lambda>acc tx. acc + fst (snd (snd (snd (crylo_tiers tx ! i))))) (Fin 0) mined"

definition by_block_tier :: "vest_row \<Rightarrow> vest_row \<Rightarrow> jsnum" where
  "by_block_tier a b =
     (let d = to_number (vr_blockH b) - to_number (vr_blockH a)
      in if d = Fin 0 \<or> d = NaN then Fin (of_int (vr_tier a - vr_tier b)) else d)"

definition status_html :: "vest_row \<Rightarrow> string js" where
  "status_html r =
     (if vr_unlocked r then ret (''<span class=\"status-unlocked\">'' @ check_sign @ '' Unlocked</span>'')
      else (bind (locale_text (Num (vr_blocksLeft r))) (\<lambda>n.
           if vr_blocksLeft r < Fin 1000
        then ret (''<span class=\"status-locked\">'' @ lock_sign @ '' '' @ n @ '' blocks</span>'')
        else ret (''<span class=\"status-wait\">'' @ hourglass @ '' '' @ n @ '' blocks</span>''))))"

definition vest_row_node :: "vest_row \<Rightarrow> node js" where
  "vest_row_node r =
     (bind (status_html r) (\<lambda>s.
     bind (locale_text (vr_blockH r)) (\<lambda>b.
     bind (fmtDate (vr_timestamp r)) (\<lambda>d.
     bind (locale_text (vr_unlockH r)) (\<lambda>u.
     ret (Element ''tr'' [] [Markup
         (''<td>'' @ b @ ''</td><td>'' @ d @ ''</td><td><span class=\"tier-badge '' @ vr_cls r @ ''\">''
          @ vr_label r @ ''</span></td><td class=\"text-coin\">'' @ fmt (Num (vr_amount r))
          @ ''  CryLo</td><td>'' @ u @ ''</td><td>'' @ s @ ''</td>'')]))))))"

definition vest_head :: string where
  "vest_head =
     ''<thead><tr><th>Block</th><th>Date</th><th>Category</th><th>Amount</th><th>Unlock Block</th><th>Status</th></tr></thead>''"

definition show_vest_summary :: "jsnum \<Rightarrow> unit js" where
  "show_vest_summary minedTotal =
     (bind (crylo_walletRpc (Str ''get_balance'') (Obj [(''account_index'', jint 0)]) Undefined) (\<lambda>balRes.
     bind (get_prop balRes ''result'') (\<lambda>result.
     let bal = js_or (jprop result ''result'') (js_or result (Obj [])) in
     let realUnlocked = to_number (js_or (jprop bal ''unlocked_balance'') (jint 0)) in
     let realLocked = math_max (Fin 0) (minedTotal - realUnlocked) in
     andthen (set_text ''vest-t1'' (fmt (Num realUnlocked) @ ''  CryLo''))
     (set_text ''vest-t2'' (fmt (Num realLocked) @ ''  CryLo'')))))"

definition loadVesting :: "unit js" where
  "loadVesting =
     (andthen (set_html ''vesting-table-container''
         ''<div class=\"loading-row\"><div class=\"spinner\"></div> Loading vesting data...</div>'')
     (bind (crylo_walletRpc (Str ''get_transfers'')
         (Obj [(''in'', Bool True), (''out'', Bool False), (''pending'', Bool False), (''failed'', Bool False),
               (''pool'', Bool False), (''coinbase'', Bool True)]) Undefined) (\<lambda>res.
     bind (get_prop res ''ok'') (\<lambda>ok.
     if \<not> truthy ok
       then set_html ''vesting-table-container'' (empty_state warning_sign (to_str (jprop res ''error'')))
       else (bind (get_prop (jprop res ''result'') ''in'') (\<lambda>i.
            bind (js_items (js_or i (Arr []))) (\<lambda>allIn.
            if list_ex nullish allIn then throw (type_error ''Cannot read properties of a transfer'')
         else let mined = filter (\<lambda>tx. strict_eq (jprop tx ''type'') (Str ''block'')) allIn
           in if mined = []
              then block [set_html ''vesting-table-container'' (empty_state pick_sign ''No mined blocks found''),
                     set_text ''vest-t1'' ''0.0000  CryLo'', set_text ''vest-t2'' ''0.0000  CryLo'']
              else (bind (gets (\<lambda>w. currentHeight (st w))) (\<lambda>curH.
                   let t0 = tier_total 0 mined; t1 = tier_total 1 mined in
                   andthen (try_catch (show_vest_summary (t0 + t1))
                  (\<lambda>_. block (map (\<lambda>(t, n). set_text (''vest-t'' @ int_str (vt_tier t)) (fmt (Num n) @ ''  CryLo''))
                               (zip VESTING_TIERS [t0, t1]))))
                   (bind (fold_loop (js_sort by_block_tier (vest_rows curH mined)) []
                  (\<lambda>r acc. (bind (vest_row_node r) (\<lambda>n.
                                   ret (acc @ [n]))))) (\<lambda>rows.
                   andthen (set_html ''vesting-table-container'' [])
                   (append_node ''vesting-table-container''
                  (Element ''div'' [(''class'', ''vesting-table-wrap'')]
                     [Element ''table'' [(''class'', ''vesting-table'')] [Markup vest_head, Element ''tbody'' [] rows]])))))))))))))"

end
