(* ===== verification/AppMining.thy ===== *)
theory AppMining
  imports AppVesting
begin

text \<open>
  The mining tab, src/electron/src/app.js lines 1018 to 1188: detecting the machine, starting and
  stopping the daemon's miner, and the status poll.
\<close>

definition initMiningTab :: "unit js" where
  "initMiningTab =
     (bind wallet_address (\<lambda>a.
     andthen (do_if (\<not> truthy a) loadAddress)
     (bind wallet_address (\<lambda>a.
     andthen (do_if (has_el ''mining-address'' \<and> truthy a) (set_value ''mining-address'' (to_str a)))
     (try_catch
         (bind crylo_minerGetInfo (\<lambda>s.
         bind (get_prop s ''totalMemMB'') (\<lambda>mb.
         let totalMB = js_or mb (jint 0); cpus = js_or (jprop s ''cpuCount'') (jint 4) in
         let maxByMem = math_max (Fin 1) (math_floor (to_number totalMB div Fin 300)) in
         let maxThreads = math_min (to_number cpus) maxByMem in
         let recommended = math_max (Fin 1) (math_floor (maxThreads div Fin 2)) in
         andthen (do_if (has_el ''mining-threads'')
             (block [set_attr ''mining-threads'' ''max'' (num_to_string maxThreads),
                     set_value ''mining-threads'' (num_to_string recommended),
                     set_text ''mining-threads-val'' (num_to_string recommended)]))
         (set_text_if ''mining-mem-info''
             (to_str totalMB @ '' MB RAM '' @ em_dash @ '' max '' @ num_to_string maxThreads @ '' threads'')))))
         (\<lambda>_. set_text_if ''mining-mem-info'' ''click to detect''))))))"

definition stopMining :: "unit js" where
  "stopMining =
     (bind (gets (\<lambda>w. miningStatusTimer (st w))) (\<lambda>t.
     andthen ((case t of None \<Rightarrow> ret ()
        | Some i \<Rightarrow> block [clear_interval i, set_state (\<lambda>s. s\<lparr>miningStatusTimer := None\<rparr>)]))
     (andthen (try_catch ((bind crylo_minerStop (\<lambda>_.
                  ret ()))) (\<lambda>_. ret ()))
     (andthen (set_state (\<lambda>s. s\<lparr>miningActive := False, miningStartHeight := Null\<rparr>))
     (andthen (set_text_if ''mining-stat-blocks-found'' ''0'')
     (andthen (set_text ''mining-btn'' (pick_sign @ '' Start Mining''))
     (andthen (set_class_name ''mining-btn'' ''btn btn-primary'')
     (andthen (set_text ''mining-status'' ''Miner stopped'')
     (andthen (set_style ''mining-status'' ''color'' ''var(--text-dim)'')
     (andthen (set_style ''mining-hashrate'' ''display'' ''none'')
     (andthen (do_if (has_el ''mining-stats'') (set_style ''mining-stats'' ''display'' ''none''))
     (do_if (has_el ''mining-mode'') (set_style ''mining-mode'' ''display'' ''none'')))))))))))))"

text \<open>The block reward of the status or of the chain information: \<open>s.blockReward || info.result.block_reward || 0\<close>.\<close>

definition reward_atomic :: "jsval \<Rightarrow> jsval \<Rightarrow> jsnum js" where
  "reward_atomic s info =
     (if truthy (jprop s ''blockReward'') then ret (to_number (jprop s ''blockReward''))
      else (bind (get_prop (jprop info ''result'') ''block_reward'') (\<lambda>r.
           ret (to_number (js_or r (jint 0))))))"

definition show_mining_estimate :: "jsval \<Rightarrow> jsval \<Rightarrow> jsnum \<Rightarrow> unit js" where
  "show_mining_estimate s info networkHashrate =
     (let minerHashrate = num_or_zero (jprop s ''hashrate'')
      in if Fin 0 < minerHashrate
         then let expectedSecondsPerBlock = (networkHashrate div minerHashrate) * Fin 210;
                  blocksPerDay = Fin 86400 div expectedSecondsPerBlock
              in (andthen (set_text ''mining-stat-est-block-time'' (fmtDuration (Num expectedSecondsPerBlock)))
                 (andthen (set_text ''mining-stat-blocks-day'' (to_fixed 4 blocksPerDay))
                 (bind (reward_atomic s info) (\<lambda>rewardAtomic.
                 set_text ''mining-stat-daily-rewards''
                  (to_fixed 4 (blocksPerDay * (rewardAtomic div COIN)) @ '' CryLo'')))))
         else block [set_text ''mining-stat-est-block-time'' em_dash, set_text ''mining-stat-blocks-day'' em_dash,
                set_text ''mining-stat-daily-rewards'' em_dash])"

definition show_chain_info :: "jsval \<Rightarrow> jsval \<Rightarrow> unit js" where
  "show_chain_info s info =
     (bind (get_prop (jprop info ''result'') ''height'') (\<lambda>h.
     let height = js_or h (jint 0); difficulty = js_or (jprop (jprop info ''result'') ''difficulty'') (jint 0) in
     bind (locale_text height) (\<lambda>ht.
     andthen (set_text ''mining-stat-height'' ht)
     (bind (locale_text difficulty) (\<lambda>dt.
     andthen (set_text ''mining-stat-difficulty'' dt)
     (let networkHashrate = to_number difficulty div Fin 210 in
     andthen (set_text ''mining-stat-network-hashrate'' (fmtHashrate networkHashrate))
     (andthen (show_mining_estimate s info networkHashrate)
     (bind (gets (\<lambda>w. miningStartHeight (st w))) (\<lambda>start.
     andthen (do_if (start = Null) (set_state (\<lambda>st'. st'\<lparr>miningStartHeight := height\<rparr>)))
     (bind (gets (\<lambda>w. miningStartHeight (st w))) (\<lambda>start.
     bind (locale_text (Num (math_max (Fin 0) (to_number height - to_number start)))) (\<lambda>bt.
     set_text_if ''mining-stat-blocks-found'' bt))))))))))))"

text \<open>One tick of the status interval.\<close>

definition mining_tick :: "unit js" where
  "mining_tick =
     try_catch
       (bind crylo_minerGetStatus (\<lambda>s.
       bind (get_prop s ''running'') (\<lambda>running.
       if \<not> truthy running then spawn_task stopMining
         else (andthen (set_text ''mining-status'' ''Mining active'')
              (andthen (set_style ''mining-status'' ''color'' ''var(--success)'')
              (andthen (set_text ''mining-hashrate'' (to_str (jprop s ''hashrate'') @ '' H/s''))
              (bind (crylo_daemonRpc (Str ''get_info'') Undefined) (\<lambda>info.
              bind (get_prop info ''ok'') (\<lambda>ok.
              andthen (do_if (truthy ok) (show_chain_info s info))
              (bind (reward_atomic s info) (\<lambda>rewardAtomic.
              andthen (set_text ''mining-stat-reward'' (fmt (Num rewardAtomic) @ '' CryLo''))
              (set_style ''mining-mode'' ''display'' ''block''))))))))))))
       (\<lambda>_. ret ())"

definition startMining :: "unit js" where
  "startMining =
     (bind (get_value ''mining-address'') (\<lambda>a.
     bind (get_value ''mining-worker'') (\<lambda>wk.
     bind (get_value ''mining-pool'') (\<lambda>pl.
     bind (get_value ''mining-threads'') (\<lambda>th.
     let addr = trim a; worker = (if trim wk = [] then ''desktop'' else trim wk); pool = trim pl in
     let threads = js_or (Num (parse_int th)) (jint 2) in
     if addr = [] \<or> length addr < 20 then toast ''Enter a valid CryLo wallet address'' ''error''
       else try_catch
         (bind (crylo_minerStart (Obj [(''walletAddress'', Str addr), (''workerName'', Str worker),
                  (''poolUrl'', Str pool), (''threads'', threads)])) (\<lambda>r.
         bind (get_prop r ''ok'') (\<lambda>ok.
         if \<not> truthy ok then throw (new_error (jprop r ''error''))
           else (andthen (set_state (\<lambda>s. s\<lparr>miningActive := True\<rparr>))
                (andthen (set_text ''mining-btn'' (stop_button @ '' Stop Mining''))
                (andthen (set_class_name ''mining-btn'' ''btn btn-secondary'')
                (andthen (set_text ''mining-status'' ''Miner starting...'')
                (andthen (set_style ''mining-status'' ''color'' ''var(--warning)'')
                (andthen (set_style ''mining-hashrate'' ''display'' ''block'')
                (andthen (set_style ''mining-stats'' ''display'' ''block'')
                (andthen (set_text ''mining-stat-threads'' (to_str threads))
                (bind (set_interval CbMiningStatus 5000) (\<lambda>i.
                set_state (\<lambda>s. s\<lparr>miningStatusTimer := Some i\<rparr>))))))))))))))
         (\<lambda>err. (bind (get_prop err ''message'') (\<lambda>m.
                        toast (''Failed to start miner: '' @ to_str m) ''error''))))))))"

definition toggleMining :: "unit js" where
  "toggleMining =
     (bind (gets (\<lambda>w. miningActive (st w))) (\<lambda>active.
     if active then stopMining else startMining))"

end
