(* ===== verification/AppActions.thy ===== *)
theory AppActions
  imports AppMining
begin

text \<open>
  The user's actions on the Nexus chain, src/electron/src/app.js lines 1189 to 1253, 1695 to 1761, 1853
  to 2079, 2116 to 2233 and 2281 to 2335: the gas check in front of an action, staking, nodes, gas and
  NFTs. window.confirm is a synchronous question to the user.
\<close>

section \<open>The gas check\<close>

definition gas_question :: "string \<Rightarrow> jsnum \<Rightarrow> jsnum \<Rightarrow> jsnum \<Rightarrow> string" where
  "gas_question actionLabel currentGas neededGas wcryloNeeded =
     ''Not enough Nexus gas for '' @ actionLabel @ ''.'' @ newline @ newline
     @ ''Current gas: '' @ to_fixed 6 currentGas @ '' CRYLO (GAS)'' @ newline
     @ ''Estimated needed: '' @ to_fixed 6 neededGas @ '' CRYLO (GAS)'' @ newline @ newline
     @ ''Add about '' @ num_to_string wcryloNeeded @ '' wCRYLO for gas and continue?'' @ newline @ newline
     @ ''For reliability, make sure you have at least double this suggested amount available in wCRYLO.''"

definition wcrylo_needed :: "jsnum \<Rightarrow> jsnum \<Rightarrow> jsnum" where
  "wcrylo_needed neededGas currentGas =
     (let shortfall = math_max (Fin 0) (neededGas - currentGas)
      in math_ceil ((shortfall + rnd (5 / 1000)) * Fin 100000) div Fin 100000)"

definition ensureNexusGasForAction :: "string \<Rightarrow> jsnum \<Rightarrow> jsval js" where
  "ensureNexusGasForAction actionLabel estimatedGasCryLo =
     (bind getLinkedNexusAddress (\<lambda>linkedAddress.
     if \<not> truthy linkedAddress then ret (error_reply (Str ''No bound Nexus wallet.''))
       else (bind (crylo_nexusGasStatus linkedAddress) (\<lambda>status.
            bind (get_prop status ''ok'') (\<lambda>ok.
            if \<not> truthy ok
         then ret (error_reply (js_or (jprop status ''error'') (Str ''Unable to check Nexus gas.'')))
         else let currentGas = to_number (js_or (jprop status ''nativeGas'') (jint 0));
                  neededGas = to_number (js_or (Num estimatedGasCryLo) (Num (rnd (3 / 100))))
           in if neededGas \<le> currentGas then ret (ok_reply [(''toppedUp'', Bool False)])
              else let wcryloNeeded = wcrylo_needed neededGas currentGas in
           (bind (sync_call (BrowserConfirm (gas_question actionLabel currentGas neededGas wcryloNeeded))) (\<lambda>yes.
           if \<not> truthy yes
                then ret (Obj [(''ok'', Bool False), (''cancelled'', Bool True),
                       (''error'', Str ''User cancelled gas top-up.'')])
                else (bind wallet_name (\<lambda>n.
                     bind wallet_address (\<lambda>a.
                     bind (crylo_nexusBuyGasWithWcrylo (Str (num_to_string wcryloNeeded)) n a) (\<lambda>buy.
                     bind (get_prop buy ''ok'') (\<lambda>bok.
                     if \<not> truthy bok
                  then ret (error_reply (js_or (jprop buy ''error'') (Str ''Gas top-up failed.'')))
                  else (andthen refreshNexusGasStatus
                       (andthen refreshNexusWcryloBalance
                       (ret (ok_reply [(''toppedUp'', Bool True), (''txHash'', jprop buy ''txHash''),
                      (''wcryloUsed'', Num wcryloNeeded)]))))))))))))))))"

text \<open>What an action shows when the check fails.\<close>

definition gas_failure :: "string \<Rightarrow> string \<Rightarrow> jsval \<Rightarrow> string" where
  "gas_failure cancelled failed gasCheck =
     (if truthy (jprop gasCheck ''cancelled'') then cancelled
      else failed @ to_str (jprop gasCheck ''error''))"

section \<open>Staking\<close>

text \<open>The twelve delayed refreshes in the order they are set.\<close>

definition later_refreshes :: "unit js" where
  "later_refreshes =
     (let round = (\<lambda>ms. [set_timeout CbRefreshWcrylo ms, set_timeout CbRefreshStaked ms,
                          set_timeout CbRefreshPending ms])
      in block (round 5000 @ round 15000 @ round 5000 @ round 15000))"

definition after_staking :: "unit js" where
  "after_staking =
     block [refreshNexusWcryloBalance, refreshNexusStakedBalance, refreshNexusPendingRewards, later_refreshes]"

definition available_wcrylo :: "string \<Rightarrow> jsnum" where
  "available_wcrylo t =
     (let ds = filter (\<lambda>c. is_digit c \<or> c = CHR ''.'') (if t = [] then ''0'' else t)
      in if ds = [] then Fin 0 else string_to_number ds)"

definition invalid_amount :: "string \<Rightarrow> bool" where
  "invalid_amount amount \<longleftrightarrow> amount = [] \<or> string_to_number amount \<le> Fin 0"

definition stakeNexusWcrylo :: "unit js" where
  "stakeNexusWcrylo =
     (bind (get_value ''nexus-stake-amount'') (\<lambda>v.
     let amount = trim v in
     if invalid_amount amount then set_text ''nexus-staking-status'' ''Enter a valid staking amount.''
       else (bind (get_text ''bal-wcrylo'') (\<lambda>t.
            let available = available_wcrylo t in
            if available < string_to_number amount
         then set_text ''nexus-staking-status''
                (''Stake failed: only '' @ to_fixed 4 available @ '' wCRYLO available.'')
         else (andthen (set_text ''nexus-staking-status'' ''Checking Nexus gas for staking...'')
              (bind (ensureNexusGasForAction ''staking'' (rnd (4 / 100))) (\<lambda>gasCheck.
              bind (get_prop gasCheck ''ok'') (\<lambda>ok.
              if \<not> truthy ok
           then set_text ''nexus-staking-status'' (gas_failure ''Stake cancelled.'' ''Stake failed: '' gasCheck)
           else (andthen (set_text ''nexus-staking-status'' (''Staking '' @ amount @ '' wCRYLO...''))
                (try_catch
               (bind wallet_name (\<lambda>n.
               bind wallet_address (\<lambda>a.
               bind (crylo_nexusStakeWcrylo (Str amount) n a) (\<lambda>result.
               bind (get_prop result ''ok'') (\<lambda>rok.
               if \<not> truthy rok
                 then (bind (name_includes (js_or (jprop result ''error'') (Str [])) ''insufficient funds'') (\<lambda>broke.
                      set_text ''nexus-staking-status'' (''Stake failed: ''
                     @ (if broke then ''Bound Nexus wallet needs gas for staking transactions.''
                        else text_or (jprop result ''error'') ''Unknown error''))))
                 else block [set_text ''nexus-staking-status'' (''Staked '' @ amount @ '' wCRYLO successfully.''),
                        set_value ''nexus-stake-amount'' [], after_staking])))))
               (\<lambda>_. set_text ''nexus-staking-status'' ''Stake failed.'')))))))))))"

definition unstakeNexusWcrylo :: "unit js" where
  "unstakeNexusWcrylo =
     (bind (get_value ''nexus-stake-amount'') (\<lambda>v.
     let amount = trim v in
     if invalid_amount amount then set_text ''nexus-staking-status'' ''Enter a valid unstaking amount.''
       else (andthen (set_text ''nexus-staking-status'' ''Checking Nexus gas for unstaking...'')
            (bind (ensureNexusGasForAction ''unstaking'' (rnd (4 / 100))) (\<lambda>gasCheck.
            bind (get_prop gasCheck ''ok'') (\<lambda>ok.
            if \<not> truthy ok
         then set_text ''nexus-staking-status'' (gas_failure ''Unstake cancelled.'' ''Unstake failed: '' gasCheck)
         else (andthen (set_text ''nexus-staking-status'' (''Unstaking '' @ amount @ '' wCRYLO...''))
              (try_catch
             (bind wallet_name (\<lambda>n.
             bind wallet_address (\<lambda>a.
             bind (crylo_nexusUnstakeWcrylo (Str amount) n a) (\<lambda>result.
             bind (get_prop result ''ok'') (\<lambda>rok.
             if \<not> truthy rok
               then (bind (name_includes (js_or (jprop result ''error'') (Str [])) ''insufficient funds'') (\<lambda>broke.
                    set_text ''nexus-staking-status'' (''Unstake failed: ''
                   @ (if broke then ''Bound Nexus wallet needs gas for unstaking transactions.''
                      else text_or (jprop result ''error'') ''Unknown error''))))
               else block [set_text ''nexus-staking-status'' (''Unstaked '' @ amount @ '' wCRYLO successfully.''),
                      set_value ''nexus-stake-amount'' [], after_staking])))))
             (\<lambda>_. set_text ''nexus-staking-status'' ''Unstake failed.'')))))))))"

definition claimNexusRewards :: "unit js" where
  "claimNexusRewards =
     (andthen (set_text ''nexus-staking-status'' ''Checking Nexus gas for staking reward claim...'')
     (bind (ensureNexusGasForAction ''claiming staking rewards'' (rnd (3 / 100))) (\<lambda>gasCheck.
     bind (get_prop gasCheck ''ok'') (\<lambda>ok.
     if \<not> truthy ok
       then set_text ''nexus-staking-status'' (gas_failure ''Claim cancelled.'' ''Claim failed: '' gasCheck)
       else (andthen (set_text ''nexus-staking-status'' ''Claiming staking rewards...'')
            (try_catch
           (bind wallet_name (\<lambda>n.
           bind wallet_address (\<lambda>a.
           bind (crylo_nexusClaimRewards n a) (\<lambda>result.
           bind (get_prop result ''ok'') (\<lambda>rok.
           if \<not> truthy rok
             then let errorText = to_lower (text_or (jprop result ''error'') [])
                  in if str_includes errorText ''no rewards''
                     then set_text ''nexus-staking-status'' ''No rewards available to claim.''
                     else set_text ''nexus-staking-status''
                            (''Claim failed: '' @ text_or (jprop result ''error'') ''Unknown error'')
             else block [set_text ''nexus-staking-status'' ''Staking rewards claimed successfully.'', after_staking])))))
           (\<lambda>_. set_text ''nexus-staking-status'' ''Claim failed.'')))))))"

section \<open>Nodes\<close>

definition registerNexusOperator :: "unit js" where
  "registerNexusOperator =
     (andthen (set_text ''nexus-node-action-status'' ''Registering Operator node with 300 wCRYLO...'')
     (try_catch
         (bind wallet_name (\<lambda>n.
         bind wallet_address (\<lambda>a.
         bind (crylo_nexusRegisterOperator n a) (\<lambda>result.
         bind (get_prop result ''ok'') (\<lambda>rok.
         if \<not> truthy rok
           then set_text ''nexus-node-action-status''
                  (''Operator registration failed: '' @ text_or (jprop result ''error'') ''Unknown error'')
           else block [set_text ''nexus-node-action-status'' ''Operator node registered successfully.'',
                  refreshNexusWcryloBalance, refreshNexusNodeStatus])))))
         (\<lambda>_. set_text ''nexus-node-action-status'' ''Operator registration failed.'')))"

definition registerNexusValidator :: "unit js" where
  "registerNexusValidator =
     (andthen (set_text ''nexus-node-action-status'' ''Registering Validator node with 750 wCRYLO...'')
     (try_catch
         (bind wallet_name (\<lambda>n.
         bind wallet_address (\<lambda>a.
         bind (crylo_nexusRegisterValidator n a) (\<lambda>result.
         bind (get_prop result ''ok'') (\<lambda>rok.
         if \<not> truthy rok
           then set_text ''nexus-node-action-status''
                  (''Validator registration failed: '' @ text_or (jprop result ''error'') ''Unknown error'')
           else block [set_text ''nexus-node-action-status'' ''Validator node registered successfully.'',
                  refreshNexusWcryloBalance, refreshNexusNodeStatus])))))
         (\<lambda>_. set_text ''nexus-node-action-status'' ''Validator registration failed.'')))"

definition unregisterNexusNode :: "unit js" where
  "unregisterNexusNode =
     (bind (sync_call (BrowserConfirm (''Deregister this Nexus node?'' @ newline @ newline
         @ ''Your staked wCRYLO and available node rewards will be returned.''))) (\<lambda>yes.
     if \<not> truthy yes then ret ()
       else (andthen (set_text ''nexus-node-action-status'' ''Checking Nexus gas for node deregistration...'')
            (bind (ensureNexusGasForAction ''node deregistration'' (rnd (4 / 100))) (\<lambda>gasCheck.
            bind (get_prop gasCheck ''ok'') (\<lambda>ok.
            if \<not> truthy ok
         then set_text ''nexus-node-action-status''
                (gas_failure ''Node deregistration cancelled.'' ''Node deregistration failed: '' gasCheck)
         else (andthen (set_text ''nexus-node-action-status'' ''Deregistering node...'')
              (try_catch
             (bind wallet_name (\<lambda>n.
             bind wallet_address (\<lambda>a.
             bind (crylo_nexusUnregisterNode n a) (\<lambda>result.
             bind (get_prop result ''ok'') (\<lambda>rok.
             if \<not> truthy rok
               then set_text ''nexus-node-action-status''
                      (''Node deregistration failed: '' @ text_or (jprop result ''error'') ''Unknown error'')
               else block [set_text ''nexus-node-action-status'' ''Node deregistered successfully.'',
                      refreshNexusWcryloBalance, refreshNexusNodeStatus])))))
             (\<lambda>_. set_text ''nexus-node-action-status'' ''Node deregistration failed.'')))))))))"

definition claimNexusNodeRewards :: "unit js" where
  "claimNexusNodeRewards =
     (andthen (set_text ''nexus-node-action-status'' ''Checking Nexus gas for node reward claim...'')
     (bind (ensureNexusGasForAction ''claiming node rewards'' (rnd (3 / 100))) (\<lambda>gasCheck.
     bind (get_prop gasCheck ''ok'') (\<lambda>ok.
     if \<not> truthy ok
       then set_text ''nexus-node-action-status''
              (gas_failure ''Node reward claim cancelled.'' ''Node reward claim failed: '' gasCheck)
       else (andthen (set_text ''nexus-node-action-status'' ''Claiming node rewards...'')
            (try_catch
           (bind wallet_name (\<lambda>n.
           bind wallet_address (\<lambda>a.
           bind (crylo_nexusClaimNodeRewards n a) (\<lambda>result.
           bind (get_prop result ''ok'') (\<lambda>rok.
           if \<not> truthy rok
             then let errorText = to_lower (text_or (jprop result ''error'') [])
                  in if str_includes errorText ''no rewards'' \<or> str_includes errorText ''execution reverted''
                     then set_text ''nexus-node-action-status'' ''No node rewards available to claim.''
                     else set_text ''nexus-node-action-status''
                            (''Node reward claim failed: '' @ text_or (jprop result ''error'') ''Unknown error'')
             else block [set_text ''nexus-node-action-status'' ''Node rewards claimed successfully.'',
                    refreshNexusWcryloBalance, refreshNexusNodeStatus])))))
           (\<lambda>_. set_text ''nexus-node-action-status'' ''Node reward claim failed.'')))))))"

section \<open>Gas\<close>

definition claimNexusDailyGas :: "unit js" where
  "claimNexusDailyGas =
     (andthen (set_text_if ''nexus-gas-action-status'' ''Claiming daily gas...'')
     (try_catch
         (bind wallet_name (\<lambda>n.
         bind wallet_address (\<lambda>a.
         bind (crylo_nexusClaimDailyGas n a) (\<lambda>result.
         bind (get_prop result ''ok'') (\<lambda>rok.
         if \<not> truthy rok
           then let err = to_lower (text_or (jprop result ''error'') [])
                in set_text_if ''nexus-gas-action-status''
                     (if str_includes err ''daily gas unavailable'' \<or> str_includes err ''execution reverted''
                      then ''Daily gas is not available yet. Wait for the 24-hour cooldown or perform a Nexus activity if inactive.''
                      else ''Claim failed: '' @ text_or (jprop result ''error'') ''Unknown error'')
           else block [set_text_if ''nexus-gas-action-status''
                    (''Daily gas claimed: '' @ to_str (jprop result ''txHash'')), refreshNexusGasStatus])))))
         (\<lambda>_. set_text_if ''nexus-gas-action-status'' ''Claim failed.'')))"

definition buyNexusGasWithWcrylo :: "unit js" where
  "buyNexusGasWithWcrylo =
     (bind ((if has_el ''nexus-buy-gas-amount'' then get_value ''nexus-buy-gas-amount'' else ret [])) (\<lambda>v.
     let amount = trim v in
     if invalid_amount amount then set_text_if ''nexus-gas-action-status'' ''Enter a valid wCRYLO amount.''
       else (andthen (set_text_if ''nexus-gas-action-status'' (''Buying gas with '' @ amount @ '' wCRYLO...''))
            (try_catch
           (bind wallet_name (\<lambda>n.
           bind wallet_address (\<lambda>a.
           bind (crylo_nexusBuyGasWithWcrylo (Str amount) n a) (\<lambda>result.
           bind (get_prop result ''ok'') (\<lambda>rok.
           if \<not> truthy rok
             then set_text_if ''nexus-gas-action-status''
                    (''Buy gas failed: '' @ text_or (jprop result ''error'') ''Unknown error'')
             else block
               [do_if (has_el ''nexus-buy-gas-amount'') (set_value ''nexus-buy-gas-amount'' []),
                set_text_if ''nexus-gas-action-status'' (''Gas purchased: '' @ to_str (jprop result ''txHash'')),
                refreshNexusGasStatus, refreshNexusWcryloBalance])))))
           (\<lambda>_. set_text_if ''nexus-gas-action-status'' ''Buy gas failed.'')))))"

section \<open>NFTs\<close>

definition nft_html :: "jsval \<Rightarrow> string js" where
  "nft_html nft =
     (bind (get_prop nft ''tokenId'') (\<lambda>i.
     let eligible = truthy (jprop nft ''eligible'') in
     ret (''<div class=\"card\" style=\"margin-bottom:12px\"><div><strong>NFT #'' @ to_str i
         @ ''</strong></div><div>Mint Code: '' @ to_str (jprop nft ''code'')
         @ ''</div><div>Eligible: '' @ (if eligible then ''YES'' else ''NO'')
         @ ''</div><div>Pool Balance: '' @ to_str (jprop nft ''codePool'')
         @ '' wCRYLO</div><div>Redeemed: '' @ to_str (jprop nft ''redeemed'') @ ''</div>''
         @ (if eligible
            then ''<button class=\"btn btn-primary nexus-buyback-btn\" style=\"margin-top:10px\" data-token-id=\"''
                 @ to_str i @ ''\">Buy Back NFT</button>''
            else ''<button class=\"btn btn-secondary nexus-burn-btn\" style=\"margin-top:10px\" data-token-id=\"''
                 @ to_str i @ ''\">Burn NFT</button>'')
         @ ''</div>'')))"

text \<open>The catch block names \<open>openBtn\<close>, which is declared nowhere.\<close>

definition loadNexusBuyback :: "unit js" where
  "loadNexusBuyback =
     (bind (get_value ''nexus-linked-address'') (\<lambda>v.
     let linkedAddress = trim v in
     if linkedAddress = [] then set_text ''nexus-status'' ''No Nexus wallet linked.''
       else (andthen (set_text ''nexus-status'' ''Scanning CryLo Nexus NFTs...'')
            (andthen (set_html ''nexus-nft-list'' [])
            (try_catch
           (bind (crylo_nexusScanNfts (Str linkedAddress)) (\<lambda>result.
           bind (get_prop result ''ok'') (\<lambda>ok.
           if \<not> truthy ok then set_text ''nexus-status'' (text_or (jprop result ''error'') ''Scan failed.'')
             else (bind (get_prop (jprop result ''nfts'') ''length'') (\<lambda>n.
                  andthen (set_text ''nexus-status'' (''Found '' @ to_str n @ '' NFT(s) | Vault: ''
                 @ to_str (jprop result ''vaultBalance'') @ '' wCRYLO''))
                  (bind (js_items (jprop result ''nfts'')) (\<lambda>nfts.
                  bind (fold_loop nfts [] (\<lambda>nft acc. (bind (nft_html nft) (\<lambda>h.
           ret (acc @ h))))) (\<lambda>html.
                  set_html ''nexus-nft-list'' (if html = [] then ''<div class=\"card\">No NFTs found.</div>'' else html)))))))))
           (\<lambda>_. throw (reference_error ''openBtn'')))))))"

definition buyBackNexusNFT :: "jsval \<Rightarrow> unit js" where
  "buyBackNexusNFT tokenId =
     (andthen (set_text ''nexus-status'' (''Processing buyback for NFT #'' @ to_str tokenId @ ''...''))
     (bind (ensureNexusGasForAction ''NFT buyback'' (rnd (6 / 100))) (\<lambda>gasCheck.
     bind (get_prop gasCheck ''ok'') (\<lambda>ok.
     if \<not> truthy ok
       then set_text ''nexus-status'' (gas_failure ''Buyback cancelled.'' ''Buyback failed: '' gasCheck)
       else try_catch
         (bind wallet_name (\<lambda>n.
         bind wallet_address (\<lambda>a.
         bind (crylo_nexusBuyBackNft tokenId n a) (\<lambda>result.
         bind (get_prop result ''ok'') (\<lambda>rok.
         andthen (do_if (\<not> truthy rok)
             (set_text ''nexus-status'' (''Buyback failed for NFT #'' @ to_str tokenId @ '': ''
               @ text_or (jprop result ''error'') ''Unknown error'')))
         (andthen (set_text ''nexus-status'' (''Buyback completed for NFT #'' @ to_str tokenId @ ''. Refreshing NFT list...''))
         (andthen loadNexusBuyback
         (set_text ''nexus-status'' (''Buyback completed for NFT #'' @ to_str tokenId @ ''.'')))))))))
         (\<lambda>_. set_text ''nexus-status'' ''Buyback failed.'')))))"

definition burnNexusNFT :: "jsval \<Rightarrow> unit js" where
  "burnNexusNFT tokenId =
     (andthen (set_text ''nexus-status'' (''Burning NFT #'' @ to_str tokenId @ ''...''))
     (bind (ensureNexusGasForAction ''NFT burn'' (rnd (5 / 100))) (\<lambda>gasCheck.
     bind (get_prop gasCheck ''ok'') (\<lambda>ok.
     if \<not> truthy ok
       then set_text ''nexus-status'' (gas_failure ''Burn cancelled.'' ''Burn failed: '' gasCheck)
       else try_catch
         (bind wallet_name (\<lambda>n.
         bind wallet_address (\<lambda>a.
         bind (crylo_nexusBurnNft tokenId n a) (\<lambda>result.
         bind (get_prop result ''ok'') (\<lambda>rok.
         if \<not> truthy rok
           then set_text ''nexus-status'' (''Burn failed for NFT #'' @ to_str tokenId @ '': ''
                  @ text_or (jprop result ''error'') ''Unknown error'')
           else block
             [set_text ''nexus-status'' (''NFT #'' @ to_str tokenId @ '' burned successfully. Refreshing NFT list...''),
              loadNexusBuyback,
              set_text ''nexus-status'' (''NFT #'' @ to_str tokenId
                @ '' burned successfully. Burn refund will be processed if eligible.'')])))))
         (\<lambda>_. set_text ''nexus-status'' (''Burn failed for NFT #'' @ to_str tokenId))))))"

end
