(* ===== verification/AppMain.thy ===== *)
theory AppMain
  imports AppActions
begin

text \<open>
  The main screen and the bridge, src/electron/src/app.js lines 342 to 390 and 1365 to 1692.
\<close>

section \<open>Refreshing\<close>

definition refreshActiveTab :: "unit js" where
  "refreshActiveTab =
     (bind (gets (\<lambda>w. activeTab (st w))) (\<lambda>tab.
     if tab = ''transactions'' then loadTransactions
       else if tab = ''vesting'' then loadVesting
       else if tab = ''receive'' then loadAddress
       else ret ()))"

definition refreshAll :: "unit js" where
  "refreshAll =
     (bind (promise_all [updateSyncStatus, updateBalance, refreshNexusWcryloBalance,
              refreshNexusStakedBalance, refreshNexusPendingRewards, refreshActiveTab]) (\<lambda>_.
     ret ()))"

text \<open>\<open>initialLoad\<close> with the number of loads made before.\<close>

definition initial_load :: "nat \<Rightarrow> unit js" where
  "initial_load initAttempts =
     (andthen refreshAll
     (do_if (Suc initAttempts < 5) (set_timeout (CbInitialLoad (Suc initAttempts)) 2000)))"

definition block_poll :: "unit js" where
  "block_poll =
     (bind (crylo_daemonRpc (Str ''get_info'') Undefined) (\<lambda>res.
     bind (get_prop res ''ok'') (\<lambda>ok.
     if \<not> truthy ok then ret ()
       else (bind (get_prop (jprop res ''result'') ''height'') (\<lambda>h.
            let newHeight = js_or h (jint 0) in
            bind (gets (\<lambda>w. currentHeight (st w))) (\<lambda>cur.
            if js_less cur newHeight
         then block [set_state (\<lambda>s. s\<lparr>currentHeight := newHeight\<rparr>), refreshAll]
         else ret ()))))))"

definition clear_timer :: "nat option \<Rightarrow> unit js" where
  "clear_timer t = (case t of None \<Rightarrow> ret () | Some i \<Rightarrow> clear_interval i)"

definition openMainScreen :: "unit js" where
  "openMainScreen =
     (andthen (add_class ''setup-screen'' ''hidden'')
     (andthen (remove_class ''main-screen'' ''hidden'')
     (bind (gets (\<lambda>w. walletName (st w))) (\<lambda>n.
     andthen (set_text ''topbar-wallet-name'' n)
     (andthen (spawn_task (initial_load 0))
     (bind (gets (\<lambda>w. refreshTimer (st w))) (\<lambda>t.
     andthen (clear_timer t)
     (bind (set_interval CbRefreshAll 30000) (\<lambda>i.
     andthen (set_state (\<lambda>s. s\<lparr>refreshTimer := Some i\<rparr>))
     (bind (gets (\<lambda>w. blockPoller (st w))) (\<lambda>t.
     andthen (clear_timer t)
     (bind (set_interval CbBlockPoll 10000) (\<lambda>i.
     set_state (\<lambda>s. s\<lparr>blockPoller := Some i\<rparr>))))))))))))))"

section \<open>Bridge: common parts\<close>

definition resetBridgeFormAfterMint :: "unit js" where
  "resetBridgeFormAfterMint =
     block [do_if (has_el ''bridge-amount'') (set_value ''bridge-amount'' []),
            do_if (has_el ''bridge-submit-btn'')
              (block [set_disabled ''bridge-submit-btn'' False,
                      set_text ''bridge-submit-btn'' ''Generate & Send Bridge Deposit''])]"

definition refreshBridgeRelatedViews :: "unit js" where
  "refreshBridgeRelatedViews =
     block (map (\<lambda>m. try_catch m (\<lambda>_. ret ()))
       [refreshNexusWcryloBalance, refreshNexusStakedBalance, refreshNexusGasStatus, loadNexusTransactions,
        updateBalance])"

definition setBridgeOutStatus :: "string \<Rightarrow> unit js" where
  "setBridgeOutStatus msg = set_text_if ''bridge-out-status'' (''Release status: '' @ msg)"

definition setBridgeStatus :: "string \<Rightarrow> unit js" where
  "setBridgeStatus msg = set_text_if ''bridge-status'' (''Bridge status: '' @ msg)"

definition setBridgeField :: "string \<Rightarrow> jsval \<Rightarrow> unit js" where
  "setBridgeField i v = set_text_if i (text_or v em_dash)"

definition refreshBridgeAddressFields :: "unit js" where
  "refreshBridgeAddressFields =
     (bind wallet_address (\<lambda>a.
     andthen (setBridgeField ''bridge-crylo-address'' (js_or a (Str em_dash)))
     (bind getLinkedNexusAddress (\<lambda>n.
     setBridgeField ''bridge-nexus-address'' (js_or n (Str em_dash))))))"

section \<open>Bridge: from wCRYLO to CRYLO\<close>

definition release_tick :: "jsval \<Rightarrow> unit js" where
  "release_tick nexusTxHash =
     try_catch
       (bind (crylo_bridgeReleaseStatus nexusTxHash) (\<lambda>res.
       bind (get_prop res ''ok'') (\<lambda>ok.
       if \<not> truthy ok then setBridgeOutStatus (text_or (jprop res ''error'') ''Release status check failed.'')
         else if truthy (jprop res ''released'') \<and> truthy (jprop res ''release'')
         then (bind (gets bridgeReleasePollTimer) (\<lambda>t.
              andthen (clear_timer t)
              (andthen (modify (\<lambda>w. w\<lparr>bridgeReleasePollTimer := None\<rparr>))
              (let l1Tx = js_or (jprop (jprop res ''release'') ''l1_tx_hash'')
                 (js_or (jprop (jprop res ''release'') ''crylo_tx_hash'') (Str ''released'')) in
              andthen (setBridgeOutStatus (check_box @ '' Release completed. CryLo TX: '' @ to_str l1Tx))
              (andthen refreshBridgeRelatedViews
              (andthen (set_timeout CbRefreshBridgeRelatedViews 3000)
              (set_timeout CbRefreshBridgeRelatedViews 10000)))))))
         else ret ())))
       (\<lambda>_. ret ())"

definition pollBridgeReleaseStatus :: "jsval \<Rightarrow> unit js" where
  "pollBridgeReleaseStatus nexusTxHash =
     (if \<not> truthy nexusTxHash \<or> strict_eq nexusTxHash (Str ''sent'') then ret ()
      else (bind (gets bridgeReleasePollTimer) (\<lambda>t.
           andthen (clear_timer t)
           (bind (set_interval (CbReleasePoll nexusTxHash) 5000) (\<lambda>i.
           modify (\<lambda>w. w\<lparr>bridgeReleasePollTimer := Some i\<rparr>))))))"

definition bridge_out :: "unit js" where
  "bridge_out =
     (bind ensureCryLoAddressLoaded (\<lambda>loaded.
     if \<not> loaded then throw (mk_error ''Open a CryLo wallet first.'')
       else (bind getLinkedNexusAddress (\<lambda>naddr.
            if \<not> truthy naddr then throw (mk_error ''Create/load the bound Nexus wallet first.'')
         else (bind (get_value ''bridge-out-amount'') (\<lambda>amountText.
              let amount = string_to_number amountText in
              if \<not> is_finite_num amount \<or> amount \<le> Fin 0 then throw (mk_error ''Invalid wCRYLO amount.'')
           else (andthen (setBridgeOutStatus ''Checking Nexus gas...'')
                (bind (ensureNexusGasForAction ''wCRYLO to CRYLO bridge release'' (rnd (4 / 100))) (\<lambda>gasCheck.
                bind (get_prop gasCheck ''ok'') (\<lambda>ok.
                if \<not> truthy ok
             then setBridgeOutStatus (gas_failure ''Release cancelled.'' ''Release failed: '' gasCheck)
             else (bind wallet_address (\<lambda>a.
                  bind (sync_call (BrowserConfirm (''Burn '' @ amountText
                 @ '' wCRYLO and release CRYLO back to your CryLo wallet?'' @ newline @ newline
                 @ ''Destination CryLo wallet:'' @ newline @ to_str a))) (\<lambda>yes.
                  if \<not> truthy yes then setBridgeOutStatus ''Release cancelled.''
               else (andthen (setBridgeOutStatus ''Burning wCRYLO on Nexus...'')
                    (bind wallet_name (\<lambda>n.
                    bind wallet_address (\<lambda>a.
                    bind (crylo_nexusBurnForCryLo (Str amountText) n a) (\<lambda>result.
                    bind (get_prop result ''ok'') (\<lambda>rok.
                    if \<not> truthy rok
                 then throw (new_error (js_or (jprop result ''error'') (Str ''Burn failed.'')))
                 else (andthen (setBridgeOutStatus (''Burn confirmed. Reserve release is processing. Nexus TX: ''
                     @ to_str (jprop result ''txHash'')))
                      (andthen (do_if (has_el ''bridge-out-amount'') (set_value ''bridge-out-amount'' []))
                      (andthen refreshNexusWcryloBalance
                      (andthen refreshAll
                      (andthen loadNexusTransactions
                      (andthen (set_timeout CbRefreshAll 5000)
                      (andthen (set_timeout CbRefreshAll 15000)
                      (andthen (set_timeout CbRefreshWcrylo 5000)
                      (set_timeout CbRefreshWcrylo 15000))))))))))))))))))))))))))))"

definition startCryLoBridgeOut :: "unit js" where
  "startCryLoBridgeOut =
     try_catch bridge_out
       (\<lambda>err. (bind (get_prop err ''message'') (\<lambda>m.
                      setBridgeOutStatus (text_or m ''release failed''))))"

section \<open>Bridge: from CRYLO to wCRYLO\<close>

text \<open>Number(x.toFixed(11)).\<close>

definition fix11 :: "jsnum \<Rightarrow> jsnum" where
  "fix11 x = string_to_number (to_fixed 11 x)"

text \<open>The loop that splits the amount; \<open>n\<close> bounds its rounds.\<close>

fun bridge_chunks :: "nat \<Rightarrow> jsnum \<Rightarrow> jsnum list option" where
  "bridge_chunks n remaining =
     (if \<not> Fin 0 < remaining then Some []
      else case n of
             0 \<Rightarrow> None
           | Suc m \<Rightarrow>
               let chunk = math_min (Fin 50) remaining
               in map_option (Cons (fix11 chunk)) (bridge_chunks m (fix11 (remaining - chunk))))"

definition plural :: "nat \<Rightarrow> string" where
  "plural n = (if n = 1 then [] else ''s'')"

definition deposit_tx_hash :: "jsval \<Rightarrow> jsval" where
  "deposit_tx_hash tx =
     (let r = jprop tx ''result''; rr = jprop r ''result''
      in js_or (jprop r ''tx_hash'')
           (js_or (elem_at (jprop r ''tx_hash_list'') 0)
           (js_or (jprop rr ''tx_hash'')
           (js_or (elem_at (jprop rr ''tx_hash_list'') 0)
           (js_or (jprop r ''txid'') (Str []))))))"

definition deposit_params :: "jsval \<Rightarrow> string \<Rightarrow> jsval" where
  "deposit_params bridgeSendAddress amountAtomic =
     Obj [(''destinations'', Arr [Obj [(''address'', bridgeSendAddress),
             (''amount'', Num (string_to_number amountAtomic))]]),
          (''account_index'', jint 0), (''subaddr_indices'', Arr [jint 0]), (''priority'', jint 0),
          (''unlock_time'', jint 0), (''get_tx_key'', Bool True)]"

text \<open>One round of the deposit loop: chunk \<open>i\<close> of \<open>n\<close>.\<close>

definition deposit :: "jsval \<Rightarrow> nat \<Rightarrow> nat \<times> jsnum \<Rightarrow> jsval list \<Rightarrow> jsval list js" where
  "deposit naddr n chunk sent =
     (let i = fst chunk; chunkText = num_to_string (snd chunk);
          position = int_str (int i + 1) @ ''/'' @ int_str (int n)
      in (bind (lift_outcome (cryloToAtomic (Str chunkText))) (\<lambda>amountAtomic.
         andthen (setBridgeStatus (''creating deposit '' @ position @ '' for '' @ chunkText @ '' CRYLO''))
         (bind wallet_address (\<lambda>a.
         bind (crylo_bridgeRequest (Obj [(''nexusAddress'', naddr), (''cryloAddress'', a),
                 (''amountAtomic'', Str amountAtomic)])) (\<lambda>req.
         bind (get_prop req ''ok'') (\<lambda>ok.
         if \<not> truthy ok
        then throw (new_error (js_or (jprop req ''error'')
               (Str (''Bridge request '' @ int_str (int i + 1) @ '' failed.''))))
        else let bridgePaymentId = js_or (jprop req ''paymentId'') (jprop req ''payment_id'');
                 bridgeSendAddress = js_or (jprop req ''integratedAddress'') (jprop req ''integrated_address'')
          in if \<not> truthy bridgePaymentId \<or> \<not> truthy bridgeSendAddress
             then throw (mk_error ''Bridge API did not return payment ID and integrated address.'')
             else (andthen (do_if (i = 0)
                 (block [setBridgeField ''bridge-payment-id'' bridgePaymentId,
                         setBridgeField ''bridge-integrated-address'' bridgeSendAddress,
                         setBridgeField ''bridge-nexus-tx'' (Str em_dash)]))
                  (andthen (setBridgeStatus (''sending deposit '' @ position @ '' for '' @ chunkText @ '' CRYLO''))
                  (bind (crylo_walletRpc (Str ''transfer_split'') (deposit_params bridgeSendAddress amountAtomic)
                       (jint 120000)) (\<lambda>tx.
                  bind (get_prop tx ''ok'') (\<lambda>tok.
                  if \<not> truthy tok
               then (bind (name_includes (js_or (jprop tx ''error'') (Str [])) ''not enough money'') (\<lambda>poor.
                    throw (new_error (if poor then Str ''Not enough unlocked CRYLO. Try a smaller amount.''
                   else js_or (jprop tx ''error'') (Str (''CryLo transfer '' @ int_str (int i + 1) @ '' failed.''))))))
               else let sent' = sent @ [Obj [(''paymentId'', bridgePaymentId),
                          (''cryloTx'', deposit_tx_hash tx), (''amount'', Str chunkText)]] in
           (andthen (setBridgeField ''bridge-crylo-tx''
                   (Str (join_with '', '' (map (\<lambda>x. text_or (jprop x ''cryloTx'') ''sent'') sent'))))
           (ret sent'))))))))))))))"

definition storage_set :: "string \<Rightarrow> string \<Rightarrow> unit js" where
  "storage_set k v = modify (\<lambda>w. w\<lparr>storage := put_assoc k v (storage w)\<rparr>)"

definition storage_remove :: "string \<Rightarrow> unit js" where
  "storage_remove k = modify (\<lambda>w. w\<lparr>storage := filter (\<lambda>(k', _). k' \<noteq> k) (storage w)\<rparr>)"

definition pollCryLoBridgeStatus :: "jsval \<Rightarrow> unit js" where
  "pollCryLoBridgeStatus paymentId =
     (bind (gets cryloBridgePollTimer) (\<lambda>t.
     andthen (clear_timer t)
     (bind (set_interval (CbBridgePoll paymentId) 10000) (\<lambda>i.
     modify (\<lambda>w. w\<lparr>cryloBridgePollTimer := Some i\<rparr>)))))"

definition bridge_in :: "unit js" where
  "bridge_in =
     (andthen (setBridgeStatus ''checking wallet'')
     (bind ensureCryLoAddressLoaded (\<lambda>loaded.
     if \<not> loaded then throw (mk_error ''Open a CryLo wallet first.'')
       else (bind getLinkedNexusAddress (\<lambda>naddr.
            if \<not> truthy naddr then throw (mk_error ''Create/load the bound Nexus wallet first.'')
         else (andthen refreshBridgeAddressFields
              (bind (get_value ''bridge-amount'') (\<lambda>amountText.
              let totalAmount = string_to_number amountText in
              if \<not> is_finite_num totalAmount \<or> totalAmount \<le> Fin 0
           then throw (mk_error ''Enter a valid bridge amount.'')
           else if Fin 150 < totalAmount
           then throw (mk_error ''Bridge limit is currently 150 CRYLO per session.'')
           else case bridge_chunks 3 totalAmount of
             None \<Rightarrow> lift_outcome Pending
           | Some chunks \<Rightarrow> (let n = length chunks in
           andthen (setBridgeStatus (''preparing '' @ int_str (int n) @ '' bridge deposit'' @ plural n))
           (bind (fold_loop (zip [0..<n] chunks) [] (deposit naddr n)) (\<lambda>sent.
           bind (sync_call DateNow) (\<lambda>now.
           let firstId = jprop (elem_at (Arr sent) 0) ''paymentId'' in
           andthen (storage_set ''cryloBridgePending'' (JSON_stringify (Obj
                 [(''paymentId'', firstId), (''paymentIds'', Arr (map (\<lambda>x. jprop x ''paymentId'') sent)),
                  (''deposits'', Arr sent), (''createdAt'', now)])))
           (andthen (setBridgeStatus (''waiting for CryLo confirmations on '' @ int_str (int (length sent))
                 @ '' deposit'' @ plural (length sent)))
                                       (pollCryLoBridgeStatus firstId))))))))))))))"

definition startCryLoBridgeIn :: "unit js" where
  "startCryLoBridgeIn =
     try_catch bridge_in
       (\<lambda>e. (bind (get_prop e ''message'') (\<lambda>m.
                    setBridgeStatus (text_or m ''bridge failed''))))"

text \<open>One tick of the poll for the mint of a deposit.\<close>

definition bridge_tick :: "jsval \<Rightarrow> unit js" where
  "bridge_tick paymentId =
     try_catch
       (bind (crylo_bridgeStatus paymentId) (\<lambda>res.
       bind (get_prop res ''ok'') (\<lambda>ok.
       if \<not> truthy ok then setBridgeStatus (text_or (jprop res ''error'') ''status check failed'')
         else if truthy (jprop res ''processed'')
         then (bind (gets cryloBridgePollTimer) (\<lambda>t.
              andthen (clear_timer t)
              (andthen (modify (\<lambda>w. w\<lparr>cryloBridgePollTimer := None\<rparr>))
              (let p = jprop res ''processed'' in
              let mintTx = js_or (jprop p ''nexus_tx_hash'') (js_or (jprop p ''nexusTxHash'')
                 (js_or (jprop p ''txHash'') (js_or (jprop p ''mintTxHash'') (Str ''processed'')))) in
              andthen (setBridgeField ''bridge-nexus-tx'' mintTx)
              (andthen (setBridgeStatus (check_box @ '' Mint completed '' @ em_dash @ '' wCRYLO received.''))
              (andthen refreshBridgeRelatedViews
              (andthen (set_timeout CbRefreshBridgeRelatedViews 3000)
              (andthen (set_timeout CbRefreshBridgeRelatedViews 10000)
              (andthen resetBridgeFormAfterMint
              (andthen refreshNexusWcryloBalance
              (andthen refreshNexusGasStatus
              (andthen (storage_remove ''cryloBridgePending'')
              (andthen updateBalance
              (andthen refreshNexusWcryloBalance
              (andthen (set_timeout CbBalanceAndWcrylo 5000)
              (set_timeout CbBalanceAndWcrylo 15000))))))))))))))))
         else setBridgeStatus ''waiting for CryLo confirmations'')))
       (\<lambda>e. (bind (get_prop e ''message'') (\<lambda>m.
                    setBridgeStatus (text_or m ''status error''))))"

end
