(* ===== verification/AppSetup.thy ===== *)
theory AppSetup
  imports AppMain
begin

text \<open>
  Startup, the setup screen, tabs and wallet switching, src/electron/src/app.js lines 86 to 340, 950
  to 995, and the events that drive the renderer: what a timer runs and what the user's actions of
  window.App (lines 2405 to 2444) run.
\<close>

section \<open>Setup screen\<close>

definition hideSplash :: "unit js" where
  "hideSplash = add_class ''splash'' ''hidden''"

definition setup_forms :: "string list" where
  "setup_forms = [''form-create'', ''form-open'', ''form-restore'']"

definition backToSetupCards :: "unit js" where
  "backToSetupCards =
     andthen (remove_class ''setup-cards'' ''hidden'') (for_each setup_forms (\<lambda>i. add_class i ''hidden''))"

definition showSetupForm :: "string \<Rightarrow> unit js" where
  "showSetupForm ty =
     (andthen (add_class ''setup-cards'' ''hidden'')
     (andthen (for_each setup_forms (\<lambda>i. add_class i ''hidden''))
     (andthen (remove_class (''form-'' @ ty) ''hidden'')
     (do_if (ty = ''create'')
         (block [add_class ''create-seed-section'' ''hidden'', remove_class ''create-btn'' ''hidden'',
                 add_class ''create-continue-btn'' ''hidden''])))))"

text \<open>
  The options of a select element: emptying it clears its value, and the first option added to an
  empty one becomes its value.
\<close>

definition clear_options :: "string \<Rightarrow> string \<Rightarrow> unit js" where
  "clear_options i html =
     write_el i ''innerHTML'' (\<lambda>e. e\<lparr>el_nodes := (if html = [] then [] else [Markup html]), el_value := []\<rparr>)"

definition append_option :: "string \<Rightarrow> string \<Rightarrow> unit js" where
  "append_option i v =
     change_el i ''appendChild''
       (\<lambda>e. e\<lparr>el_nodes := el_nodes e @ [Element ''option'' [(''value'', v)] [Txt v]],
              el_value := (if el_nodes e = [] then v else el_value e)\<rparr>)"

text \<open>The branch for no wallets reads \<open>openBtn\<close>, which is not declared in this function.\<close>

definition loadWalletList :: "unit js" where
  "loadWalletList =
     (bind crylo_listWallets (\<lambda>res.
     andthen (clear_options ''open-select'' [])
     (bind (get_prop res ''ok'') (\<lambda>ok.
     bind ((if truthy ok then get_prop (jprop res ''wallets'') ''length'' else ret (jint 0))) (\<lambda>n.
     if \<not> truthy ok \<or> strict_eq n (jint 0)
       then (andthen (clear_options ''open-select'' ''<option value=\"\">No wallets found</option>'')
            (throw (reference_error ''openBtn'')))
       else (bind (js_items (jprop res ''wallets'')) (\<lambda>ws.
            for_each ws (\<lambda>v. append_option ''open-select'' (to_str v)))))))))"

definition showSetup :: "unit js" where
  "showSetup =
     (andthen (remove_class ''setup-screen'' ''hidden'')
     (andthen (add_class ''main-screen'' ''hidden'')
     (andthen backToSetupCards
     (spawn_task loadWalletList))))"

definition showSetupOrMain :: "unit js" where
  "showSetupOrMain =
     (bind crylo_listWallets (\<lambda>res.
     bind (get_prop res ''ok'') (\<lambda>ok.
     let wallets = (if truthy ok then jprop res ''wallets'' else Arr []) in
     andthen hideSplash
     (bind (get_prop wallets ''length'') (\<lambda>n.
     if js_less (jint 0) n then showSetup else showSetup)))))"

section \<open>Passwords\<close>

definition markPasswordInvalid :: "string \<Rightarrow> unit js" where
  "markPasswordInvalid i =
     do_if (has_el i)
       (block [set_style i ''border'' ''2px solid #ff4d4d'',
               set_style i ''boxShadow'' ''0 0 0 2px rgba(255, 77, 77, 0.25)''])"

definition clearPasswordInvalid :: "string \<Rightarrow> unit js" where
  "clearPasswordInvalid i =
     do_if (has_el i) (block [set_style i ''border'' [], set_style i ''boxShadow'' []])"

section \<open>Creating, opening, restoring\<close>

definition valid_wallet_name :: "string \<Rightarrow> bool" where
  "valid_wallet_name s \<longleftrightarrow> s \<noteq> [] \<and> list_all (\<lambda>c. is_alnum c \<or> c = CHR ''_'' \<or> c = CHR ''-'') s"

definition close_current_wallet :: "unit js" where
  "close_current_wallet =
     try_catch
       (bind (crylo_walletRpc (Str ''close_wallet'') (Obj [(''autosave_current'', Bool False)]) Undefined) (\<lambda>_.
       ret ()))
       (\<lambda>_. ret ())"

definition select_wallet :: "string \<Rightarrow> unit js" where
  "select_wallet name =
     andthen (set_state (\<lambda>s. s\<lparr>walletName := name, address := Str [], nexusAddress := Str []\<rparr>))
       clearNexusUiForWalletSwitch"

definition no_seed_text :: string where
  "no_seed_text = ''(could not retrieve seed '' @ en_dash @ '' open the wallet and use \"query_key mnemonic\" in CLI)''"

text \<open>\<open>refreshWalletList\<close>, which the two functions below call, is declared nowhere.\<close>

definition createWallet :: "unit js" where
  "createWallet =
     (bind (get_value ''create-name'') (\<lambda>nm.
     bind (get_value ''create-pass'') (\<lambda>pass.
     bind (get_value ''create-pass2'') (\<lambda>pass2.
     let name = trim nm in
     if name = [] then toast ''Please enter a wallet name.'' ''error''
       else if \<not> valid_wallet_name name then toast ''Name: use only letters, numbers, - or _'' ''error''
       else if pass \<noteq> pass2 then toast ''Passwords do not match.'' ''error''
       else (andthen (set_disabled ''create-btn'' True)
            (andthen (set_text ''create-btn'' ''Creating...'')
            (andthen close_current_wallet
            (bind (crylo_walletRpc (Str ''create_wallet'')
           (Obj [(''filename'', Str name), (''password'', Str pass), (''language'', Str ''English'')]) (jint 60000)) (\<lambda>res.
            bind (get_prop res ''ok'') (\<lambda>ok.
            if \<not> truthy ok
         then block [set_disabled ''create-btn'' False, set_text ''create-btn'' ''Create Wallet'',
                toast (''Failed: '' @ to_str (jprop res ''error'')) ''error'']
         else (bind (crylo_walletRpc (Str ''query_key'') (Obj [(''key_type'', Str ''mnemonic'')]) Undefined) (\<lambda>seedRes.
              bind (get_prop seedRes ''ok'') (\<lambda>sok.
              bind ((if truthy sok then get_prop (jprop seedRes ''result'') ''key'' else ret (Str no_seed_text))) (\<lambda>seed.
              andthen (set_text ''create-seed-display'' (dom_text seed))
              (andthen (remove_class ''create-seed-section'' ''hidden'')
              (andthen (add_class ''create-btn'' ''hidden'')
              (andthen (remove_class ''create-continue-btn'' ''hidden'')
              (andthen (select_wallet name)
              (andthen (throw (reference_error ''refreshWalletList''))
              (toast ''Wallet created! Save your seed phrase now.'' ''success''))))))))))))))))))))"

definition setOpenWalletLoading :: "bool \<Rightarrow> unit js" where
  "setOpenWalletLoading isLoading =
     block [do_if (has_el ''open-wallet-btn'') (set_disabled ''open-wallet-btn'' isLoading),
            do_if (has_el ''open-wallet-loading'') (toggle_class ''open-wallet-loading'' ''hidden'' (\<not> isLoading))]"

definition openWallet :: "unit js" where
  "openWallet =
     (andthen (setOpenWalletLoading True)
     (bind (get_value ''open-select'') (\<lambda>name.
     bind (get_value ''open-pass'') (\<lambda>pass.
     if pass = [] then block [setOpenWalletLoading False, markPasswordInvalid ''open-pass'']
       else if name = [] then block [setOpenWalletLoading False, toast ''Please select a wallet.'' ''error'']
       else (andthen close_current_wallet
            (bind (crylo_walletRpc (Str ''open_wallet'') (Obj [(''filename'', Str name), (''password'', Str pass)])
                  (jint 30000)) (\<lambda>res.
            bind (get_prop res ''ok'') (\<lambda>ok.
            if \<not> truthy ok then block [setOpenWalletLoading False, markPasswordInvalid ''open-pass'']
         else (andthen (select_wallet name)
              (andthen (set_state (\<lambda>s. s\<lparr>address := Str []\<rparr>))
              (openMainScreen)))))))))))"

definition restoreWallet :: "unit js" where
  "restoreWallet =
     (bind (get_value ''restore-name'') (\<lambda>nm.
     bind (get_value ''restore-seed'') (\<lambda>sd.
     bind (get_value ''restore-height'') (\<lambda>ht.
     let name = trim nm; seed = trim sd; height = js_or (Num (parse_int ht)) (jint 0) in
     bind (get_value ''restore-pass'') (\<lambda>pass.
     if name = [] then toast ''Please enter a wallet name.'' ''error''
       else if seed = [] then toast ''Please enter your seed phrase.'' ''error''
       else if length (words_ws [] seed) \<noteq> 25 then toast ''Seed must be exactly 25 words.'' ''error''
       else (bind (crylo_walletRpc (Str ''restore_deterministic_wallet'')
           (Obj [(''filename'', Str name), (''seed'', Str seed), (''password'', Str pass),
                 (''restore_height'', height), (''language'', Str ''English''), (''autosave_current'', Bool True)])
           (jint 60000)) (\<lambda>res.
            bind (get_prop res ''ok'') (\<lambda>ok.
            if \<not> truthy ok then toast (''Failed: '' @ to_str (jprop res ''error'')) ''error''
         else (andthen (select_wallet name)
              (andthen (throw (reference_error ''refreshWalletList''))
              (andthen (toast ''Wallet restored successfully!'' ''success'')
              (openMainScreen))))))))))))"

text \<open>
  The Enter key in a password field, and the listeners of the password fields: what an element runs on an event, given
  the key of a key press.
\<close>

definition on_password_enter :: "string \<Rightarrow> unit js" where
  "on_password_enter i =
     (if i = ''create-pass'' \<or> i = ''create-pass2'' then spawn_task createWallet
      else if i = ''open-pass'' then spawn_task openWallet
      else if i = ''restore-pass'' then spawn_task restoreWallet
      else ret ())"

type_synonym dom_listeners = "(string \<times> string \<times> (string \<Rightarrow> unit js)) list"

definition password_fields :: "string list" where
  "password_fields = [''create-pass'', ''create-pass2'', ''open-pass'', ''restore-pass'']"

definition setupPasswordEnterSubmit :: "dom_listeners \<Rightarrow> dom_listeners" where
  "setupPasswordEnterSubmit listeners =
     fold (\<lambda>i ls. if \<not> has_el i then ls
       else ls @ [(i, ''input'', \<lambda>_. clearPasswordInvalid i),
                  (i, ''keydown'', \<lambda>key. if key \<noteq> ''Enter'' then ret () else on_password_enter i)])
       password_fields listeners"

section \<open>Messages of the main process\<close>

definition onStartupStatus :: "jsval \<Rightarrow> unit js" where
  "onStartupStatus data' =
     (bind (get_prop data' ''state'') (\<lambda>state.
     let message = jprop data' ''message'' in
     andthen (set_text ''splash-msg'' (dom_text message))
     (if strict_eq state (Str ''ready'')
       then block [set_state (\<lambda>s. s\<lparr>ready := True\<rparr>), set_timeout CbShowSetupOrMain 600]
       else if strict_eq state (Str ''error'')
       then block [set_text ''splash-error'' (dom_text message), remove_class ''splash-error'' ''hidden'',
              set_style ''splash-progress'' ''animation'' ''none'',
              set_style ''splash-progress'' ''background'' ''var(--danger)'',
              set_style ''splash-progress'' ''width'' ''100%'']
       else ret ())))"

definition onDaemonExit :: "jsval \<Rightarrow> unit js" where
  "onDaemonExit code =
     do_if (\<not> strict_eq code (jint 0) \<and> code \<noteq> Null)
       (toast_for (''Daemon process exited (code '' @ to_str code @ ''). Please restart the app.'') ''error'' 0)"

definition onWalletRpcExit :: "jsval \<Rightarrow> unit js" where
  "onWalletRpcExit code =
     do_if (\<not> strict_eq code (jint 0) \<and> code \<noteq> Null)
       (toast_for (''Wallet RPC exited (code '' @ to_str code @ ''). Please restart the app.'') ''error'' 0)"

text \<open>The listener on DOMContentLoaded: what the page listens to from then on.\<close>

record page_listeners =
  on_dom :: dom_listeners
  on_ipc :: subscriptions

definition on_DOMContentLoaded :: "page_listeners \<Rightarrow> page_listeners" where
  "on_DOMContentLoaded l =
     l\<lparr>on_dom := setupPasswordEnterSubmit (on_dom l),
       on_ipc := crylo_onWalletRpcExit onWalletRpcExit (crylo_onDaemonExit onDaemonExit
         (crylo_onStartupStatus onStartupStatus (on_ipc l)))\<rparr>"

text \<open>A DOM event on an element runs its listeners for the event, one after the other.\<close>

definition dom_event :: "dom_listeners \<Rightarrow> string \<Rightarrow> string \<Rightarrow> string \<Rightarrow> unit js" where
  "dom_event ls i event key =
     for_each (filter (\<lambda>(j, e, _). j = i \<and> e = event) ls) (\<lambda>(_, _, f). f key)"

section \<open>Tabs and wallets\<close>

definition tab_names :: "string list" where
  "tab_names = [''transactions'', ''send'', ''receive'', ''vesting'', ''mining'', ''nexus'', ''nexusNfts'', ''nexusTx'']"

text \<open>The tab buttons have no id; they are kept under their data-tab value.\<close>

definition tab_button :: "string \<Rightarrow> string" where
  "tab_button t = ''tab-btn:'' @ t"

definition toggle_tab_button :: "string \<Rightarrow> bool \<Rightarrow> unit js" where
  "toggle_tab_button t b =
     modify (upd_page (tab_button t)
       (\<lambda>e. e\<lparr>el_class := (if b then (if ''active'' \<in> set (el_class e) then el_class e else el_class e @ [''active''])
                           else filter (\<lambda>x. x \<noteq> ''active'') (el_class e))\<rparr>))"

definition switchTab :: "string \<Rightarrow> unit js" where
  "switchTab tab =
     (andthen (set_state (\<lambda>s. s\<lparr>activeTab := tab\<rparr>))
     (andthen (for_each tab_names (\<lambda>t. toggle_tab_button t (t = tab)))
     (andthen (for_each tab_names (\<lambda>t. toggle_class (''tab-'' @ t) ''active'' (t = tab)))
     (andthen (do_if (tab = ''transactions'') (spawn_task loadTransactions))
     (andthen (do_if (tab = ''vesting'') (spawn_task loadVesting))
     (andthen (do_if (tab = ''receive'') (spawn_task loadAddress))
     (andthen (do_if (tab = ''mining'') (spawn_task initMiningTab))
     (andthen (do_if (tab = ''nexus'')
         (andthen clearNexusUiForWalletSwitch
           (spawn_task (block [loadSavedNexusLinkedAddress, refreshBridgeAddressFields, refreshNexusNodeStatus]))))
     (andthen (do_if (tab = ''nexusTx'') (spawn_task loadNexusTransactions))
     (do_if (tab = ''nexusNfts'') (spawn_task loadSavedNexusLinkedAddress)))))))))))"

definition switchWallet :: "unit js" where
  "switchWallet =
     (bind (crylo_confirm (Obj [(''title'', Str ''Switch Wallet''),
         (''message'', Str ''Close current wallet and go back to wallet selection?''),
         (''buttons'', Arr [Str ''Yes'', Str ''Cancel''])])) (\<lambda>confirmed.
     if \<not> truthy confirmed then ret ()
       else (bind (crylo_walletRpc (Str ''close_wallet'') (Obj [(''autosave_current'', Bool True)]) Undefined) (\<lambda>_.
            andthen (set_state (\<lambda>s. s\<lparr>walletName := [], address := Str []\<rparr>))
            (bind (gets (\<lambda>w. refreshTimer (st w))) (\<lambda>t.
            andthen ((case t of None \<Rightarrow> ret ()
          | Some i \<Rightarrow> block [clear_interval i, set_state (\<lambda>s. s\<lparr>refreshTimer := None\<rparr>)]))
            (bind (gets (\<lambda>w. blockPoller (st w))) (\<lambda>t.
            andthen ((case t of None \<Rightarrow> ret ()
          | Some i \<Rightarrow> block [clear_interval i, set_state (\<lambda>s. s\<lparr>blockPoller := None\<rparr>)]))
            (showSetup)))))))))"

section \<open>Events\<close>

definition remove_toast :: "nat \<Rightarrow> unit js" where
  "remove_toast i =
     change_el ''toast-container'' ''remove''
       (\<lambda>e. e\<lparr>el_nodes := filter (\<lambda>n. case n of Element _ as _ \<Rightarrow> (''node'', int_str (int i)) \<notin> set as | _ \<Rightarrow> True)
                           (el_nodes e)\<rparr>)"

text \<open>What a timer runs when it fires.\<close>

fun run_callback :: "callback \<Rightarrow> unit js" where
  "run_callback CbShowSetupOrMain = showSetupOrMain"
| "run_callback (CbInitialLoad n) = initial_load n"
| "run_callback CbRefreshAll = refreshAll"
| "run_callback CbBlockPoll = block_poll"
| "run_callback CbUpdateBalance = updateBalance"
| "run_callback (CbConfirmPoll txid i) = confirm_poll txid i"
| "run_callback CbHideConsolidateInfo = set_style ''consolidate-info'' ''display'' ''none''"
| "run_callback CbMiningStatus = mining_tick"
| "run_callback CbRefreshBridgeRelatedViews = refreshBridgeRelatedViews"
| "run_callback (CbReleasePoll h) = release_tick h"
| "run_callback (CbBridgePoll p) = bridge_tick p"
| "run_callback CbRefreshWcrylo = refreshNexusWcryloBalance"
| "run_callback CbRefreshStaked = refreshNexusStakedBalance"
| "run_callback CbRefreshPending = refreshNexusPendingRewards"
| "run_callback CbBalanceAndWcrylo = andthen updateBalance refreshNexusWcryloBalance"
| "run_callback (CbRemoveToast i) = remove_toast i"

text \<open>The actions of window.App by name, and the messages and key presses.\<close>

datatype app_event =
    Act string
  | SwitchTab string
  | ShowForm string
  | BuyBack jsval
  | Burn jsval
  | PasswordEnter string
  | PasswordInput string
  | StartupStatus jsval
  | DaemonExit jsval
  | WalletRpcExit jsval
  | TimerFires callback

text \<open>The click on the button of a listed NFT, whose data-token-id is a text.\<close>

definition nft_click :: "jsval \<Rightarrow> app_event" where
  "nft_click nft =
     (let tokenId = Str (to_str (jprop nft ''tokenId''))
      in if truthy (jprop nft ''eligible'') then BuyBack tokenId else Burn tokenId)"

definition app_actions :: "(string \<times> unit js) list" where
  "app_actions =
     [(''sendMax'', sendMax), (''toggleAdvanced'', toggleAdvanced), (''backToSetupCards'', backToSetupCards),
      (''createWallet'', createWallet), (''openWallet'', openWallet), (''restoreWallet'', restoreWallet),
      (''openMainScreen'', openMainScreen), (''refreshAll'', refreshAll), (''switchWallet'', switchWallet),
      (''sendTx'', sendTx), (''consolidateUtxos'', consolidateUtxos), (''copyAddress'', copyAddress),
      (''copyPaymentRequest'', copyPaymentRequest), (''toggleMining'', toggleMining),
      (''refreshNexusWcryloBalance'', refreshNexusWcryloBalance),
      (''refreshNexusStakedBalance'', refreshNexusStakedBalance),
      (''buyNexusGasWithWcrylo'', buyNexusGasWithWcrylo), (''claimNexusDailyGas'', claimNexusDailyGas),
      (''refreshNexusGasStatus'', refreshNexusGasStatus),
      (''refreshNexusPendingRewards'', refreshNexusPendingRewards), (''claimNexusRewards'', claimNexusRewards),
      (''stakeNexusWcrylo'', stakeNexusWcrylo), (''unstakeNexusWcrylo'', unstakeNexusWcrylo),
      (''refreshNexusNodeStatus'', refreshNexusNodeStatus), (''registerNexusOperator'', registerNexusOperator),
      (''registerNexusValidator'', registerNexusValidator), (''claimNexusNodeRewards'', claimNexusNodeRewards),
      (''unregisterNexusNode'', unregisterNexusNode), (''startCryLoBridgeIn'', startCryLoBridgeIn),
      (''startCryLoBridgeOut'', startCryLoBridgeOut), (''createBoundNexusWallet'', createBoundNexusWallet),
      (''loadNexusBuyback'', loadNexusBuyback), (''loadNexusTransactions'', loadNexusTransactions),
      (''initMiningTab'', initMiningTab)]"

fun handle :: "app_event \<Rightarrow> unit js" where
  "handle (Act a) = (case map_of app_actions a of None \<Rightarrow> ret () | Some m \<Rightarrow> m)"
| "handle (SwitchTab t) = switchTab t"
| "handle (ShowForm t) = showSetupForm t"
| "handle (BuyBack i) = buyBackNexusNFT i"
| "handle (Burn i) = burnNexusNFT i"
| "handle (PasswordEnter i) = on_password_enter i"
| "handle (PasswordInput i) = clearPasswordInvalid i"
| "handle (StartupStatus d) = onStartupStatus d"
| "handle (DaemonExit c) = onDaemonExit c"
| "handle (WalletRpcExit c) = onWalletRpcExit c"
| "handle (TimerFires c) = run_callback c"

end
