(* ===== verification/Samples.thy ===== *)
theory Samples
  imports World
begin

text \<open>
  Concrete environments and worlds at which the properties with hypotheses are evaluated: an outside
  that answers by a given function, does not interfere, and has simple stand-ins for the libraries.
\<close>

definition sample_env :: "(call list \<Rightarrow> call \<Rightarrow> jsval outcome) \<Rightarrow> env" where
  "sample_env ans =
     \<lparr>answer = ans, meddle = (\<lambda>_ w. w),
      parseUnits = (\<lambda>s d. Ok 1), formatUnits = (\<lambda>v d. Ok ''1.0''),
      isAddress = (\<lambda>v. v \<noteq> Undefined), getAddress = to_str,
      walletAddress = (\<lambda>k. Ok (''0x'' @ to_str k)), keccakUtf8 = (\<lambda>v. Ok (to_str v)),
      topicHash = id, zeroPad32 = id, parseLog = (\<lambda>a l. Ok l),
      localeNum = to_str, localeDate = (\<lambda>n. ''date''), isoTime = (\<lambda>v. ''2026-01-01T00:00:00.000Z''),
      encodeURI = to_str, platform = ''linux'', isPackaged = False, resourcesPath = ''/res'',
      appDir = ''/app'', userData = ''/data'', homeDir = ''/home'', nexusRpcEnv = []\<rparr>"

definition blank_elem :: elem where
  "blank_elem = \<lparr>el_value = [], el_nodes = [], el_class = [], el_disabled = False, el_style = [], el_attrs = []\<rparr>"

definition sample_state :: app_state where
  "sample_state =
     \<lparr>ready = True, walletOpen = False, walletName = ''alice'', currentHeight = jint 100,
      activeTab = ''transactions'', refreshTimer = None, blockPoller = None, address = Str ''CRYLO1'',
      unlockedBalance = Fin 0, miningActive = False, miningStatusTimer = None,
      miningStartHeight = Null, nexusAddress = Str ''0xA''\<rparr>"

definition sample_world :: world where
  "sample_world =
     \<lparr>st = sample_state, page = (\<lambda>_. blank_elem), storage = [], timers = [], next_timer = 1,
      bridgeReleasePollTimer = None, cryloBridgePollTimer = None, files = [], dirs = [''/data/wallets''],
      shuttingDown = False, windowOpen = True, daemonProc = None, walletProc = None, minerProc = None,
      trace = []\<rparr>"

lemmas sample_defs = sample_env_def blank_elem_def sample_state_def sample_world_def

lemma sample_env_errors [simp]:
  "throws_errors (sample_env ans) \<longleftrightarrow> (\<forall>h c e. ans h c = Throw e \<longrightarrow> \<not> nullish e)"
  by (simp add: throws_errors_def sample_env_def)

end
