(* ===== verification/Dispatch.thy ===== *)
theory Dispatch
  imports AppSetup Samples
begin

text \<open>
  The functions of window.crylo as the handlers they reach: the channel table resolved once, and what a
  message to the daemon or the wallet service does to the world.
\<close>

section \<open>Reached handlers\<close>

definition relay :: "string \<Rightarrow> jsval js \<Rightarrow> jsval js" where
  "relay channel m =
     try_catch m (\<lambda>e. throw (mk_error (''Error invoking remote method '' @ channel @ '': ''
       @ to_str (jprop e ''message''))))"

lemma invoke_relay: "map_of ipc_handlers channel = Some h \<Longrightarrow> invoke channel args = relay channel (h args)"
  by (simp add: invoke_def relay_def)

lemma crylo_relay:
  "crylo_daemonRpc method params = relay ''daemon-rpc'' (ipc_daemon_rpc method params)"
  "crylo_walletRpc method params timeout = relay ''wallet-rpc'' (ipc_wallet_rpc method params timeout)"
  "crylo_listWallets = relay ''list-wallets'' ipc_list_wallets"
  "crylo_nexusWalletCreate wname caddr = relay ''nexus-wallet-create'' (ipc_nexus_wallet_create wname caddr)"
  "crylo_nexusWalletLoad wname caddr = relay ''nexus-wallet-load'' (ipc_nexus_wallet_load wname caddr)"
  "crylo_openLogDir = relay ''open-log-dir'' ipc_open_log_dir"
  "crylo_openDataDir = relay ''open-data-dir'' ipc_open_data_dir"
  "crylo_getVersion = relay ''get-version'' ipc_get_version"
  "crylo_confirm opts = relay ''confirm-dialog'' (ipc_confirm_dialog opts)"
  "crylo_minerStart opts = relay ''miner-start'' (ipc_miner_start opts)"
  "crylo_minerStop = relay ''miner-stop'' ipc_miner_stop"
  "crylo_minerGetStatus = relay ''miner-get-status'' ipc_miner_get_status"
  "crylo_minerGetInfo = relay ''miner-get-info'' ipc_miner_get_info"
  "crylo_nexusScanNfts linkedAddress = relay ''nexus-scan-nfts'' (ipc_nexus_scan_nfts linkedAddress)"
  "crylo_nexusBuyBackNft tokenId wname caddr = relay ''nexus-buyback-nft'' (ipc_nexus_buyback_nft tokenId wname caddr)"
  "crylo_nexusBurnNft tokenId wname caddr = relay ''nexus-burn-nft'' (ipc_nexus_burn_nft tokenId wname caddr)"
  "crylo_nexusGasStatus linkedAddress = relay ''nexus-gas-status'' (ipc_nexus_gas_status linkedAddress)"
  "crylo_nexusTransactions linkedAddress = relay ''nexus-transactions'' (ipc_nexus_transactions linkedAddress)"
  "crylo_nexusClaimDailyGas wname caddr = relay ''nexus-claim-daily-gas'' (ipc_nexus_claim_daily_gas wname caddr)"
  "crylo_nexusBuyGasWithWcrylo amountText wname caddr = relay ''nexus-buy-gas-wcrylo'' (ipc_nexus_buy_gas_wcrylo amountText wname caddr)"
  "crylo_nexusWcryloBalance linkedAddress = relay ''nexus-wcrylo-balance'' (ipc_nexus_wcrylo_balance linkedAddress)"
  "crylo_nexusStakedBalance linkedAddress = relay ''nexus-staked-balance'' (ipc_nexus_staked_balance linkedAddress)"
  "crylo_nexusStakeWcrylo amountText wname caddr = relay ''nexus-stake-wcrylo'' (ipc_nexus_stake_wcrylo amountText wname caddr)"
  "crylo_nexusPendingRewards linkedAddress = relay ''nexus-pending-rewards'' (ipc_nexus_pending_rewards linkedAddress)"
  "crylo_nexusClaimRewards wname caddr = relay ''nexus-claim-rewards'' (ipc_nexus_claim_rewards wname caddr)"
  "crylo_nexusUnstakeWcrylo amountText wname caddr = relay ''nexus-unstake-wcrylo'' (ipc_nexus_unstake_wcrylo amountText wname caddr)"
  "crylo_nexusNodeStatus linkedAddress = relay ''nexus-node-status'' (ipc_nexus_node_status linkedAddress)"
  "crylo_nexusRegisterOperator wname caddr = relay ''nexus-register-operator'' (ipc_nexus_register_operator wname caddr)"
  "crylo_nexusRegisterValidator wname caddr = relay ''nexus-register-validator'' (ipc_nexus_register_validator wname caddr)"
  "crylo_nexusUnregisterNode wname caddr = relay ''nexus-unregister-node'' (ipc_nexus_unregister_node wname caddr)"
  "crylo_nexusClaimNodeRewards wname caddr = relay ''nexus-claim-node-rewards'' (ipc_nexus_claim_node_rewards wname caddr)"
  "crylo_bridgeRequest payload = relay ''bridge-request'' (ipc_bridge_request payload)"
  "crylo_bridgeStatus paymentId = relay ''bridge-status'' (ipc_bridge_status paymentId)"
  "crylo_bridgeReleaseStatus nexusTxHash = relay ''bridge-release-status'' (ipc_bridge_release_status nexusTxHash)"
  "crylo_nexusBurnForCryLo amountText wname caddr = relay ''nexus-burn-for-crylo'' (ipc_nexus_burn_for_crylo amountText wname caddr)"
  unfolding crylo_defs
  by ((rule invoke_relay [THEN trans], unfold ipc_handlers_def, simp (no_asm), simp (no_asm) add: arg_at_def)+)

text \<open>A handler that catches everything replies the same through the channel.\<close>

lemma relay_catches: "catches_all m \<Longrightarrow> throws_errors E \<Longrightarrow> relay channel m E w = m E w"
proof -
  assume "catches_all m" "throws_errors E"
  then have "fst (m E w) \<noteq> Throw e" for e unfolding catches_all_def by blast
  then show ?thesis by (cases "m E w"; cases "fst (m E w)") (simp_all add: relay_def try_catch_def)
qed

section \<open>One call\<close>

text \<open>The world after an awaited call: other handlers ran, and the call is recorded.\<close>

definition awaited :: "env \<Rightarrow> call \<Rightarrow> world \<Rightarrow> world" where
  "awaited E c w = (meddle E (trace w @ [c]) w)\<lparr>trace := trace w @ [c]\<rparr>"

lemma awaited_trace [simp]: "trace (awaited E c w) = trace w @ [c]"
  by (simp add: awaited_def)

lemma await_call_awaited: "await_call c E w = (answer E (trace w) c, awaited E c w)"
  by (simp add: await_call_def awaited_def)

text \<open>A program that makes one awaited call and then only computes with the answer.\<close>

definition one_call :: "(env \<Rightarrow> call) \<Rightarrow> 'a js \<Rightarrow> bool" where
  "one_call c m \<longleftrightarrow> (\<forall>E w. snd (m E w) = awaited E (c E) w)"

definition pure_prog :: "'a js \<Rightarrow> bool" where
  "pure_prog m \<longleftrightarrow> (\<forall>E w. snd (m E w) = w)"

named_theorems one_intros

lemma pure_prog_basic [one_intros]:
  "pure_prog (ret x)" "pure_prog (throw e)" "pure_prog (asks g)" "pure_prog (gets f)" "pure_prog (lift_outcome r)"
  "pure_prog (get_prop v k)"
  by (simp_all add: pure_prog_def ret_def throw_def asks_def gets_def lift_outcome_def get_prop_def)

lemma pure_prog_bind [one_intros]: "pure_prog m \<Longrightarrow> (\<And>x. pure_prog (f x)) \<Longrightarrow> pure_prog (bind m f)"
  by (auto simp: pure_prog_def bind_def split: prod.splits outcome.splits) (metis snd_conv)+

lemma pure_prog_if [one_intros]: "pure_prog m \<Longrightarrow> pure_prog n \<Longrightarrow> pure_prog (if b then m else n)"
  by simp

lemma pure_prog_let [one_intros]: "pure_prog (f x) \<Longrightarrow> pure_prog (let y = x in f y)"
  by simp

lemma pure_prog_parse [one_intros]: "pure_prog (parse_text t)"
  by (auto simp: parse_text_def pure_prog_basic split: option.splits)

lemma one_call_await [one_intros]: "one_call (\<lambda>E. c) (await_call c)"
  by (simp add: one_call_def await_call_awaited)

lemma one_call_bind [one_intros]: "one_call c m \<Longrightarrow> (\<And>x. pure_prog (f x)) \<Longrightarrow> one_call c (bind m f)"
  unfolding one_call_def pure_prog_def bind_def by (auto split: prod.splits outcome.splits) (metis snd_conv)+

lemma one_call_try_catch [one_intros]: "one_call c m \<Longrightarrow> (\<And>e. pure_prog (h e)) \<Longrightarrow> one_call c (try_catch m h)"
  unfolding one_call_def pure_prog_def try_catch_def by (auto split: prod.splits outcome.splits) (metis snd_conv)+

lemma one_call_wp: "one_call c m \<Longrightarrow> wp E m R = (\<lambda>w. R (fst (m E w)) (awaited E (c E) w))"
  by (auto simp: one_call_def wp_def fun_eq_iff split: prod.splits) (metis prod.sel)+

section \<open>Messages to the daemon and the wallet service\<close>

definition rpc_post :: "int \<Rightarrow> jsval \<Rightarrow> jsval \<Rightarrow> jsval \<Rightarrow> call" where
  "rpc_post port method params timeoutMs =
     HttpPost port ''/json_rpc''
       (Obj [(''jsonrpc'', Str ''2.0''), (''id'', Str ''0''), (''method'', method),
             (''params'', or_default params (Obj []))])
       (or_default timeoutMs (jint 10000))"

lemma or_default_idem [simp]: "or_default (or_default v d) d = or_default v d"
  by (simp add: or_default_def)

lemma one_call_rpcCall [one_intros]: "one_call (\<lambda>E. rpc_post port m p t) (rpcCall port m p t)"
  unfolding rpcCall_def rpc_post_def by (intro one_intros)

abbreviation wallet_post :: "jsval \<Rightarrow> jsval \<Rightarrow> jsval \<Rightarrow> call" where
  "wallet_post m p t \<equiv> rpc_post WALLET_RPC_PORT m (or_default p (Obj [])) (or_default (js_or t (jint 10000)) (jint 10000))"

abbreviation daemon_post :: "jsval \<Rightarrow> jsval \<Rightarrow> call" where
  "daemon_post m p \<equiv> rpc_post DAEMON_RPC_PORT m (or_default p (Obj [])) Undefined"

lemma one_call_walletRpc: "one_call (\<lambda>E. wallet_post m p t) (crylo_walletRpc m p t)"
  unfolding crylo_relay relay_def ipc_wallet_rpc_def with_message_def walletRpc_def by (intro one_intros)

lemma one_call_daemonRpc: "one_call (\<lambda>E. daemon_post m p) (crylo_daemonRpc m p)"
  unfolding crylo_relay relay_def ipc_daemon_rpc_def with_message_def daemonRpc_def by (intro one_intros)

definition confirm_box :: "jsval \<Rightarrow> call" where
  "confirm_box opts =
     ShowMessageBox (Obj
        [(''type'', js_or (jprop opts ''type'') (Str ''question'')),
         (''buttons'', js_or (jprop opts ''buttons'') (Arr [Str ''OK'', Str ''Cancel''])),
         (''defaultId'', jint 0), (''cancelId'', jint 1),
         (''title'', js_or (jprop opts ''title'') (Str [])),
         (''message'', js_or (jprop opts ''message'') (Str []))])"

lemma one_call_confirm:
  assumes "\<not> nullish opts"
  shows "one_call (\<lambda>E. confirm_box opts) (crylo_confirm opts)"
proof -
  have "ipc_confirm_dialog opts = bind (await_call (confirm_box opts)) (\<lambda>result.
     bind (get_prop result ''response'') (\<lambda>r. ret (Bool (strict_eq r (jint 0)))))"
    using assms by (simp add: ipc_confirm_dialog_def confirm_box_def get_prop_def bind_def ret_def fun_eq_iff)
  then show ?thesis unfolding crylo_relay relay_def by (auto intro!: one_intros)
qed

lemmas wp_walletRpc [wp_eval] = one_call_wp [OF one_call_walletRpc]
lemmas wp_daemonRpc [wp_eval] = one_call_wp [OF one_call_daemonRpc]
lemmas wp_confirm = one_call_wp [OF one_call_confirm]

text \<open>The user agreed: the dialog was answered with the first button.\<close>

definition agreed :: "env \<Rightarrow> call list \<Rightarrow> call \<Rightarrow> bool" where
  "agreed E h c \<longleftrightarrow> (\<exists>r. answer E h c = Ok r \<and> jprop r ''response'' = jint 0)"

lemma confirm_agreed:
  assumes "fst (crylo_confirm opts E w) = Ok v" "truthy v" "\<not> nullish opts"
  shows "agreed E (trace w) (confirm_box opts)"
  using assms
  by (auto simp: agreed_def crylo_relay relay_def ipc_confirm_dialog_def confirm_box_def get_prop_def bind_def ret_def
      try_catch_def throw_def await_call_def strict_eq_def split: outcome.splits if_splits)

end
