(* ===== verification/Steps.thy ===== *)
theory Steps
  imports Dispatch
begin

text \<open>
  Guarantees of programs. A guarantee is a relation between the world before and after a run; it is an order, so
  a program keeps it if each of its steps does. The locales name the steps: \<open>view_steps\<close> those of the functions
  that only show what the outside reports, \<open>app_steps\<close> all of them. That every function of the wallet keeps a
  guarantee is proved once here and instantiated for each guarantee.
\<close>

section \<open>Programs within a guarantee\<close>

type_synonym step = "env \<Rightarrow> world \<Rightarrow> world \<Rightarrow> bool"

definition runs_within :: "step \<Rightarrow> 'a js \<Rightarrow> bool" where
  "runs_within G m \<longleftrightarrow> (\<forall>E w. G E w (snd (m E w)))"

named_theorems rw_intros

lemma runs_within_wp: "runs_within G m \<longleftrightarrow> (\<forall>E w. wp E m (\<lambda>_. G E w) w)"
  by (simp add: runs_within_def wp_run)

lemma rw_if [rw_intros]:
  "(b \<Longrightarrow> runs_within G m) \<Longrightarrow> (\<not> b \<Longrightarrow> runs_within G n) \<Longrightarrow> runs_within G (if b then m else n)"
  by simp

lemma rw_let [rw_intros]: "runs_within G (f x) \<Longrightarrow> runs_within G (let y = x in f y)"
  by simp

lemma rw_case_prod [rw_intros]:
  "(\<And>x y. runs_within G (f x y)) \<Longrightarrow> runs_within G (case v of (x, y) \<Rightarrow> f x y)"
  by (cases v) auto

lemma rw_case_prod_app [rw_intros]:
  "(\<And>x y. runs_within G (f x y s)) \<Longrightarrow> runs_within G ((case v of (x, y) \<Rightarrow> f x y) s)"
  by (cases v) auto

lemma rw_case_option [rw_intros]:
  "runs_within G m \<Longrightarrow> (\<And>x. runs_within G (f x)) \<Longrightarrow> runs_within G (case v of None \<Rightarrow> m | Some x \<Rightarrow> f x)"
  by (cases v) auto

lemma rw_case_outcome [rw_intros]:
  "(\<And>x. runs_within G (f x)) \<Longrightarrow> (\<And>e. runs_within G (g e)) \<Longrightarrow> runs_within G m \<Longrightarrow>
   runs_within G (case v of Ok x \<Rightarrow> f x | Throw e \<Rightarrow> g e | Pending \<Rightarrow> m)"
  by (cases v) auto

lemma rw_case_num [rw_intros]:
  "(\<And>q. runs_within G (f q)) \<Longrightarrow> runs_within G a \<Longrightarrow> runs_within G b \<Longrightarrow> runs_within G c \<Longrightarrow>
   runs_within G (case v of Fin q \<Rightarrow> f q | PosInf \<Rightarrow> a | NegInf \<Rightarrow> b | NaN \<Rightarrow> c)"
  by (cases v) auto

lemma rw_case_val [rw_intros]:
  "runs_within G a \<Longrightarrow> runs_within G b \<Longrightarrow> (\<And>x. runs_within G (c x)) \<Longrightarrow> (\<And>x. runs_within G (d x)) \<Longrightarrow>
   (\<And>x. runs_within G (e x)) \<Longrightarrow> (\<And>x. runs_within G (f x)) \<Longrightarrow> (\<And>x. runs_within G (g x)) \<Longrightarrow>
   (\<And>x. runs_within G (h x)) \<Longrightarrow>
   runs_within G (case v of Undefined \<Rightarrow> a | Null \<Rightarrow> b | Bool x \<Rightarrow> c x | Num x \<Rightarrow> d x | Big x \<Rightarrow> e x | Str x \<Rightarrow> f x
     | Arr x \<Rightarrow> g x | Obj x \<Rightarrow> h x)"
  by (cases v) auto

lemma pure_js_items [one_intros]: "pure_prog (js_items v)"
  by (cases v) (auto intro: one_intros)

locale step_order =
  fixes G :: step
  assumes G_refl: "G E w w"
    and G_trans: "G E w v \<Longrightarrow> G E v u \<Longrightarrow> G E w u"
begin

lemma rw_pure: "pure_prog m \<Longrightarrow> runs_within G m"
  by (simp add: pure_prog_def runs_within_def G_refl)

lemma rw_wp: "runs_within G m \<Longrightarrow> G E w w' \<Longrightarrow> wp E m (\<lambda>_. G E w) w'"
  using G_trans by (auto simp: runs_within_def wp_run)

lemma rw_basic [rw_intros]:
  "runs_within G (ret x)" "runs_within G (throw e)" "runs_within G (gets f)" "runs_within G (asks g)"
  "runs_within G (lift_outcome r)" "runs_within G (get_prop v k)" "runs_within G (parse_text t)"
  "runs_within G (get_value i)" "runs_within G (get_text i)" "runs_within G (has_class i c)" "runs_within G (js_items v)"
  by (auto intro!: rw_pure one_intros simp: get_value_def get_text_def has_class_def)

lemma rw_bind [rw_intros]: "runs_within G m \<Longrightarrow> (\<And>x. runs_within G (f x)) \<Longrightarrow> runs_within G (bind m f)"
  unfolding runs_within_def bind_def by (auto split: prod.splits outcome.splits) (metis G_trans snd_conv)+

lemma rw_andthen [rw_intros]: "runs_within G m \<Longrightarrow> runs_within G n \<Longrightarrow> runs_within G (andthen m n)"
  unfolding andthen_def by (rule rw_bind)

lemma rw_try_catch [rw_intros]: "runs_within G m \<Longrightarrow> (\<And>e. runs_within G (h e)) \<Longrightarrow> runs_within G (try_catch m h)"
  unfolding runs_within_def try_catch_def by (auto split: prod.splits outcome.splits) (metis G_trans snd_conv)+

lemma rw_spawn_task [rw_intros]: "runs_within G m \<Longrightarrow> runs_within G (spawn_task m)"
  by (simp add: runs_within_def spawn_task_def)

lemma rw_do_if [rw_intros]: "(b \<Longrightarrow> runs_within G m) \<Longrightarrow> runs_within G (do_if b m)"
  by (auto simp: do_if_def rw_basic)

lemma rw_for_each [rw_intros]: "(\<And>x. runs_within G (f x)) \<Longrightarrow> runs_within G (for_each xs f)"
  by (induction xs) (auto intro: rw_intros)

lemma rw_fold_loop [rw_intros]: "(\<And>x s. runs_within G (f x s)) \<Longrightarrow> runs_within G (fold_loop xs s f)"
  by (induction xs arbitrary: s) (auto intro: rw_intros)

lemma rw_promise_all [rw_intros]:
  "runs_within G (promise_all [])"
  "runs_within G m \<Longrightarrow> runs_within G (promise_all ms) \<Longrightarrow> runs_within G (promise_all (m # ms))"
  by (auto simp: rw_basic) (auto simp: runs_within_def promise_all.simps(2) split: prod.splits, metis G_trans snd_conv)

lemma rw_block [rw_intros]:
  "runs_within G (block [])" "runs_within G m \<Longrightarrow> runs_within G (block ms) \<Longrightarrow> runs_within G (block (m # ms))"
  by (auto simp: block.simps rw_basic intro: rw_andthen)

lemma rw_block_map [rw_intros]: "(\<And>x. runs_within G (f x)) \<Longrightarrow> runs_within G (block (map f xs))"
  by (induction xs) (auto intro: rw_block)

lemma rw_relay [rw_intros]: "runs_within G m \<Longrightarrow> runs_within G (relay channel m)"
  unfolding relay_def by (intro rw_intros)

lemma rw_with_message [rw_intros]: "runs_within G m \<Longrightarrow> runs_within G (with_message m)"
  unfolding with_message_def by (intro rw_intros)

lemma rw_with_reason [rw_intros]: "runs_within G m \<Longrightarrow> runs_within G (with_reason m)"
  unfolding with_reason_def by (intro rw_intros)

end

section \<open>Calls that neither spend nor change anything outside\<close>

definition read_methods :: "string list" where
  "read_methods = [''get_info'', ''get_block_headers_range'', ''get_balance'', ''get_transfers'', ''get_address'',
     ''get_transfer_by_txid'']"

text \<open>
  Reading the daemon, the wallet service and the chain, asking the user, the clock, and the request that stops
  the miner. Everything else, transfers, sweeps, signed transactions, opening or creating wallets, new keys,
  requests to the bridge, starting processes, is not in this set.
\<close>

fun harmless :: "call \<Rightarrow> bool" where
  "harmless (HttpPost port path' body t) \<longleftrightarrow>
     (path' = ''/json_rpc'' \<and> jprop body ''method'' \<in> Str ` set read_methods) \<or>
     path' = ''/mining_status'' \<or> path' = ''/stop_mining''"
| "harmless (FetchCall url method body) \<longleftrightarrow> method = ''GET''"
| "harmless (FetchBody url) \<longleftrightarrow> True"
| "harmless (ContractRead a f as) \<longleftrightarrow> True"
| "harmless (ProviderCall f as) \<longleftrightarrow> True"
| "harmless (ShowMessageBox o') \<longleftrightarrow> True"
| "harmless (BrowserConfirm m) \<longleftrightarrow> True"
| "harmless (FsCall op p) \<longleftrightarrow> op = ''mkdir''"
| "harmless (SendToWindow ch v) \<longleftrightarrow> True"
| "harmless DateNow \<longleftrightarrow> True"
| "harmless (Sleep ms) \<longleftrightarrow> True"
| "harmless (HostCall f) \<longleftrightarrow> f = ''version'' \<or> f = ''cpus'' \<or> f = ''totalmem''"
| "harmless ConsoleLog \<longleftrightarrow> True"
| "harmless _ \<longleftrightarrow> False"

text \<open>The handles of the intervals of the main screen.\<close>

definition same_timers :: "app_state \<Rightarrow> app_state \<Rightarrow> bool" where
  "same_timers s s' \<longleftrightarrow> refreshTimer s' = refreshTimer s \<and> blockPoller s' = blockPoller s"

text \<open>Clearing a poll of the bridge together with its handle.\<close>

definition drop_release_poll :: "unit js" where
  "drop_release_poll =
     bind (gets bridgeReleasePollTimer) (\<lambda>t. andthen (clear_timer t) (modify (\<lambda>w. w\<lparr>bridgeReleasePollTimer := None\<rparr>)))"

definition drop_bridge_poll :: "unit js" where
  "drop_bridge_poll =
     bind (gets cryloBridgePollTimer) (\<lambda>t. andthen (clear_timer t) (modify (\<lambda>w. w\<lparr>cryloBridgePollTimer := None\<rparr>)))"

lemma andthen_assoc: "andthen (andthen a b) c = andthen a (andthen b c)"
  by (auto simp: andthen_def bind_def fun_eq_iff split: prod.splits outcome.splits)

lemma andthen_bind_assoc: "andthen (bind m f) c = bind m (\<lambda>x. andthen (f x) c)"
  by (auto simp: andthen_def bind_def fun_eq_iff split: prod.splits outcome.splits)

lemma drop_poll_seq:
  "bind (gets bridgeReleasePollTimer) (\<lambda>t. andthen (clear_timer t)
     (andthen (modify (\<lambda>w. w\<lparr>bridgeReleasePollTimer := None\<rparr>)) m)) = andthen drop_release_poll m"
  "bind (gets cryloBridgePollTimer) (\<lambda>t. andthen (clear_timer t)
     (andthen (modify (\<lambda>w. w\<lparr>cryloBridgePollTimer := None\<rparr>)) m)) = andthen drop_bridge_poll m"
  by (simp_all add: drop_release_poll_def drop_bridge_poll_def andthen_bind_assoc andthen_assoc)

locale view_steps = step_order +
  assumes page_step: "G E w (upd_page i f w)"
    and timeout_step: "G E w (w\<lparr>timers := timers w @ [(next_timer w, Timeout cb ms)], next_timer := Suc (next_timer w)\<rparr>)"
    and clear_step: "G E w (w\<lparr>timers := filter (\<lambda>(j, _). j \<noteq> tid) (timers w)\<rparr>)"
    and state_step: "same_timers (st w) (g (st w)) \<Longrightarrow> walletName (g (st w)) = walletName (st w) \<Longrightarrow> G E w (w\<lparr>st := g (st w)\<rparr>)"
    and storage_step: "G E w (w\<lparr>storage := x\<rparr>)"
    and dirs_step: "G E w (w\<lparr>dirs := ds\<rparr>)"
    and sync_step: "harmless c \<Longrightarrow> G E w (w\<lparr>trace := trace w @ [c]\<rparr>)"
    and await_step: "harmless c \<Longrightarrow> G E w (awaited E c w)"
    and drop_release_step: "runs_within G drop_release_poll"
    and drop_bridge_step: "runs_within G drop_bridge_poll"
begin

lemmas [rw_intros] = drop_release_step drop_bridge_step

lemma rw_page [rw_intros]:
  "runs_within G (write_el i k f)" "runs_within G (change_el i k f)" "runs_within G (modify (upd_page i f))"
  by (auto simp: runs_within_def write_el_def change_el_def modify_def throw_def page_step G_refl)

lemma rw_page_ops [rw_intros]:
  "runs_within G (set_text i s)" "runs_within G (set_html i s)" "runs_within G (set_value i s)"
  "runs_within G (set_disabled i b)" "runs_within G (set_class_name i s)" "runs_within G (set_style i s t)"
  "runs_within G (set_attr i s t)" "runs_within G (add_class i s)" "runs_within G (remove_class i s)"
  "runs_within G (toggle_class i s b)" "runs_within G (append_node i n)" "runs_within G (set_text_if i s)"
  "runs_within G (set_html_if i s)"
  unfolding set_text_if_def set_html_if_def set_text_def set_html_def set_value_def set_disabled_def
    set_class_name_def set_style_def set_attr_def toggle_class_def add_class_def remove_class_def append_node_def
  by (intro rw_intros)+

lemma rw_state [rw_intros]:
  "(\<And>s. same_timers s (f s)) \<Longrightarrow> (\<And>s. walletName (f s) = walletName s) \<Longrightarrow> runs_within G (set_state f)"
  by (simp add: set_state_def runs_within_def modify_def state_step)

lemma rw_timers [rw_intros]:
  "runs_within G (set_timeout c ms)" "runs_within G (clear_interval j)" "runs_within G (clear_timer t)"
  by (auto simp: runs_within_def set_timeout_def add_timer_def bind_def ret_def timeout_step clear_interval_def
      modify_def clear_step clear_timer_def G_refl split: option.splits)

lemma rw_storage [rw_intros]: "runs_within G (storage_set k v)" "runs_within G (storage_remove k)"
  by (auto simp: runs_within_def storage_set_def storage_remove_def modify_def storage_step)

lemma rw_calls [rw_intros]:
  "harmless c \<Longrightarrow> runs_within G (sync_call c)" "harmless c \<Longrightarrow> runs_within G (await_call c)"
  by (simp_all add: runs_within_def sync_call_def await_call_awaited sync_step await_step)

lemma rw_one_call: "one_call c m \<Longrightarrow> (\<And>E. harmless (c E)) \<Longrightarrow> runs_within G m"
  by (simp add: one_call_def runs_within_def await_step)

lemma rw_rpc [rw_intros]:
  "m \<in> Str ` set read_methods \<Longrightarrow> runs_within G (crylo_walletRpc m p t)"
  "m \<in> Str ` set read_methods \<Longrightarrow> runs_within G (crylo_daemonRpc m p)"
  by (auto intro!: rw_one_call [OF one_call_walletRpc] rw_one_call [OF one_call_daemonRpc] simp: rpc_post_def)

lemma rw_mkdir [rw_intros]: "runs_within G (fs_mkdirSync p)"
  unfolding fs_mkdirSync_def
  by (intro rw_intros) (simp_all add: runs_within_def modify_def dirs_step G_refl)

lemma rw_dirs [rw_intros]:
  "runs_within G (ensure_dir p)" "runs_within G getWalletDir" "runs_within G getLogDir" "runs_within G (fs_existsSync p)"
  "runs_within G (fs_readFileSync p)" "runs_within G (nexus_file v)"
  unfolding nexus_file_def getWalletDir_def getLogDir_def ensure_dir_def fs_existsSync_def fs_readFileSync_def
  by (intro rw_intros)+

lemma rw_chain [rw_intros]:
  "runs_within G (read_contract a f as)" "runs_within G (pending_nonce a)" "runs_within G (formatWcryloUnits v)"
  "runs_within G (formatNexusGasUnits v)" "runs_within G (parseWcryloUnits v)"
  "runs_within G (lower_of v)" "runs_within G (text_of v)" "runs_within G (item_of v i)" "runs_within G (name_includes v p)"
  unfolding read_contract_def pending_nonce_def formatWcryloUnits_def formatNexusGasUnits_def parseWcryloUnits_def
    lower_of_def text_of_def item_of_def name_includes_def
  by (rule rw_intros | (simp; fail))+

lemma rw_dialog [rw_intros]: "runs_within G (crylo_confirm opts)"
  unfolding crylo_relay ipc_confirm_dialog_def by (rule rw_intros | (simp; fail))+

lemma rw_miner [rw_intros]:
  "runs_within G crylo_minerGetInfo" "runs_within G crylo_minerGetStatus" "runs_within G crylo_minerStop"
  unfolding crylo_relay ipc_miner_get_info_def ipc_miner_get_status_def ipc_miner_stop_def daemonHttp_def
  by (rule rw_intros | (simp; fail))+

lemma rw_wallet_files [rw_intros]:
  "runs_within G crylo_listWallets" "runs_within G (crylo_nexusWalletLoad n a)" "runs_within G (loadBoundNexusWallet n a)"
  unfolding crylo_relay ipc_list_wallets_def ipc_nexus_wallet_load_def loadBoundNexusWallet_def
  by (rule rw_intros | (simp; fail))+

lemma rw_bridge_reply [rw_intros]: "runs_within G (bridge_reply url res)"
  unfolding bridge_reply_def by (rule rw_intros | (simp; fail))+

lemma rw_bridge_status [rw_intros]:
  "runs_within G (crylo_bridgeStatus p)" "runs_within G (crylo_bridgeReleaseStatus h)"
  unfolding crylo_relay ipc_bridge_status_def ipc_bridge_release_status_def
  by (rule rw_intros | (simp; fail))+

lemma rw_nexus_reads [rw_intros]:
  "runs_within G (crylo_nexusWcryloBalance a)" "runs_within G (crylo_nexusStakedBalance a)"
  "runs_within G (crylo_nexusPendingRewards a)" "runs_within G (crylo_nexusNodeStatus a)"
  unfolding crylo_relay ipc_nexus_wcrylo_balance_def ipc_nexus_staked_balance_def ipc_nexus_pending_rewards_def
    ipc_nexus_node_status_def
  by (rule rw_intros | (simp; fail))+

lemma rw_gas_status [rw_intros]: "runs_within G (crylo_nexusGasStatus a)"
  unfolding crylo_relay ipc_nexus_gas_status_def by (rule rw_intros | (simp; fail))+

lemma rw_scan [rw_intros]: "runs_within G (crylo_nexusScanNfts a)"
  unfolding crylo_relay ipc_nexus_scan_nfts_def counter_loop_def scan_token_def by (rule rw_intros | (simp; fail))+

lemma rw_transactions [rw_intros]: "runs_within G (crylo_nexusTransactions a)"
  unfolding crylo_relay ipc_nexus_transactions_def safeLogs_def push_log_def tx_entry_def tx_amount_def
  by (rule rw_intros | (simp; fail))+

text \<open>The functions of the renderer that only show.\<close>

lemma rw_toast [rw_intros]: "runs_within G (toast_for m k ms)" "runs_within G (toast m k)"
  unfolding toast_def toast_for_def by (rule rw_intros)+

lemma rw_nexus_state [rw_intros]:
  "runs_within G wallet_name" "runs_within G wallet_address" "runs_within G getLinkedNexusAddress"
  "runs_within G (fmtDate t)" "runs_within G (fmtUnix t)" "runs_within G (locale_text v)" "runs_within G (shortTxid v)"
  unfolding wallet_name_def wallet_address_def getLinkedNexusAddress_def fmtDate_def fmtUnix_def locale_text_def shortTxid_def
  by (rule rw_intros)+

lemma rw_ensure_address [rw_intros]: "runs_within G ensureCryLoAddressLoaded"
  unfolding ensureCryLoAddressLoaded_def by (rule rw_intros | (simp add: read_methods_def same_timers_def; fail))+

lemma rw_nexus_ui [rw_intros]:
  "runs_within G (setNexusUiAddress v)" "runs_within G clearNexusUiForWalletSwitch"
  unfolding setNexusUiAddress_def clearNexusUiForWalletSwitch_def
  by (rule rw_intros | (simp add: same_timers_def; fail))+

lemma rw_nexus_views [rw_intros]:
  "runs_within G loadSavedNexusLinkedAddress" "runs_within G refreshNexusWcryloBalance"
  "runs_within G refreshNexusStakedBalance" "runs_within G refreshNexusPendingRewards"
  "runs_within G refreshNexusNodeStatus" "runs_within G refreshNexusGasStatus"
  unfolding loadSavedNexusLinkedAddress_def refreshNexusWcryloBalance_def refreshNexusStakedBalance_def
    refreshNexusPendingRewards_def refreshNexusNodeStatus_def refreshNexusGasStatus_def
  by (rule rw_intros | (simp; fail))+

lemma rw_nexus_txs [rw_intros]: "runs_within G loadNexusTransactions"
  unfolding loadNexusTransactions_def nexus_tx_html_def by (rule rw_intros)+

lemma rw_sync_status [rw_intros]: "runs_within G updateSyncStatus"
  unfolding updateSyncStatus_def show_range_hashrate_def show_target_hashrate_def
  by (rule rw_intros | (simp add: read_methods_def same_timers_def; fail))+

lemma rw_balance [rw_intros]: "runs_within G updateBalance" "runs_within G loadAddress"
  unfolding updateBalance_def loadAddress_def
  by (rule rw_intros | (simp add: read_methods_def same_timers_def; fail))+

lemma rw_transactions_view [rw_intros]: "runs_within G loadTransactions"
  unfolding loadTransactions_def merged_transfers_def tx_item_def
  by (rule rw_intros | (simp add: read_methods_def; fail))+

lemma rw_send_helpers [rw_intros]: "runs_within G sendMax" "runs_within G toggleAdvanced"
  unfolding sendMax_def toggleAdvanced_def by (rule rw_intros)+

lemma rw_confirm_poll [rw_intros]: "runs_within G (confirm_poll txid i)"
  unfolding confirm_poll_def by (rule rw_intros | (simp add: read_methods_def; fail))+

lemma rw_vesting [rw_intros]: "runs_within G loadVesting"
  unfolding loadVesting_def show_vest_summary_def vest_row_node_def status_html_def
  by (rule rw_intros | (simp add: read_methods_def; fail))+

lemma rw_mining_view [rw_intros]: "runs_within G initMiningTab" "runs_within G stopMining"
  unfolding initMiningTab_def stopMining_def by (rule rw_intros | (simp add: same_timers_def; fail))+

lemma rw_mining_tick [rw_intros]: "runs_within G mining_tick"
  unfolding mining_tick_def show_chain_info_def show_mining_estimate_def reward_atomic_def
  by (rule rw_intros | (simp add: read_methods_def same_timers_def; fail))+

lemma rw_buyback_view [rw_intros]: "runs_within G loadNexusBuyback"
  unfolding loadNexusBuyback_def nft_html_def by (rule rw_intros)+

lemma rw_refresh [rw_intros]: "runs_within G refreshActiveTab" "runs_within G refreshAll"
  unfolding refreshAll_def refreshActiveTab_def by (rule rw_intros)+

lemma rw_main_polls [rw_intros]: "runs_within G (initial_load n)" "runs_within G block_poll"
  unfolding initial_load_def block_poll_def
  by (rule rw_intros | (simp add: read_methods_def same_timers_def; fail))+

lemma rw_bridge_views [rw_intros]:
  "runs_within G resetBridgeFormAfterMint" "runs_within G refreshBridgeRelatedViews" "runs_within G (setBridgeOutStatus m)"
  "runs_within G (setBridgeStatus m)" "runs_within G (setBridgeField i v)" "runs_within G refreshBridgeAddressFields"
  unfolding resetBridgeFormAfterMint_def refreshBridgeRelatedViews_def setBridgeOutStatus_def setBridgeStatus_def
    setBridgeField_def refreshBridgeAddressFields_def list.map
  by (rule rw_intros)+

lemma rw_bridge_ticks [rw_intros]: "runs_within G (release_tick h)" "runs_within G (bridge_tick p)"
  unfolding release_tick_def bridge_tick_def drop_poll_seq by (rule rw_intros)+

lemma rw_setup_view [rw_intros]:
  "runs_within G hideSplash" "runs_within G backToSetupCards" "runs_within G (showSetupForm ty)"
  "runs_within G (clear_options i h)" "runs_within G (append_option i v)" "runs_within G loadWalletList"
  "runs_within G showSetup" "runs_within G showSetupOrMain"
  unfolding showSetupOrMain_def showSetup_def loadWalletList_def append_option_def clear_options_def showSetupForm_def
    backToSetupCards_def hideSplash_def
  by (rule rw_intros)+

lemma rw_passwords [rw_intros]: "runs_within G (markPasswordInvalid i)" "runs_within G (clearPasswordInvalid i)"
  unfolding markPasswordInvalid_def clearPasswordInvalid_def by (rule rw_intros)+

lemma rw_messages [rw_intros]:
  "runs_within G (onStartupStatus d)" "runs_within G (onDaemonExit c)" "runs_within G (onWalletRpcExit c)"
  unfolding onStartupStatus_def onDaemonExit_def onWalletRpcExit_def
  by (rule rw_intros | (simp add: same_timers_def; fail))+

lemma rw_tabs [rw_intros]: "runs_within G (switchTab t)" "runs_within G (remove_toast i)"
  unfolding switchTab_def toggle_tab_button_def remove_toast_def
  by (rule rw_intros | (simp add: same_timers_def; fail))+

lemma rw_callback [rw_intros]: "runs_within G (run_callback c)"
  by (cases c) (simp_all only: run_callback.simps, (rule rw_intros)+)

end

section \<open>All steps\<close>

text \<open>Replacing the two intervals of the main screen, and dropping them.\<close>

definition start_pollers :: "unit js" where
  "start_pollers =
     bind (gets (\<lambda>w. refreshTimer (st w))) (\<lambda>t. andthen (clear_timer t)
     (bind (set_interval CbRefreshAll 30000) (\<lambda>i. andthen (set_state (\<lambda>s. s\<lparr>refreshTimer := Some i\<rparr>))
     (bind (gets (\<lambda>w. blockPoller (st w))) (\<lambda>t. andthen (clear_timer t)
     (bind (set_interval CbBlockPoll 10000) (\<lambda>i. set_state (\<lambda>s. s\<lparr>blockPoller := Some i\<rparr>))))))))"

definition drop_pollers :: "unit js" where
  "drop_pollers =
     bind (gets (\<lambda>w. refreshTimer (st w))) (\<lambda>t.
     andthen (case t of None \<Rightarrow> ret () | Some i \<Rightarrow> block [clear_interval i, set_state (\<lambda>s. s\<lparr>refreshTimer := None\<rparr>)])
     (bind (gets (\<lambda>w. blockPoller (st w))) (\<lambda>t.
      case t of None \<Rightarrow> ret () | Some i \<Rightarrow> block [clear_interval i, set_state (\<lambda>s. s\<lparr>blockPoller := None\<rparr>)])))"

lemma openMainScreen_seq:
  "openMainScreen =
     andthen (add_class ''setup-screen'' ''hidden'')
     (andthen (remove_class ''main-screen'' ''hidden'')
     (bind (gets (\<lambda>w. walletName (st w))) (\<lambda>n.
      andthen (set_text ''topbar-wallet-name'' n)
     (andthen (spawn_task (initial_load 0)) start_pollers))))"
  by (simp add: openMainScreen_def start_pollers_def)

lemma drop_pollers_seq:
  "bind (gets (\<lambda>w. refreshTimer (st w))) (\<lambda>t.
     andthen (case t of None \<Rightarrow> ret () | Some i \<Rightarrow> block [clear_interval i, set_state (\<lambda>s. s\<lparr>refreshTimer := None\<rparr>)])
     (bind (gets (\<lambda>w. blockPoller (st w))) (\<lambda>t.
      andthen (case t of None \<Rightarrow> ret () | Some i \<Rightarrow> block [clear_interval i, set_state (\<lambda>s. s\<lparr>blockPoller := None\<rparr>)]) m))) =
   andthen drop_pollers m"
  by (simp add: drop_pollers_def andthen_bind_assoc andthen_assoc)

text \<open>The callbacks of the intervals that the program keeps a handle of and must not run twice.\<close>

fun single_poll :: "callback \<Rightarrow> bool" where
  "single_poll CbRefreshAll \<longleftrightarrow> True"
| "single_poll CbBlockPoll \<longleftrightarrow> True"
| "single_poll (CbReleasePoll h) \<longleftrightarrow> True"
| "single_poll (CbBridgePoll p) \<longleftrightarrow> True"
| "single_poll _ \<longleftrightarrow> False"

locale call_steps = view_steps +
  assumes any_sync_step: "G E w (w\<lparr>trace := trace w @ [c]\<rparr>)"
    and any_await_step: "G E w (awaited E c w)"
begin

declare rw_calls [rw_intros del] rw_rpc [rw_intros del]

lemma rw_any_call [rw_intros]: "runs_within G (sync_call c)" "runs_within G (await_call c)"
  by (simp_all add: runs_within_def sync_call_def await_call_awaited any_sync_step any_await_step)

lemma rw_any_rpc [rw_intros]: "runs_within G (crylo_walletRpc m p t)" "runs_within G (crylo_daemonRpc m p)"
  using one_call_walletRpc one_call_daemonRpc by (simp_all add: one_call_def runs_within_def any_await_step)

lemma rw_register [rw_intros]: "runs_within G (registerBoundNexusWallet a)"
  unfolding registerBoundNexusWallet_def by (rule rw_intros)+

end

locale app_steps = call_steps +
  assumes interval_step: "\<not> single_poll cb \<Longrightarrow>
      G E w (w\<lparr>timers := timers w @ [(next_timer w, Interval cb ms)], next_timer := Suc (next_timer w)\<rparr>)"
    and start_pollers_step: "runs_within G start_pollers"
    and drop_pollers_step: "runs_within G drop_pollers"
    and release_poll_step: "runs_within G (pollBridgeReleaseStatus h)"
    and bridge_poll_step: "runs_within G (pollCryLoBridgeStatus p)"
    and new_key_step: "runs_within G (ipc_nexus_wallet_create n a)"
    and node_config_step: "runs_within G (saveOperatorConfig a naddr tier rpc chain c')"
begin

lemmas [rw_intros] = start_pollers_step drop_pollers_step release_poll_step bridge_poll_step new_key_step node_config_step

lemma rw_interval [rw_intros]: "\<not> single_poll c \<Longrightarrow> runs_within G (set_interval c ms)"
  by (simp add: runs_within_def set_interval_def add_timer_def interval_step)

lemma rw_tx [rw_intros]:
  "runs_within G (send_tx s a f as n)" "runs_within G (wait_tx t)" "runs_within G (tx_reply t r e)"
  unfolding send_tx_def wait_tx_def tx_reply_def by (rule rw_intros)+

lemma rw_nexus_sends [rw_intros]:
  "runs_within G (crylo_nexusBuyBackNft i n a)" "runs_within G (crylo_nexusBurnNft i n a)"
  "runs_within G (crylo_nexusClaimDailyGas n a)" "runs_within G (crylo_nexusBuyGasWithWcrylo t n a)"
  "runs_within G (crylo_nexusStakeWcrylo t n a)" "runs_within G (crylo_nexusUnstakeWcrylo t n a)"
  "runs_within G (crylo_nexusClaimRewards n a)" "runs_within G (crylo_nexusRegisterOperator n a)"
  "runs_within G (crylo_nexusRegisterValidator n a)" "runs_within G (crylo_nexusUnregisterNode n a)"
  "runs_within G (crylo_nexusClaimNodeRewards n a)" "runs_within G (crylo_nexusBurnForCryLo t n a)"
  unfolding crylo_relay ipc_nexus_buyback_nft_def ipc_nexus_burn_nft_def ipc_nexus_claim_daily_gas_def
    ipc_nexus_buy_gas_wcrylo_def ipc_nexus_stake_wcrylo_def ipc_nexus_unstake_wcrylo_def ipc_nexus_claim_rewards_def
    ipc_nexus_register_operator_def ipc_nexus_register_validator_def ipc_nexus_unregister_node_def
    ipc_nexus_claim_node_rewards_def ipc_nexus_burn_for_crylo_def
  by (rule rw_intros)+

lemma rw_other_messages [rw_intros]:
  "runs_within G (crylo_nexusWalletCreate n a)" "runs_within G (crylo_bridgeRequest p)" "runs_within G (crylo_minerStart o')"
  unfolding crylo_relay ipc_bridge_request_def ipc_miner_start_def daemonHttp_def by (rule rw_intros)+

lemma rw_create_bound [rw_intros]: "runs_within G createBoundNexusWallet"
  unfolding createBoundNexusWallet_def by (rule rw_intros)+

lemma rw_clipboard [rw_intros]: "runs_within G copyAddress" "runs_within G copyPaymentRequest"
  unfolding copyAddress_def copyPaymentRequest_def by (rule rw_intros)+

lemma rw_send [rw_intros]: "runs_within G sendTx"
  unfolding sendTx_def by (rule rw_intros)+

lemma rw_consolidate [rw_intros]: "runs_within G consolidateUtxos"
  unfolding consolidateUtxos_def sweep_def by (rule rw_intros | (simp; fail))+

lemma rw_start_mining [rw_intros]: "runs_within G startMining" "runs_within G toggleMining"
  unfolding toggleMining_def startMining_def by (rule rw_intros | (simp add: same_timers_def; fail))+

lemma rw_gas_check [rw_intros]: "runs_within G (ensureNexusGasForAction l g)"
  unfolding ensureNexusGasForAction_def by (rule rw_intros)+

lemma rw_staking [rw_intros]:
  "runs_within G stakeNexusWcrylo" "runs_within G unstakeNexusWcrylo" "runs_within G claimNexusRewards"
  unfolding stakeNexusWcrylo_def unstakeNexusWcrylo_def claimNexusRewards_def after_staking_def later_refreshes_def
    Let_def append.simps
  by (rule rw_intros)+

lemma rw_nodes [rw_intros]:
  "runs_within G registerNexusOperator" "runs_within G registerNexusValidator" "runs_within G unregisterNexusNode"
  "runs_within G claimNexusNodeRewards" "runs_within G claimNexusDailyGas" "runs_within G buyNexusGasWithWcrylo"
  unfolding registerNexusOperator_def registerNexusValidator_def unregisterNexusNode_def claimNexusNodeRewards_def
    claimNexusDailyGas_def buyNexusGasWithWcrylo_def
  by (rule rw_intros)+

lemma rw_nfts [rw_intros]: "runs_within G (buyBackNexusNFT i)" "runs_within G (burnNexusNFT i)"
  unfolding buyBackNexusNFT_def burnNexusNFT_def by (rule rw_intros)+

lemma rw_bridge_out [rw_intros]: "runs_within G startCryLoBridgeOut"
  unfolding startCryLoBridgeOut_def bridge_out_def by (rule rw_intros)+

lemma rw_bridge_in [rw_intros]: "runs_within G (deposit naddr n c sent)" "runs_within G startCryLoBridgeIn"
  unfolding startCryLoBridgeIn_def bridge_in_def deposit_def by (rule rw_intros)+

lemma rw_open_main [rw_intros]: "runs_within G openMainScreen"
  unfolding openMainScreen_seq by (rule rw_intros)+

end

text \<open>
  The functions that change which wallet is open. A guarantee that allows every change of the state but the handles of
  the intervals has them too.
\<close>

locale wallet_steps = app_steps +
  assumes wallet_step: "runs_within G createWallet" "runs_within G openWallet" "runs_within G restoreWallet"
    "runs_within G switchWallet"
begin

lemmas [rw_intros] = wallet_step

lemma rw_password_enter [rw_intros]: "runs_within G (on_password_enter i)"
  unfolding on_password_enter_def by (rule rw_intros)+

lemma rw_actions: "list_all (\<lambda>(a, m). runs_within G m) app_actions"
  unfolding app_actions_def by (simp only: list.pred_inject prod.case) (intro conjI TrueI rw_intros)

lemma rw_handle: "runs_within G (handle e)"
proof (cases e)
  case (Act a)
  show ?thesis
  proof (cases "map_of app_actions a")
    case None
    then show ?thesis using Act by (simp add: rw_basic)
  next
    case (Some m)
    then have "(a, m) \<in> set app_actions" by (rule map_of_SomeD)
    then show ?thesis using rw_actions Act Some by (auto simp: list_all_iff)
  qed
qed (simp_all only: handle.simps, (rule rw_intros)+)

end

locale any_state_steps = app_steps +
  assumes any_state_step: "same_timers (st w) (g (st w)) \<Longrightarrow> G E w (w\<lparr>st := g (st w)\<rparr>)"
begin

declare rw_state [rw_intros del]

lemma rw_any_state [rw_intros]: "(\<And>s. same_timers s (f s)) \<Longrightarrow> runs_within G (set_state f)"
  by (simp add: set_state_def runs_within_def modify_def any_state_step)

lemma rw_wallets:
  "runs_within G createWallet" "runs_within G openWallet" "runs_within G restoreWallet" "runs_within G switchWallet"
  unfolding createWallet_def openWallet_def restoreWallet_def close_current_wallet_def
    select_wallet_def setOpenWalletLoading_def switchWallet_def drop_pollers_seq
  by (rule rw_intros | (simp add: same_timers_def; fail))+

end

sublocale any_state_steps \<subseteq> wallet_steps
  by unfold_locales (rule rw_wallets)+

section \<open>The main process\<close>

text \<open>
  The events of the main process: its window is shown, closed or asked to navigate, the wallet service exits, the
  application is activated or all windows are closed. \<open>n\<close> bounds the attempts of the startup polls.
\<close>

datatype main_event =
    ReadyToShow nat
  | WindowClosed
  | WalletServiceExit jsval
  | AllWindowsClosed
  | Activate
  | Navigate string
  | WindowOpen string

definition wallet_log :: "env \<Rightarrow> string" where
  "wallet_log E = path_join E [path_join E [getUserDataPath E, LOG_DIR_NAME], ''wallet-rpc.log'']"

fun main_handle :: "main_event \<Rightarrow> unit js" where
  "main_handle (ReadyToShow n) = on_ready_to_show n"
| "main_handle WindowClosed = on_closed"
| "main_handle (WalletServiceExit c) = bind (asks wallet_log) (\<lambda>p. on_wallet_rpc_exit (''wallet-rpc'', p) c)"
| "main_handle AllWindowsClosed = on_window_all_closed"
| "main_handle Activate = on_activate"
| "main_handle (Navigate url) = bind (on_will_navigate url) (\<lambda>_. ret ())"
| "main_handle (WindowOpen url) = bind (on_window_open url) (\<lambda>_. ret ())"

text \<open>
  The states the two processes reach from a state: by any events of the renderer and of the main process in any
  order, each handled as the environment answers and interferes.
\<close>

inductive reachable :: "env \<Rightarrow> world \<Rightarrow> world \<Rightarrow> bool" for E :: env and start :: world where
  reach_start: "reachable E start start"
| reach_event: "reachable E start w \<Longrightarrow> reachable E start (snd (handle e E w))"
| reach_main: "reachable E start w \<Longrightarrow> reachable E start (snd (main_handle m E w))"

locale main_steps = wallet_steps +
  assumes process_step: "G E w (w\<lparr>daemonProc := d\<rparr>)" "G E w (w\<lparr>walletProc := d\<rparr>)"
    "G E w (w\<lparr>windowOpen := b\<rparr>)" "G E w (w\<lparr>shuttingDown := b\<rparr>)"
    and log_step: "runs_within G (fs_appendFile (l @ ''.log'') t)" "runs_within G (rotate_log (l @ ''.log''))"
begin

lemma rw_process [rw_intros]:
  "runs_within G (modify (\<lambda>w. w\<lparr>daemonProc := d\<rparr>))" "runs_within G (modify (\<lambda>w. w\<lparr>walletProc := d\<rparr>))"
  "runs_within G (modify (\<lambda>w. w\<lparr>windowOpen := b\<rparr>))" "runs_within G (modify (\<lambda>w. w\<lparr>shuttingDown := b\<rparr>))"
  by (simp_all add: runs_within_def modify_def process_step)

lemma rw_window [rw_intros]: "runs_within G (send_to_window ch v)" "runs_within G (sendStatus s m)"
  unfolding sendStatus_def send_to_window_def by (rule rw_intros)+

lemma rw_log [rw_intros]: "runs_within G (logger_write (n, l @ ''.log'') t)"
  unfolding logger_write_def snd_conv by (rule rw_intros log_step)+

lemma rw_logger [rw_intros]:
  assumes "\<And>l. runs_within G (f (name, l @ ''.log''))"
  shows "runs_within G (bind (makeLogger name) f)"
proof -
  have "runs_within G (bind (asks (\<lambda>E. path_join E [d, name @ ''.log''])) g)"
    if "\<And>l. runs_within G (g (l @ ''.log''))" for d and g :: "string \<Rightarrow> 'a js"
  proof -
    have "\<exists>l. path_join E [d, name @ ''.log''] = l @ ''.log''" for E
      by (rule exI [of _ "d @ path_sep E @ name"]) (simp add: path_join_def)
    then show ?thesis using that unfolding runs_within_def bind_def asks_def by (simp, metis)
  qed
  note path = this
  have "bind (makeLogger name) f = bind getLogDir (\<lambda>dir. bind (asks (\<lambda>E. path_join E [dir, name @ ''.log'']))
     (\<lambda>p. andthen (rotate_log p) (f (name, p))))"
    by (auto simp: makeLogger_def bind_def andthen_def asks_def ret_def fun_eq_iff split: prod.splits outcome.splits)
  then show ?thesis by simp (rule rw_intros path log_step assms)+
qed

lemma rw_rpc_call [rw_intros]: "runs_within G (rpcCall port m p t)"
  using one_call_rpcCall by (simp add: one_call_def runs_within_def any_await_step)

lemma rw_attempt [rw_intros]: "runs_within G (rpc_attempt n port m ms t)"
  by (induction n) (simp_all only: rpc_attempt.simps, (rule rw_intros | assumption)+)

lemma rw_spawns [rw_intros]: "runs_within G spawnDaemon" "runs_within G spawnWalletRpc" "runs_within G (killProc p)"
  unfolding spawnDaemon_def spawnWalletRpc_def killProc_def by (rule rw_logger rw_intros)+

lemma rw_backend [rw_intros]: "runs_within G (startBackend n)"
  unfolding startBackend_def waitForRpc_def by (rule rw_intros)+

lemma rw_main_handle: "runs_within G (main_handle e)"
proof (cases e)
  case (WalletServiceExit c)
  have "\<exists>l. wallet_log E = l @ ''.log''" for E
    by (rule exI [of _ "path_join E [getUserDataPath E, LOG_DIR_NAME] @ path_sep E @ ''wallet-rpc''"])
      (simp add: wallet_log_def path_join_def)
  moreover have "runs_within G (on_wallet_rpc_exit (''wallet-rpc'', l @ ''.log'') c)" for l
    unfolding on_wallet_rpc_exit_def by (rule rw_intros)+
  ultimately show ?thesis
    using WalletServiceExit unfolding runs_within_def by (simp add: bind_def asks_def) metis
qed (simp_all only: main_handle.simps on_ready_to_show_def on_closed_def on_window_all_closed_def on_activate_def
    createWindow_def on_will_navigate_def on_window_open_def, (rule rw_intros)+)

lemma rw_reachable: "reachable E start w \<Longrightarrow> G E start w"
proof (induction rule: reachable.induct)
  case (reach_event w e)
  then show ?case using rw_handle [of e] G_trans unfolding runs_within_def by blast
next
  case (reach_main w m)
  then show ?case using rw_main_handle [of m] G_trans unfolding runs_within_def by blast
qed (rule G_refl)

end

end
