(* ===== verification/Guarantees.thy ===== *)
theory Guarantees
  imports Steps
begin

text \<open>
  Three guarantees of the wallet, each an interpretation of the step locales: functions that only show never
  spend; the key files of the bound Nexus wallets are never overwritten or removed; the intervals of the main
  screen and of the bridge never run twice.
\<close>

section \<open>Only harmless calls\<close>

definition only_harmless :: step where
  "only_harmless E w w' \<longleftrightarrow> (\<exists>cs. trace w' = trace w @ cs \<and> list_all harmless cs)"

lemma only_harmless_frame: "trace w' = trace w \<Longrightarrow> only_harmless E w w'"
  by (simp add: only_harmless_def)

interpretation calm: view_steps only_harmless
proof
  show "only_harmless E w w" for E w by (simp add: only_harmless_def)
  show "only_harmless E w u" if "only_harmless E w v" "only_harmless E v u" for E w v u
    using that by (fastforce simp: only_harmless_def)
qed (auto simp: only_harmless_def runs_within_def drop_release_poll_def drop_bridge_poll_def bind_def gets_def andthen_def
    clear_timer_def clear_interval_def modify_def ret_def split: option.splits)

section \<open>Key files\<close>

text \<open>
  The files of the bound Nexus wallets. The files other handlers touch while a program waits are subject to the same
  guarantee, which is the assumption on the interference.
\<close>

definition key_path :: "string \<Rightarrow> bool" where
  "key_path p \<longleftrightarrow> ends_with p ''.nexus.json''"

definition keeps_keys :: "world \<Rightarrow> world \<Rightarrow> bool" where
  "keeps_keys w w' \<longleftrightarrow> (\<forall>p t. key_path p \<longrightarrow> map_of (files w) p = Some t \<longrightarrow> map_of (files w') p = Some t)"

definition keys_kept :: step where
  "keys_kept E w w' \<longleftrightarrow> (\<forall>h v. keeps_keys v (meddle E h v)) \<longrightarrow> keeps_keys w w'"

lemma keeps_keys_frame: "files w' = files w \<Longrightarrow> keeps_keys w w'"
  by (simp add: keeps_keys_def)

lemma keys_kept_frame: "files w' = files w \<Longrightarrow> keys_kept E w w'"
  by (simp add: keys_kept_def keeps_keys_frame)

lemma keys_kept_await: "keys_kept E w (awaited E c w)"
  by (auto simp: keys_kept_def awaited_def keeps_keys_def)

lemma map_of_put_assoc [simp]: "map_of (put_assoc k v xs) k' = (if k' = k then Some v else map_of xs k')"
  by (induction xs) (auto simp: put_assoc_def split: if_splits)

text \<open>A file is written at a path that is no key file, or where there was none.\<close>

lemma keys_kept_write:
  assumes "\<not> key_path p \<or> \<not> exists_path p w"
  shows "keys_kept E w (w\<lparr>files := put_assoc p t (files w)\<rparr>)"
proof -
  have "map_of (files w) p = None" if "\<not> exists_path p w"
    using that by (simp add: exists_path_def map_of_eq_None_iff)
  then show ?thesis using assms by (auto simp: keys_kept_def keeps_keys_def)
qed

interpretation kc: call_steps keys_kept
proof
  show "keys_kept E w w" for E w by (simp add: keys_kept_frame)
  show "keys_kept E w u" if "keys_kept E w v" "keys_kept E v u" for E w v u
    using that by (auto simp: keys_kept_def keeps_keys_def)
qed (auto simp: keys_kept_await keys_kept_frame runs_within_def drop_release_poll_def drop_bridge_poll_def bind_def gets_def
    andthen_def clear_timer_def clear_interval_def modify_def ret_def split: option.splits)

lemma keys_kept_create: "runs_within keys_kept (ipc_nexus_wallet_create n a)"
proof -
  have key: "runs_within keys_kept (bind (fs_existsSync p) (\<lambda>ex. if ex then m else
      bind (sync_call c) (\<lambda>x. bind (sync_call d) (\<lambda>y. bind (asks (f y)) (\<lambda>z. bind (get_prop x k) (\<lambda>u.
        andthen (fs_writeFileSync p (g x z u)) (r u)))))))"
    if m: "runs_within keys_kept m" and r: "\<And>u. runs_within keys_kept (r u)" for p m c d f k g and r :: "jsval \<Rightarrow> jsval js"
    unfolding runs_within_wp
  proof (intro allI)
    fix E w
    have step: "wp E (r u) (\<lambda>_. keys_kept E w) (w\<lparr>trace := h, files := put_assoc p t (files w)\<rparr>)"
      if "\<not> exists_path p w" for u h t
    proof (rule kc.rw_wp [OF r])
      have "keys_kept E w (w\<lparr>files := put_assoc p t (files w)\<rparr>)" using that by (intro keys_kept_write) simp
      then show "keys_kept E w (w\<lparr>trace := h, files := put_assoc p t (files w)\<rparr>)"
        by (simp add: keys_kept_def keeps_keys_def)
    qed
    show "wp E (bind (fs_existsSync p) (\<lambda>ex. if ex then m else
      bind (sync_call c) (\<lambda>x. bind (sync_call d) (\<lambda>y. bind (asks (f y)) (\<lambda>z. bind (get_prop x k) (\<lambda>u.
        andthen (fs_writeFileSync p (g x z u)) (r u))))))) (\<lambda>_. keys_kept E w) w"
      using kc.rw_wp [OF m kc.G_refl] step
      by (auto simp: fs_existsSync_def fs_writeFileSync_def wp_eval keys_kept_frame split: on_ok_split)
  qed
  show ?thesis
    unfolding ipc_nexus_wallet_create_def by (rule key | rule rw_intros)+
qed

lemma keys_kept_fs_write: "\<not> key_path p \<Longrightarrow> runs_within keys_kept (fs_writeFileSync p t)"
  unfolding fs_writeFileSync_def
  by (rule rw_intros)+ (auto simp: runs_within_def modify_def intro: keys_kept_write)

lemma log_not_key: "\<not> key_path (l @ ''.log'')"
  by (simp add: key_path_def ends_with_def starts_with_def)

lemma map_of_filter_other: "q \<noteq> p \<Longrightarrow> map_of (filter (\<lambda>(r, _). r \<noteq> p) xs) q = map_of xs q"
  by (induction xs) auto

lemma not_key_path: "\<not> key_path (path_join E [d, ''operator.json''])"
  by (simp_all add: key_path_def ends_with_def path_join_def starts_with_def)

lemma keys_kept_config: "runs_within keys_kept (saveOperatorConfig a naddr tier rpc chain c)"
proof -
  have "runs_within keys_kept (bind (asks (\<lambda>E. path_join E [d, ''operator.json''])) f)"
    if "\<And>p. \<not> key_path p \<Longrightarrow> runs_within keys_kept (f p)" for d and f :: "string \<Rightarrow> jsval js"
    using that not_key_path by (simp add: runs_within_def bind_def asks_def)
  note path = this
  show ?thesis
    unfolding saveOperatorConfig_def by (rule path | rule rw_intros | (rule keys_kept_fs_write, assumption))+
qed

interpretation ka: any_state_steps keys_kept
proof
  show "runs_within keys_kept (ipc_nexus_wallet_create n a)" for n a by (rule keys_kept_create)
  show "runs_within keys_kept (saveOperatorConfig a naddr tier rpc chain c)" for a naddr tier rpc chain c
    by (rule keys_kept_config)
qed (auto simp: keys_kept_frame runs_within_def start_pollers_def drop_pollers_def
    pollBridgeReleaseStatus_def pollCryLoBridgeStatus_def bind_def gets_def andthen_def clear_timer_def clear_interval_def
    modify_def ret_def set_state_def set_interval_def add_timer_def block.simps split: option.splits)

interpretation kept: main_steps keys_kept
proof
  show "runs_within keys_kept (fs_appendFile (l @ ''.log'') t)" for l t
    using keys_kept_write [OF disjI1 [OF log_not_key]] by (simp add: runs_within_def fs_appendFile_def modify_def)
  show "runs_within keys_kept (rotate_log (l @ ''.log''))" for l
  proof -
    have "p \<noteq> l @ ''.log''" if "key_path p" for p using that log_not_key by blast
    then have "keeps_keys w (w\<lparr>files := filter (\<lambda>(q, _). q \<noteq> l @ ''.log'') (files w)\<rparr>)" for w
      by (simp add: keeps_keys_def map_of_filter_other)
    then show ?thesis
      by (auto simp: runs_within_def rotate_log_def modify_def keys_kept_def keeps_keys_frame split: option.splits)
  qed
qed (simp_all add: keys_kept_frame)

section \<open>Intervals\<close>

text \<open>The handle the program keeps of an interval that must not run twice.\<close>

fun handle_of :: "world \<Rightarrow> callback \<Rightarrow> nat option" where
  "handle_of w CbRefreshAll = refreshTimer (st w)"
| "handle_of w CbBlockPoll = blockPoller (st w)"
| "handle_of w (CbReleasePoll h) = bridgeReleasePollTimer w"
| "handle_of w (CbBridgePoll p) = cryloBridgePollTimer w"
| "handle_of w _ = None"

definition timers_ok :: "world \<Rightarrow> bool" where
  "timers_ok w \<longleftrightarrow>
     (\<forall>i \<in> fst ` set (timers w). i < next_timer w) \<and> distinct (map fst (timers w)) \<and>
     (\<forall>i c ms. (i, Interval c ms) \<in> set (timers w) \<longrightarrow> single_poll c \<longrightarrow> handle_of w c = Some i)"

definition timers_kept :: step where
  "timers_kept E w w' \<longleftrightarrow> (\<forall>h v. timers_ok v \<longrightarrow> timers_ok (meddle E h v)) \<longrightarrow> timers_ok w \<longrightarrow> timers_ok w'"

lemma handle_of_cong:
  "refreshTimer (st w') = refreshTimer (st w) \<Longrightarrow> blockPoller (st w') = blockPoller (st w) \<Longrightarrow>
   bridgeReleasePollTimer w' = bridgeReleasePollTimer w \<Longrightarrow> cryloBridgePollTimer w' = cryloBridgePollTimer w \<Longrightarrow>
   handle_of w' c = handle_of w c"
  by (cases c) simp_all

lemma timers_ok_frame:
  assumes "timers w' = timers w" "next_timer w' = next_timer w" "same_timers (st w) (st w')"
    "bridgeReleasePollTimer w' = bridgeReleasePollTimer w" "cryloBridgePollTimer w' = cryloBridgePollTimer w"
  shows "timers_ok w' = timers_ok w"
  using handle_of_cong [of w' w] assms by (simp add: timers_ok_def same_timers_def)

lemma timers_ok_trace [simp]: "timers_ok (w\<lparr>trace := h\<rparr>) = timers_ok w"
  by (rule timers_ok_frame) (simp_all add: same_timers_def)

lemma timers_kept_frame:
  assumes "timers w' = timers w" "next_timer w' = next_timer w" "same_timers (st w) (st w')"
    "bridgeReleasePollTimer w' = bridgeReleasePollTimer w" "cryloBridgePollTimer w' = cryloBridgePollTimer w"
  shows "timers_kept E w w'"
  using timers_ok_frame [OF assms] by (simp add: timers_kept_def)

text \<open>Adding a timer, and dropping or replacing the interval of a handle.\<close>

definition without :: "nat option \<Rightarrow> (nat \<times> timer) list \<Rightarrow> (nat \<times> timer) list" where
  "without t ts = (case t of None \<Rightarrow> ts | Some i \<Rightarrow> filter (\<lambda>(j, _). j \<noteq> i) ts)"

lemma without_subset: "set (without t ts) \<subseteq> set ts"
  by (auto simp: without_def split: option.splits)

lemma without_handle: "(i, x) \<in> set (without t ts) \<Longrightarrow> t \<noteq> Some i"
  by (auto simp: without_def split: option.splits)

lemma distinct_without: "distinct (map fst ts) \<Longrightarrow> distinct (map fst (without t ts))"
  by (auto simp: without_def distinct_map inj_on_def split: option.splits)

lemma timers_okD:
  assumes "timers_ok w"
  shows "i \<in> fst ` set (timers w) \<Longrightarrow> i < next_timer w" "distinct (map fst (timers w))"
    "(i, Interval c ms) \<in> set (timers w) \<Longrightarrow> single_poll c \<Longrightarrow> handle_of w c = Some i"
proof -
  show "i < next_timer w" if "i \<in> fst ` set (timers w)" using assms that unfolding timers_ok_def by (elim conjE) (erule bspec)
  show "distinct (map fst (timers w))" using assms unfolding timers_ok_def by (elim conjE)
  show "handle_of w c = Some i" if "(i, Interval c ms) \<in> set (timers w)" "single_poll c"
    using assms that unfolding timers_ok_def by (elim conjE allE impE) assumption+
qed

lemma timers_ok_add:
  assumes ok: "timers_ok w" and t: "\<And>c ms. t = Interval c ms \<Longrightarrow> \<not> single_poll c"
  shows "timers_ok (w\<lparr>timers := timers w @ [(next_timer w, t)], next_timer := Suc (next_timer w)\<rparr>)"
proof -
  let ?w = "w\<lparr>timers := timers w @ [(next_timer w, t)], next_timer := Suc (next_timer w)\<rparr>"
  have h: "handle_of ?w c = handle_of w c" for c by (rule handle_of_cong) simp_all
  have fresh: "next_timer w \<notin> fst ` set (timers w)" using timers_okD(1) [OF ok] by blast
  show ?thesis
    unfolding timers_ok_def h
  proof (intro conjI ballI allI impI)
    show "distinct (map fst (timers ?w))" using fresh timers_okD(2) [OF ok] by simp
    show "i < next_timer ?w" if "i \<in> fst ` set (timers ?w)" for i
      using that timers_okD(1) [OF ok, of i] by (auto simp: less_Suc_eq)
    show "handle_of w c = Some i" if "(i, Interval c ms) \<in> set (timers ?w)" "single_poll c" for i c ms
      using that t timers_okD(3) [OF ok, of i c ms] by auto
  qed
qed

lemma timers_ok_clear: "timers_ok w \<Longrightarrow> timers_ok (w\<lparr>timers := filter (\<lambda>(j, _). j \<noteq> tid) (timers w)\<rparr>)"
proof -
  let ?w = "w\<lparr>timers := filter (\<lambda>(j, _). j \<noteq> tid) (timers w)\<rparr>"
  assume ok: "timers_ok w"
  have h: "handle_of ?w c = handle_of w c" for c by (rule handle_of_cong) simp_all
  have sub: "set (timers ?w) \<subseteq> set (timers w)" by auto
  show ?thesis
    unfolding timers_ok_def h
  proof (intro conjI ballI allI impI)
    show "distinct (map fst (timers ?w))" using distinct_without [OF timers_okD(2) [OF ok], of "Some tid"] by (simp add: without_def)
    show "i < next_timer ?w" if "i \<in> fst ` set (timers ?w)" for i
      using timers_okD(1) [OF ok] image_mono [OF sub] that by auto
    show "handle_of w c = Some i" if "(i, Interval c ms) \<in> set (timers ?w)" "single_poll c" for i c ms
      using that sub timers_okD(3) [OF ok, of i c ms] by blast
  qed
qed

lemma timers_ok_handle:
  assumes "timers_ok w" "(i, Interval d ms) \<in> set (without t (timers w))" "single_poll d"
  shows "handle_of w d = Some i" "t \<noteq> Some i"
proof -
  have "(i, Interval d ms) \<in> set (timers w)" using assms(2) without_subset by blast
  then show "handle_of w d = Some i" using timers_okD(3) [OF assms(1)] assms(3) by simp
  show "t \<noteq> Some i" using assms(2) by (rule without_handle)
qed

lemma timers_ok_drop:
  assumes ok: "timers_ok w" and w': "timers w' = without (handle_of w c) (timers w)" "next_timer w' = next_timer w"
    and other: "\<And>d. handle_of w' d = handle_of w d \<or> handle_of w d = handle_of w c"
  shows "timers_ok w'"
  unfolding timers_ok_def w'
proof (intro conjI ballI allI impI)
  fix i assume "i \<in> fst ` set (without (handle_of w c) (timers w))"
  then have "i \<in> fst ` set (timers w)" using without_subset by blast
  then show "i < next_timer w" by (rule timers_okD(1) [OF ok])
next
  show "distinct (map fst (without (handle_of w c) (timers w)))"
    by (rule distinct_without [OF timers_okD(2) [OF ok]])
next
  fix i d ms
  assume "(i, Interval d ms) \<in> set (without (handle_of w c) (timers w))" "single_poll d"
  then have "handle_of w d = Some i" "handle_of w c \<noteq> Some i"
    using timers_ok_handle [OF ok] by blast+
  then show "handle_of w' d = Some i" using other [of d] by auto
qed

lemma timers_ok_replace:
  assumes ok: "timers_ok w"
    and w': "timers w' = without (handle_of w c) (timers w) @ [(next_timer w, Interval c ms)]"
      "next_timer w' = Suc (next_timer w)" "handle_of w' c = Some (next_timer w)"
    and other: "\<And>d. handle_of w' d = handle_of w d \<or> handle_of w d = handle_of w c"
  shows "timers_ok w'"
proof -
  let ?ts = "without (handle_of w c) (timers w)"
  have old: "i < next_timer w" if "i \<in> fst ` set ?ts" for i
    using that without_subset [of "handle_of w c" "timers w"] by (intro timers_okD(1) [OF ok]) blast
  have "distinct (map fst ?ts)" by (rule distinct_without [OF timers_okD(2) [OF ok]])
  moreover have "next_timer w \<notin> fst ` set ?ts" using old by blast
  ultimately have "distinct (map fst (timers w'))" by (simp add: w')
  moreover have "i < next_timer w'" if "i \<in> fst ` set (timers w')" for i
    using that old by (force simp: w')
  moreover have "handle_of w' d = Some i" if "(i, Interval d ms') \<in> set (timers w')" "single_poll d" for i d ms'
  proof (cases "(i, Interval d ms') \<in> set ?ts")
    case True
    then have "handle_of w d = Some i" "handle_of w c \<noteq> Some i"
      using timers_ok_handle [OF ok] that(2) by blast+
    then show ?thesis using other [of d] by auto
  next
    case False
    then show ?thesis using that w' by simp
  qed
  ultimately show ?thesis unfolding timers_ok_def by blast
qed

lemma run_clear_timer: "clear_timer t E w = (Ok (), w\<lparr>timers := without t (timers w)\<rparr>)"
  by (auto simp: clear_timer_def clear_interval_def modify_def ret_def without_def split: option.splits)

lemmas run_simps = bind_def gets_def andthen_def modify_def ret_def set_state_def set_interval_def add_timer_def

lemma timers_kept_polls:
  "runs_within timers_kept drop_release_poll" "runs_within timers_kept drop_bridge_poll"
  "runs_within timers_kept (pollBridgeReleaseStatus h)" "runs_within timers_kept (pollCryLoBridgeStatus p)"
proof -
  have r: "handle_of w' d = handle_of w d \<or> handle_of w d = bridgeReleasePollTimer w"
    if "same_timers (st w) (st w')" "cryloBridgePollTimer w' = cryloBridgePollTimer w" for w w' d
    using that by (cases d) (auto simp: same_timers_def)
  have b: "handle_of w' d = handle_of w d \<or> handle_of w d = cryloBridgePollTimer w"
    if "same_timers (st w) (st w')" "bridgeReleasePollTimer w' = bridgeReleasePollTimer w" for w w' d
    using that by (cases d) (auto simp: same_timers_def)
  have "timers_ok (snd (drop_release_poll E w))" if "timers_ok w" for E w
    by (intro timers_ok_drop [OF that, where c = "CbReleasePoll Null"])
      (simp_all add: drop_release_poll_def run_simps run_clear_timer r same_timers_def)
  then show "runs_within timers_kept drop_release_poll" by (simp add: runs_within_def timers_kept_def)
  have "timers_ok (snd (drop_bridge_poll E w))" if "timers_ok w" for E w
    by (intro timers_ok_drop [OF that, where c = "CbBridgePoll Null"])
      (simp_all add: drop_bridge_poll_def run_simps run_clear_timer b same_timers_def)
  then show "runs_within timers_kept drop_bridge_poll" by (simp add: runs_within_def timers_kept_def)
  have "timers_ok (snd (pollBridgeReleaseStatus h E w))" if "timers_ok w" for E w
  proof (cases "\<not> truthy h \<or> strict_eq h (Str ''sent'')")
    case False
    then show ?thesis
      by (intro timers_ok_replace [OF that, where c = "CbReleasePoll h" and ms = 5000]) (simp_all add: pollBridgeReleaseStatus_def run_simps run_clear_timer r same_timers_def)
  qed (use that in \<open>auto simp: pollBridgeReleaseStatus_def ret_def\<close>)
  then show "runs_within timers_kept (pollBridgeReleaseStatus h)" by (simp add: runs_within_def timers_kept_def)
  have "timers_ok (snd (pollCryLoBridgeStatus p E w))" if "timers_ok w" for E w
    by (intro timers_ok_replace [OF that, where c = "CbBridgePoll p" and ms = 10000]) (simp_all add: pollCryLoBridgeStatus_def run_simps run_clear_timer b same_timers_def)
  then show "runs_within timers_kept (pollCryLoBridgeStatus p)" by (simp add: runs_within_def timers_kept_def)
qed

lemma timers_kept_start: "runs_within timers_kept start_pollers"
proof -
  have "timers_ok (snd (start_pollers E w))" if ok: "timers_ok w" for E w
  proof -
    let ?n = "next_timer w"
    define v where "v = w\<lparr>timers := without (refreshTimer (st w)) (timers w) @ [(?n, Interval CbRefreshAll 30000)],
      next_timer := Suc ?n, st := (st w)\<lparr>refreshTimer := Some ?n\<rparr>\<rparr>"
    define u where "u = v\<lparr>timers := without (blockPoller (st v)) (timers v) @ [(Suc ?n, Interval CbBlockPoll 10000)],
      next_timer := Suc (Suc ?n), st := (st v)\<lparr>blockPoller := Some (Suc ?n)\<rparr>\<rparr>"
    have other: "handle_of v d = handle_of w d \<or> handle_of w d = refreshTimer (st w)"
      "handle_of u d = handle_of v d \<or> handle_of v d = blockPoller (st v)" for d
      by (cases d; simp add: v_def u_def)+
    have "timers_ok v"
      by (rule timers_ok_replace [OF ok, where c = CbRefreshAll and ms = 30000]) (use other in \<open>simp_all add: v_def\<close>)
    then have "timers_ok u"
      by (rule timers_ok_replace [where c = CbBlockPoll and ms = 10000]) (use other in \<open>simp_all add: u_def v_def\<close>)
    moreover have "snd (start_pollers E w) = u"
      by (simp add: start_pollers_def run_simps run_clear_timer u_def v_def)
    ultimately show ?thesis by simp
  qed
  then show ?thesis by (simp add: runs_within_def timers_kept_def)
qed

lemma timers_kept_stop: "runs_within timers_kept drop_pollers"
proof -
  have "timers_ok (snd (drop_pollers E w))" if ok: "timers_ok w" for E w
  proof -
    define v where "v = w\<lparr>timers := without (refreshTimer (st w)) (timers w), st := (st w)\<lparr>refreshTimer := None\<rparr>\<rparr>"
    define u where "u = v\<lparr>timers := without (blockPoller (st v)) (timers v), st := (st v)\<lparr>blockPoller := None\<rparr>\<rparr>"
    have other: "handle_of v d = handle_of w d \<or> handle_of w d = refreshTimer (st w)"
      "handle_of u d = handle_of v d \<or> handle_of v d = blockPoller (st v)" for d
      by (cases d; simp add: v_def u_def)+
    have "timers_ok v"
      by (rule timers_ok_drop [OF ok, where c = CbRefreshAll]) (use other in \<open>simp_all add: v_def\<close>)
    then have "timers_ok u"
      by (rule timers_ok_drop [where c = CbBlockPoll]) (use other in \<open>simp_all add: u_def v_def\<close>)
    moreover have "snd (drop_pollers E w) = u"
      by (auto simp: drop_pollers_def run_simps block.simps clear_interval_def u_def v_def without_def split: option.splits)
    ultimately show ?thesis by simp
  qed
  then show ?thesis by (simp add: runs_within_def timers_kept_def)
qed

interpretation tc: call_steps timers_kept
proof
  show "timers_kept E w u" if "timers_kept E w v" "timers_kept E v u" for E w v u
    using that by (simp add: timers_kept_def)
  show "timers_kept E w (awaited E c w)" for E c w by (simp add: timers_kept_def awaited_def)
  then show "timers_kept E w (awaited E c w)" for E c w .
  show "timers_kept E w (w\<lparr>timers := timers w @ [(next_timer w, Timeout cb ms)], next_timer := Suc (next_timer w)\<rparr>)" for E w cb ms
    unfolding timers_kept_def by (intro impI timers_ok_add) simp_all
  show "timers_kept E w (w\<lparr>timers := filter (\<lambda>(j, _). j \<noteq> tid) (timers w)\<rparr>)" for E w tid
    by (simp add: timers_kept_def timers_ok_clear)
qed (auto intro!: timers_kept_frame timers_kept_polls simp: same_timers_def)

lemma timers_kept_write [rw_intros]: "runs_within timers_kept (fs_writeFileSync p t)"
  unfolding fs_writeFileSync_def
  by (rule rw_intros)+ (simp add: runs_within_def modify_def timers_kept_frame same_timers_def)

interpretation ta: any_state_steps timers_kept
proof
  show "timers_kept E w (w\<lparr>timers := timers w @ [(next_timer w, Interval cb ms)], next_timer := Suc (next_timer w)\<rparr>)"
    if "\<not> single_poll cb" for E w cb ms
    using that unfolding timers_kept_def by (intro impI timers_ok_add) simp_all
  show "runs_within timers_kept (ipc_nexus_wallet_create n a)" for n a
    unfolding ipc_nexus_wallet_create_def by (rule rw_intros)+
  show "runs_within timers_kept (saveOperatorConfig a naddr tier rpc chain c')" for a naddr tier rpc chain c'
    unfolding saveOperatorConfig_def by (rule rw_intros)+
  show "timers_kept E w (w\<lparr>st := g (st w)\<rparr>)" if "same_timers (st w) (g (st w))" for E w g
    using that by (intro timers_kept_frame) simp_all
qed (rule timers_kept_start timers_kept_stop timers_kept_polls)+

interpretation polls: main_steps timers_kept
proof
  show "runs_within timers_kept (fs_appendFile (l @ ''.log'') t)" for l t
    by (simp add: runs_within_def fs_appendFile_def modify_def timers_kept_frame same_timers_def)
  show "runs_within timers_kept (rotate_log (l @ ''.log''))" for l
    by (auto simp: runs_within_def rotate_log_def modify_def intro!: timers_kept_frame split: option.splits)
       (simp_all add: same_timers_def)
qed (rule timers_kept_frame; simp add: same_timers_def)+

lemma single_poll_unique:
  assumes "timers_ok w" "(i, Interval c ms) \<in> set (timers w)" "(j, Interval d ms') \<in> set (timers w)"
    "single_poll c" "single_poll d" "handle_of w c = handle_of w d"
  shows "i = j"
  using timers_okD(3) [OF assms(1,2,4)] timers_okD(3) [OF assms(1,3,5)] assms(6) by simp

section \<open>Events that only show\<close>

text \<open>The actions by which the user spends, signs, opens or creates a wallet, mines or copies.\<close>

definition deliberate_actions :: "string list" where
  "deliberate_actions =
     [''createWallet'', ''openWallet'', ''restoreWallet'', ''openMainScreen'', ''switchWallet'', ''sendTx'', ''consolidateUtxos'',
      ''copyAddress'', ''copyPaymentRequest'', ''toggleMining'', ''buyNexusGasWithWcrylo'', ''claimNexusDailyGas'',
      ''claimNexusRewards'', ''stakeNexusWcrylo'', ''unstakeNexusWcrylo'', ''registerNexusOperator'',
      ''registerNexusValidator'', ''claimNexusNodeRewards'', ''unregisterNexusNode'', ''startCryLoBridgeIn'',
      ''startCryLoBridgeOut'', ''createBoundNexusWallet'']"

fun deliberate :: "app_event \<Rightarrow> bool" where
  "deliberate (Act a) \<longleftrightarrow> a \<in> set deliberate_actions"
| "deliberate (BuyBack i) \<longleftrightarrow> True"
| "deliberate (Burn i) \<longleftrightarrow> True"
| "deliberate (PasswordEnter i) \<longleftrightarrow> True"
| "deliberate _ \<longleftrightarrow> False"

lemma view_actions: "list_all (\<lambda>(a, m). a \<in> set deliberate_actions \<or> runs_within only_harmless m) app_actions"
proof -
  have "runs_within only_harmless refreshAll" "runs_within only_harmless sendMax" "runs_within only_harmless toggleAdvanced"
    "runs_within only_harmless backToSetupCards" "runs_within only_harmless refreshNexusWcryloBalance"
    "runs_within only_harmless refreshNexusStakedBalance" "runs_within only_harmless refreshNexusGasStatus"
    "runs_within only_harmless refreshNexusPendingRewards" "runs_within only_harmless refreshNexusNodeStatus"
    "runs_within only_harmless loadNexusBuyback" "runs_within only_harmless loadNexusTransactions"
    "runs_within only_harmless initMiningTab"
    by (rule rw_intros)+
  then show ?thesis by (simp add: app_actions_def deliberate_actions_def)
qed

lemma view_event: "\<not> deliberate e \<Longrightarrow> runs_within only_harmless (handle e)"
proof (cases e)
  case (Act a)
  assume "\<not> deliberate e"
  then have a: "a \<notin> set deliberate_actions" using Act by simp
  show ?thesis
  proof (cases "map_of app_actions a")
    case (Some m)
    then have "(a, m) \<in> set app_actions" by (rule map_of_SomeD)
    then show ?thesis using view_actions a Act Some by (auto simp: list_all_iff)
  qed (use Act in \<open>simp add: calm.rw_basic\<close>)
qed (simp_all only: handle.simps deliberate.simps not_True_eq_False not_False_eq_True, (rule rw_intros)+)

section \<open>Properties\<close>

text \<open>The numbers of the live intervals whose callback satisfies a test.\<close>

definition live_intervals :: "(callback \<Rightarrow> bool) \<Rightarrow> world \<Rightarrow> nat list" where
  "live_intervals test w =
     map fst (filter (\<lambda>(i, t). case t of Interval c ms \<Rightarrow> test c | Timeout c ms \<Rightarrow> False) (timers w))"

lemma live_intervals_single:
  assumes "timers_ok w" "\<And>c. test c \<Longrightarrow> single_poll c \<and> handle_of w c = hd'"
  shows "length (live_intervals test w) \<le> 1"
proof -
  let ?is = "live_intervals test w"
  have "set ?is \<subseteq> set_option hd'"
  proof
    fix i assume "i \<in> set ?is"
    then obtain c ms where c: "(i, Interval c ms) \<in> set (timers w)" "test c"
      by (auto simp: live_intervals_def split: timer.splits)
    then have "handle_of w c = Some i" using timers_okD(3) [OF assms(1)] assms(2) by blast
    then show "i \<in> set_option hd'" using assms(2) [OF c(2)] by simp
  qed
  moreover have "finite (set_option hd')" "card (set_option hd') \<le> 1" by (cases hd'; simp)+
  ultimately have "card (set ?is) \<le> 1" by (metis card_mono le_trans)
  moreover have "distinct ?is" using timers_okD(2) [OF assms(1)] by (simp add: live_intervals_def distinct_map_filter)
  ultimately show ?thesis by (simp add: distinct_card)
qed

lemma live_intervals_cases:
  assumes ok: "timers_ok w"
  shows "length (live_intervals (\<lambda>c. c = CbRefreshAll) w) \<le> 1" "length (live_intervals (\<lambda>c. c = CbBlockPoll) w) \<le> 1"
    "length (live_intervals (\<lambda>c. \<exists>h. c = CbReleasePoll h) w) \<le> 1" "length (live_intervals (\<lambda>c. \<exists>p. c = CbBridgePoll p) w) \<le> 1"
proof -
  show "length (live_intervals (\<lambda>c. c = CbRefreshAll) w) \<le> 1" by (rule live_intervals_single [OF ok]) auto
  show "length (live_intervals (\<lambda>c. c = CbBlockPoll) w) \<le> 1" by (rule live_intervals_single [OF ok]) auto
  show "length (live_intervals (\<lambda>c. \<exists>h. c = CbReleasePoll h) w) \<le> 1" by (rule live_intervals_single [OF ok]) auto
  show "length (live_intervals (\<lambda>c. \<exists>p. c = CbBridgePoll p) w) \<le> 1" by (rule live_intervals_single [OF ok]) auto
qed

text \<open>C3. Whatever fires without a deliberate act of the user, every timer, every message of the main process, every tab and
  every refresh, makes only harmless calls: it reads the daemon, the wallet service and the chain, asks the user or
  stops the miner, and never transfers, sweeps, signs, opens a wallet or creates a key, whatever the outside answers.\<close>

theorem view_events_never_spend:
  assumes "\<not> deliberate e"
  shows "\<exists>cs. trace (snd (handle e E w)) = trace w @ cs \<and> list_all harmless cs"
  using view_event [OF assms] by (simp add: runs_within_def only_harmless_def)

theorem view_events_never_spend_witness:
  "\<exists>cs. trace (snd (handle (TimerFires CbRefreshAll) (sample_env (\<lambda>h c. Ok Null)) sample_world)) = trace sample_world @ cs
     \<and> list_all harmless cs"
  by (rule view_events_never_spend) simp

text \<open>C4. In every run of the application, by any events in any order, a key file of a bound Nexus wallet that exists keeps its
  content: no handler overwrites or deletes it, provided that code running in between does not either.\<close>

theorem key_files_never_lost:
  assumes "\<And>h v. keeps_keys v (meddle E h v)" "reachable E start w" "key_path p" "map_of (files start) p = Some t"
  shows "map_of (files w) p = Some t"
  using kept.rw_reachable [OF assms(2)] assms(1,3,4) by (simp add: keys_kept_def keeps_keys_def)

theorem key_files_never_lost_witness:
  "map_of (files (snd (handle (Act ''createBoundNexusWallet'') (sample_env (\<lambda>h c. Ok (Obj [])))
     (sample_world\<lparr>files := [(''/data/wallets/alice.nexus.json'', ''{}'')]\<rparr>)))) ''/data/wallets/alice.nexus.json'' = Some ''{}''"
  by (rule key_files_never_lost [OF _ reach_event [OF reach_start]])
     (simp_all add: sample_env_def keeps_keys_def key_path_def ends_with_def starts_with_def)

text \<open>C13. In every run of the application from a page without timers, the refresh interval, the block poll and the two polls of
  the bridge are each alive at most once, however often a wallet is opened or switched and a bridge is started.\<close>

theorem pollers_never_stack:
  assumes "\<And>h v. timers_ok v \<Longrightarrow> timers_ok (meddle E h v)" "reachable E start w" "timers start = []"
  shows "length (live_intervals (\<lambda>c. c = CbRefreshAll) w) \<le> 1 \<and> length (live_intervals (\<lambda>c. c = CbBlockPoll) w) \<le> 1 \<and>
    length (live_intervals (\<lambda>c. \<exists>h. c = CbReleasePoll h) w) \<le> 1 \<and> length (live_intervals (\<lambda>c. \<exists>p. c = CbBridgePoll p) w) \<le> 1"
proof -
  have "timers_ok start" using assms(3) by (simp add: timers_ok_def)
  then have "timers_ok w" using polls.rw_reachable [OF assms(2)] assms(1) by (simp add: timers_kept_def)
  then show ?thesis using live_intervals_cases by blast
qed

theorem pollers_never_stack_witness:
  "length (live_intervals (\<lambda>c. c = CbRefreshAll) (snd (handle (Act ''openMainScreen'') (sample_env (\<lambda>h c. Ok Null))
     (snd (handle (Act ''openMainScreen'') (sample_env (\<lambda>h c. Ok Null)) sample_world))))) \<le> 1"
  by (rule pollers_never_stack [THEN conjunct1, OF _ reach_event [OF reach_event [OF reach_start]]])
     (simp_all add: sample_env_def sample_world_def)

end
