(* ===== verification/SpendProps.thy ===== *)
theory SpendProps
  imports Guarantees
begin

text \<open>
  What the spending actions of the renderer send: each one's calls are listed in full, in order, with the answers
  that allow each of them.
\<close>

lemma wp_case_val [wp_eval]:
  "wp E (case v of Undefined \<Rightarrow> a | Null \<Rightarrow> b | Bool x \<Rightarrow> c x | Num x \<Rightarrow> d x | Big x \<Rightarrow> e x | Str x \<Rightarrow> f x
     | Arr x \<Rightarrow> g x | Obj x \<Rightarrow> h x) R =
   (case v of Undefined \<Rightarrow> wp E a R | Null \<Rightarrow> wp E b R | Bool x \<Rightarrow> wp E (c x) R | Num x \<Rightarrow> wp E (d x) R
     | Big x \<Rightarrow> wp E (e x) R | Str x \<Rightarrow> wp E (f x) R | Arr x \<Rightarrow> wp E (g x) R | Obj x \<Rightarrow> wp E (h x) R)"
  by (cases v) simp_all

section \<open>Sending\<close>

definition send_question :: "string \<Rightarrow> string \<Rightarrow> jsval" where
  "send_question amountText addr = Obj
     [(''title'', Str ''Confirm Send''),
      (''message'', Str (''Send '' @ amountText @ ''  CryLo to:'' @ newline @ addr @ newline @ newline
         @ ''This cannot be undone.'')),
      (''buttons'', Arr [Str ''Send'', Str ''Cancel''])]"

lemma send_question_obj [simp]: "\<not> nullish (send_question t a)"
  by (simp add: send_question_def nullish_def)

lemma wp_toast [wp_eval]:
  "wp E (toast_for m k ms) R = (\<lambda>w. R (Ok ()) (snd (toast_for m k ms E w)))"
  "wp E (toast m k) R = (\<lambda>w. R (Ok ()) (snd (toast m k E w)))"
  by (simp_all add: wp_def toast_def toast_for_def bind_def andthen_def gets_def append_node_def change_el_def modify_def
      set_timeout_def add_timer_def ret_def fun_eq_iff)

lemma trace_toast [simp]: "trace (snd (toast_for m k ms E w)) = trace w" "trace (snd (toast m k E w)) = trace w"
  by (simp_all add: toast_def toast_for_def bind_def andthen_def gets_def append_node_def change_el_def modify_def
      set_timeout_def add_timer_def ret_def)

section \<open>Consolidating\<close>

lemma consolidate_obj [simp]: "\<not> nullish consolidate_confirm"
  by (simp add: consolidate_confirm_def nullish_def)

text \<open>The address the wallet service reports as its own.\<close>

definition reported_address :: "env \<Rightarrow> world \<Rightarrow> jsval option" where
  "reported_address E w =
     (case fst (crylo_walletRpc (Str ''get_address'') (Obj [(''account_index'', jint 0)]) Undefined E w) of
        Ok r \<Rightarrow> if truthy (jprop r ''ok'') \<and> \<not> nullish (jprop r ''result'') then Some (jprop (jprop r ''result'') ''address'') else None
      | _ \<Rightarrow> None)"

definition sweep_post :: "jsval \<Rightarrow> call" where
  "sweep_post a = wallet_post (Str ''sweep_all'') (Obj [(''address'', a), (''account_index'', jint 0)]) (jint 300000)"

lemma sweep_calls: "wp E (sweep a) R w" if "\<And>r w'. trace w' = trace w @ [sweep_post a] \<Longrightarrow> R r w'"
  unfolding sweep_def using that
  by (simp add: wp_eval Let_def sweep_post_def split: on_ok_split)

lemma truthy_prop: "truthy (jprop v k) \<Longrightarrow> \<not> nullish v"
  by (auto simp: nullish_def)

section \<open>Properties\<close>

lemma confirm_true:
  assumes "agreed E (trace w) (confirm_box opts)" "\<not> nullish opts"
  shows "fst (crylo_confirm opts E w) = Ok (Bool True)"
proof -
  obtain r where r: "answer E (trace w) (confirm_box opts) = Ok r" "jprop r ''response'' = jint 0"
    using assms(1) by (auto simp: agreed_def)
  then have "\<not> nullish r" by (auto simp: nullish_def)
  then show ?thesis
    using r assms(2)
    by (simp add: crylo_relay relay_def ipc_confirm_dialog_def confirm_box_def get_prop_def bind_def ret_def
        try_catch_def await_call_def strict_eq_def)
qed

text \<open>The calls of a payment of the typed amount to the typed address.\<close>

definition send_calls :: "env \<Rightarrow> world \<Rightarrow> call list" where
  "send_calls E w =
     (let addr = trim (el_value (page w ''send-addr'')); amt = trim (el_value (page w ''send-amount''));
          pid = trim (el_value (page w ''send-pid'')); note = trim (el_value (page w ''send-note''));
          ask = confirm_box (send_question amt addr)
      in case cryloToAtomic (Str amt) of
           Ok t \<Rightarrow> if addr = [] then []
                  else if agreed E (trace w) ask then [ask, wallet_post (Str ''transfer'') (send_params addr t pid note) Undefined]
                  else [ask]
         | _ \<Rightarrow> [])"

text \<open>
  C1. Sending asks the user exactly once, with the typed amount and address, and only when the address is not empty and the amount is valid;
  it sends exactly one transfer, of that amount to that address, exactly when the user agreed; and it makes no
  other call, whatever the answers are and whatever runs in between.
\<close>

theorem sendTx_calls: "trace (snd (sendTx E w)) = trace w @ send_calls E w"
proof -
  let ?addr = "trim (el_value (page w ''send-addr''))" and ?amt = "trim (el_value (page w ''send-amount''))"
  note no = confirm_agreed [of "send_question ?amt ?addr" E w] and yes = confirm_true [of E w "send_question ?amt ?addr"]
  have "wp E sendTx (\<lambda>_ w'. trace w' = trace w @ send_calls E w) w"
    unfolding sendTx_def send_question_def [symmetric] send_calls_def Let_def using no yes
    by (simp add: wp_eval wp_confirm Let_def split: on_ok_split outcome.split jsval.split)
  then show ?thesis unfolding wp_run .
qed

definition consolidate_calls :: "env \<Rightarrow> world \<Rightarrow> call list" where
  "consolidate_calls E w =
     (let ask = wallet_post (Str ''get_address'') (Obj [(''account_index'', jint 0)]) Undefined;
          box = confirm_box consolidate_confirm
      in case reported_address E w of
           None \<Rightarrow> [ask]
         | Some a \<Rightarrow> if agreed E (trace w @ [ask]) box then [ask, box, sweep_post a] else [ask, box])"

text \<open>
  C11. Consolidating first asks the wallet service for its own address; it asks the user exactly when the service
  reported one, and sends exactly one sweep of all outputs, to that address, exactly when the user agreed. It makes no
  other call, whatever the answers are and whatever runs in between.
\<close>

theorem consolidateUtxos_calls: "trace (snd (consolidateUtxos E w)) = trace w @ consolidate_calls E w"
proof -
  let ?ask = "wallet_post (Str ''get_address'') (Obj [(''account_index'', jint 0)]) Undefined"
  note no = confirm_agreed [of consolidate_confirm E "awaited E ?ask w"]
    and yes = confirm_true [of E "awaited E ?ask w" consolidate_confirm]
  have "wp E consolidateUtxos (\<lambda>_ w'. trace w' = trace w @ consolidate_calls E w) w"
    unfolding consolidateUtxos_def consolidate_calls_def reported_address_def Let_def using no yes
    by (auto simp: wp_eval wp_confirm dest: truthy_prop intro!: sweep_calls split: on_ok_split on_throw_split outcome.split)
  then show ?thesis unfolding wp_run .
qed

end
