(* ===== verification/TextProps.thy ===== *)
theory TextProps
  imports AppSetup
begin

text \<open>
  Numbers and their texts: the digits of a natural number read back, a plain decimal reads as its exact
  value before rounding, and toFixed writes the nearest multiple of a power of ten.
\<close>

section \<open>Digits\<close>

lemma of_char_lt [simp]: "(of_char c :: nat) < 256"
  by (cases c) (simp add: horner_sum_simps split: bool.split)

lemma digit_char_props [simp]:
  assumes "0 \<le> d" "d < 10"
  shows "is_digit (digit_char d)" "digit_val (digit_char d) = d"
proof -
  have i: "(of_char (digit_char d) :: int) = 48 + d" using assms by (simp add: digit_char_def)
  then have "(of_char (digit_char d) :: nat) = nat (48 + d)"
    using of_nat_of_char [of "digit_char d", where 'a = int] by linarith
  then show "is_digit (digit_char d)" "digit_val (digit_char d) = d"
    using assms i by (simp_all add: is_digit_def digit_val_def Let_def nat_le_iff le_nat_iff)
qed

lemma digit_val_range: "is_digit c \<Longrightarrow> 0 \<le> digit_val c \<and> digit_val c < 10"
  using of_nat_of_char [of c, where 'a = int] by (auto simp: is_digit_def digit_val_def Let_def)

lemma parse_digits_foldl: "foldl (\<lambda>n c. 10 * n + digit_val c) a s = a * 10 ^ length s + parse_digits s"
proof (induction s arbitrary: a)
  case (Cons c s)
  show ?case using Cons [of "10 * a + digit_val c"] Cons [of "digit_val c"]
    by (simp add: parse_digits_def algebra_simps)
qed (simp add: parse_digits_def)

lemma parse_digits_append [simp]:
  "parse_digits (a @ b) = parse_digits a * 10 ^ length b + parse_digits b"
  using parse_digits_foldl [of "parse_digits a" b] by (simp add: parse_digits_def)

lemma parse_digits_Nil [simp]: "parse_digits [] = 0"
  by (simp add: parse_digits_def)

lemma parse_digits_single [simp]: "parse_digits [c] = digit_val c"
  by (simp add: parse_digits_def)

lemma parse_digits_bounds: "list_all is_digit s \<Longrightarrow> 0 \<le> parse_digits s \<and> parse_digits s < 10 ^ length s"
proof (induction s rule: rev_induct)
  case (snoc c s)
  then have "0 \<le> parse_digits s" "parse_digits s < 10 ^ length s" "0 \<le> digit_val c" "digit_val c < 10"
    using digit_val_range by auto
  then show ?case by auto
qed simp

lemma digits_of_props:
  "0 \<le> n \<Longrightarrow> list_all is_digit (digits_of n) \<and> digits_of n \<noteq> [] \<and> parse_digits (digits_of n) = n"
proof (induction n rule: digits_of.induct)
  case (1 n)
  show ?case
  proof (cases "n < 10")
    case False
    then have "list_all is_digit (digits_of (n div 10)) \<and> parse_digits (digits_of (n div 10)) = n div 10"
      using 1 by (simp add: pos_imp_zdiv_nonneg_iff)
    then show ?thesis using False by (simp add: digits_of.simps [of n])
  qed (use 1 in \<open>simp add: digits_of.simps [of n]\<close>)
qed

lemma digits_of_digits [simp]: "0 \<le> n \<Longrightarrow> list_all is_digit (digits_of n)"
  and digits_of_nonempty [simp]: "0 \<le> n \<Longrightarrow> digits_of n \<noteq> []"
  and parse_digits_of [simp]: "0 \<le> n \<Longrightarrow> parse_digits (digits_of n) = n"
  using digits_of_props by blast+

lemma zeros_props [simp]: "length (zeros n) = n" "list_all is_digit (zeros n)" "parse_digits (zeros n) = 0"
proof -
  show "list_all is_digit (zeros n)"
    by (induction n) (simp_all add: zeros_def is_digit_def)
  show "parse_digits (zeros n) = 0"
  proof (induction n)
    case (Suc n)
    have "zeros (Suc n) = zeros n @ ''0''" by (simp add: zeros_def replicate_append_same)
    then show ?case using Suc by (simp add: digit_val_def)
  qed (simp add: zeros_def)
qed (simp add: zeros_def)

section \<open>White space\<close>

text \<open>Visible ASCII characters neither start nor end a white-space character.\<close>

definition visible :: "char \<Rightarrow> bool" where
  "visible c \<longleftrightarrow> (let n = (of_char c :: nat) in 33 \<le> n \<and> n \<le> 126)"

lemma digit_visible [simp]: "is_digit c \<Longrightarrow> visible c"
  by (auto simp: is_digit_def visible_def Let_def)

lemma ws_len_none:
  assumes "list_all (\<lambda>p. p \<noteq> [] \<and> \<not> visible (hd p)) seqs" "visible c"
  shows "ws_len seqs (c # s) = 0"
proof -
  have "\<not> starts_with (c # s) p" if "p \<in> set seqs" for p
    using assms that by (cases p) (auto simp: list_all_iff starts_with_def)
  then have "find (starts_with (c # s)) seqs = None" by (simp add: find_None_iff)
  then show ?thesis by (simp add: ws_len_def)
qed

lemma ws_seqs_invisible:
  "list_all (\<lambda>p. p \<noteq> [] \<and> \<not> visible (hd p)) ws_seqs"
  "list_all (\<lambda>p. p \<noteq> [] \<and> \<not> visible (hd p)) (map rev ws_seqs)"
  by (simp_all add: ws_seqs_def visible_def)

lemma visible_ws: "visible c \<Longrightarrow> ws_len ws_seqs (c # s) = 0" "visible c \<Longrightarrow> ws_len (map rev ws_seqs) (c # s) = 0"
  using ws_len_none ws_seqs_invisible by blast+

lemma trim_visible:
  assumes "s \<noteq> []" "visible (hd s)" "visible (last s)"
  shows "trim s = s"
proof -
  have a: "trim_start s = s" using assms visible_ws(1) [of "hd s" "tl s"]
    by (simp add: trim_start_def strip_ws.simps [of _ s])
  have "rev s = last s # tl (rev s)" using assms(1) by (metis hd_rev list.collapse rev_is_Nil_conv)
  then have "ws_len (map rev ws_seqs) (rev s) = 0" using visible_ws(2) [OF assms(3)] by metis
  then show ?thesis by (simp add: trim_def a strip_ws.simps [of _ "rev s"])
qed

section \<open>Decimal texts\<close>

lemma takeWhile_digits [simp]:
  "list_all is_digit a \<Longrightarrow> takeWhile is_digit (a @ CHR ''.'' # b) = a"
  "list_all is_digit a \<Longrightarrow> dropWhile is_digit (a @ CHR ''.'' # b) = CHR ''.'' # b"
  "list_all is_digit a \<Longrightarrow> takeWhile is_digit a = a" "list_all is_digit a \<Longrightarrow> dropWhile is_digit a = []"
  by (induction a) (auto simp: is_digit_def)

lemma decimal_value_int: "list_all is_digit a \<Longrightarrow> a \<noteq> [] \<Longrightarrow> decimal_value a = Some (of_int (parse_digits a))"
  by (simp add: decimal_value_def exponent_part_def)

lemma decimal_value_frac:
  assumes "list_all is_digit a" "a \<noteq> []" "list_all is_digit b"
  shows "decimal_value (a @ CHR ''.'' # b) = Some (of_int (parse_digits (a @ b)) / 10 ^ length b)"
  using assms by (simp add: decimal_value_def exponent_part_def power_int_minus field_simps)

lemma digit_not_sign: "is_digit c \<Longrightarrow> c \<noteq> CHR ''+'' \<and> c \<noteq> CHR ''-'' \<and> c \<noteq> CHR ''I'' \<and> c \<noteq> CHR ''.''
    \<and> lower_char c \<notin> {CHR ''x'', CHR ''o'', CHR ''b''}"
  by (auto simp: is_digit_def lower_char_def Let_def)

lemma string_to_number_decimal:
  assumes "s \<noteq> []" "is_digit (hd s)" "list_all (\<lambda>c. is_digit c \<or> c = CHR ''.'') s"
    "decimal_value s = Some q"
  shows "string_to_number s = rnd q"
proof -
  have vis: "visible c" if "is_digit c \<or> c = CHR ''.''" for c
    using that digit_visible by (auto simp: visible_def)
  have last: "visible (last s)" using assms(1,3) vis by (simp add: list_all_iff)
  have t: "trim s = s" using assms(1,2) last by (intro trim_visible) simp_all
  obtain c r where s: "s = c # r" using assms(1) by (cases s) auto
  have u: "unsigned_number s = rnd q"
    using assms(2,4) s digit_not_sign [of c] by (auto simp: unsigned_number_def)
  show ?thesis
  proof (cases r)
    case Nil
    then show ?thesis using u s unfolding string_to_number_def t by simp
  next
    case (Cons d r')
    have "is_digit d \<or> d = CHR ''.''" using assms(3) s Cons by simp
    then have "lower_char d \<notin> {CHR ''x'', CHR ''o'', CHR ''b''}"
      using digit_not_sign [of d] by (auto simp: lower_char_def)
    then show ?thesis using u s Cons assms(2) digit_not_sign [of c]
      unfolding string_to_number_def t by (auto simp: Let_def)
  qed
qed

lemma string_to_number_int:
  "list_all is_digit a \<Longrightarrow> a \<noteq> [] \<Longrightarrow> string_to_number a = rnd (of_int (parse_digits a))"
  by (rule string_to_number_decimal) (auto simp: decimal_value_int list_all_iff)

lemma string_to_number_frac:
  assumes "list_all is_digit a" "a \<noteq> []" "list_all is_digit b"
  shows "string_to_number (a @ CHR ''.'' # b) = rnd (of_int (parse_digits (a @ b)) / 10 ^ length b)"
  using assms by (intro string_to_number_decimal) (auto simp: decimal_value_frac list_all_iff)

lemma string_to_number_int_str: "0 \<le> n \<Longrightarrow> string_to_number (int_str n) = rnd (of_int n)"
  by (simp add: int_str_def string_to_number_int)

section \<open>toFixed\<close>

lemma fixed_text_value:
  assumes "0 \<le> n"
  shows "string_to_number (fixed_text d n) = rnd (of_int n / 10 ^ d)"
proof (cases d)
  case 0
  then show ?thesis using assms by (simp add: fixed_text_def string_to_number_int)
next
  case (Suc d')
  define z where "z = zeros (d + 1 - length (digits_of n)) @ digits_of n"
  define k where "k = length z - d"
  have len: "d < length z" by (simp add: z_def)
  have z: "list_all is_digit z" "parse_digits z = n" using assms by (simp_all add: z_def)
  have ft: "fixed_text d n = take k z @ CHR ''.'' # drop k z"
    using Suc by (simp add: fixed_text_def z_def k_def Let_def)
  have parts: "list_all is_digit (take k z)" "list_all is_digit (drop k z)" "take k z \<noteq> []" "length (drop k z) = d"
    using z(1) len by (auto simp: list_all_iff k_def dest: in_set_takeD in_set_dropD)
  show ?thesis
    unfolding ft using string_to_number_frac [OF parts(1,3,2)] parts(4) z(2) by simp
qed

lemma to_fixed_value:
  assumes "0 \<le> x" "x < 10 ^ 21"
  shows "string_to_number (to_fixed d (Fin x)) = rnd (of_int (fixed_digits d x) / 10 ^ d)"
proof -
  have "0 \<le> fixed_digits d x" using assms(1) by (simp add: fixed_digits_def)
  then show ?thesis using assms by (simp add: fixed_text_value)
qed

end
