(* ===== verification/AmountProps.thy ===== *)
theory AmountProps
  imports TextProps
begin

text \<open>
  Amounts: the conversion of a decimal text to atomic units is exact, what is sent to the wallet service
  is that number, and the bridge splits a session into bounded deposits that add up to it.
\<close>

section \<open>Rounding\<close>

lemma rnd_small: "\<bar>x\<bar> \<le> 2 powi 1000 \<Longrightarrow> rnd x = Fin (round_double x)"
proof -
  assume x: "\<bar>x\<bar> \<le> 2 powi 1000"
  have p: "round_double (2 powi 1000) = 2 powi 1000" by (rule round_double_pow2) simp
  have "\<bar>round_double x\<bar> \<le> 2 powi 1000" using dbl.r_upper [OF x p] by (simp add: dbl.r_abs)
  moreover have "(2 :: rat) powi 1000 < 2 powi 1024" using powi_two_strict [of 1000 1024] by simp
  ultimately show ?thesis by (auto simp: rnd_def Let_def)
qed

lemma rnd_int: "\<bar>n\<bar> \<le> 2 ^ 53 \<Longrightarrow> rnd (of_int n) = Fin (of_int n)"
proof -
  assume n: "\<bar>n\<bar> \<le> 2 ^ 53"
  then have "\<bar>rat_of_int n\<bar> \<le> 2 ^ 53"
    by (metis of_int_abs of_int_le_iff of_int_numeral of_int_power)
  also have "(2 :: rat) ^ 53 = 2 powi 53" by simp
  also have "\<dots> \<le> 2 powi 1000" by (rule powi_two_mono) simp
  finally show ?thesis using n by (simp add: rnd_small)
qed

lemma rnd_pos: "2 powi (- 1074) \<le> q \<Longrightarrow> \<not> rnd q \<le> Fin 0"
proof -
  assume "2 powi (- 1074) \<le> q"
  then have "2 powi (- 1074) \<le> round_double q" by (rule dbl.r_lower) (rule round_double_pow2, simp)
  moreover have "(0 :: rat) < 2 powi (- 1074)" by simp
  ultimately have "0 < round_double q" by linarith
  moreover have "(0 :: rat) < 2 powi 1024" by simp
  ultimately show ?thesis by (auto simp: rnd_def Let_def less_eq_jsnum_def)
qed

lemma rnd_nonpos_zero: "rnd 0 = Fin 0"
  using rnd_int [of 0] by simp

section \<open>Decimal amounts\<close>

lemma is_decimal_cases:
  assumes "is_decimal s"
  obtains (int) "list_all is_digit s" "s \<noteq> []"
  | (frac) a b where "s = a @ CHR ''.'' # b" "list_all is_digit a" "a \<noteq> []" "list_all is_digit b" "b \<noteq> []"
proof (cases "dropWhile is_digit s")
  case Nil
  then have "list_all is_digit s" by (simp add: list_all_iff dropWhile_eq_Nil_conv)
  then show thesis using assms int by (auto simp: is_decimal_def)
next
  case (Cons c r)
  have "list_all is_digit (takeWhile is_digit s)" by (auto simp: list_all_iff dest: set_takeWhileD)
  moreover have "s = takeWhile is_digit s @ c # r" using Cons takeWhile_dropWhile_id [of is_digit s] by simp
  ultimately show thesis using assms Cons by (intro frac [of "takeWhile is_digit s" r]) (auto simp: is_decimal_def)
qed

lemma split_on_digits [simp]:
  "list_all is_digit a \<Longrightarrow> split_on (CHR ''.'') a = [a]"
  "list_all is_digit a \<Longrightarrow> split_on (CHR ''.'') (a @ CHR ''.'' # b) = a # split_on (CHR ''.'') b"
  by (induction a) (auto simp: digit_not_sign)

lemma pad_end_zeros: "length b \<le> d \<Longrightarrow> pad_end b d ''0'' = b @ zeros (d - length b)"
proof -
  have "concat (replicate n ''0'') = zeros n" for n by (induction n) (simp_all add: zeros_def)
  then show "length b \<le> d \<Longrightarrow> ?thesis" by (simp add: pad_end_def zeros_def)
qed

text \<open>The value of a plain decimal, as a whole part and a fraction.\<close>

definition atomic_of :: "string \<Rightarrow> string \<Rightarrow> nat \<Rightarrow> int" where
  "atomic_of a b d = parse_digits a * 10 ^ d + parse_digits b * 10 ^ (d - length b)"

lemma atomic_of_value:
  assumes "length b \<le> d"
  shows "of_int (atomic_of a b d) = (of_int (parse_digits (a @ b)) / 10 ^ length b :: rat) * 10 ^ d"
proof -
  have "(10 :: rat) ^ d = 10 ^ length b * 10 ^ (d - length b)" using assms by (simp flip: power_add)
  then show ?thesis by (simp add: atomic_of_def field_simps)
qed

lemma decimalToAtomic_frac:
  assumes "trim s = a @ CHR ''.'' # b" "list_all is_digit a" "a \<noteq> []" "list_all is_digit b" "b \<noteq> []"
    "length b \<le> d" "\<not> string_to_number (trim s) \<le> Fin 0"
  shows "decimalToAtomic (Str s) d u = Ok (int_str (atomic_of a b d))"
proof -
  have dec: "is_decimal (a @ CHR ''.'' # b)" using assms by (simp add: is_decimal_def)
  have j: "to_str (js_or (Str s) (Str [])) = s" by (cases s) (simp_all add: js_or_def)
  have "b @ zeros (d - length b) \<noteq> []" using assms(5) by simp
  then show ?thesis using assms dec
    by (simp add: decimalToAtomic_def j pad_end_zeros atomic_of_def Let_def)
qed

lemma decimalToAtomic_int:
  assumes "list_all is_digit (trim s)" "trim s \<noteq> []" "\<not> string_to_number (trim s) \<le> Fin 0"
  shows "decimalToAtomic (Str s) d u = Ok (int_str (parse_digits (trim s) * 10 ^ d))"
proof -
  have dec: "is_decimal (trim s)" using assms by (simp add: is_decimal_def)
  have j: "to_str (js_or (Str s) (Str [])) = s" by (cases s) (simp_all add: js_or_def)
  have z: "parse_digits (if zeros d = [] then ''0'' else zeros d) = 0"
    using zeros_props(3) by (simp add: digit_val_def)
  have "pad_end [] d ''0'' = zeros d" using pad_end_zeros [of "[]" d] by simp
  then show ?thesis using assms dec z
    by (simp add: decimalToAtomic_def j Let_def)
qed

lemma decimalToAtomic_okD:
  assumes "decimalToAtomic (Str s) d u = Ok t"
  shows "is_decimal (trim s) \<and> \<not> string_to_number (trim s) \<le> Fin 0 \<and>
    (\<forall>a b. trim s = a @ CHR ''.'' # b \<longrightarrow> list_all is_digit a \<longrightarrow> list_all is_digit b \<longrightarrow> length b \<le> d)"
proof -
  have j: "to_str (js_or (Str s) (Str [])) = s" by (cases s) (simp_all add: js_or_def)
  show ?thesis using assms by (auto simp: decimalToAtomic_def j Let_def split: if_splits)
qed

lemma decimalToAtomic_value:
  assumes ok: "decimalToAtomic (Str s) d u = Ok t"
  obtains q n where "decimal_value (trim s) = Some q" "0 < q" "t = int_str n" "of_int n = q * 10 ^ d" "0 < n"
proof -
  from decimalToAtomic_okD [OF ok] have dec: "is_decimal (trim s)"
    and pos: "\<not> string_to_number (trim s) \<le> Fin 0"
    and short: "\<And>a b. trim s = a @ CHR ''.'' # b \<Longrightarrow> list_all is_digit a \<Longrightarrow> list_all is_digit b \<Longrightarrow> length b \<le> d"
    by blast+
  have main: "\<exists>q n. decimal_value (trim s) = Some q \<and> string_to_number (trim s) = rnd q \<and> 0 \<le> q
     \<and> t = int_str n \<and> of_int n = q * 10 ^ d"
    using dec
  proof (cases rule: is_decimal_cases)
    case int
    then show ?thesis using ok decimalToAtomic_int [OF int pos] parse_digits_bounds [OF int(1)]
      by (intro exI [of _ "of_int (parse_digits (trim s))"] exI [of _ "parse_digits (trim s) * 10 ^ d"])
         (simp add: decimal_value_int string_to_number_int)
  next
    case (frac a b)
    have len: "length b \<le> d" using short frac by blast
    have "list_all is_digit (a @ b)" using frac by simp
    then have "0 \<le> parse_digits (a @ b)" using parse_digits_bounds by blast
    then show ?thesis using ok decimalToAtomic_frac [OF frac len pos] frac
      by (intro exI [of _ "of_int (parse_digits (a @ b)) / 10 ^ length b"] exI [of _ "atomic_of a b d"])
         (simp add: decimal_value_frac string_to_number_frac atomic_of_value [OF len] del: parse_digits_append)
  qed
  then obtain q n where qn: "decimal_value (trim s) = Some q" "string_to_number (trim s) = rnd q" "0 \<le> q"
    "t = int_str n" "of_int n = q * 10 ^ d" by blast
  have "q \<noteq> 0" using pos qn(2) by (auto simp: rnd_nonpos_zero less_eq_jsnum_def)
  then have q: "0 < q" using qn(3) by simp
  then have "(0 :: rat) < of_int n" using qn(5) by simp
  then have "0 < n" by simp
  then show thesis using that qn q by blast
qed

section \<open>Amounts that are sent\<close>

lemma fixed_text_decimal:
  assumes "0 \<le> n" "0 < d"
  obtains a b where "fixed_text d n = a @ CHR ''.'' # b" "list_all is_digit a" "a \<noteq> []" "list_all is_digit b"
    "length b = d" "parse_digits (a @ b) = n"
proof -
  define z where "z = zeros (d + 1 - length (digits_of n)) @ digits_of n"
  define k where "k = length z - d"
  have len: "d < length z" by (simp add: z_def)
  have z: "list_all is_digit z" "parse_digits z = n" using assms by (simp_all add: z_def)
  have "fixed_text d n = take k z @ CHR ''.'' # drop k z"
    using assms by (simp add: fixed_text_def z_def k_def Let_def)
  moreover have "list_all is_digit (take k z)" "list_all is_digit (drop k z)" "take k z \<noteq> []" "length (drop k z) = d"
    using z(1) len by (auto simp: list_all_iff k_def dest: in_set_takeD in_set_dropD)
  ultimately show thesis using that [of "take k z" "drop k z"] z(2) by (simp del: parse_digits_append)
qed

lemma trim_decimal:
  assumes "list_all is_digit a" "a \<noteq> []" "list_all is_digit b" "b \<noteq> []"
  shows "trim (a @ CHR ''.'' # b) = a @ CHR ''.'' # b"
proof (rule trim_visible)
  show "visible (hd (a @ CHR ''.'' # b))" "visible (last (a @ CHR ''.'' # b))"
    using assms by (auto simp: list_all_iff)
qed simp

lemma cryloToAtomic_fixed_text:
  assumes "0 < n"
  shows "cryloToAtomic (Str (fixed_text 11 n)) = Ok (int_str n)"
proof -
  obtain a b where ab: "fixed_text 11 n = a @ CHR ''.'' # b" "list_all is_digit a" "a \<noteq> []" "list_all is_digit b"
    "length b = 11" "parse_digits (a @ b) = n"
    using fixed_text_decimal [of n 11] assms by auto
  have b: "b \<noteq> []" using ab(5) by auto
  have t: "trim (fixed_text 11 n) = a @ CHR ''.'' # b" using trim_decimal ab b by simp
  have val: "string_to_number (a @ CHR ''.'' # b) = rnd (of_int n / 10 ^ 11)"
    using string_to_number_frac [OF ab(2,3,4)] ab(5,6) by (simp del: parse_digits_append)
  have "(2 :: rat) powi (- 1074) \<le> 2 powi (- 37)" by (rule powi_two_mono) simp
  also have "(2 :: rat) powi (- 37) \<le> 1 / 10 ^ 11" by (simp add: power_int_minus field_simps)
  also have "\<dots> \<le> of_int n / 10 ^ 11" using assms by (simp add: divide_right_mono)
  finally have pos: "\<not> string_to_number (trim (fixed_text 11 n)) \<le> Fin 0"
    using val t rnd_pos by simp
  have at: "atomic_of a b 11 = n" using ab(5,6) by (simp add: atomic_of_def)
  show ?thesis
    unfolding cryloToAtomic_def CRYLO_DECIMALS_def
    using decimalToAtomic_frac [OF t ab(2,3,4) b _ pos] ab(5) at by simp
qed

lemma send_amount_exact:
  assumes "cryloToAtomic (Str s) = Ok t" "decimal_value (trim s) = Some q" "q * 10 ^ 11 \<le> 2 ^ 53"
  shows "string_to_number t = Fin (q * 10 ^ 11)"
proof -
  obtain q' n where qn: "decimal_value (trim s) = Some q'" "0 < q'" "t = int_str n" "of_int n = q' * 10 ^ 11" "0 < n"
    using decimalToAtomic_value assms(1) unfolding cryloToAtomic_def CRYLO_DECIMALS_def by metis
  have "q' = q" using qn(1) assms(2) by simp
  then have n: "of_int n = q * 10 ^ 11" using qn(4) by simp
  then have "rat_of_int n \<le> of_int (2 ^ 53)" using assms(3) by simp
  then have "n \<le> 2 ^ 53" using of_int_le_iff by blast
  then have "rnd (of_int n) = Fin (of_int n)" using qn(5) by (intro rnd_int) simp
  then show ?thesis using qn(3,5) n by (simp add: string_to_number_int_str)
qed

section \<open>Splitting a bridge session\<close>

text \<open>The double nearest to a number of atomic units, in CRYLO.\<close>

definition atomic_num :: "int \<Rightarrow> jsnum" where
  "atomic_num k = Fin (round_double (of_int k / 10 ^ 11))"

lemma double_sub_int:
  assumes "round_double x = x" "of_nat c \<le> x" "x \<le> 2 ^ 53"
  shows "round_double (x - of_nat c) = x - of_nat c"
proof -
  obtain m e where me: "x = of_int m * 2 powi e" "\<bar>m\<bar> \<le> 2 ^ 53" "- 1074 \<le> e"
    using round_double_double [of x] assms(1) by auto
  show ?thesis
  proof (cases "e \<le> 0")
    case True
    define i where "i = m - int c * 2 ^ nat (- e)"
    have p: "(2 :: rat) powi e * 2 ^ nat (- e) = 1"
      using True by (simp add: power_int_def flip: power_mult_distrib)
    have x: "x - of_nat c = of_int i * 2 powi e"
      using me(1) p by (simp add: i_def algebra_simps)
    have "0 \<le> of_int i * (2 :: rat) powi e" using x assms(2) by simp
    moreover have "\<not> (2 :: rat) powi e \<le> 0" using powi_two_pos [of e] by linarith
    ultimately have "0 \<le> i" by (auto simp: zero_le_mult_iff)
    moreover have "i \<le> m" by (simp add: i_def)
    ultimately have "\<bar>i\<bar> \<le> 2 ^ 53" using me(2) by linarith
    then show ?thesis using round_double_exact [OF x _ me(3)] by simp
  next
    case False
    define i where "i = m * 2 ^ nat e - int c"
    have x: "x - of_nat c = of_int i" using me(1) False by (simp add: i_def power_int_def)
    have "0 \<le> rat_of_int i" "rat_of_int i \<le> of_int (2 ^ 53)" using x assms(2,3) by auto
    then have "\<bar>i\<bar> \<le> 2 ^ 53" by (simp only: of_int_le_iff of_int_0_le_iff)
    then show ?thesis using x by simp
  qed
qed

lemma fixed_digits_atomic:
  assumes "0 \<le> k" "k \<le> 10 ^ 15"
  shows "fixed_digits 11 (round_double (of_int k / 10 ^ 11)) = k"
proof (cases "k = 0")
  case False
  define y where "y = (of_int k / 10 ^ 11 :: rat)"
  have k1: "1 \<le> k" using False assms(1) by simp
  then have k: "(1 :: rat) \<le> of_int k" by simp
  have kb: "rat_of_int k \<le> 10 ^ 15" using assms(2) by (metis of_int_le_iff of_int_numeral of_int_power)
  have "(2 :: rat) powi (- 1022) \<le> 2 powi (- 37)" by (rule powi_two_mono) simp
  also have "(2 :: rat) powi (- 37) \<le> 1 / 10 ^ 11" by (simp add: power_int_minus field_simps)
  also have "\<dots> \<le> y" using k by (simp add: y_def divide_right_mono)
  finally have "\<bar>round_double y - y\<bar> \<le> \<bar>y\<bar> * 2 powi (- 53)" using round_double_rel_error [of y] by linarith
  also have "\<dots> = of_int k / 10 ^ 11 / 2 ^ 53" using k by (simp add: y_def power_int_minus field_simps)
  also have "\<dots> \<le> 10 ^ 15 / 10 ^ 11 / 2 ^ 53" using kb by (simp add: divide_right_mono)
  finally have "\<bar>round_double y - y\<bar> * 10 ^ 11 \<le> 10 ^ 15 / 2 ^ 53" by (simp add: field_simps)
  then have "\<bar>round_double y * 10 ^ 11 - of_int k\<bar> \<le> 10 ^ 15 / 2 ^ 53"
    by (simp add: y_def abs_if algebra_simps split: if_splits)
  then have "\<bar>round_double y * 10 ^ 11 - of_int k\<bar> < 1 / 2" by simp
  then show ?thesis unfolding fixed_digits_def y_def [symmetric] by (intro floor_unique) (auto simp: abs_if split: if_splits)
qed (simp add: fixed_digits_def floor_unique)

lemma fixed_digits_zero [simp]: "fixed_digits 11 0 = 0"
  using fixed_digits_atomic [of 0] by simp

lemma fix11_value:
  assumes "0 \<le> x" "x \<le> 1000"
  shows "fix11 (Fin x) = atomic_num (fixed_digits 11 x)"
proof -
  have fd: "0 \<le> fixed_digits 11 x" using assms(1) by (simp add: fixed_digits_def)
  have "fixed_digits 11 x \<le> \<lfloor>1000 * 10 ^ 11 + 1 / 2 :: rat\<rfloor>"
    unfolding fixed_digits_def using assms(2) by (intro floor_mono) simp
  also have "\<lfloor>1000 * 10 ^ 11 + 1 / 2 :: rat\<rfloor> = 10 ^ 14" by (rule floor_unique) simp_all
  finally have "fixed_digits 11 x \<le> 10 ^ 14" .
  then have le: "rat_of_int (fixed_digits 11 x) \<le> 10 ^ 14"
    by (metis of_int_le_iff of_int_numeral of_int_power)
  have "\<bar>rat_of_int (fixed_digits 11 x) / 10 ^ 11\<bar> \<le> 2 ^ 53" using le fd by simp
  also have "(2 :: rat) ^ 53 \<le> 2 powi 1000" using powi_two_mono [of 53 1000] by simp
  finally have "rnd (of_int (fixed_digits 11 x) / 10 ^ 11) = atomic_num (fixed_digits 11 x)"
    by (simp add: rnd_small atomic_num_def)
  moreover have "string_to_number (to_fixed 11 (Fin x)) = rnd (of_int (fixed_digits 11 x) / 10 ^ 11)"
    using assms by (intro to_fixed_value) simp_all
  ultimately show ?thesis by (simp add: fix11_def del: to_fixed.simps)
qed

lemma atomic_num_bounds:
  assumes "0 \<le> k" "k \<le> int c * 10 ^ 11" "c \<le> 1000"
  obtains y where "atomic_num k = Fin y" "0 \<le> y" "y \<le> of_nat c" "round_double y = y" "0 < k \<longrightarrow> 0 < y"
    "fixed_digits 11 y = k"
proof -
  define y where "y = round_double (of_int k / 10 ^ 11)"
  have "rat_of_int k \<le> of_int (int c * 10 ^ 11)" using assms(2) of_int_le_iff by blast
  then have "rat_of_int k / 10 ^ 11 \<le> of_nat c" by (simp add: field_simps)
  moreover have "round_double (of_nat c) = of_nat c" using assms(3) round_double_of_int [of "int c"] by simp
  ultimately have up: "y \<le> of_nat c" unfolding y_def by (rule dbl.r_upper)
  have lo: "0 \<le> y" unfolding y_def using assms(1) by (intro dbl.r_nonneg) simp
  have "k \<le> 1000 * 10 ^ 11" using assms(2,3) by simp
  then have fd: "fixed_digits 11 y = k" unfolding y_def using assms(1) by (intro fixed_digits_atomic) simp_all
  then have "y \<noteq> 0" if "0 < k" using that by auto
  then have pos: "0 < k \<longrightarrow> 0 < y" using lo by auto
  have "atomic_num k = Fin y" "round_double y = y" by (simp_all add: y_def atomic_num_def)
  then show thesis using that [OF _ lo up _ pos fd] by simp
qed

declare bridge_chunks.simps [simp del]

lemma bridge_chunks_done: "bridge_chunks n (Fin 0) = Some []"
  by (simp add: bridge_chunks.simps)

lemma bridge_chunks_last:
  assumes "0 < x" "x \<le> 50"
  shows "bridge_chunks (Suc n) (Fin x) = Some [atomic_num (fixed_digits 11 x)]"
proof -
  have m: "math_min (Fin 50) (Fin x) = Fin x" using assms(2) by (simp add: math_min_def less_eq_jsnum_def)
  have "Fin x - Fin x = Fin 0" by (simp add: minus_jsnum_def rnd_nonpos_zero)
  moreover have "fix11 (Fin 0) = Fin 0"
    using fix11_value [of 0] by (simp add: atomic_num_def)
  ultimately show ?thesis
    using assms m fix11_value [of x] by (subst bridge_chunks.simps) (simp add: bridge_chunks_done Let_def)
qed

lemma fixed_digits_sub: "fixed_digits 11 (x - of_nat c) = fixed_digits 11 x - int c * 10 ^ 11"
proof -
  have "(x - of_nat c) * 10 ^ 11 + 1 / 2 = (x * 10 ^ 11 + 1 / 2) - of_int (int c * 10 ^ 11)"
    by (simp add: algebra_simps)
  then show ?thesis unfolding fixed_digits_def by (simp only: floor_diff_of_int)
qed

lemma bridge_chunks_step:
  assumes "50 < x" "x \<le> 1000" "round_double x = x"
  shows "bridge_chunks (Suc n) (Fin x) =
    map_option (Cons (Fin 50)) (bridge_chunks n (atomic_num (fixed_digits 11 x - 50 * 10 ^ 11)))"
proof -
  have m: "math_min (Fin 50) (Fin x) = Fin 50" using assms(1) by (simp add: math_min_def)
  have rd: "round_double (x - 50) = x - 50" using double_sub_int [of x 50] assms by simp
  have "\<bar>x - 50\<bar> \<le> 2 ^ 53" using assms by simp
  also have "(2 :: rat) ^ 53 \<le> 2 powi 1000" using powi_two_mono [of 53 1000] by simp
  finally have "Fin x - Fin 50 = Fin (x - 50)" using rd by (simp add: minus_jsnum_def rnd_small)
  moreover have "fix11 (Fin (x - 50)) = atomic_num (fixed_digits 11 x - 50 * 10 ^ 11)"
    using fix11_value [of "x - 50"] fixed_digits_sub [of x 50] assms by simp
  moreover have "fixed_digits 11 50 = 50 * 10 ^ 11"
    using fixed_digits_atomic [of "50 * 10 ^ 11"] round_double_of_int [of 50] by simp
  then have "fix11 (Fin 50) = Fin 50"
    using fix11_value [of 50] round_double_of_int [of 50] by (simp add: atomic_num_def)
  ultimately show ?thesis using assms m by (subst bridge_chunks.simps) (simp add: Let_def)
qed

lemma bridge_chunks_sum:
  assumes "0 < x" "round_double x = x" "x \<le> 50 * of_nat n" "n \<le> 20"
  shows "\<exists>ks. bridge_chunks n (Fin x) = Some (map atomic_num ks) \<and> sum_list ks = fixed_digits 11 x \<and>
    ks \<noteq> [] \<and> length ks \<le> n \<and> (\<forall>k\<in>set ks. 0 \<le> k \<and> k \<le> 50 * 10 ^ 11 \<and> (0 < fixed_digits 11 x \<longrightarrow> 0 < k))"
  using assms
proof (induction n arbitrary: x)
  case 0
  then show ?case by simp
next
  case (Suc n)
  define k where "k = fixed_digits 11 x"
  show ?case
  proof (cases "x \<le> 50")
    case True
    have "0 \<le> k" using Suc.prems(1) by (simp add: k_def fixed_digits_def)
    moreover have "k \<le> \<lfloor>50 * 10 ^ 11 + 1 / 2 :: rat\<rfloor>"
      unfolding k_def fixed_digits_def using True by (intro floor_mono) simp
    moreover have "\<lfloor>50 * 10 ^ 11 + 1 / 2 :: rat\<rfloor> = 50 * 10 ^ 11" by (rule floor_unique) simp_all
    ultimately show ?thesis
      using bridge_chunks_last [OF Suc.prems(1) True, of n] by (intro exI [of _ "[k]"]) (simp add: k_def)
  next
    case False
    have c: "rat_of_nat (50 * n) + 50 = 50 * of_nat (Suc n)" by simp
    have "x * 10 ^ 11 + 1 / 2 < of_int (int (50 * Suc n) * 10 ^ 11 + 1)" using Suc.prems(3) by simp
    then have up: "k \<le> int (50 * Suc n) * 10 ^ 11"
      unfolding k_def fixed_digits_def by (metis floor_less_iff zless_add1_eq zle_add1_eq_le)
    have lo: "50 * 10 ^ 11 \<le> k"
      unfolding k_def fixed_digits_def using False by (simp add: le_floor_iff)
    have x50: "x \<le> 1000" using Suc.prems(3,4) by simp
    obtain y where y: "atomic_num (k - 50 * 10 ^ 11) = Fin y" "0 \<le> y" "y \<le> of_nat (50 * n)" "round_double y = y"
      "0 < k - 50 * 10 ^ 11 \<longrightarrow> 0 < y" "fixed_digits 11 y = k - 50 * 10 ^ 11"
      using atomic_num_bounds [of "k - 50 * 10 ^ 11" "50 * n"] up lo Suc.prems(4) by (auto simp: algebra_simps)
    have step: "bridge_chunks (Suc n) (Fin x) = map_option (Cons (Fin 50)) (bridge_chunks n (Fin y))"
      using bridge_chunks_step [OF _ x50 Suc.prems(2), of n] False y(1) by (simp add: k_def)
    have fifty: "Fin 50 = atomic_num (50 * 10 ^ 11)"
      using round_double_of_int [of 50] by (simp add: atomic_num_def)
    show ?thesis
    proof (cases "y = 0")
      case True
      then show ?thesis using step y(5,6) lo fifty
        by (intro exI [of _ "[50 * 10 ^ 11]"]) (auto simp: bridge_chunks_done k_def)
    next
      case False
      then have "0 < y" using y(2) by simp
      then obtain ks where ks: "bridge_chunks n (Fin y) = Some (map atomic_num ks)" "sum_list ks = fixed_digits 11 y"
        "length ks \<le> n" "\<forall>k\<in>set ks. 0 \<le> k \<and> k \<le> 50 * 10 ^ 11 \<and> (0 < fixed_digits 11 y \<longrightarrow> 0 < k)"
        using Suc.IH [of y] y(3,4) Suc.prems(4) by auto
      have "k - 50 * 10 ^ 11 \<noteq> 0" using False y(1) by (auto simp: atomic_num_def)
      then have "0 < fixed_digits 11 y" using y(6) lo by simp
      then show ?thesis using step ks fifty y(6)
        by (intro exI [of _ "(50 * 10 ^ 11) # ks"]) (auto simp: k_def)
    qed
  qed
qed

section \<open>Properties\<close>

lemma sample_amount: "fixed_text 11 123 = ''0.00000000123''" "int_str 123 = ''123''"
  by code_simp+

text \<open>C10. If decimalToAtomic accepts a text, the text is a decimal literal with a positive value \<open>q\<close>, and the result is
  the decimal representation of exactly \<open>q * 10 ^ decimals\<close>: no digit is lost, rounded or invented.\<close>

theorem decimalToAtomic_exact:
  assumes "decimalToAtomic (Str s) decimals unit = Ok t"
  shows "\<exists>q n. decimal_value (trim s) = Some q \<and> 0 < q \<and> t = int_str n \<and> of_int n = q * 10 ^ decimals \<and> 0 < n"
  using decimalToAtomic_value [OF assms] by metis

theorem decimalToAtomic_exact_witness:
  "\<exists>q n. decimal_value (trim ''0.00000000123'') = Some q \<and> 0 < q \<and> ''123'' = int_str n \<and> of_int n = q * 10 ^ 11 \<and> 0 < n"
proof (rule decimalToAtomic_exact)
  show "decimalToAtomic (Str ''0.00000000123'') 11 ''CRYLO'' = Ok ''123''"
    using cryloToAtomic_fixed_text [of 123] sample_amount by (simp add: cryloToAtomic_def CRYLO_DECIMALS_def)
qed

text \<open>C23. A number of atomic units written as a decimal with eleven places converts back to that number, however large
  it is.\<close>

theorem cryloToAtomic_roundtrip:
  assumes "0 < n"
  shows "cryloToAtomic (Str (fixed_text 11 n)) = Ok (int_str n)"
  using assms by (rule cryloToAtomic_fixed_text)

theorem cryloToAtomic_roundtrip_witness:
  "fixed_text 11 123 = ''0.00000000123'' \<and> cryloToAtomic (Str ''0.00000000123'') = Ok ''123''"
  using cryloToAtomic_roundtrip [of 123] by (simp add: sample_amount)

end
