(* ===== verification/NumberText.thy ===== *)
theory NumberText
  imports AmountProps
begin

text \<open>
  The text of a number of CRYLO: String(x) of the double nearest to a number of atomic units is a
  decimal with that many units, so converting the text back loses nothing.
\<close>

section \<open>Decimal exponents\<close>

declare small_exp.simps [simp del]

lemma length_digits_of:
  assumes "0 < n" "10 ^ j \<le> n" "n < 10 ^ Suc j"
  shows "length (digits_of n) = Suc j"
  using assms
proof (induction j arbitrary: n)
  case 0
  then show ?case by (simp add: digits_of.simps [of n])
next
  case (Suc j)
  have "(1 :: int) \<le> 10 ^ j" by simp
  then have ge: "10 \<le> n" using Suc.prems(2) unfolding power_Suc by linarith
  have "10 ^ j \<le> n div 10" "n div 10 < 10 ^ Suc j" using Suc.prems(2,3) by simp_all
  moreover have "0 < n div 10" using ge by (simp add: pos_imp_zdiv_pos_iff)
  ultimately have "length (digits_of (n div 10)) = Suc j" using Suc.IH by blast
  then show ?case using ge by (simp add: digits_of.simps [of n])
qed

lemma digits_of_lower: "0 < n \<Longrightarrow> 10 ^ (length (digits_of n) - 1) \<le> n"
proof (induction n rule: digits_of.induct)
  case (1 n)
  show ?case
  proof (cases "n < 10")
    case False
    then have pos: "0 < n div 10" by (simp add: pos_imp_zdiv_pos_iff)
    then have "10 ^ (length (digits_of (n div 10)) - 1) \<le> n div 10" using 1 False by simp
    moreover have "0 < length (digits_of (n div 10))" using pos by simp
    ultimately have "10 ^ length (digits_of (n div 10)) \<le> n"
      using power_minus_mult [of "length (digits_of (n div 10))" "10 :: int"] by linarith
    then show ?thesis using False by (simp add: digits_of.simps [of n])
  qed (use 1 in \<open>simp add: digits_of.simps [of n]\<close>)
qed

lemma small_exp_bounds:
  assumes "0 < x" "x < 10" "10 powi (1 - int f) \<le> x"
  shows "10 powi (small_exp f x - 1) \<le> x \<and> x < 10 powi (small_exp f x)"
  using assms
proof (induction f arbitrary: x)
  case (Suc f)
  show ?case
  proof (cases "1 \<le> x")
    case False
    have "10 powi (1 - int f) = 10 * (10 powi (1 - int (Suc f)) :: rat)"
      by (simp flip: power_int_add_1')
    then have "10 powi (1 - int f) \<le> 10 * x" using Suc.prems(3) by simp
    then have ih: "10 powi (small_exp f (10 * x) - 1) \<le> 10 * x \<and> 10 * x < 10 powi (small_exp f (10 * x))"
      using Suc.IH [of "10 * x"] Suc.prems(1) False by simp
    have "(10 :: rat) powi (small_exp f (10 * x) - 1 - 1) * 10 = 10 powi (small_exp f (10 * x) - 1)"
      "(10 :: rat) powi (small_exp f (10 * x) - 1) * 10 = 10 powi (small_exp f (10 * x))"
      by (simp_all flip: power_int_add_1)
    then show ?thesis using ih False by (simp add: small_exp.simps)
  qed (use Suc.prems in \<open>simp add: small_exp.simps\<close>)
qed (simp add: small_exp.simps)

lemma small_exp_enough:
  assumes "21 \<le> f" "1 / 10 ^ 20 \<le> x" "x < 1"
  shows "10 powi (small_exp f x - 1) \<le> x \<and> x < 10 powi (small_exp f x)"
proof -
  have "(10 :: rat) powi (1 - int f) \<le> 10 powi (- 20)" using assms(1) by (intro power_int_increasing) simp_all
  also have "\<dots> = 1 / 10 ^ 20" by (simp add: power_int_minus field_simps)
  finally have "10 powi (1 - int f) \<le> x" using assms(2) by linarith
  moreover have "(0 :: rat) < 1 / 10 ^ 20" by simp
  then have "0 < x" using assms(2) by linarith
  ultimately show ?thesis using small_exp_bounds assms(3) by simp
qed

lemma dec_exp_bounds:
  assumes "1 / 10 ^ 20 \<le> x"
  shows "10 powi (dec_exp x - 1) \<le> x \<and> x < 10 powi (dec_exp x)"
proof (cases "1 \<le> x")
  case True
  define m where "m = \<lfloor>x\<rfloor>"
  have m: "0 < m" using True by (simp add: m_def less_floor_iff)
  then have ne: "0 < length (digits_of m)" by simp
  have lo: "10 ^ (length (digits_of m) - 1) \<le> m" using digits_of_lower [OF m] .
  have hi: "m < 10 ^ length (digits_of m)" using parse_digits_bounds [of "digits_of m"] m by simp
  have d: "dec_exp x = int (length (digits_of m))" unfolding dec_exp_def m_def using True by (rule if_P)
  have "(10 :: rat) powi (dec_exp x - 1) = of_int (10 ^ (length (digits_of m) - 1))"
    unfolding d using ne by (simp add: power_int_def nat_diff_distrib)
  moreover have "rat_of_int (10 ^ (length (digits_of m) - 1)) \<le> x"
    using lo unfolding m_def le_floor_iff .
  moreover have "x < rat_of_int (10 ^ length (digits_of m))" using hi unfolding m_def floor_less_iff .
  ultimately show ?thesis unfolding d by simp
next
  case False
  have e: "dec_exp x = small_exp 400 x" unfolding dec_exp_def using False by (rule if_not_P)
  have "x < 1" using False by simp
  show ?thesis unfolding e by (rule small_exp_enough [OF _ assms \<open>x < 1\<close>]) simp
qed

section \<open>Digits of an amount\<close>

text \<open>
  For the double nearest to \<open>k\<close> atomic units, a candidate with \<open>j\<close> digits is accepted exactly when it is \<open>k\<close>
  units: two different numbers of units never round to the same double.
\<close>

lemma atomic_error:
  assumes "0 \<le> k" "k \<le> 10 ^ 13"
  shows "\<bar>round_double (of_int k / 10 ^ 11) - of_int k / 10 ^ 11\<bar> < 1 / 10 ^ 13"
proof (cases "k = 0")
  case False
  define y where "y = (of_int k / 10 ^ 11 :: rat)"
  have k: "(1 :: rat) \<le> of_int k" using False assms(1) by simp
  have kb: "rat_of_int k \<le> 10 ^ 13" using assms(2) by (metis of_int_le_iff of_int_numeral of_int_power)
  have "(2 :: rat) powi (- 1022) \<le> 2 powi (- 37)" by (rule powi_two_mono) simp
  also have "(2 :: rat) powi (- 37) \<le> 1 / 10 ^ 11" by (simp add: power_int_minus field_simps)
  also have "\<dots> \<le> y" using k by (simp add: y_def divide_right_mono)
  finally have "\<bar>round_double y - y\<bar> \<le> \<bar>y\<bar> * 2 powi (- 53)" using round_double_rel_error [of y] by linarith
  also have "\<dots> = of_int k / 10 ^ 11 / 2 ^ 53" using k by (simp add: y_def power_int_minus field_simps)
  also have "\<dots> \<le> 10 ^ 13 / 10 ^ 11 / 2 ^ 53" using kb by (simp add: divide_right_mono)
  also have "\<dots> < (1 / 10 ^ 13 :: rat)" by simp
  finally show ?thesis by (simp add: y_def)
qed simp

lemma powi_ten_nat: "0 \<le> e \<Longrightarrow> (10 :: rat) powi e = of_int (10 ^ nat e)"
  by (simp add: power_int_def)

lemma scaled_units:
  assumes "int j \<le> n + 11"
  shows "of_int s * 10 powi (n - int j) = (of_int (s * 10 ^ nat (n + 11 - int j)) / 10 ^ 11 :: rat)"
proof -
  have "(10 :: rat) powi (n - int j) = 10 powi (n + 11 - int j) / 10 ^ 11"
    by (simp add: power_int_add power_int_diff)
  then show ?thesis using assms by (simp add: powi_ten_nat)
qed

lemma good_candidate:
  assumes "int j \<le> n + 11" "0 \<le> s" "s * 10 ^ nat (n + 11 - int j) \<le> 10 ^ 15" "0 \<le> k" "k \<le> 10 ^ 15"
  shows "round_double (of_int s * 10 powi (n - int j)) = round_double (of_int k / 10 ^ 11)
    \<longleftrightarrow> s * 10 ^ nat (n + 11 - int j) = k"
proof -
  have nn: "0 \<le> s * 10 ^ nat (n + 11 - int j)" using assms(2) by simp
  show ?thesis
    unfolding scaled_units [OF assms(1)]
    using fixed_digits_atomic [OF nn assms(3)] fixed_digits_atomic [OF assms(4,5)] by metis
qed

lemma digit_candidate_units:
  assumes k: "0 < k" "k \<le> 10 ^ 13" and n: "n \<le> 3" and j: "1 \<le> j" "int j \<le> n + 11"
    and x: "x = round_double (of_int k / 10 ^ 11)"
  shows "digit_candidate x n j = Some s \<longleftrightarrow> s * 10 ^ nat (n + 11 - int j) = k"
proof -
  define e where "e = nat (n + 11 - int j)"
  define y where "y = x * 10 powi (int j - n)"
  define good where "good = (\<lambda>s. round_double (of_int s * 10 powi (n - int j)) = x)"
  have err: "\<bar>x - of_int k / 10 ^ 11\<bar> < 1 / 10 ^ 13" using atomic_error k by (simp add: x)
  have kb: "rat_of_int k \<le> 10 ^ 13" using k(2) by (metis of_int_le_iff of_int_numeral of_int_power)
  have x0: "0 \<le> x" unfolding x using k(1) by (intro dbl.r_nonneg) simp
  have "rat_of_int k / 10 ^ 11 \<le> 100" using kb by (simp add: field_simps)
  moreover have "(1 / 10 ^ 13 :: rat) \<le> 1" by simp
  ultimately have x101: "x \<le> 101" using err by linarith
  have inv: "(10 :: rat) powi (int j - n) * 10 powi (n - int j) = 1" by (simp flip: power_int_add)
  have y0: "0 \<le> y" using x0 by (simp add: y_def zero_le_power_int)
  have top: "(10 :: rat) powi (n - int j) \<le> 100"
    using power_int_increasing [of "n - int j" 2 "10 :: rat"] n j by simp
  have ten: "(10 :: rat) powi (n - int j) = of_int (10 ^ e) / 10 ^ 11"
    using scaled_units [OF j(2), of 1] by (simp add: e_def)
  have bound: "s * 10 ^ e \<le> 10 ^ 15" if "of_int s \<le> y + 1" for s
  proof -
    have "of_int s * 10 powi (n - int j) \<le> (y + 1) * 10 powi (n - int j)"
      using that by (intro mult_right_mono) (simp_all add: zero_le_power_int)
    also have "\<dots> = x + 10 powi (n - int j)" using inv by (simp add: y_def algebra_simps mult.assoc)
    also have "\<dots> \<le> 201" using x101 top by linarith
    finally have "of_int (s * 10 ^ e) \<le> (201 * 10 ^ 11 :: rat)" using ten by (simp add: field_simps)
    then have "of_int (s * 10 ^ e) \<le> (of_int (10 ^ 15) :: rat)" by simp
    then show ?thesis using of_int_le_iff by blast
  qed
  have lo0: "0 \<le> \<lfloor>y\<rfloor>" "0 \<le> \<lceil>y\<rceil>" using y0 by simp_all
  have near: "of_int \<lfloor>y\<rfloor> \<le> y + 1" "of_int \<lceil>y\<rceil> \<le> y + 1"
    using floor_correct [of y] ceiling_correct [of y] by linarith+
  have k15: "0 \<le> k" "k \<le> 10 ^ 15" using k by simp_all
  have lo: "good \<lfloor>y\<rfloor> \<longleftrightarrow> \<lfloor>y\<rfloor> * 10 ^ e = k"
    using good_candidate [OF j(2) lo0(1) _ k15] bound [OF near(1)] unfolding good_def x e_def by blast
  have hi: "good \<lceil>y\<rceil> \<longleftrightarrow> \<lceil>y\<rceil> * 10 ^ e = k"
    using good_candidate [OF j(2) lo0(2) _ k15] bound [OF near(2)] unfolding good_def x e_def by blast
  have cand: "digit_candidate x n j =
    (if good \<lfloor>y\<rfloor> \<and> (\<not> good \<lceil>y\<rceil> \<or> y - of_int \<lfloor>y\<rfloor> \<le> of_int \<lceil>y\<rceil> - y) then Some \<lfloor>y\<rfloor>
     else if good \<lceil>y\<rceil> then Some \<lceil>y\<rceil> else None)"
    by (simp add: digit_candidate_def y_def good_def Let_def)
  have fwd: "t * 10 ^ e = k" if "digit_candidate x n j = Some t" for t
  proof -
    have "t = \<lfloor>y\<rfloor> \<and> good \<lfloor>y\<rfloor> \<or> t = \<lceil>y\<rceil> \<and> good \<lceil>y\<rceil>"
      using that unfolding cand by (simp split: if_splits)
    then show ?thesis using lo hi by blast
  qed
  show ?thesis
  proof
    assume "digit_candidate x n j = Some s"
    then show "s * 10 ^ nat (n + 11 - int j) = k" using fwd by (simp add: e_def)
  next
    assume "s * 10 ^ nat (n + 11 - int j) = k"
    then have s: "s * 10 ^ e = k" by (simp add: e_def)
    have "\<bar>y - of_int s\<bar> < 1"
    proof -
      have "of_int k / 10 ^ 11 = of_int s * (10 powi (n - int j) :: rat)" using ten by (simp add: s [symmetric])
      then have "y - of_int s = (x - of_int k / 10 ^ 11) * 10 powi (int j - n)"
        using inv by (simp add: y_def algebra_simps mult.assoc)
      then have "\<bar>y - of_int s\<bar> = \<bar>x - of_int k / 10 ^ 11\<bar> * 10 powi (int j - n)"
        by (simp add: abs_mult zero_le_power_int)
      also have "\<dots> \<le> (1 / 10 ^ 13) * 10 powi (int j - n)"
        using err by (intro mult_right_mono) (simp_all add: zero_le_power_int)
      also have "\<dots> \<le> (1 / 10 ^ 13) * 10 powi 11"
        using j(2) by (intro mult_left_mono power_int_increasing) simp_all
      finally show ?thesis by simp
    qed
    then have b: "of_int s - 1 < y" "y < of_int s + 1" by (simp_all add: abs_less_iff)
    have "s = \<lfloor>y\<rfloor> \<or> s = \<lceil>y\<rceil>"
    proof (cases "of_int s \<le> y")
      case True
      then show ?thesis using floor_unique [OF True b(2)] by simp
    next
      case False
      then show ?thesis using ceiling_unique [OF b(1), of] by simp
    qed
    then have "good \<lfloor>y\<rfloor> \<or> good \<lceil>y\<rceil>" using lo hi s by blast
    then have "digit_candidate x n j \<noteq> None" unfolding cand by auto
    then obtain t where t: "digit_candidate x n j = Some t" by blast
    then have "t * 10 ^ e = s * 10 ^ e" using fwd s by simp
    then show "digit_candidate x n j = Some s" using t by simp
  qed
qed

section \<open>Converting the text back\<close>

lemma unit_positive: "0 < k \<Longrightarrow> \<not> rnd (of_int k / 10 ^ 11) \<le> Fin 0"
proof -
  assume "0 < k"
  have "(2 :: rat) powi (- 1074) \<le> 2 powi (- 37)" by (rule powi_two_mono) simp
  also have "(2 :: rat) powi (- 37) \<le> 1 / 10 ^ 11" by (simp add: power_int_minus field_simps)
  also have "\<dots> \<le> of_int k / 10 ^ 11" using \<open>0 < k\<close> by (simp add: divide_right_mono)
  finally show ?thesis by (rule rnd_pos)
qed

lemma cryloToAtomic_decimal:
  assumes "list_all is_digit a" "a \<noteq> []" "list_all is_digit b" "b \<noteq> []" "length b \<le> 11"
    "parse_digits (a @ b) * 10 ^ (11 - length b) = k" "0 < k"
  shows "cryloToAtomic (Str (a @ CHR ''.'' # b)) = Ok (int_str k)"
proof -
  have t: "trim (a @ CHR ''.'' # b) = a @ CHR ''.'' # b" using trim_decimal assms by simp
  have k: "of_int k = (of_int (parse_digits (a @ b)) * 10 ^ (11 - length b) :: rat)"
    unfolding assms(6) [symmetric] by (simp del: parse_digits_append)
  have ten: "(10 :: rat) ^ 11 = 10 ^ (11 - length b) * 10 ^ length b"
    using assms(5) unfolding power_add [symmetric] by simp
  have q: "of_int (parse_digits (a @ b)) / 10 ^ length b = (of_int k / 10 ^ 11 :: rat)"
    unfolding k ten by (simp del: parse_digits_append)
  have "string_to_number (a @ CHR ''.'' # b) = rnd (of_int k / 10 ^ 11)"
    using string_to_number_frac [OF assms(1-3)] unfolding q .
  then have pos: "\<not> string_to_number (trim (a @ CHR ''.'' # b)) \<le> Fin 0" using t unit_positive [OF assms(7)] by simp
  have "of_int (atomic_of a b 11) = (of_int k :: rat)" using atomic_of_value [OF assms(5), of a] unfolding q by simp
  then have "atomic_of a b 11 = k" by linarith
  then show ?thesis
    unfolding cryloToAtomic_def CRYLO_DECIMALS_def using decimalToAtomic_frac [OF t assms(1-5) pos] by simp
qed

lemma cryloToAtomic_integer:
  assumes "list_all is_digit a" "a \<noteq> []" "parse_digits a * 10 ^ 11 = k" "0 < k"
  shows "cryloToAtomic (Str a) = Ok (int_str k)"
proof -
  have t: "trim a = a" using assms(1,2) by (intro trim_visible) (auto simp: list_all_iff digit_visible)
  have "string_to_number a = rnd (of_int (parse_digits a))" by (rule string_to_number_int [OF assms(1,2)])
  also have "of_int (parse_digits a) = (of_int k / 10 ^ 11 :: rat)" unfolding assms(3) [symmetric] by simp
  finally have pos: "\<not> string_to_number (trim a) \<le> Fin 0" using t unit_positive [OF assms(4)] by simp
  show ?thesis
    unfolding cryloToAtomic_def CRYLO_DECIMALS_def using decimalToAtomic_int [OF _ _ pos] assms t by simp
qed

lemma decimal_text_atomic:
  assumes ds: "list_all is_digit ds" "ds \<noteq> []" and m: "- 6 < m" "m \<le> 21" "int (length ds) \<le> m + 11"
    and k: "parse_digits ds * 10 ^ nat (m + 11 - int (length ds)) = k" "0 < k"
  shows "cryloToAtomic (Str (decimal_text ds m)) = Ok (int_str k)"
proof -
  consider (whole) "int (length ds) \<le> m" | (mixed) "0 < m" "m < int (length ds)" | (frac) "m \<le> 0" by linarith
  then show ?thesis
  proof cases
    case whole
    define e where "e = nat (m - int (length ds))"
    have e: "nat (m + 11 - int (length ds)) = e + 11" using whole by (simp add: e_def)
    have t: "decimal_text ds m = ds @ zeros e" using whole m(2) by (simp add: decimal_text_def e_def)
    show ?thesis
      unfolding t by (rule cryloToAtomic_integer) (use ds k e in \<open>simp_all add: power_add mult.assoc\<close>)
  next
    case mixed
    define a b where "a = take (nat m) ds" and "b = drop (nat m) ds"
    have ab: "ds = a @ b" by (simp add: a_def b_def)
    have lb: "length b = length ds - nat m" by (simp add: b_def)
    have t: "decimal_text ds m = a @ CHR ''.'' # b" using mixed m(2) by (simp add: decimal_text_def a_def b_def)
    have e: "nat (m + 11 - int (length ds)) = 11 - length b" using lb mixed by linarith
    show ?thesis
      unfolding t
    proof (rule cryloToAtomic_decimal)
      show "list_all is_digit a" "list_all is_digit b" using ds(1) unfolding ab by simp_all
      show "a \<noteq> []" "b \<noteq> []" using mixed ds(2) by (simp_all add: a_def b_def)
      show "length b \<le> 11" using lb m(3) by linarith
      show "parse_digits (a @ b) * 10 ^ (11 - length b) = k" using k(1) unfolding e by (simp only: ab)
    qed (rule k(2))
  next
    case frac
    define b where "b = zeros (nat (- m)) @ ds"
    have lb: "length b = nat (- m) + length ds" by (simp add: b_def)
    have pos: "0 < length ds" using ds(2) by simp
    have "\<not> int (length ds) \<le> m" using frac pos by linarith
    then have t: "decimal_text ds m = ''0'' @ CHR ''.'' # b" using frac m(1) by (simp add: decimal_text_def b_def Let_def)
    have e: "nat (m + 11 - int (length ds)) = 11 - length b" using lb frac by linarith
    show ?thesis
      unfolding t
    proof (rule cryloToAtomic_decimal)
      show "list_all is_digit ''0''" by (simp add: is_digit_def)
      show "list_all is_digit b" "b \<noteq> []" using ds by (simp_all add: b_def)
      show "length b \<le> 11" using lb m(3) frac by linarith
      show "parse_digits (''0'' @ b) * 10 ^ (11 - length b) = k"
        using k(1) unfolding e parse_digits_append by (simp add: b_def digit_val_def)
    qed (use k(2) in simp_all)
  qed
qed

section \<open>The text of an amount\<close>

lemma shortest_units:
  assumes k: "0 < k" "k \<le> 10 ^ 13" and n: "n \<le> 3" and x: "x = round_double (of_int k / 10 ^ 11)"
    and j: "1 \<le> j" "int j \<le> n + 11" "n + 11 - int j < int f"
  shows "\<exists>s j'. shortest_digits f x n j = (s, j') \<and> 1 \<le> j' \<and> int j' \<le> n + 11 \<and> s * 10 ^ nat (n + 11 - int j') = k"
  using j
proof (induction f arbitrary: j)
  case (Suc f)
  note unit = digit_candidate_units [OF k n Suc.prems(1,2) x]
  show ?case
  proof (cases "digit_candidate x n j")
    case (Some s)
    then have "s * 10 ^ nat (n + 11 - int j) = k" using unit by blast
    then show ?thesis using Some Suc.prems(1,2) by (intro exI [of _ s] exI [of _ j]) simp
  next
    case None
    have "int j \<noteq> n + 11"
    proof
      assume "int j = n + 11"
      then have "digit_candidate x n j = Some k" using unit by simp
      then show False using None by simp
    qed
    then have "int (Suc j) \<le> n + 11" "n + 11 - int (Suc j) < int f" using Suc.prems by linarith+
    then have "\<exists>s j'. shortest_digits f x n (Suc j) = (s, j') \<and> 1 \<le> j' \<and> int j' \<le> n + 11 \<and> s * 10 ^ nat (n + 11 - int j') = k"
      by (intro Suc.IH) simp_all
    then show ?thesis using None by simp
  qed
qed simp

lemma atomic_double_bounds:
  assumes "0 < k" "k \<le> 10 ^ 13" "x = round_double (of_int k / 10 ^ 11)"
  shows "1 / 10 ^ 20 \<le> x" "x < 101" "0 < x" "dec_exp x \<le> 3"
proof -
  have err: "\<bar>x - of_int k / 10 ^ 11\<bar> < 1 / 10 ^ 13" using atomic_error assms by simp
  have "1 \<le> rat_of_int k" using assms(1) by simp
  then have "(1 / 10 ^ 11 :: rat) \<le> of_int k / 10 ^ 11" by (simp add: divide_right_mono)
  moreover have "(1 / 10 ^ 11 - 1 / 10 ^ 13 :: rat) \<ge> 1 / 10 ^ 20" by simp
  ultimately show lo: "1 / 10 ^ 20 \<le> x" using err by linarith
  have "rat_of_int k \<le> of_int (10 ^ 13)" using assms(2) by (simp only: of_int_le_iff)
  then have "rat_of_int k / 10 ^ 11 \<le> 100" by (simp add: field_simps)
  moreover have "(1 / 10 ^ 13 :: rat) \<le> 1" by simp
  ultimately show hi: "x < 101" using err by linarith
  have "(0 :: rat) < 1 / 10 ^ 20" by simp
  then show "0 < x" using lo by linarith
  show "dec_exp x \<le> 3"
  proof (rule ccontr)
    assume "\<not> dec_exp x \<le> 3"
    then have "(10 :: rat) powi 3 \<le> 10 powi (dec_exp x - 1)" by (intro power_int_increasing) simp_all
    then show False using dec_exp_bounds [OF lo] hi by simp
  qed
qed

lemma unit_digits:
  assumes k: "0 < k" and s: "s * 10 ^ e = k"
  shows "0 < s" "list_all is_digit (digits_of s)" "digits_of s \<noteq> []" "parse_digits (digits_of s) = s"
proof -
  have "0 < s * 10 ^ e" using k unfolding s .
  then show pos: "0 < s" by (simp add: zero_less_mult_iff)
  show "list_all is_digit (digits_of s)" "digits_of s \<noteq> []" "parse_digits (digits_of s) = s"
    using digits_of_props [of s] pos by simp_all
qed

text \<open>A number below \<open>10 ^ (- 6)\<close> is written with an exponent, which the conversion refuses.\<close>

lemma is_decimal_chars: "is_decimal s \<Longrightarrow> CHR ''e'' \<notin> set s"
proof -
  assume "is_decimal s"
  moreover have "\<not> is_digit (CHR ''e'')" by (simp add: is_digit_def)
  ultimately show ?thesis by (cases rule: is_decimal_cases) (auto simp: list_all_iff)
qed

lemma exponent_text_refused:
  assumes ds: "list_all is_digit ds" "ds \<noteq> []" and m: "m \<le> - 6"
  shows "\<exists>e. cryloToAtomic (Str (decimal_text ds m)) = Throw e"
proof -
  define ex where "ex = ''e'' @ ''-'' @ digits_of \<bar>m - 1\<bar>"
  have "\<not> int (length ds) \<le> m" using m by linarith
  then have t: "decimal_text ds m = (if length ds = 1 then ds @ ex else take 1 ds @ ''.'' @ drop 1 ds @ ex)"
    using m by (simp add: decimal_text_def ex_def Let_def)
  have hd: "is_digit (hd ds)" using ds by (cases ds) simp_all
  have dg: "list_all is_digit (digits_of \<bar>m - 1\<bar>)" "digits_of \<bar>m - 1\<bar> \<noteq> []"
    using digits_of_props [of "\<bar>m - 1\<bar>"] by simp_all
  have last: "is_digit (last (digits_of \<bar>m - 1\<bar>))" using dg by (simp add: list_all_iff)
  have "hd (decimal_text ds m) = hd ds" using ds(2) unfolding t by (cases ds) simp_all
  moreover have "last (decimal_text ds m) = last (digits_of \<bar>m - 1\<bar>)" using dg(2) unfolding t ex_def by simp
  moreover have ne: "decimal_text ds m \<noteq> []" using ds(2) unfolding t by (cases ds) simp_all
  ultimately have "trim (decimal_text ds m) = decimal_text ds m"
    using hd last by (intro trim_visible) (simp_all add: digit_visible)
  moreover have "CHR ''e'' \<in> set (decimal_text ds m)" unfolding t ex_def by simp
  then have "\<not> is_decimal (decimal_text ds m)" using is_decimal_chars by blast
  ultimately show ?thesis
    using ne by (cases "string_to_number (decimal_text ds m) \<le> Fin 0")
      (simp_all add: cryloToAtomic_def decimalToAtomic_def js_or_def Let_def)
qed

lemma atomic_exponent:
  assumes k: "0 < k" "k \<le> 10 ^ 13" and x: "x = round_double (of_int k / 10 ^ 11)" and n: "- 11 \<le> dec_exp x"
  shows "k \<le> 10 ^ nat (dec_exp x + 11)" "- 10 \<le> dec_exp x \<Longrightarrow> 10 ^ nat (dec_exp x + 10) \<le> k"
proof -
  have err: "\<bar>x - of_int k / 10 ^ 11\<bar> < 1 / 10 ^ 13" using atomic_error k x by simp
  note b = atomic_double_bounds [OF k x]
  have shift: "10 powi e * 10 ^ 11 = (of_int (10 ^ nat (e + 11)) :: rat)" if "- 11 \<le> e" for e
  proof -
    have "(10 :: rat) powi e * 10 ^ 11 = 10 powi (e + 11)" by (simp add: power_int_add)
    then show ?thesis using that by (simp add: powi_ten_nat)
  qed
  have "of_int k = of_int k / 10 ^ 11 * (10 ^ 11 :: rat)" by simp
  also have "\<dots> < (10 powi dec_exp x + 1 / 10 ^ 13) * 10 ^ 11"
    using dec_exp_bounds [OF b(1)] err by (intro mult_strict_right_mono) (linarith, simp)
  also have "\<dots> = of_int (10 ^ nat (dec_exp x + 11)) + 1 / 100" unfolding distrib_right shift [OF n] by simp
  finally have "rat_of_int k < of_int (10 ^ nat (dec_exp x + 11)) + 1" by simp
  then have "rat_of_int k < of_int (10 ^ nat (dec_exp x + 11) + 1)" by simp
  then have "k < 10 ^ nat (dec_exp x + 11) + 1" by (simp only: of_int_less_iff)
  then show "k \<le> 10 ^ nat (dec_exp x + 11)" by simp
  assume n10: "- 10 \<le> dec_exp x"
  then have sh: "10 powi (dec_exp x - 1) * 10 ^ 11 = (of_int (10 ^ nat (dec_exp x + 10)) :: rat)"
    using shift [of "dec_exp x - 1"] by (simp add: algebra_simps)
  have "rat_of_int (10 ^ nat (dec_exp x + 10)) - 1 / 100 = (10 powi (dec_exp x - 1) - 1 / 10 ^ 13) * 10 ^ 11"
    unfolding left_diff_distrib sh by simp
  also have "\<dots> < of_int k / 10 ^ 11 * (10 ^ 11 :: rat)"
    using dec_exp_bounds [OF b(1)] err by (intro mult_strict_right_mono) (linarith, simp)
  finally have "rat_of_int (10 ^ nat (dec_exp x + 10)) < of_int k + 1" by simp
  then have "rat_of_int (10 ^ nat (dec_exp x + 10)) < of_int (k + 1)" by simp
  then have "10 ^ nat (dec_exp x + 10) < k + 1" by (simp only: of_int_less_iff)
  then show "10 ^ nat (dec_exp x + 10) \<le> k" by simp
qed

lemma shortest_nonneg: "0 \<le> x \<Longrightarrow> 0 \<le> fst (shortest_digits f x n j)"
proof (induction f arbitrary: j)
  case (Suc f)
  define y where "y = x * 10 powi (int j - n)"
  have "0 \<le> y" using Suc.prems by (simp add: y_def zero_le_power_int)
  moreover have "s = \<lfloor>y\<rfloor> \<or> s = \<lceil>y\<rceil>" if "digit_candidate x n j = Some s" for s
    using that unfolding digit_candidate_def Let_def y_def [symmetric] by (simp split: if_splits)
  ultimately have "0 \<le> s" if "digit_candidate x n j = Some s" for s using that by fastforce
  then show ?case using Suc by (auto split: option.splits)
qed (simp add: zero_le_power_int)

text \<open>The two forms the text of a positive amount takes.\<close>

lemma positive_text_cases:
  assumes k: "0 < k" "k \<le> 10 ^ 13" and x: "x = round_double (of_int k / 10 ^ 11)" and n: "- 10 \<le> dec_exp x"
  obtains (power) "positive_text x = decimal_text ''1'' (dec_exp x + 1)" "k = 10 ^ nat (dec_exp x + 11)"
  | (digits) s where "positive_text x = decimal_text (digits_of s) (dec_exp x)" "0 < s"
      "int (length (digits_of s)) \<le> dec_exp x + 11" "s * 10 ^ nat (dec_exp x + 11 - int (length (digits_of s))) = k"
      "k < 10 ^ nat (dec_exp x + 11)"
proof -
  define m where "m = dec_exp x"
  note b = atomic_double_bounds [OF k x]
  obtain s j where sj: "shortest_digits 17 x m 1 = (s, j)" "1 \<le> j" "int j \<le> m + 11" "s * 10 ^ nat (m + 11 - int j) = k"
    using shortest_units [OF k b(4) x, of 1 17] b(4) n by (auto simp: m_def)
  have split: "nat (m + 11) = j + nat (m + 11 - int j)" using sj(3) by linarith
  show thesis
  proof (cases "s = 10 ^ j")
    case True
    then have "k = 10 ^ nat (m + 11)" using sj(4) unfolding split by (simp add: power_add)
    moreover have "positive_text x = decimal_text ''1'' (m + 1)"
      unfolding positive_text_def m_def [symmetric] Let_def sj(1) using True by simp
    ultimately show ?thesis using power by (simp add: m_def)
  next
    case False
    have pos: "0 < s" using unit_digits(1) [OF k(1) sj(4)] .
    have "s * 10 ^ nat (m + 11 - int j) \<le> 10 ^ j * 10 ^ nat (m + 11 - int j)"
      using atomic_exponent(1) [OF k x] n unfolding sj(4) m_def [symmetric] split power_add by simp
    then have lt: "s < 10 ^ j" using False by simp
    have e: "nat (m + 10) = (j - 1) + nat (m + 11 - int j)" using sj(2,3) by linarith
    have "10 ^ nat (m + 10) \<le> k" unfolding m_def by (rule atomic_exponent(2) [OF k x]) (use n in simp_all)
    then have "10 ^ (j - 1) * 10 ^ nat (m + 11 - int j) \<le> s * 10 ^ nat (m + 11 - int j)"
      unfolding sj(4) e power_add .
    then have ge: "10 ^ (j - 1) \<le> s" by simp
    have len: "length (digits_of s) = j" using length_digits_of [OF pos ge] lt sj(2) by simp
    have "positive_text x = decimal_text (digits_of s) m"
      unfolding positive_text_def m_def [symmetric] Let_def sj(1) using False by simp
    moreover have "k < 10 ^ nat (m + 11)" unfolding sj(4) [symmetric] split power_add using lt by simp
    ultimately show ?thesis using digits [of s] pos sj(3,4) len by (simp add: m_def)
  qed
qed

lemma amount_text_atomic:
  assumes k: "10 ^ 5 \<le> k" "k \<le> 10 ^ 13"
  shows "cryloToAtomic (Str (num_to_string (atomic_num k))) = Ok (int_str k)"
proof -
  define x where "x = round_double (of_int k / 10 ^ 11)"
  have k0: "0 < k" using k(1) by simp
  note b = atomic_double_bounds [OF k0 k(2) x_def]
  have t: "num_to_string (atomic_num k) = positive_text x" using b(3) by (simp add: atomic_num_def x_def)
  have n: "- 6 \<le> dec_exp x"
  proof (rule ccontr)
    assume "\<not> - 6 \<le> dec_exp x"
    then have "(10 :: rat) powi dec_exp x \<le> 10 powi (- 7)" by (intro power_int_increasing) simp_all
    then have "x < 1 / 10 ^ 7" using dec_exp_bounds [OF b(1)] by (simp add: power_int_minus field_simps)
    moreover have "(10 ^ 5 :: rat) \<le> of_int k" using k(1) by (metis of_int_le_iff of_int_numeral of_int_power)
    then have "(1 / 10 ^ 6 :: rat) \<le> of_int k / 10 ^ 11" by (simp add: field_simps)
    moreover have "\<bar>x - of_int k / 10 ^ 11\<bar> < 1 / 10 ^ 13" using atomic_error k k0 by (simp add: x_def)
    moreover have "(1 / 10 ^ 7 :: rat) \<le> 1 / 10 ^ 6 - 1 / 10 ^ 13" by simp
    ultimately show False by linarith
  qed
  then have n10: "- 10 \<le> dec_exp x" by simp
  show ?thesis
  proof (rule positive_text_cases [OF k0 k(2) x_def n10])
    assume p: "positive_text x = decimal_text ''1'' (dec_exp x + 1)" "k = 10 ^ nat (dec_exp x + 11)"
    show ?thesis
      unfolding t p(1) by (rule decimal_text_atomic) (use n b(4) k0 in \<open>simp_all add: is_digit_def p(2) digit_val_def\<close>)
  next
    fix s
    assume s: "positive_text x = decimal_text (digits_of s) (dec_exp x)" "int (length (digits_of s)) \<le> dec_exp x + 11"
      "s * 10 ^ nat (dec_exp x + 11 - int (length (digits_of s))) = k" "k < 10 ^ nat (dec_exp x + 11)"
    have "dec_exp x \<noteq> - 6" using s(4) k(1) by auto
    then show ?thesis
      unfolding t s(1) using n b(4) s(2,3) unit_digits [OF k0 s(3)] k0 by (intro decimal_text_atomic) simp_all
  qed
qed

text \<open>A smaller amount is written with an exponent and refused.\<close>

lemma small_amount_refused:
  assumes k: "0 < k" "k < 10 ^ 5"
  shows "\<exists>e. cryloToAtomic (Str (num_to_string (atomic_num k))) = Throw e"
proof -
  define x where "x = round_double (of_int k / 10 ^ 11)"
  have k13: "k \<le> 10 ^ 13" using k(2) by simp
  note b = atomic_double_bounds [OF k(1) k13 x_def]
  have t: "num_to_string (atomic_num k) = positive_text x" using b(3) by (simp add: atomic_num_def x_def)
  have n: "dec_exp x \<le> - 6"
  proof (rule ccontr)
    assume h: "\<not> dec_exp x \<le> - 6"
    then have "(10 :: int) ^ 5 \<le> 10 ^ nat (dec_exp x + 10)" by (intro power_increasing) simp_all
    also have "\<dots> \<le> k" using h by (intro atomic_exponent(2) [OF k(1) k13 x_def]) simp_all
    finally show False using k(2) by simp
  qed
  have one: "list_all is_digit ''1''" by (simp add: is_digit_def)
  show ?thesis
  proof (cases "- 10 \<le> dec_exp x")
    case True
    show ?thesis
    proof (rule positive_text_cases [OF k(1) k13 x_def True])
      assume p: "positive_text x = decimal_text ''1'' (dec_exp x + 1)" "k = 10 ^ nat (dec_exp x + 11)"
      have "dec_exp x \<noteq> - 6" using k(2) unfolding p(2) by auto
      then show ?thesis unfolding t p(1) using n one by (intro exponent_text_refused) simp_all
    next
      fix s
      assume s: "positive_text x = decimal_text (digits_of s) (dec_exp x)" "0 < s"
      then show ?thesis unfolding t s(1) using n digits_of_props [of s] by (intro exponent_text_refused) simp_all
    qed
  next
    case False
    obtain s j where sj: "shortest_digits 17 x (dec_exp x) 1 = (s, j)" by (cases "shortest_digits 17 x (dec_exp x) 1")
    then have s: "0 \<le> s" using shortest_nonneg [of x 17 "dec_exp x" 1] b(3) by simp
    have "positive_text x = (if s = 10 ^ j then decimal_text ''1'' (dec_exp x + 1) else decimal_text (digits_of s) (dec_exp x))"
      unfolding positive_text_def Let_def sj by simp
    then show ?thesis
      unfolding t using n False one digits_of_props [OF s] exponent_text_refused by (cases "s = 10 ^ j") simp_all
  qed
qed

lemma amount_text_exact:
  assumes "0 < k" "k \<le> 10 ^ 13" "cryloToAtomic (Str (num_to_string (atomic_num k))) = Ok t"
  shows "t = int_str k"
proof (cases "k < 10 ^ 5")
  case True
  then show ?thesis using small_amount_refused [OF assms(1)] assms(3) by auto
next
  case False
  then show ?thesis using amount_text_atomic [of k] assms(2,3) by simp
qed

end
