(* ===== verification/BridgeProps.thy ===== *)
theory BridgeProps
  imports SpendProps NumberText Samples
begin

text \<open>
  The bridge from CRYLO to wCRYLO: each deposit is requested from the bridge and paid to the address the bridge
  returned for it, with the same amount; a session pays what was typed, in at most three deposits of at most 50 CRYLO.
\<close>

section \<open>A request to the bridge\<close>

definition request_url :: string where
  "request_url = BRIDGE_API_URL @ ''/bridge/request''"

definition request_calls :: "jsval \<Rightarrow> call list" where
  "request_calls payload = [FetchCall request_url ''POST'' payload, FetchBody request_url]"

text \<open>The reply \<open>v\<close> comes from a successful response to the request \<open>payload\<close> made after the calls \<open>h\<close>.\<close>

definition bridge_granted :: "env \<Rightarrow> call list \<Rightarrow> jsval \<Rightarrow> jsval \<Rightarrow> bool" where
  "bridge_granted E h payload v \<longleftrightarrow>
     (\<exists>res text. answer E h (FetchCall request_url ''POST'' payload) = Ok res \<and> truthy (jprop res ''ok'') \<and>
        answer E (h @ [FetchCall request_url ''POST'' payload]) (FetchBody request_url) = Ok text \<and>
        v = Obj (obj_spread [(''ok'', Bool True)]
              (case JSON_parse (to_str text) of None \<Rightarrow> Obj [(''error'', text)] | Some d \<Rightarrow> d)))"

lemma error_reply_ok [simp]: "jprop (error_reply m) ''ok'' = Bool False" "\<not> nullish (error_reply m)"
  by (simp_all add: error_reply_def nullish_def)

lemma wp_bridgeRequest:
  assumes one: "\<And>r w'. trace w' = trace w @ [FetchCall request_url ''POST'' payload] \<Longrightarrow>
      (\<And>v. r = Ok v \<Longrightarrow> \<not> truthy (jprop v ''ok'')) \<Longrightarrow> R r w'"
    and two: "\<And>r w'. trace w' = trace w @ request_calls payload \<Longrightarrow>
      (\<And>v. r = Ok v \<Longrightarrow> truthy (jprop v ''ok'') \<Longrightarrow> bridge_granted E (trace w) payload v) \<Longrightarrow> R r w'"
  shows "wp E (crylo_bridgeRequest payload) R w"
proof -
  let ?h = "trace w" and ?c = "FetchCall request_url ''POST'' payload"
  have "wp E (crylo_bridgeRequest payload) (\<lambda>r w'.
      (trace w' = ?h @ [?c] \<and> (\<forall>v. r = Ok v \<longrightarrow> \<not> truthy (jprop v ''ok''))) \<or>
      (trace w' = ?h @ request_calls payload \<and> (\<forall>v. r = Ok v \<longrightarrow> truthy (jprop v ''ok'') \<longrightarrow> bridge_granted E ?h payload v))) w"
    unfolding crylo_relay relay_def ipc_bridge_request_def with_message_def bridge_reply_def Let_def request_url_def [symmetric]
    by (simp add: wp_eval request_calls_def bridge_granted_def split: on_ok_split on_throw_split option.split)
  then show ?thesis by (rule wp_mono) (use one two in blast)
qed

lemma if_app: "(c \<Longrightarrow> f x) \<Longrightarrow> (\<not> c \<Longrightarrow> g x) \<Longrightarrow> (if c then f else g) x"
  by simp

section \<open>A deposit\<close>

definition deposit_request :: "jsval \<Rightarrow> jsval \<Rightarrow> int \<Rightarrow> jsval" where
  "deposit_request naddr a k = Obj [(''nexusAddress'', naddr), (''cryloAddress'', a), (''amountAtomic'', Str (int_str k))]"

definition payment :: "jsval \<Rightarrow> int \<Rightarrow> call" where
  "payment to k = wallet_post (Str ''transfer_split'') (deposit_params to (int_str k)) (jint 120000)"

text \<open>The three calls of a deposit of \<open>k\<close> units; the last pays to the address the bridge returned for the request.\<close>

record deposited =
  from_address :: jsval
  to_address :: jsval
  units :: int

definition deposit_calls :: "jsval \<Rightarrow> deposited \<Rightarrow> call list" where
  "deposit_calls naddr d = request_calls (deposit_request naddr (from_address d) (units d)) @ [payment (to_address d) (units d)]"

definition returned_address :: "env \<Rightarrow> call list \<Rightarrow> jsval \<Rightarrow> deposited \<Rightarrow> bool" where
  "returned_address E h naddr d \<longleftrightarrow>
     (\<exists>v. bridge_granted E h (deposit_request naddr (from_address d) (units d)) v \<and>
        to_address d = js_or (jprop v ''integratedAddress'') (jprop v ''integrated_address''))"

text \<open>Calls that pay.\<close>

fun pays :: "call \<Rightarrow> bool" where
  "pays (HttpPost port path' body t) \<longleftrightarrow>
     jprop body ''method'' \<in> {Str ''transfer'', Str ''transfer_split'', Str ''sweep_all''}"
| "pays (ContractSend s a f as n) \<longleftrightarrow> True"
| "pays _ \<longleftrightarrow> False"

definition quiet :: "call \<Rightarrow> bool" where
  "quiet c \<longleftrightarrow> \<not> pays c \<and> c \<noteq> DateNow"

lemma quiet_calls: "list_all quiet cs \<Longrightarrow> list_all (\<lambda>c. \<not> pays c) cs \<and> DateNow \<notin> set cs"
  by (auto simp: quiet_def list_all_iff)

lemma wp_bridge_fields [wp_eval]:
  "wp E (setBridgeStatus m) R = (\<lambda>w. R (Ok ()) (snd (setBridgeStatus m E w)))"
  "wp E (setBridgeField i v) R = (\<lambda>w. R (Ok ()) (snd (setBridgeField i v E w)))"
  by (simp_all add: wp_def setBridgeStatus_def setBridgeField_def set_text_if_def do_if_def set_text_def write_el_def
      modify_def ret_def fun_eq_iff)

lemma trace_bridge_fields [simp]:
  "trace (snd (setBridgeStatus m E w)) = trace w" "trace (snd (setBridgeField i v E w)) = trace w"
  by (simp_all add: setBridgeStatus_def setBridgeField_def set_text_if_def do_if_def set_text_def write_el_def
      modify_def ret_def)

lemma request_pays_nothing [simp]: "list_all quiet (request_calls p)" "quiet (FetchCall u m p)"
  by (simp_all add: request_calls_def quiet_def)

lemma zero_refused: "cryloToAtomic (Str (num_to_string (atomic_num 0))) \<noteq> Ok t"
proof
  have z: "num_to_string (atomic_num 0) = ''0''" by (simp add: atomic_num_def)
  assume "cryloToAtomic (Str (num_to_string (atomic_num 0))) = Ok t"
  then obtain q where "decimal_value (trim ''0'') = Some q" "0 < q"
    using decimalToAtomic_value unfolding cryloToAtomic_def CRYLO_DECIMALS_def z by metis
  moreover have "decimal_value (trim ''0'') = Some 0" by code_simp
  ultimately show False by simp
qed

lemma accepted_amount:
  assumes "0 \<le> k" "k \<le> 10 ^ 13" "cryloToAtomic (Str (num_to_string (atomic_num k))) = Ok t"
  shows "t = int_str k \<and> 0 < k"
  using assms zero_refused [of t] amount_text_exact [of k t] by (cases "k = 0") auto

text \<open>What follows the request: the payment, if the reply names a payment and an address.\<close>

lemma deposit_step:
  assumes k: "0 \<le> k" "k \<le> 10 ^ 13"
    and stop: "\<And>r w' rest. trace w' = trace w @ rest \<Longrightarrow> list_all quiet rest \<Longrightarrow> (\<And>x. r \<noteq> Ok x) \<Longrightarrow> Q r w'"
    and paid: "\<And>r w' d. 0 < k \<Longrightarrow> units d = k \<Longrightarrow> trace w' = trace w @ deposit_calls naddr d \<Longrightarrow> returned_address E (trace w) naddr d \<Longrightarrow> Q r w'"
  shows "wp E (deposit naddr n (i, atomic_num k) sent) Q w"
proof (cases "cryloToAtomic (Str (num_to_string (atomic_num k)))")
  case (Ok t)
  then have t: "t = int_str k" and pos: "0 < k" using accepted_amount [OF k] by simp_all
  have pay: "Q r w'"
    if "bridge_granted E (trace w) (deposit_request naddr a k) v"
      "trace w' = trace w @ request_calls (deposit_request naddr a k) @
        [wallet_post (Str ''transfer_split'') (deposit_params (js_or (jprop v ''integratedAddress'') (jprop v ''integrated_address'')) (int_str k)) (jint 120000)]"
    for a v r w'
    using that pos by (intro paid [of "\<lparr>from_address = a, to_address = js_or (jprop v ''integratedAddress'') (jprop v ''integrated_address''), units = k\<rparr>"])
      (auto simp: deposit_calls_def payment_def returned_address_def)
  have failed: "Q r w'" if "trace w' = trace w @ [FetchCall request_url ''POST'' p]" "\<And>x. r \<noteq> Ok x" for p r w'
    using that by (intro stop) auto
  have failed': "Q r w'" if "trace w' = trace w @ request_calls p" "\<And>x. r \<noteq> Ok x" for p r w'
    using that by (intro stop) auto
  have tail: "on_ok (\<lambda>x. if nullish x then Q (Throw (e1 x)) else if \<not> truthy (jprop x ''ok'')
        then (case js_or (jprop x ''error'') (Str []) of Str y \<Rightarrow> Q (Throw (e2 x y)) | _ \<Rightarrow> Q (Throw e3))
        else (\<lambda>w. Q (Ok (f x)) (snd (setBridgeField fld (g x) E w)))) Q r w'"
    if "bridge_granted E (trace w) (deposit_request naddr a k) v"
      "trace w' = trace w @ request_calls (deposit_request naddr a k) @
        [wallet_post (Str ''transfer_split'') (deposit_params (js_or (jprop v ''integratedAddress'') (jprop v ''integrated_address'')) (int_str k)) (jint 120000)]"
    for a v r w' e1 e2 e3 f g fld
    using pay [OF that(1)] that(2) by (cases r) (simp_all split: jsval.split)
  show ?thesis
    unfolding deposit_def wallet_address_def Let_def fst_conv snd_conv Ok t
    apply (simp only: wp_bind wp_lift_outcome on_ok.simps wp_andthen wp_bridge_fields wp_gets)
    apply (rule wp_bridgeRequest)
    subgoal for r w' using failed by (cases r) (auto simp: wp_eval)
    subgoal premises prems for r w'
    proof (cases r)
      case (Ok v)
      obtain a where a: "trace w' = trace w @ request_calls (deposit_request naddr a k)"
        "truthy (jprop v ''ok'') \<Longrightarrow> bridge_granted E (trace w) (deposit_request naddr a k) v"
        using prems Ok that unfolding deposit_request_def trace_bridge_fields by blast
      show ?thesis
        unfolding Ok on_ok.simps wp_bind wp_get_prop wp_if wp_throw wp_andthen wp_do_if wp_block_Cons wp_block_Nil
          wp_walletRpc wp_bridge_fields wp_ret name_includes_def wp_case_val
        apply (rule if_app, rule failed' [OF a(1)], simp)
        apply (rule if_app, rule failed' [OF a(1)], simp)
        apply (rule if_app, rule failed' [OF a(1)], simp)
        apply (rule if_app; rule tail [OF a(2)])
        by (simp_all only: not_not awaited_trace trace_bridge_fields a(1) append_assoc)
    qed (use prems in \<open>auto simp: failed'\<close>)
    done
next
  case (Throw e)
  show ?thesis
    unfolding deposit_def Let_def fst_conv snd_conv Throw wp_bind wp_lift_outcome on_ok.simps by (rule stop [of _ "[]"]) simp_all
next
  case Pending
  show ?thesis
    unfolding deposit_def Let_def fst_conv snd_conv Pending wp_bind wp_lift_outcome on_ok.simps by (rule stop [of _ "[]"]) simp_all
qed

section \<open>A session\<close>

text \<open>Each deposit of a session pays the address returned for its own request.\<close>

fun deposits_granted :: "env \<Rightarrow> call list \<Rightarrow> jsval \<Rightarrow> deposited list \<Rightarrow> bool" where
  "deposits_granted E h naddr [] \<longleftrightarrow> True"
| "deposits_granted E h naddr (d # ds) \<longleftrightarrow>
     returned_address E h naddr d \<and> deposits_granted E (h @ deposit_calls naddr d) naddr ds"

definition session_calls :: "jsval \<Rightarrow> deposited list \<Rightarrow> call list" where
  "session_calls naddr ds = concat (map (deposit_calls naddr) ds)"

lemma session_calls_simps [simp]:
  "session_calls naddr [] = []" "session_calls naddr (d # ds) = deposit_calls naddr d @ session_calls naddr ds"
  by (simp_all add: session_calls_def)

lemma deposit_loop:
  assumes "\<forall>k\<in>set ks. 0 \<le> k \<and> k \<le> 10 ^ 13"
    and "\<And>r w' ds rest. trace w' = trace w @ session_calls naddr ds @ rest \<Longrightarrow> list_all quiet rest \<Longrightarrow>
      deposits_granted E (trace w) naddr ds \<Longrightarrow> \<forall>d\<in>set ds. 0 < units d \<Longrightarrow> map units ds = take (length ds) ks \<Longrightarrow>
      (\<And>x. r = Ok x \<Longrightarrow> rest = [] \<and> length ds = length ks) \<Longrightarrow> Q r w'"
  shows "wp E (fold_loop (zip [i..<i + length ks] (map atomic_num ks)) sent (deposit naddr n)) Q w"
  using assms
proof (induction ks arbitrary: i sent w Q)
  case Nil
  show ?case using Nil(2) [of w "[]" "[]"] by (simp add: wp_ret)
next
  case (Cons k ks)
  have one: "wp E (deposit naddr n (i, atomic_num k) sent)
      (on_ok (\<lambda>s. wp E (fold_loop (zip [Suc i..<Suc i + length ks] (map atomic_num ks)) s (deposit naddr n)) Q) Q) w"
  proof (rule deposit_step)
    show "0 \<le> k" "k \<le> 10 ^ 13" using Cons.prems(1) by auto
  next
    fix r :: "jsval list outcome" and w' :: world and rest
    assume "trace w' = trace w @ rest" "list_all quiet rest" "\<And>x. r \<noteq> Ok x"
    then show "on_ok (\<lambda>s. wp E (fold_loop (zip [Suc i..<Suc i + length ks] (map atomic_num ks)) s (deposit naddr n)) Q) Q r w'"
      using Cons.prems(2) [of w' "[]" rest r] by (cases r) (auto simp: Cons.prems(2))
  next
    fix r :: "jsval list outcome" and w' :: world and d
    assume d: "0 < k" "units d = k" "trace w' = trace w @ deposit_calls naddr d" "returned_address E (trace w) naddr d"
    show "on_ok (\<lambda>s. wp E (fold_loop (zip [Suc i..<Suc i + length ks] (map atomic_num ks)) s (deposit naddr n)) Q) Q r w'"
    proof (cases r)
      case (Ok s)
      have "wp E (fold_loop (zip [Suc i..<Suc i + length ks] (map atomic_num ks)) s (deposit naddr n)) Q w'"
      proof (rule Cons.IH)
        show "\<forall>k\<in>set ks. 0 \<le> k \<and> k \<le> 10 ^ 13" using Cons.prems(1) by simp
      next
        fix r' :: "jsval list outcome" and w'' :: world and ds rest
        assume "trace w'' = trace w' @ session_calls naddr ds @ rest" "list_all quiet rest"
          "deposits_granted E (trace w') naddr ds" "\<forall>d\<in>set ds. 0 < units d" "map units ds = take (length ds) ks"
          "\<And>x. r' = Ok x \<Longrightarrow> rest = [] \<and> length ds = length ks"
        then show "Q r' w''"
          using d by (intro Cons.prems(2) [of w'' "d # ds" rest]) simp_all
      qed
      then show ?thesis using Ok by simp
    qed (use d Cons.prems(2) [of w' "[d]" "[]" r] in auto)
  qed
  have "[i..<i + length (k # ks)] = i # [Suc i..<Suc i + length ks]" by (subst upt_conv_Cons) simp_all
  then have "zip [i..<i + length (k # ks)] (map atomic_num (k # ks)) = (i, atomic_num k) # zip [Suc i..<Suc i + length ks] (map atomic_num ks)"
    by (simp only: list.map zip_Cons_Cons)
  then show ?case using one by (simp only: fold_loop.simps wp_bind)
qed

lemma rnd_double: "rnd q = Fin x \<Longrightarrow> round_double x = x"
  by (auto simp: rnd_def Let_def split: if_splits)

lemma unsigned_number_double: "unsigned_number t = Fin x \<Longrightarrow> round_double x = x"
  by (auto simp: unsigned_number_def rnd_double split: if_splits option.splits)

lemma string_to_number_double: "string_to_number t = Fin x \<Longrightarrow> round_double x = x"
proof -
  have neg: "round_double x = x" if "- unsigned_number s = Fin x" for s
    using that unsigned_number_double [of s "- x"] by (cases "unsigned_number s") (auto simp: round_double_minus)
  assume "string_to_number t = Fin x"
  then show ?thesis
    unfolding string_to_number_def Let_def
    by (auto intro: neg unsigned_number_double rnd_double split: list.splits if_splits option.splits)
qed

text \<open>
  What the calls \<open>cs\<close>, made after the calls \<open>h\<close>, may be when \<open>amount\<close> was typed: at most three deposits of at most 50 CRYLO,
  together at most the typed amount in atomic units and at most 150 CRYLO; the session reaches its end, where it reads
  the clock, only after it paid exactly the typed amount; the other calls pay nothing.
\<close>

definition session_pays :: "env \<Rightarrow> call list \<Rightarrow> jsval \<Rightarrow> string \<Rightarrow> call list \<Rightarrow> bool" where
  "session_pays E h naddr amount cs \<longleftrightarrow>
     (\<exists>ds rest. cs = session_calls naddr ds @ rest \<and> list_all (\<lambda>c. \<not> pays c) rest \<and> deposits_granted E h naddr ds \<and>
        length ds \<le> 3 \<and> (\<forall>d\<in>set ds. 0 < units d \<and> units d \<le> 50 * 10 ^ 11) \<and>
        (ds \<noteq> [] \<longrightarrow> (\<exists>x. string_to_number amount = Fin x \<and> x \<le> 150 \<and> sum_list (map units ds) \<le> fixed_digits 11 x)) \<and>
        (DateNow \<in> set rest \<longrightarrow> (\<exists>x. string_to_number amount = Fin x \<and> sum_list (map units ds) = fixed_digits 11 x)))"

lemma session_pays_nothing [simp]: "session_pays E h naddr amount []"
  unfolding session_pays_def by (rule exI [of _ "[]"]) simp

lemma sum_list_take_le: "\<forall>k\<in>set ks. 0 \<le> k \<Longrightarrow> sum_list (take n ks) \<le> sum_list (ks :: int list)"
  by (induction ks arbitrary: n) (auto simp: take_Cons' sum_list_nonneg)

lemma session_paysI:
  assumes "cs = session_calls naddr ds @ rest" "list_all (\<lambda>c. \<not> pays c) rest" "deposits_granted E h naddr ds"
    "\<forall>d\<in>set ds. 0 < units d" "map units ds = take (length ds) ks" "length ks \<le> 3"
    "\<forall>k\<in>set ks. 0 \<le> k \<and> k \<le> 50 * 10 ^ 11" "string_to_number amount = Fin x" "x \<le> 150" "sum_list ks = fixed_digits 11 x"
    "DateNow \<in> set rest \<Longrightarrow> length ds = length ks"
  shows "session_pays E h naddr amount cs"
proof -
  have "length (map units ds) \<le> length ks" by (subst assms(5)) simp
  then have "length ds \<le> 3" using assms(6) by simp
  moreover have "units d \<le> 50 * 10 ^ 11" if "d \<in> set ds" for d
  proof -
    have "units d \<in> set (take (length ds) ks)" using that assms(5) [symmetric] by simp
    then show ?thesis using assms(7) by (auto dest: in_set_takeD)
  qed
  moreover have "sum_list (map units ds) \<le> fixed_digits 11 x"
    using sum_list_take_le [of ks "length ds"] assms(5,7,10) by simp
  moreover have "sum_list (map units ds) = fixed_digits 11 x" if "DateNow \<in> set rest"
    using assms(5,10,11) that by simp
  ultimately show ?thesis unfolding session_pays_def using assms(1-4,8,9) by blast
qed

text \<open>From the typed amount to the end of the session; \<open>K\<close> reads the clock and starts the poll.\<close>

lemma session_deposits:
  assumes "string_to_number amount = Fin x" "0 < x" "x \<le> 150"
    and stop: "\<And>r w' cs. trace w' = trace w @ cs \<Longrightarrow> session_pays E (trace w) naddr amount cs \<Longrightarrow> Q r w'"
    and K: "\<And>s w'. (\<And>r w''. trace w'' = trace w' @ [DateNow] \<Longrightarrow> Q r w'') \<Longrightarrow> wp E (K s) Q w'"
  shows "wp E (case bridge_chunks 3 (Fin x) of None \<Rightarrow> lift_outcome Pending
    | Some chunks \<Rightarrow> andthen (setBridgeStatus (f chunks))
        (bind (fold_loop (zip [0..<length chunks] chunks) [] (deposit naddr (length chunks))) K)) Q w"
proof -
  obtain ks where ks: "bridge_chunks 3 (Fin x) = Some (map atomic_num ks)" "sum_list ks = fixed_digits 11 x" "length ks \<le> 3"
    "\<forall>k\<in>set ks. 0 \<le> k \<and> k \<le> 50 * 10 ^ 11"
    using bridge_chunks_sum [of x 3] string_to_number_double [OF assms(1)] assms(2,3) by auto
  let ?w = "snd (setBridgeStatus (f (map atomic_num ks)) E w)"
  have "wp E (fold_loop (zip [0..<0 + length ks] (map atomic_num ks)) [] (deposit naddr (length ks))) (on_ok (\<lambda>s. wp E (K s) Q) Q) ?w"
  proof (rule deposit_loop)
    show "\<forall>k\<in>set ks. 0 \<le> k \<and> k \<le> 10 ^ 13" using ks(4) by force
  next
    fix r :: "jsval list outcome" and w' :: world and ds rest
    assume l: "trace w' = trace ?w @ session_calls naddr ds @ rest" "list_all quiet rest"
      "deposits_granted E (trace ?w) naddr ds" "\<forall>d\<in>set ds. 0 < units d" "map units ds = take (length ds) ks"
      "\<And>x. r = Ok x \<Longrightarrow> rest = [] \<and> length ds = length ks"
    note sp = session_paysI [OF _ _ _ l(4,5) ks(3,4) assms(1,3) ks(2)]
    have rest: "session_pays E (trace w) naddr amount (session_calls naddr ds @ rest)"
      using l(3) quiet_calls [OF l(2)] by (intro sp [OF refl]) auto
    show "on_ok (\<lambda>s. wp E (K s) Q) Q r w'"
    proof (cases r)
      case (Ok s)
      have "wp E (K s) Q w'"
      proof (rule K)
        fix r'' :: "'a outcome" and w'' :: world
        assume "trace w'' = trace w' @ [DateNow]"
        moreover have "session_pays E (trace w) naddr amount (session_calls naddr ds @ [DateNow])"
          using l(3) l(6) [OF Ok] by (intro sp [OF refl]) simp_all
        ultimately show "Q r'' w''" using l(1) l(6) [OF Ok] by (intro stop) simp_all
      qed
      then show ?thesis using Ok by simp
    qed (use l(1) in \<open>auto intro: stop [OF _ rest]\<close>)
  qed
  then show ?thesis using ks(1) by (simp add: wp_andthen wp_bind wp_bridge_fields)
qed

lemma typed_positive:
  "is_finite_num a \<Longrightarrow> \<not> a \<le> Fin 0 \<Longrightarrow> \<not> Fin 150 < a \<Longrightarrow> \<exists>x. a = Fin x \<and> 0 < x \<and> x \<le> 150"
  by (cases a) (auto simp: less_eq_jsnum_def)

text \<open>The calls made after the typed amount is read.\<close>

lemma bridge_amount_step:
  assumes stop: "\<And>r w' cs. trace w' = trace w @ cs \<Longrightarrow> session_pays E (trace w) naddr amount cs \<Longrightarrow> Q r w'"
    and K: "\<And>s w'. (\<And>r w''. trace w'' = trace w' @ [DateNow] \<Longrightarrow> Q r w'') \<Longrightarrow> wp E (K s) Q w'"
  shows "wp E (if \<not> is_finite_num (string_to_number amount) \<or> string_to_number amount \<le> Fin 0 then throw e1
    else if Fin 150 < string_to_number amount then throw e2
    else case bridge_chunks 3 (string_to_number amount) of None \<Rightarrow> lift_outcome Pending
    | Some chunks \<Rightarrow> andthen (setBridgeStatus (f chunks))
        (bind (fold_loop (zip [0..<length chunks] chunks) [] (deposit naddr (length chunks))) K)) Q w"
  unfolding wp_if wp_throw
  apply (rule if_app, rule stop [of _ "[]"], simp, simp)
  apply (rule if_app, rule stop [of _ "[]"], simp, simp)
  subgoal premises prems
  proof -
    obtain x where "string_to_number amount = Fin x" "0 < x" "x \<le> 150" using typed_positive prems by blast
    then show ?thesis using session_deposits [OF _ _ _ stop K] by simp
  qed
  done

lemma wp_bindI: "wp E m (on_ok (\<lambda>x. wp E (k x) R) R) w \<Longrightarrow> wp E (bind m k) R w"
  by (simp add: wp_bind)

lemma wp_ensureCryLoAddressLoaded:
  assumes "truthy (address (st w)) \<Longrightarrow> R (Ok True) w"
    and "\<And>r w'. \<not> truthy (address (st w)) \<Longrightarrow>
      trace w' = trace w @ [wallet_post (Str ''get_address'') (Obj [(''account_index'', jint 0)]) Undefined] \<Longrightarrow> R r w'"
  shows "wp E ensureCryLoAddressLoaded R w"
  unfolding ensureCryLoAddressLoaded_def wallet_address_def using assms
  by (auto simp: wp_eval Let_def set_text_if_def set_state_def upd_page_def split: on_ok_split)

lemma bridge_fields_value [simp]:
  "el_value (page (snd (setBridgeStatus m E w)) j) = el_value (page w j)"
  "el_value (page (snd (setBridgeField i v E w)) j) = el_value (page w j)"
  "st (snd (setBridgeStatus m E w)) = st w"
  by (simp_all add: setBridgeStatus_def setBridgeField_def set_text_if_def do_if_def set_text_def write_el_def
      modify_def ret_def upd_page_def)

text \<open>From the linked address to the typed amount.\<close>

lemma bridge_fields_step:
  assumes "\<And>r w'. trace w' = trace w \<Longrightarrow> (\<And>x. r \<noteq> Ok x) \<Longrightarrow> Q r w'"
    and "\<And>w'. trace w' = trace w \<Longrightarrow> wp E (K (nexusAddress (st w)) (el_value (page w ''bridge-amount''))) Q w'"
  shows "wp E (bind getLinkedNexusAddress (\<lambda>naddr. if \<not> truthy naddr then throw e
      else andthen refreshBridgeAddressFields (bind (get_value ''bridge-amount'') (K naddr)))) Q w"
  unfolding getLinkedNexusAddress_def refreshBridgeAddressFields_def wallet_address_def using assms
  by (simp add: wp_eval js_or_def)

lemma bridge_in_trace:
  fixes w E
  defines "ask \<equiv> wallet_post (Str ''get_address'') (Obj [(''account_index'', jint 0)]) Undefined"
  assumes stop: "\<And>pre naddr amount cs r w'. pre \<in> {[], [ask]} \<Longrightarrow>
      (truthy (address (st w)) \<Longrightarrow> pre = [] \<and> naddr = nexusAddress (st w) \<and> amount = el_value (page w ''bridge-amount'')) \<Longrightarrow>
      trace w' = trace w @ pre @ cs \<Longrightarrow> session_pays E (trace w @ pre) naddr amount cs \<Longrightarrow> Q r w'"
  shows "wp E bridge_in Q w"
proof -
  have clock: "wp E (bind (sync_call DateNow) (\<lambda>now. andthen (storage_set k (f now)) (andthen (setBridgeStatus m) (pollCryLoBridgeStatus i)))) Q w'"
    if "\<And>r w''. trace w'' = trace w' @ [DateNow] \<Longrightarrow> Q r w''" for k f m i w'
    using that
    by (simp add: wp_eval storage_set_def pollCryLoBridgeStatus_def clear_timer_def split: on_ok_split option.split)
  have session: "wp E (bind getLinkedNexusAddress (\<lambda>naddr. if \<not> truthy naddr then throw e0
      else andthen refreshBridgeAddressFields (bind (get_value ''bridge-amount'') (\<lambda>amount.
        if \<not> is_finite_num (string_to_number amount) \<or> string_to_number amount \<le> Fin 0 then throw e1
    else if Fin 150 < string_to_number amount then throw e2
    else case bridge_chunks 3 (string_to_number amount) of None \<Rightarrow> lift_outcome Pending
    | Some chunks \<Rightarrow> andthen (setBridgeStatus (f chunks))
        (bind (fold_loop (zip [0..<length chunks] chunks) [] (deposit naddr (length chunks)))
          (\<lambda>s. bind (sync_call DateNow) (\<lambda>now. andthen (storage_set (k s) (g s now)) (andthen (setBridgeStatus (m s)) (pollCryLoBridgeStatus (i s)))))))))) Q w'"
    if "pre \<in> {[], [ask]}" "trace w' = trace w @ pre" "truthy (address (st w)) \<Longrightarrow> pre = [] \<and> nexusAddress (st w') = nexusAddress (st w) \<and>
        el_value (page w' ''bridge-amount'') = el_value (page w ''bridge-amount'')" for pre w' e0 e1 e2 f k g m i
    apply (rule bridge_fields_step)
    subgoal for r w'' using that by (intro stop [of pre "nexusAddress (st w')" "el_value (page w' ''bridge-amount'')" w'' "[]"]) auto
    subgoal for w''
      by (rule bridge_amount_step, rule stop [of pre "nexusAddress (st w')" "el_value (page w' ''bridge-amount'')"])
        (use that in \<open>simp_all add: clock\<close>)
    done
  show ?thesis
    unfolding bridge_in_def Let_def wp_andthen wp_bridge_fields on_ok.simps
    apply (rule wp_bindI, rule wp_ensureCryLoAddressLoaded)
    subgoal unfolding on_ok.simps not_True_eq_False if_False by (rule session [of "[]"]) simp_all
    subgoal for r w'
      apply (cases r; hypsubst)
      subgoal for l unfolding on_ok.simps wp_if wp_throw
        apply (rule if_app)
        subgoal by (rule stop [of "[ask]" _ _ _ "[]"]) (simp_all add: ask_def)
        subgoal by (rule session [of "[ask]"]) (simp_all add: ask_def)
        done
      subgoal unfolding on_ok.simps by (rule stop [of "[ask]" _ _ _ "[]"]) (simp_all add: ask_def)
      subgoal unfolding on_ok.simps by (rule stop [of "[ask]" _ _ _ "[]"]) (simp_all add: ask_def)
      done
    done
qed

section \<open>Properties\<close>

text \<open>
  C2. Whatever the bridge, the wallet service and the rest of the application do, a bridge session from CRYLO to wCRYLO
  pays only its deposits: at most three, each of at most 50 CRYLO, each to the address that a successful reply of
  the bridge returned for a request with the same amount, the linked Nexus address and the wallet's own address. Together they pay at
  most the typed amount rounded to atomic units, which is at most 150 CRYLO, and exactly that amount when the session
  reaches its end. Before the deposits it may ask the wallet service for its address, which it does not when the address is loaded; then
  the Nexus address and the amount are those of the moment the session starts.
\<close>

theorem bridge_session_pays_typed:
  "\<exists>pre naddr amount cs.
     trace (snd (startCryLoBridgeIn E w)) = trace w @ pre @ cs \<and> session_pays E (trace w @ pre) naddr amount cs \<and>
     pre \<in> {[], [wallet_post (Str ''get_address'') (Obj [(''account_index'', jint 0)]) Undefined]} \<and>
     (truthy (address (st w)) \<longrightarrow>
        pre = [] \<and> naddr = nexusAddress (st w) \<and> amount = el_value (page w ''bridge-amount''))"
proof -
  let ?ask = "wallet_post (Str ''get_address'') (Obj [(''account_index'', jint 0)]) Undefined"
  let ?P = "\<lambda>h. \<exists>pre naddr amount cs. h = trace w @ pre @ cs \<and> session_pays E (trace w @ pre) naddr amount cs \<and>
     pre \<in> {[], [?ask]} \<and> (truthy (address (st w)) \<longrightarrow>
        pre = [] \<and> naddr = nexusAddress (st w) \<and> amount = el_value (page w ''bridge-amount''))"
  have "wp E startCryLoBridgeIn (\<lambda>_ w'. ?P (trace w')) w"
    unfolding startCryLoBridgeIn_def wp_try_catch
  proof (rule bridge_in_trace)
    fix pre naddr amount cs r and w' :: world
    assume "pre \<in> {[], [?ask]}" "truthy (address (st w)) \<Longrightarrow> pre = [] \<and> naddr = nexusAddress (st w) \<and> amount = el_value (page w ''bridge-amount'')"
      "trace w' = trace w @ pre @ cs" "session_pays E (trace w @ pre) naddr amount cs"
    then have "?P (trace w')" by blast
    then show "on_throw (\<lambda>e. wp E (bind (get_prop e ''message'') (\<lambda>m. setBridgeStatus (text_or m ''bridge failed''))) (\<lambda>_ w'. ?P (trace w')))
        (\<lambda>_ w'. ?P (trace w')) r w'"
      by (cases r) (simp_all only: on_throw.simps wp_bind wp_get_prop wp_bridge_fields on_ok.simps trace_bridge_fields if_distrib [of "\<lambda>f. f w'"] if_cancel)
  qed
  then show ?thesis unfolding wp_run .
qed

theorem bridge_session_pays_typed_witness:
  "\<exists>cs. trace (snd (startCryLoBridgeIn (sample_env (\<lambda>h c. Ok (Obj []))) sample_world)) = cs \<and>
     session_pays (sample_env (\<lambda>h c. Ok (Obj []))) [] (Str ''0xA'') [] cs"
  using bridge_session_pays_typed [of "sample_env (\<lambda>h c. Ok (Obj []))" sample_world]
  by (auto simp: sample_world_def sample_state_def blank_elem_def)

end
