(* ===== verification/NexusProps.thy ===== *)
theory NexusProps
  imports BridgeProps
begin

text \<open>
  The handlers that send transactions to the Nexus chain: the calls each one makes, in order, and who signs them.
\<close>

section \<open>Scripts\<close>

text \<open>
  The calls of a handler as a script: each step computes the next call from the answers so far, or ends the script.
  The script also ends at the first call that is not answered.
\<close>

type_synonym step = "jsval list \<Rightarrow> call option"

fun script :: "env \<Rightarrow> call list \<Rightarrow> jsval list \<Rightarrow> step list \<Rightarrow> call list" where
  "script E h vs [] = []"
| "script E h vs (f # fs) =
     (case f vs of
        None \<Rightarrow> []
      | Some c \<Rightarrow> c # (case answer E h c of Ok v \<Rightarrow> script E (h @ [c]) (vs @ [v]) fs | _ \<Rightarrow> []))"

lemma script_step: "c \<in> set (script E h vs fs) \<Longrightarrow> \<exists>f\<in>set fs. \<exists>us. f us = Some c"
proof (induction fs arbitrary: h vs)
  case (Cons f fs)
  then show ?case by (force split: option.splits outcome.splits)
qed simp

text \<open>A step is made only after the steps before it were answered.\<close>

lemma script_reached:
  "i < length (script E h vs fs) \<Longrightarrow>
   i < length fs \<and> (\<forall>j<i. \<exists>v. answer E (h @ take j (script E h vs fs)) (script E h vs fs ! j) = Ok v)"
proof (induction fs arbitrary: h vs i)
  case (Cons f fs)
  show ?case
  proof (cases "f vs")
    case (Some c)
    show ?thesis
    proof (cases "answer E h c")
      case (Ok v)
      show ?thesis
      proof (cases i)
        case (Suc i')
        then have "i' < length (script E (h @ [c]) (vs @ [v]) fs)" using Cons.prems Some Ok by simp
        note IH = Cons.IH [OF this]
        have "\<exists>v. answer E (h @ take j (script E h vs (f # fs))) (script E h vs (f # fs) ! j) = Ok v" if "j < i" for j
          using that IH Some Ok Suc by (cases j) auto
        then show ?thesis using IH Suc by simp
      qed simp
    qed (use Cons.prems Some in auto)
  qed (use Cons.prems in simp)
qed simp

section \<open>The signer\<close>

definition key_file :: "env \<Rightarrow> jsval \<Rightarrow> string" where
  "key_file E n = path_join E [path_join E [getUserDataPath E, WALLET_DIR_NAME], safeNexusFileName n @ ''.nexus.json'']"

text \<open>The address \<open>s\<close> belongs to the private key that the key file of wallet \<open>n\<close> binds to the CryLo address \<open>a\<close>.\<close>

definition bound_signer :: "env \<Rightarrow> world \<Rightarrow> jsval \<Rightarrow> jsval \<Rightarrow> string \<Rightarrow> bool" where
  "bound_signer E w n a s \<longleftrightarrow> truthy n \<and> truthy a \<and>
     (\<exists>t d. map_of (files w) (key_file E n) = Some t \<and> JSON_parse t = Some d \<and> strict_eq (jprop d ''cryloAddress'') a \<and>
        truthy (jprop d ''privateKey'') \<and> walletAddress E (jprop d ''privateKey'') = Ok s)"

definition mkdirs :: "call list \<Rightarrow> bool" where
  "mkdirs cs \<longleftrightarrow> list_all (\<lambda>c. \<exists>p. c = FsCall ''mkdir'' p) cs"

lemma wp_nexus_file:
  assumes "\<And>w' cs. trace w' = trace w @ cs \<Longrightarrow> mkdirs cs \<Longrightarrow> files w' = files w \<Longrightarrow> R (Ok (key_file E n)) w'"
    and "\<And>r w' cs. trace w' = trace w @ cs \<Longrightarrow> mkdirs cs \<Longrightarrow> (\<And>x. r \<noteq> Ok x) \<Longrightarrow> R r w'"
  shows "wp E (nexus_file n) R w"
  unfolding nexus_file_def getWalletDir_def ensure_dir_def fs_existsSync_def fs_mkdirSync_def
  using assms(1) [of w "[]"] assms(1) [of _ "[_]"] assms(2) [of _ "[_]"]
  by (simp add: wp_eval mkdirs_def key_file_def split: on_ok_split)

lemma wp_loadBoundNexusWallet:
  assumes "\<And>r w' cs. trace w' = trace w @ cs \<Longrightarrow> mkdirs cs \<Longrightarrow> (\<And>s. r = Ok s \<Longrightarrow> bound_signer E w n a s) \<Longrightarrow> R r w'"
  shows "wp E (loadBoundNexusWallet n a) R w"
proof (cases "truthy n \<and> truthy a")
  case True
  show ?thesis
    unfolding loadBoundNexusWallet_def wp_if wp_bind
    apply (rule if_app)
    subgoal using True by simp
    apply (rule wp_nexus_file)
    subgoal for w' cs
      using True assms [of w' cs]
      by (auto simp: wp_eval fs_existsSync_def fs_readFileSync_def parse_text_def bound_signer_def split: option.split)
    subgoal for r w' cs using assms by (cases r) auto
    done
next
  case False
  then show ?thesis unfolding loadBoundNexusWallet_def using assms [of w "[]"] by (auto simp: wp_eval mkdirs_def)
qed

section \<open>Following a script\<close>

definition follows :: "env \<Rightarrow> 'a js \<Rightarrow> step list \<Rightarrow> bool" where
  "follows E m fs \<longleftrightarrow> (\<forall>w. trace (snd (m E w)) = trace w @ script E (trace w) [] fs)"

lemma followsI: "(\<And>w. wp E m (\<lambda>_ w'. trace w' = trace w @ script E (trace w) [] fs) w) \<Longrightarrow> follows E m fs"
  by (simp add: follows_def wp_run)

text \<open>The calls of a handler that loads the bound wallet and then follows a script with it.\<close>

definition signed_calls :: "env \<Rightarrow> jsval \<Rightarrow> jsval \<Rightarrow> (string \<Rightarrow> step list) \<Rightarrow> world \<Rightarrow> call list" where
  "signed_calls E n a steps w =
     (case loadBoundNexusWallet n a E w of
        (Ok s, w') \<Rightarrow> drop (length (trace w)) (trace w') @ script E (trace w') [] (steps s)
      | (_, w') \<Rightarrow> drop (length (trace w)) (trace w'))"

lemma load_trace: "\<exists>cs. trace (snd (loadBoundNexusWallet n a E w)) = trace w @ cs \<and> mkdirs cs"
proof -
  have "wp E (loadBoundNexusWallet n a) (\<lambda>_ w'. \<exists>cs. trace w' = trace w @ cs \<and> mkdirs cs) w"
    by (rule wp_loadBoundNexusWallet) blast
  then show ?thesis by (simp add: wp_run)
qed

lemma with_reason_trace: "trace (snd (with_reason m E w)) = trace (snd (m E w))"
  by (auto simp: with_reason_def try_catch_def get_prop_def bind_def ret_def throw_def split: prod.splits outcome.splits)

lemma signed_calls_run:
  assumes "\<And>s. follows E (K s) (steps s)"
  shows "trace (snd (with_reason (bind (loadBoundNexusWallet n a) K) E w)) = trace w @ signed_calls E n a steps w"
proof -
  obtain cs where cs: "trace (snd (loadBoundNexusWallet n a E w)) = trace w @ cs" using load_trace by blast
  show ?thesis
    unfolding with_reason_trace signed_calls_def using cs assms
    by (auto simp: bind_def follows_def split: prod.splits outcome.splits)
qed

section \<open>The scripts of the handlers\<close>

definition nonce_of :: "string \<Rightarrow> step" where
  "nonce_of s = (\<lambda>_. Some (ProviderCall ''getTransactionCount'' [Str s, Str ''pending'']))"

definition tx_steps :: "string \<Rightarrow> string \<Rightarrow> string \<Rightarrow> jsval list \<Rightarrow> step list" where
  "tx_steps s target fn args =
     [nonce_of s, \<lambda>vs. Some (ContractSend s target fn args (vs ! 0)), \<lambda>vs. Some (TxWait (vs ! 1))]"

text \<open>Approve a contract with the pending nonce, wait, and call it with the next nonce.\<close>

definition approve_steps :: "string \<Rightarrow> string \<Rightarrow> string \<Rightarrow> jsval \<Rightarrow> string \<Rightarrow> jsval list \<Rightarrow> step list" where
  "approve_steps s token spender v fn args =
     [nonce_of s, \<lambda>vs. Some (ContractSend s token ''approve'' [Str spender, v] (vs ! 0)), \<lambda>vs. Some (TxWait (vs ! 1)),
      \<lambda>vs. Some (ContractSend s spender fn args (js_inc (vs ! 0))), \<lambda>vs. Some (TxWait (vs ! 3))]"

definition units_steps :: "env \<Rightarrow> jsval \<Rightarrow> (jsval \<Rightarrow> step list) \<Rightarrow> step list" where
  "units_steps E amount fs = (case parseUnits E (to_str amount) WCRYLO_DECIMALS of Ok n \<Rightarrow> fs (Big n) | _ \<Rightarrow> [])"

lemmas step_defs = nonce_of_def tx_steps_def approve_steps_def units_steps_def

text \<open>A transaction without a nonce of its own.\<close>

definition claim_steps :: "string \<Rightarrow> string \<Rightarrow> string \<Rightarrow> step list" where
  "claim_steps s target fn = [\<lambda>_. Some (ContractSend s target fn [] Undefined), \<lambda>vs. Some (TxWait (vs ! 0))]"

text \<open>Read the stake, approve it, register, and save the operator configuration.\<close>

definition operator_dir :: "env \<Rightarrow> string" where
  "operator_dir E = path_join E [homeDir E, ''.config'', ''crylo-wallet'', ''operator'']"

definition save_steps :: "env \<Rightarrow> step list" where
  "save_steps E = [\<lambda>_. Some (FsCall ''mkdir'' (operator_dir E)), \<lambda>_. Some DateNow,
     \<lambda>_. Some (FsCall ''write'' (path_join E [operator_dir E, ''operator.json'']))]"

definition register_steps :: "env \<Rightarrow> string \<Rightarrow> string \<Rightarrow> string \<Rightarrow> step list" where
  "register_steps E s stakeFn fn =
     [\<lambda>_. Some (ContractRead nodeStakingAddress stakeFn []), nonce_of s,
      \<lambda>vs. Some (ContractSend s tokenAddress ''approve'' [Str nodeStakingAddress, vs ! 0] (vs ! 1)),
      \<lambda>vs. Some (TxWait (vs ! 2)), \<lambda>vs. Some (ContractSend s nodeStakingAddress fn [] (js_inc (vs ! 1))),
      \<lambda>vs. Some (TxWait (vs ! 4))] @ save_steps E"

text \<open>Transactions on a token that the signer owns.\<close>

fun lowered :: "jsval \<Rightarrow> string option" where
  "lowered (Str t) = Some (to_lower t)"
| "lowered _ = None"

lemma wp_lower_of:
  "wp E (lower_of v) R = (case lowered v of Some t \<Rightarrow> R (Ok t) | None \<Rightarrow> R (Throw (type_error ''toLowerCase is not a function'')))"
  by (cases v) (simp_all add: lower_of_def wp_eval)

definition if_owner :: "string \<Rightarrow> jsval \<Rightarrow> call option \<Rightarrow> call option" where
  "if_owner s owner c = (case lowered owner of Some t \<Rightarrow> if t = to_lower s then c else None | None \<Rightarrow> None)"

definition owner_step :: "jsval \<Rightarrow> step" where
  "owner_step token = (\<lambda>_. Some (ContractRead nftAddress ''ownerOf'' [token]))"

definition buyback_steps :: "jsval \<Rightarrow> string \<Rightarrow> step list" where
  "buyback_steps token s =
     [owner_step token, \<lambda>vs. if_owner s (vs ! 0) (nonce_of s vs),
      \<lambda>vs. Some (ContractSend s nftAddress ''approve'' [Str vaultAddress, token] (vs ! 1)), \<lambda>vs. Some (TxWait (vs ! 2)),
      \<lambda>vs. Some (ContractSend s vaultAddress ''buyBack'' [token] (js_inc (vs ! 1))), \<lambda>vs. Some (TxWait (vs ! 4)),
      owner_step token]"

definition burn_steps :: "jsval \<Rightarrow> string \<Rightarrow> step list" where
  "burn_steps token s =
     [owner_step token, \<lambda>vs. if_owner s (vs ! 0) (nonce_of s vs),
      \<lambda>vs. Some (ContractSend s nftAddress ''burn'' [token] (vs ! 1)), \<lambda>vs. Some (TxWait (vs ! 2)), owner_step token]"

lemmas run_defs = parseWcryloUnits_def pending_nonce_def send_tx_def wait_tx_def read_contract_def tx_reply_def wp_lower_of

lemmas script_defs = step_defs claim_steps_def register_steps_def if_owner_def owner_step_def buyback_steps_def burn_steps_def

lemma created_at:
  assumes "\<And>v. R (Ok v) w"
  shows "wp E (if ex then try_catch
      (bind (fs_readFileSync p) (\<lambda>c. bind (parse_text (Str c)) (\<lambda>old. bind (get_prop old ''createdAt'') (\<lambda>c. ret (js_or c now)))))
      (\<lambda>_. ret now) else ret now) R w"
  using assms by (auto simp: wp_eval fs_readFileSync_def parse_text_def split: option.split)

lemma wp_fs_mkdir:
  "(\<And>w'. trace w' = trace w @ [FsCall ''mkdir'' p] \<Longrightarrow> R (map_outcome (\<lambda>_. ()) (answer E (trace w) (FsCall ''mkdir'' p))) w') \<Longrightarrow>
   wp E (fs_mkdirSync p) R w"
  by (cases "answer E (trace w) (FsCall ''mkdir'' p)") (simp_all add: fs_mkdirSync_def wp_eval)

lemma wp_fs_write:
  "(\<And>w'. trace w' = trace w @ [FsCall ''write'' p] \<Longrightarrow> R (map_outcome (\<lambda>_. ()) (answer E (trace w) (FsCall ''write'' p))) w') \<Longrightarrow>
   wp E (fs_writeFileSync p t) R w"
  by (cases "answer E (trace w) (FsCall ''write'' p)") (simp_all add: fs_writeFileSync_def wp_eval)

lemma wp_sync: "(\<And>w'. trace w' = trace w @ [c] \<Longrightarrow> R (answer E (trace w) c) w') \<Longrightarrow> wp E (sync_call c) R w"
  by (simp add: wp_eval)

lemma wp_saveOperatorConfig:
  assumes ends: "\<And>r w'. trace w' = trace w @ script E (trace w) [] [\<lambda>_. Some (FsCall ''mkdir'' (operator_dir E)), \<lambda>_. Some DateNow,
      \<lambda>_. Some (FsCall ''write'' (path_join E [operator_dir E, ''operator.json'']))] \<Longrightarrow> R r w'"
  shows "wp E (saveOperatorConfig a n t u i c) R w"
  unfolding saveOperatorConfig_def operator_dir_def [symmetric] wp_bind wp_andthen wp_asks on_ok.simps
  apply (rule wp_fs_mkdir)
  subgoal for w1
    apply (cases "answer E (trace w) (FsCall ''mkdir'' (operator_dir E))"; simp only: outcome.map on_ok.simps)
      apply (rule wp_sync)
    subgoal for v w2
      apply (cases "answer E (trace w1) DateNow"; simp only: on_ok.simps wp_gets fs_existsSync_def)
        apply (rule created_at)
        apply (simp only: on_ok.simps Let_def wp_andthen)
        apply (rule wp_fs_write)
      subgoal for v' c w3
        by (cases "answer E (trace w2) (FsCall ''write'' (path_join E [operator_dir E, ''operator.json'']))")
          (simp_all add: wp_ret ends)
      by (simp_all add: ends)
    by (simp_all add: ends)
  done

lemma saveOperatorConfig_trace:
  "trace (snd (saveOperatorConfig a n t u i c E w)) = trace w @ script E (trace w) [] (save_steps E)"
proof -
  have "wp E (saveOperatorConfig a n t u i c) (\<lambda>_ w'. trace w' = trace w @ script E (trace w) [] (save_steps E)) w"
    by (rule wp_saveOperatorConfig) (simp add: save_steps_def)
  then show ?thesis by (simp add: wp_run)
qed

lemma script_save: "script E h (v # vs) (save_steps E) = script E h [] (save_steps E)"
  by (simp add: save_steps_def split: outcome.split)

lemma wp_save: "wp E (saveOperatorConfig a n t u i c) R w \<longleftrightarrow>
    R (fst (saveOperatorConfig a n t u i c E w)) (snd (saveOperatorConfig a n t u i c E w))"
  by (rule wp_run)

lemma follows_approve:
  "follows E (bind (parseWcryloUnits amount) (\<lambda>n.
        bind (pending_nonce s) (\<lambda>nonce.
        bind (send_tx s token ''approve'' [Str spender, Big n] nonce) (\<lambda>tx.
        bind (wait_tx tx) (\<lambda>_.
        bind (send_tx s spender fn [Big n] (js_inc nonce)) (\<lambda>tx.
        bind (wait_tx tx) (\<lambda>receipt. tx_reply tx receipt [])))))))
     (units_steps E amount (\<lambda>v. approve_steps s token spender v fn [v]))"
  by (rule followsI) (simp add: wp_eval run_defs step_defs split: on_ok_split outcome.split)

lemma follows_units_tx:
  "follows E (bind (parseWcryloUnits amount) (\<lambda>n.
        bind (pending_nonce s) (\<lambda>nonce.
        bind (send_tx s target fn (args (Big n)) nonce) (\<lambda>tx.
        bind (wait_tx tx) (\<lambda>receipt. tx_reply tx receipt [])))))
     (units_steps E amount (\<lambda>v. tx_steps s target fn (args v)))"
  by (rule followsI) (simp add: wp_eval run_defs step_defs split: on_ok_split outcome.split)

lemma follows_tx:
  "follows E (bind (pending_nonce s) (\<lambda>nonce. bind (send_tx s target fn args nonce) (\<lambda>tx.
        bind (wait_tx tx) (\<lambda>receipt. tx_reply tx receipt []))))
     (tx_steps s target fn args)"
  by (rule followsI) (simp add: wp_eval run_defs step_defs split: on_ok_split outcome.split)

lemma follows_claim:
  "follows E (bind (send_tx s target fn [] Undefined) (\<lambda>tx. bind (wait_tx tx) (\<lambda>receipt. tx_reply tx receipt [])))
     (claim_steps s target fn)"
  by (rule followsI) (simp add: wp_eval run_defs claim_steps_def split: on_ok_split outcome.split)

lemma follows_register:
  "follows E (bind (read_contract nodeStakingAddress stakeFn []) (\<lambda>amount.
        bind (pending_nonce s) (\<lambda>nonce.
        bind (send_tx s tokenAddress ''approve'' [Str nodeStakingAddress, amount] nonce) (\<lambda>tx.
        bind (wait_tx tx) (\<lambda>_.
        bind (send_tx s nodeStakingAddress fn [] (js_inc nonce)) (\<lambda>tx.
        bind (wait_tx tx) (\<lambda>receipt.
        bind (saveOperatorConfig a s t u i c) (\<lambda>cfg. tx_reply tx receipt [(''operatorConfig'', cfg)]))))))))
     (register_steps E s stakeFn fn)"
  by (rule followsI)
    (simp add: wp_eval wp_save saveOperatorConfig_trace script_save run_defs script_defs split: on_ok_split outcome.split)

lemma follows_buyback:
  "follows E (bind (read_contract nftAddress ''ownerOf'' [i]) (\<lambda>owner.
           bind (lower_of owner) (\<lambda>lo.
           if lo \<noteq> to_lower s then ret r1
           else bind (pending_nonce s) (\<lambda>nonce.
                bind (send_tx s nftAddress ''approve'' [Str vaultAddress, i] nonce) (\<lambda>tx.
                bind (wait_tx tx) (\<lambda>_.
                bind (send_tx s vaultAddress ''buyBack'' [i] (js_inc nonce)) (\<lambda>tx.
                bind (wait_tx tx) (\<lambda>receipt.
                bind (read_contract nftAddress ''ownerOf'' [i]) (\<lambda>newOwner.
                bind (lower_of newOwner) (\<lambda>no.
                bind (get_prop tx ''hash'') (\<lambda>h.
                if no \<noteq> v then ret (r2 newOwner h)
                else bind (get_prop receipt ''blockNumber'') (\<lambda>b. ret (r3 h b newOwner)))))))))))))
     (buyback_steps i s)"
  by (rule followsI) (simp add: wp_eval run_defs script_defs split: on_ok_split outcome.split option.split)

lemma follows_burn:
  "follows E (bind (read_contract nftAddress ''ownerOf'' [i]) (\<lambda>owner.
           bind (lower_of owner) (\<lambda>lo.
           if lo \<noteq> to_lower s then ret r1
           else bind (pending_nonce s) (\<lambda>nonce.
                bind (send_tx s nftAddress ''burn'' [i] nonce) (\<lambda>tx.
                bind (wait_tx tx) (\<lambda>receipt.
                try_catch
                  (bind (read_contract nftAddress ''ownerOf'' [i]) (\<lambda>_. bind (get_prop tx ''hash'') (\<lambda>h. ret (r2 h))))
                  (\<lambda>_. bind (get_prop tx ''hash'') (\<lambda>h. bind (get_prop receipt ''blockNumber'') (\<lambda>b. ret (r3 h b))))))))))
     (burn_steps i s)"
  by (rule followsI) (simp add: wp_eval run_defs script_defs split: on_ok_split on_throw_split outcome.split option.split)

section \<open>Handlers that sign\<close>

text \<open>The contracts and methods the wallet transacts with, and the contracts it approves.\<close>

definition known_methods :: "(string \<times> string) list" where
  "known_methods =
     [(tokenAddress, ''approve''), (nftAddress, ''approve''), (nftAddress, ''burn''), (vaultAddress, ''buyBack''),
      (bridgeAddress, ''burnForCryLo''), (stakingAddress, ''stake''), (stakingAddress, ''unstake''),
      (stakingAddress, ''claimRewards''), (nodeStakingAddress, ''registerOperator''),
      (nodeStakingAddress, ''registerValidator''), (nodeStakingAddress, ''unregisterNode''),
      (nodeStakingAddress, ''claimRewards''), (GAS_MANAGER_ADDRESS, ''claimDailyGas''),
      (GAS_MANAGER_ADDRESS, ''buyGasWithWcrylo'')]"

definition known_spenders :: "string list" where
  "known_spenders = [stakingAddress, nodeStakingAddress, GAS_MANAGER_ADDRESS, vaultAddress]"

text \<open>A transaction on a known method; an approval names a known contract, and a burn for release the CryLo address \<open>a\<close>.\<close>

definition known_tx :: "jsval \<Rightarrow> string \<Rightarrow> string \<Rightarrow> jsval list \<Rightarrow> bool" where
  "known_tx a target fn args \<longleftrightarrow> (target, fn) \<in> set known_methods \<and>
     (fn = ''approve'' \<longrightarrow> (\<exists>p v. args = [Str p, v] \<and> p \<in> set known_spenders)) \<and>
     (fn = ''burnForCryLo'' \<longrightarrow> (\<exists>v. args = [a, v]))"

fun signed_by :: "string \<Rightarrow> jsval \<Rightarrow> call \<Rightarrow> bool" where
  "signed_by s a (ContractSend s' target fn args nonce) \<longleftrightarrow> s' = s \<and> known_tx a target fn args"
| "signed_by s a _ \<longleftrightarrow> True"

text \<open>
  The contract of a handler that signs: it follows a script with the signer that the key file of the wallet \<open>n\<close> binds
  to the CryLo address \<open>a\<close>.
\<close>

locale signing_handler =
  fixes handler :: "jsval \<Rightarrow> jsval \<Rightarrow> jsval js"
    and steps :: "env \<Rightarrow> jsval \<Rightarrow> string \<Rightarrow> step list"
  assumes calls: "trace (snd (handler n a E w)) = trace w @ signed_calls E n a (steps E a) w"
    and signed: "f \<in> set (steps E a s) \<Longrightarrow> f vs = Some c \<Longrightarrow> signed_by s a c"
begin

lemma handler_signs:
  "\<exists>cs. trace (snd (handler n a E w)) = trace w @ cs \<and>
     (\<forall>s target fn args k. ContractSend s target fn args k \<in> set cs \<longrightarrow> bound_signer E w n a s \<and> known_tx a target fn args)"
proof (intro exI conjI allI impI, rule calls)
  fix s target fn args k
  assume m: "ContractSend s target fn args k \<in> set (signed_calls E n a (steps E a) w)"
  have "wp E (loadBoundNexusWallet n a) (\<lambda>r w'. \<exists>cs. trace w' = trace w @ cs \<and> mkdirs cs \<and> (\<forall>s. r = Ok s \<longrightarrow> bound_signer E w n a s)) w"
    by (rule wp_loadBoundNexusWallet) blast
  then obtain r w' cs where l: "loadBoundNexusWallet n a E w = (r, w')" "trace w' = trace w @ cs" "mkdirs cs"
    "\<And>s. r = Ok s \<Longrightarrow> bound_signer E w n a s"
    by (cases "loadBoundNexusWallet n a E w") (auto simp: wp_run)
  have "ContractSend s target fn args k \<notin> set cs" using l(3) by (auto simp: mkdirs_def list_all_iff)
  then obtain s' where "r = Ok s'" "ContractSend s target fn args k \<in> set (script E (trace w') [] (steps E a s'))"
    using m l(1,2) unfolding signed_calls_def by (cases r) auto
  then show "bound_signer E w n a s" "known_tx a target fn args"
    using l(4) script_step signed by fastforce+
qed

end

lemma with_reason_asks:
  "trace (snd (with_reason (bind (asks f) K) E w)) = trace (snd (with_reason (K (f E)) E w))"
  by (simp add: with_reason_trace bind_def asks_def)

lemmas signed_defs = script_defs known_tx_def known_methods_def known_spenders_def save_steps_def

interpretation stake: signing_handler "ipc_nexus_stake_wcrylo amount"
  "\<lambda>E a s. units_steps E amount (\<lambda>v. approve_steps s tokenAddress stakingAddress v ''stake'' [v])" for amount
  by unfold_locales
    (unfold ipc_nexus_stake_wcrylo_def, rule signed_calls_run, rule follows_approve, auto simp: signed_defs split: outcome.splits)

interpretation buy_gas: signing_handler "ipc_nexus_buy_gas_wcrylo amount"
  "\<lambda>E a s. units_steps E amount (\<lambda>v. approve_steps s tokenAddress GAS_MANAGER_ADDRESS v ''buyGasWithWcrylo'' [v])" for amount
  by unfold_locales
    (unfold ipc_nexus_buy_gas_wcrylo_def, rule signed_calls_run, rule follows_approve, auto simp: signed_defs split: outcome.splits)

interpretation burn_for_crylo: signing_handler "ipc_nexus_burn_for_crylo amount"
  "\<lambda>E a s. units_steps E amount (\<lambda>v. tx_steps s bridgeAddress ''burnForCryLo'' [a, v])" for amount
  by unfold_locales
    (unfold ipc_nexus_burn_for_crylo_def, rule signed_calls_run, rule follows_units_tx, auto simp: signed_defs split: outcome.splits)

interpretation unstake: signing_handler "ipc_nexus_unstake_wcrylo amount"
  "\<lambda>E a s. units_steps E amount (\<lambda>v. tx_steps s stakingAddress ''unstake'' [v])" for amount
  by unfold_locales
    (unfold ipc_nexus_unstake_wcrylo_def, rule signed_calls_run, rule follows_units_tx, auto simp: signed_defs split: outcome.splits)

interpretation unregister: signing_handler ipc_nexus_unregister_node "\<lambda>E a s. tx_steps s nodeStakingAddress ''unregisterNode'' []"
  by unfold_locales (unfold ipc_nexus_unregister_node_def, rule signed_calls_run, rule follows_tx, auto simp: signed_defs)

interpretation claim_rewards: signing_handler ipc_nexus_claim_rewards "\<lambda>E a s. claim_steps s stakingAddress ''claimRewards''"
  by unfold_locales (unfold ipc_nexus_claim_rewards_def, rule signed_calls_run, rule follows_claim, auto simp: signed_defs)

interpretation claim_node_rewards: signing_handler ipc_nexus_claim_node_rewards
  "\<lambda>E a s. claim_steps s nodeStakingAddress ''claimRewards''"
  by unfold_locales (unfold ipc_nexus_claim_node_rewards_def, rule signed_calls_run, rule follows_claim, auto simp: signed_defs)

interpretation claim_daily_gas: signing_handler ipc_nexus_claim_daily_gas
  "\<lambda>E a s. claim_steps s GAS_MANAGER_ADDRESS ''claimDailyGas''"
  by unfold_locales (unfold ipc_nexus_claim_daily_gas_def, rule signed_calls_run, rule follows_claim, auto simp: signed_defs)

interpretation register_operator: signing_handler ipc_nexus_register_operator
  "\<lambda>E a s. register_steps E s ''operatorStake'' ''registerOperator''"
  by unfold_locales (unfold ipc_nexus_register_operator_def with_reason_asks, rule signed_calls_run, rule follows_register,
    auto simp: signed_defs)

interpretation register_validator: signing_handler ipc_nexus_register_validator
  "\<lambda>E a s. register_steps E s ''validatorStake'' ''registerValidator''"
  by unfold_locales (unfold ipc_nexus_register_validator_def with_reason_asks, rule signed_calls_run, rule follows_register,
    auto simp: signed_defs)

interpretation buyback: signing_handler "ipc_nexus_buyback_nft token" "\<lambda>E a s. buyback_steps (Num (to_number token)) s" for token
  by unfold_locales (unfold ipc_nexus_buyback_nft_def Let_def, rule signed_calls_run, rule follows_buyback,
    auto simp: signed_defs split: option.splits if_splits)

interpretation burn: signing_handler "ipc_nexus_burn_nft token" "\<lambda>E a s. burn_steps (Num (to_number token)) s" for token
  by unfold_locales (unfold ipc_nexus_burn_nft_def Let_def, rule signed_calls_run, rule follows_burn,
    auto simp: signed_defs split: option.splits if_splits)

end
