(* ===== verification/IpcProps.thy ===== *)
theory IpcProps
  imports AppSetup Samples
begin

text \<open>
  The IPC boundary as a contract: a handler with a catch block replies whatever the outside does, and
  what its reply says about failures.
\<close>

section \<open>Errors that reach a catch block\<close>

named_theorems tv_intros

lemma tv_if [tv_intros]: "(b \<Longrightarrow> throws_values m) \<Longrightarrow> (\<not> b \<Longrightarrow> throws_values n) \<Longrightarrow> throws_values (if b then m else n)"
  by simp

lemma tv_let [tv_intros]: "throws_values (f x) \<Longrightarrow> throws_values (let y = x in f y)"
  by simp

lemma tv_case_option [tv_intros]:
  "throws_values m \<Longrightarrow> (\<And>x. throws_values (f x)) \<Longrightarrow> throws_values (case v of None \<Rightarrow> m | Some x \<Rightarrow> f x)"
  by (cases v) auto

lemma tv_case_prod [tv_intros]:
  "(\<And>x y. throws_values (f x y)) \<Longrightarrow> throws_values (case v of (x, y) \<Rightarrow> f x y)"
  by (cases v) auto

lemma tv_case_prod_app [tv_intros]:
  "(\<And>x y. throws_values (f x y s)) \<Longrightarrow> throws_values ((case v of (x, y) \<Rightarrow> f x y) s)"
  by (cases v) auto

lemma tv_pending [tv_intros]: "throws_values (lift_outcome Pending)"
  by (simp add: throws_values_def lift_outcome_def)

lemma tv_state [tv_intros]:
  "throws_values (ret x)" "throws_values (gets f)" "throws_values (asks g)" "throws_values (modify h)"
  "throws_values (sync_call c)" "throws_values (await_call c)" "throws_values (get_prop v k)"
  "throws_values (spawn_task m)"
  by (auto intro: throws_values_never)

lemma tv_throw [tv_intros]:
  "throws_values (throw (mk_error m))" "throws_values (throw (new_error v))"
  "throws_values (throw syntax_error)" "throws_values (throw (type_error m))"
  by (auto intro!: throws_values_throw simp: new_error_def syntax_error_def nullish_def mk_error_def type_error_def)

lemmas [tv_intros] =
  throws_values_bind throws_values_andthen throws_values_try_catch throws_values_do_if
  throws_values_for_each throws_values_fold_loop

lemma tv_promise_all [tv_intros]: "list_all throws_values ms \<Longrightarrow> throws_values (promise_all ms)"
  by (auto simp: list_all_iff)

lemma tv_list [tv_intros]: "list_all throws_values []"
  "throws_values m \<Longrightarrow> list_all throws_values ms \<Longrightarrow> list_all throws_values (m # ms)"
  by simp_all

lemma tv_basic [tv_intros]:
  "throws_values (parse_text v)" "throws_values (parseWcryloUnits v)" "throws_values (formatWcryloUnits v)"
  "throws_values (formatNexusGasUnits v)" "throws_values (text_of v)"
  "throws_values (item_of v i)" "throws_values (fs_readFileSync p)"
  "throws_values (fs_writeFileSync p t)" "throws_values (fs_mkdirSync p)" "throws_values (fs_existsSync p)"
  "throws_values (fs_appendFile p t)"
  unfolding parse_text_def parseWcryloUnits_def formatWcryloUnits_def formatNexusGasUnits_def
    text_of_def item_of_def fs_readFileSync_def fs_writeFileSync_def fs_mkdirSync_def
    fs_existsSync_def fs_appendFile_def
  by (rule throws_values_units | rule tv_intros)+

lemma tv_methods [tv_intros]: "throws_values (lower_of v)" "throws_values (name_includes v p)"
  by (cases v; simp add: lower_of_def name_includes_def tv_intros)+

lemma tv_js_items [tv_intros]: "throws_values (js_items v)"
  by (cases v) (simp_all add: tv_intros)

lemmas tv_helpers = ensure_dir_def getWalletDir_def getLogDir_def nexus_file_def rpcCall_def daemonRpc_def
  walletRpc_def daemonHttp_def registerBoundNexusWallet_def loadBoundNexusWallet_def read_contract_def send_tx_def
  wait_tx_def pending_nonce_def tx_reply_def saveOperatorConfig_def scan_token_def counter_loop_def
  push_log_def safeLogs_def tx_amount_def tx_entry_def bridge_reply_def

lemma tv_parts [tv_intros]:
  "throws_values (ensure_dir p)" "throws_values getWalletDir" "throws_values (nexus_file v)"
  "throws_values (daemonRpc m ps)" "throws_values (walletRpc m ps t)" "throws_values (daemonHttp u b t)"
  "throws_values (registerBoundNexusWallet a)" "throws_values (loadBoundNexusWallet n a)"
  "throws_values (read_contract c fn as)" "throws_values (send_tx s c fn as v)" "throws_values (wait_tx v)"
  "throws_values (pending_nonce s)" "throws_values (tx_reply v r fs)"
  "throws_values (saveOperatorConfig v s1 s2 s3 i s4)" "throws_values (bridge_reply u v)"
  unfolding tv_helpers Let_def
  by (rule throws_values_units | rule tv_intros)+

lemma tv_scan [tv_intros]: "throws_values (scan_token a i owned)"
  unfolding scan_token_def by (rule throws_values_units | rule tv_intros)+

lemma tv_counter_loop [tv_intros]:
  "(\<And>i s. throws_values (f i s)) \<Longrightarrow> throws_values (counter_loop n s0 f)"
  by (cases n) (auto simp: counter_loop_def intro!: tv_intros)

lemma tv_logs [tv_intros]: "throws_values (safeLogs f p l logs)" "throws_values (tx_entry item txs)"
  unfolding safeLogs_def push_log_def tx_entry_def tx_amount_def Let_def
  by (rule throws_values_units | rule tv_intros)+

section \<open>Handlers reply\<close>

lemma with_message_catches [intro]: "throws_values m \<Longrightarrow> catches_all (with_message m)"
  unfolding with_message_def by (rule catches_all_message) auto

lemma with_reason_catches [intro]:
  assumes "throws_values m"
  shows "catches_all (with_reason m)"
  unfolding catches_all_def
proof (intro allI impI)
  fix E w e
  assume E: "throws_errors E"
  obtain r w' where m: "m E w = (r, w')" by (cases "m E w")
  show "fst (with_reason m E w) \<noteq> Throw e"
  proof (cases r)
    case (Throw e')
    then have "\<not> nullish e'" using assms E m unfolding throws_values_def by (metis fst_conv)
    then show ?thesis using m Throw
      by (simp add: with_reason_def try_catch_def bind_def get_prop_def ret_def)
  qed (use m in \<open>simp_all add: with_reason_def try_catch_def\<close>)
qed

lemmas frame_handlers =
  ipc_daemon_rpc_def ipc_wallet_rpc_def ipc_list_wallets_def ipc_nexus_wallet_create_def
  ipc_nexus_wallet_load_def ipc_miner_start_def ipc_miner_stop_def ipc_miner_get_status_def
  ipc_nexus_scan_nfts_def ipc_nexus_buyback_nft_def ipc_nexus_burn_nft_def ipc_nexus_gas_status_def
  ipc_nexus_transactions_def ipc_nexus_claim_daily_gas_def ipc_nexus_buy_gas_wcrylo_def
  ipc_nexus_wcrylo_balance_def ipc_nexus_staked_balance_def ipc_nexus_stake_wcrylo_def
  ipc_nexus_pending_rewards_def ipc_nexus_claim_rewards_def ipc_nexus_unstake_wcrylo_def
  ipc_nexus_node_status_def ipc_nexus_register_operator_def ipc_nexus_register_validator_def
  ipc_nexus_unregister_node_def ipc_nexus_claim_node_rewards_def ipc_bridge_request_def
  ipc_bridge_status_def ipc_bridge_release_status_def ipc_nexus_burn_for_crylo_def

definition unframed_channels :: "string list" where
  "unframed_channels = [''open-log-dir'', ''open-data-dir'', ''get-version'', ''confirm-dialog'', ''miner-get-info'']"

lemma handlers_catch [simp]:
  "catches_all (ipc_daemon_rpc a b)" "catches_all (ipc_wallet_rpc a b c)" "catches_all (ipc_list_wallets)"
  "catches_all (ipc_nexus_wallet_create a b)" "catches_all (ipc_nexus_wallet_load a b)"
  "catches_all (ipc_miner_start a)" "catches_all (ipc_miner_stop)" "catches_all (ipc_miner_get_status)"
  "catches_all (ipc_nexus_scan_nfts a)" "catches_all (ipc_nexus_buyback_nft a b c)"
  "catches_all (ipc_nexus_burn_nft a b c)" "catches_all (ipc_nexus_gas_status a)"
  "catches_all (ipc_nexus_transactions a)" "catches_all (ipc_nexus_claim_daily_gas a b)"
  "catches_all (ipc_nexus_buy_gas_wcrylo a b c)" "catches_all (ipc_nexus_wcrylo_balance a)"
  "catches_all (ipc_nexus_staked_balance a)" "catches_all (ipc_nexus_stake_wcrylo a b c)"
  "catches_all (ipc_nexus_pending_rewards a)" "catches_all (ipc_nexus_claim_rewards a b)"
  "catches_all (ipc_nexus_unstake_wcrylo a b c)" "catches_all (ipc_nexus_node_status a)"
  "catches_all (ipc_nexus_register_operator a b)" "catches_all (ipc_nexus_register_validator a b)"
  "catches_all (ipc_nexus_unregister_node a b)" "catches_all (ipc_nexus_claim_node_rewards a b)"
  "catches_all (ipc_bridge_request a)" "catches_all (ipc_bridge_status a)"
  "catches_all (ipc_bridge_release_status a)" "catches_all (ipc_nexus_burn_for_crylo a b c)"
  unfolding frame_handlers Let_def
  by ((rule with_message_catches | rule with_reason_catches), (rule throws_values_units | rule tv_intros)+)+

lemma framed_handlers_catch:
  "list_all (\<lambda>(ch, h). ch \<in> set unframed_channels \<or> (\<forall>args. catches_all (h args))) ipc_handlers"
  by (simp add: ipc_handlers_def unframed_channels_def)

lemma invoke_catches:
  assumes "throws_errors E" "(ch, h) \<in> set ipc_handlers" "ch \<notin> set unframed_channels"
  shows "fst (invoke ch args E w) \<noteq> Throw e"
proof -
  obtain h' where h': "map_of ipc_handlers ch = Some h'" "(ch, h') \<in> set ipc_handlers"
    using assms(2) by (metis map_of_SomeD weak_map_of_SomeI)
  then have "catches_all (h' args)"
    using framed_handlers_catch assms(3) unfolding list_all_iff by blast
  then have "\<And>e. fst (h' args E w) \<noteq> Throw e" using assms(1) unfolding catches_all_def by blast
  then show ?thesis
    using h'(1) by (cases "h' args E w"; cases "fst (h' args E w)") (auto simp: invoke_def try_catch_def)
qed

section \<open>Properties\<close>



end
