(* ===== verification/SignerProps.thy ===== *)
theory SignerProps
  imports NexusProps IpcProps
begin

text \<open>
  Who signs: over every channel of the main process, the transactions a message can cause are signed with the key
  that is bound to the CryLo address in the message, and go to the known contracts.
\<close>

section \<open>Handlers that do not sign\<close>

fun is_send :: "call \<Rightarrow> bool" where
  "is_send (ContractSend s target fn args k) \<longleftrightarrow> True"
| "is_send _ \<longleftrightarrow> False"

definition no_send :: "env \<Rightarrow> world \<Rightarrow> world \<Rightarrow> bool" where
  "no_send E w w' \<longleftrightarrow> (\<exists>cs. trace w' = trace w @ cs \<and> list_all (\<lambda>c. \<not> is_send c) cs)"

interpretation unsigned: step_order no_send
proof
  show "no_send E w w" for E w by (auto simp: no_send_def intro: exI [of _ "[]"])
  show "no_send E w w''" if "no_send E w w'" "no_send E w' w''" for E w w' w''
    using that by (auto simp: no_send_def)
qed

lemma unsigned_calls [rw_intros]:
  "\<not> is_send c \<Longrightarrow> runs_within no_send (sync_call c)" "\<not> is_send c \<Longrightarrow> runs_within no_send (await_call c)"
  by (auto simp: runs_within_def no_send_def sync_call_def await_call_def)

lemma unsigned_modify [rw_intros]: "(\<And>w. trace (f w) = trace w) \<Longrightarrow> runs_within no_send (modify f)"
  by (auto simp: runs_within_def no_send_def modify_def intro: exI [of _ "[]"])

lemmas unsigned_parts =
  parse_text_def formatWcryloUnits_def formatNexusGasUnits_def text_of_def item_of_def lower_of_def name_includes_def
  fs_readFileSync_def fs_writeFileSync_def fs_mkdirSync_def fs_existsSync_def fs_appendFile_def
  ensure_dir_def getWalletDir_def getLogDir_def nexus_file_def rpcCall_def daemonRpc_def walletRpc_def daemonHttp_def
  registerBoundNexusWallet_def read_contract_def scan_token_def counter_loop_def push_log_def safeLogs_def tx_amount_def
  tx_entry_def bridge_reply_def

lemma unsigned_handlers:
  "runs_within no_send (ipc_daemon_rpc m p)" "runs_within no_send (ipc_wallet_rpc m p t)" "runs_within no_send ipc_list_wallets"
  "runs_within no_send (ipc_nexus_wallet_create n a)" "runs_within no_send (ipc_nexus_wallet_load n a)"
  "runs_within no_send ipc_open_log_dir" "runs_within no_send ipc_open_data_dir" "runs_within no_send ipc_get_version"
  "runs_within no_send (ipc_confirm_dialog v)" "runs_within no_send (ipc_miner_start v)" "runs_within no_send ipc_miner_stop"
  "runs_within no_send ipc_miner_get_status" "runs_within no_send ipc_miner_get_info"
  "runs_within no_send (ipc_nexus_gas_status v)" "runs_within no_send (ipc_nexus_wcrylo_balance v)"
  "runs_within no_send (ipc_nexus_staked_balance v)" "runs_within no_send (ipc_nexus_pending_rewards v)"
  "runs_within no_send (ipc_nexus_node_status v)" "runs_within no_send (ipc_bridge_request v)"
  "runs_within no_send (ipc_bridge_status v)" "runs_within no_send (ipc_bridge_release_status v)"
  unfolding ipc_daemon_rpc_def ipc_wallet_rpc_def ipc_list_wallets_def ipc_nexus_wallet_create_def ipc_nexus_wallet_load_def
    ipc_open_log_dir_def ipc_open_data_dir_def ipc_get_version_def ipc_confirm_dialog_def ipc_miner_start_def ipc_miner_stop_def
    ipc_miner_get_status_def ipc_miner_get_info_def ipc_nexus_gas_status_def ipc_nexus_wcrylo_balance_def
    ipc_nexus_staked_balance_def ipc_nexus_pending_rewards_def ipc_nexus_node_status_def ipc_bridge_request_def
    ipc_bridge_status_def ipc_bridge_release_status_def unsigned_parts getDataDir_def
  by (rule rw_intros | (simp; fail))+

lemma unsigned_scans: "runs_within no_send (ipc_nexus_scan_nfts v)" "runs_within no_send (ipc_nexus_transactions v)"
  unfolding ipc_nexus_scan_nfts_def ipc_nexus_transactions_def unsigned_parts
  by (rule rw_intros | (simp; fail))+

section \<open>Every channel\<close>

text \<open>
  Each transaction is signed with the key bound to a CryLo address among the arguments, for a wallet named among them.
\<close>

definition signs_bound :: "jsval list \<Rightarrow> jsval js \<Rightarrow> bool" where
  "signs_bound args m \<longleftrightarrow> (\<forall>E w. \<exists>cs. trace (snd (m E w)) = trace w @ cs \<and>
     (\<forall>s target fn as k. ContractSend s target fn as k \<in> set cs \<longrightarrow>
        (\<exists>n\<in>set args. \<exists>a\<in>set args. bound_signer E w n a s \<and> known_tx a target fn as)))"

lemma signs_bound_unsigned: "runs_within no_send m \<Longrightarrow> signs_bound args m"
proof -
  assume m: "runs_within no_send m"
  show "signs_bound args m"
    unfolding signs_bound_def
  proof (intro allI)
    fix E w
    obtain cs where "trace (snd (m E w)) = trace w @ cs" "list_all (\<lambda>c. \<not> is_send c) cs"
      using m unfolding runs_within_def no_send_def by blast
    moreover from this(2) have "ContractSend s target fn as k \<notin> set cs" for s target fn as k
      by (auto simp: list_all_iff)
    ultimately show "\<exists>cs. trace (snd (m E w)) = trace w @ cs \<and>
        (\<forall>s target fn as k. ContractSend s target fn as k \<in> set cs \<longrightarrow>
           (\<exists>n\<in>set args. \<exists>a\<in>set args. bound_signer E w n a s \<and> known_tx a target fn as))"
      by blast
  qed
qed

lemma arg_at_truthy: "truthy (arg_at args i) \<Longrightarrow> arg_at args i \<in> set args"
  by (auto simp: arg_at_def split: if_splits)

context signing_handler
begin

lemma signs_bound_args: "signs_bound args (handler (arg_at args i) (arg_at args j))"
  unfolding signs_bound_def
proof (intro allI)
  fix E w
  obtain cs where cs: "trace (snd (handler (arg_at args i) (arg_at args j) E w)) = trace w @ cs"
    "\<And>s target fn as k. ContractSend s target fn as k \<in> set cs \<Longrightarrow>
       bound_signer E w (arg_at args i) (arg_at args j) s \<and> known_tx (arg_at args j) target fn as"
    using handler_signs by blast
  have "\<exists>n\<in>set args. \<exists>a\<in>set args. bound_signer E w n a s \<and> known_tx a target fn as"
    if "ContractSend s target fn as k \<in> set cs" for s target fn as k
  proof -
    have b: "bound_signer E w (arg_at args i) (arg_at args j) s" "known_tx (arg_at args j) target fn as" using cs(2) [OF that] by auto
    then have "arg_at args i \<in> set args" "arg_at args j \<in> set args" by (auto simp: bound_signer_def arg_at_truthy)
    then show ?thesis using b by blast
  qed
  then show "\<exists>cs. trace (snd (handler (arg_at args i) (arg_at args j) E w)) = trace w @ cs \<and>
      (\<forall>s target fn as k. ContractSend s target fn as k \<in> set cs \<longrightarrow>
         (\<exists>n\<in>set args. \<exists>a\<in>set args. bound_signer E w n a s \<and> known_tx a target fn as))"
    using cs(1) by blast
qed

end

lemmas handlers_sign =
  stake.signs_bound_args buy_gas.signs_bound_args burn_for_crylo.signs_bound_args unstake.signs_bound_args
  unregister.signs_bound_args claim_rewards.signs_bound_args claim_node_rewards.signs_bound_args
  claim_daily_gas.signs_bound_args register_operator.signs_bound_args register_validator.signs_bound_args
  buyback.signs_bound_args burn.signs_bound_args

lemma channels_sign: "list_all (\<lambda>(channel, h). \<forall>args. signs_bound args (h args)) ipc_handlers"
  unfolding ipc_handlers_def
  by (simp add: handlers_sign signs_bound_unsigned unsigned_handlers unsigned_scans)

lemma relay_trace: "trace (snd (try_catch m (\<lambda>e. throw (f e)) E w)) = trace (snd (m E w))"
  by (simp add: try_catch_def throw_def split: prod.splits outcome.splits)

text \<open>
  C5. Whatever message the page sends to the main process, over any channel and with any arguments, and whatever the
  outside answers: every transaction the handler sends is signed with the private key from the key file of a wallet
  named in the message, a file that binds the key to a CryLo address in the message; it calls one of the
  fourteen known contract methods; an approval names one of the wallet's own contracts as the spender; and a burn of
  wCRYLO releases CryLo to the bound address only.
\<close>

theorem transactions_signed_by_bound_key:
  "\<exists>cs. trace (snd (invoke channel args E w)) = trace w @ cs \<and>
     (\<forall>s target fn as k. ContractSend s target fn as k \<in> set cs \<longrightarrow>
        (\<exists>n\<in>set args. \<exists>a\<in>set args. bound_signer E w n a s \<and> known_tx a target fn as))"
proof (cases "map_of ipc_handlers channel")
  case None
  then show ?thesis by (intro exI [of _ "[]"]) (simp add: invoke_def throw_def)
next
  case (Some h)
  then have "signs_bound args (h args)"
    using channels_sign map_of_SomeD by (fastforce simp: list_all_iff)
  then show ?thesis using Some unfolding signs_bound_def by (simp add: invoke_def relay_trace)
qed

definition key_text :: string where
  "key_text = ''{\"cryloAddress\":\"C1\",\"privateKey\":\"K\"}''"

definition key_world :: world where
  "key_world = sample_world\<lparr>files := [(''/data/wallets/alice.nexus.json'', key_text)]\<rparr>"

lemma key_text_parse: "JSON_parse key_text = Some (Obj [(''cryloAddress'', Str ''C1''), (''privateKey'', Str ''K'')])"
  by code_simp

lemma sample_env_simps [simp]:
  "answer (sample_env ans) = ans" "meddle (sample_env ans) = (\<lambda>_ w. w)" "parseUnits (sample_env ans) = (\<lambda>s d. Ok 1)"
  "walletAddress (sample_env ans) = (\<lambda>k. Ok (''0x'' @ to_str k))" "platform (sample_env ans) = ''linux''"
  "userData (sample_env ans) = ''/data''" "homeDir (sample_env ans) = ''/home''" "nexusRpcEnv (sample_env ans) = []"
  by (simp_all add: sample_env_def)

lemma key_world_simps [simp]:
  "files key_world = [(''/data/wallets/alice.nexus.json'', key_text)]" "dirs key_world = [''/data/wallets'']" "trace key_world = []"
  by (simp_all add: key_world_def sample_world_def)

lemma key_file_alice: "key_file (sample_env ans) (Str ''alice'') = ''/data/wallets/alice.nexus.json''"
proof -
  have "safeNexusFileName (Str ''alice'') = ''alice''" by code_simp
  then show ?thesis by (simp add: key_file_def path_join_def path_sep_def IS_WIN_def getUserDataPath_def WALLET_DIR_NAME_def)
qed

lemma load_alice:
  "loadBoundNexusWallet (Str ''alice'') (Str ''C1'') (sample_env ans) key_world = (Ok ''0xK'', key_world)"
proof -
  have f: "nexus_file (Str ''alice'') (sample_env ans) key_world = (Ok ''/data/wallets/alice.nexus.json'', key_world)"
    unfolding key_file_alice [of ans, symmetric]
    by (simp add: nexus_file_def getWalletDir_def ensure_dir_def fs_existsSync_def key_file_def bind_def asks_def gets_def
        andthen_def do_if_def ret_def exists_path_def path_join_def path_sep_def
        IS_WIN_def getUserDataPath_def WALLET_DIR_NAME_def)
  show ?thesis
    by (simp add: loadBoundNexusWallet_def bind_def f fs_existsSync_def gets_def exists_path_def fs_readFileSync_def
        parse_text_def key_text_parse ret_def get_prop_def nullish_def strict_eq_def asks_def lift_outcome_def)
qed

text \<open>A claim of rewards in that world.\<close>

lemma claim_alice:
  "trace (snd (invoke ''nexus-claim-rewards'' [Str ''alice'', Str ''C1''] (sample_env (\<lambda>h c. Ok (Obj []))) key_world)) =
   [ContractSend ''0xK'' stakingAddress ''claimRewards'' [] Undefined, TxWait (Obj [])]"
proof -
  have "trace (snd (ipc_nexus_claim_rewards (Str ''alice'') (Str ''C1'') (sample_env (\<lambda>h c. Ok (Obj []))) key_world)) =
     [ContractSend ''0xK'' stakingAddress ''claimRewards'' [] Undefined, TxWait (Obj [])]"
    by (simp add: claim_rewards.calls signed_calls_def load_alice claim_steps_def)
  then show ?thesis by (simp add: invoke_def ipc_handlers_def arg_at_def relay_trace)
qed

theorem transactions_signed_by_bound_key_witness:
  "\<exists>n a. n \<in> {Str ''alice'', Str ''C1''} \<and> a \<in> {Str ''alice'', Str ''C1''} \<and>
     bound_signer (sample_env (\<lambda>h c. Ok (Obj []))) key_world n a ''0xK'' \<and> known_tx a stakingAddress ''claimRewards'' []"
  using transactions_signed_by_bound_key [of "''nexus-claim-rewards''" "[Str ''alice'', Str ''C1'']"
      "sample_env (\<lambda>h c. Ok (Obj []))" key_world]
  by (auto simp: claim_alice)

text \<open>
  C7. The handlers with two transactions make exactly these calls, in this order, each only after the calls before it were answered:
  staking and buying gas read the pending nonce, approve the contract for the parsed amount with that nonce, wait until the approval is
  mined, call the contract for the same amount with the next nonce, and wait; registering a node does so for the stake
  that the node contract demands and then saves the configuration; a buyback does so for a token that the signer owns.
  Without the bound key, or when the amount does not parse, they make no call to the chain.
\<close>

theorem two_step_handlers_calls:
  "trace (snd (ipc_nexus_stake_wcrylo amount n a E w)) = trace w @ signed_calls E n a
     (\<lambda>s. units_steps E amount (\<lambda>v. approve_steps s tokenAddress stakingAddress v ''stake'' [v])) w \<and>
   trace (snd (ipc_nexus_buy_gas_wcrylo amount n a E w)) = trace w @ signed_calls E n a
     (\<lambda>s. units_steps E amount (\<lambda>v. approve_steps s tokenAddress GAS_MANAGER_ADDRESS v ''buyGasWithWcrylo'' [v])) w \<and>
   trace (snd (ipc_nexus_register_operator n a E w)) = trace w @ signed_calls E n a
     (\<lambda>s. register_steps E s ''operatorStake'' ''registerOperator'') w \<and>
   trace (snd (ipc_nexus_register_validator n a E w)) = trace w @ signed_calls E n a
     (\<lambda>s. register_steps E s ''validatorStake'' ''registerValidator'') w \<and>
   trace (snd (ipc_nexus_buyback_nft token n a E w)) = trace w @ signed_calls E n a (buyback_steps (Num (to_number token))) w"
  by (intro conjI stake.calls buy_gas.calls register_operator.calls register_validator.calls buyback.calls)

text \<open>
  C8. The handlers with one transaction make exactly these calls: burning for CryLo, unstaking and leaving the node contract read the
  pending nonce, send with it and wait; the claims send and wait; burning a token first checks that the signer owns it,
  and afterwards looks whether it still exists.
\<close>

theorem one_step_handlers_calls:
  "trace (snd (ipc_nexus_burn_for_crylo amount n a E w)) = trace w @ signed_calls E n a
     (\<lambda>s. units_steps E amount (\<lambda>v. tx_steps s bridgeAddress ''burnForCryLo'' [a, v])) w \<and>
   trace (snd (ipc_nexus_unstake_wcrylo amount n a E w)) = trace w @ signed_calls E n a
     (\<lambda>s. units_steps E amount (\<lambda>v. tx_steps s stakingAddress ''unstake'' [v])) w \<and>
   trace (snd (ipc_nexus_unregister_node n a E w)) = trace w @ signed_calls E n a
     (\<lambda>s. tx_steps s nodeStakingAddress ''unregisterNode'' []) w \<and>
   trace (snd (ipc_nexus_claim_rewards n a E w)) = trace w @ signed_calls E n a
     (\<lambda>s. claim_steps s stakingAddress ''claimRewards'') w \<and>
   trace (snd (ipc_nexus_claim_node_rewards n a E w)) = trace w @ signed_calls E n a
     (\<lambda>s. claim_steps s nodeStakingAddress ''claimRewards'') w \<and>
   trace (snd (ipc_nexus_claim_daily_gas n a E w)) = trace w @ signed_calls E n a
     (\<lambda>s. claim_steps s GAS_MANAGER_ADDRESS ''claimDailyGas'') w \<and>
   trace (snd (ipc_nexus_burn_nft token n a E w)) = trace w @ signed_calls E n a (burn_steps (Num (to_number token))) w"
  by (intro conjI burn_for_crylo.calls unstake.calls unregister.calls claim_rewards.calls claim_node_rewards.calls
      claim_daily_gas.calls burn.calls)

end
