(* ===== verification/JsonProps.thy ===== *)
theory JsonProps
  imports JsJson TextProps
begin

text \<open>
  Reading back what was written: JSON.parse inverts JSON.stringify, compact or indented, on the values that JSON can
  represent.
\<close>

section \<open>Strings\<close>

lemma radix_char:
  assumes "48 \<le> m \<and> m \<le> 57 \<or> 97 \<le> m \<and> m \<le> 122" "m < (256 :: nat)"
  shows "radix_digit 16 (char_of m) =
    (let v = (if m \<le> 57 then int m - 48 else int m - 87) in if v < 16 then Some v else None)"
proof -
  have m: "of_char (char_of m :: char) = m" using assms(2) by simp
  then have m': "of_char (char_of m :: char) = int m" by (metis of_nat_of_char)
  then have "lower_char (char_of m) = char_of m" using assms(1) by (auto simp: lower_char_def Let_def)
  then show ?thesis using assms(1) by (auto simp: radix_digit_def Let_def m')
qed

lemma radix_hex: "d < 16 \<Longrightarrow> radix_digit 16 (hex_digit d) = Some (int d)"
  by (simp add: hex_digit_def radix_char)

lemma radix_zero: "radix_digit 16 (CHR ''0'') = Some 0"
proof -
  have "hex_digit 0 = CHR ''0''" by code_simp
  then show ?thesis using radix_hex [of 0] by simp
qed

lemma hex4_Cons: "hex4 (a # b # c # d # r) = map_option (\<lambda>n. (n, r)) (radix_value 16 0 [a, b, c, d])"
proof -
  have "(4 :: nat) = Suc (Suc (Suc (Suc 0)))" by simp
  then show ?thesis unfolding hex4_def by (simp only: take_Suc_Cons drop_Suc_Cons take_0 drop_0 list.size) simp
qed

lemma hex_parts: "16 * int (n div 16) + int (n mod 16) = int n"
  by (simp add: zdiv_int zmod_int)

lemma unicode_escape_char:
  assumes n: "n = (of_char c :: nat)" "n < 32"
  shows "unicode_escape (CHR ''0'' # CHR ''0'' # hex_digit (n div 16) # hex_digit (n mod 16) # r) = Some ([c], r)"
proof -
  have d: "n div 16 < 16" "n mod 16 < 16" using n(2) by auto
  have "hex4 (CHR ''0'' # CHR ''0'' # hex_digit (n div 16) # hex_digit (n mod 16) # r) = Some (int n, r)"
    using hex_parts [of n] by (simp add: hex4_Cons radix_zero radix_hex d)
  moreover have "char_of (int n) = c" unfolding n(1) by simp
  then have "utf8_encode (int n) = [c]" using n(2) by (simp add: utf8_encode_def)
  ultimately show ?thesis using n(2) by (simp add: unicode_escape_def)
qed

lemma json_char_nonempty: "json_char c \<noteq> []"
  by (simp add: json_char_def Let_def)

lemma of_char_eq: "of_char c = (n :: nat) \<Longrightarrow> c = char_of n"
  by (metis char_of_char)

lemma special_chars:
  "char_of (34 :: nat) = CHR 0x22" "char_of (92 :: nat) = CHR 0x5C" "char_of (8 :: nat) = CHR 0x08" "char_of (9 :: nat) = CHR 0x09"
  "char_of (10 :: nat) = CHR 0x0A" "char_of (12 :: nat) = CHR 0x0C" "char_of (13 :: nat) = CHR 0x0D"
  by code_simp+

lemma read_json_char: "read_string (Suc f) acc (json_char c @ r) = read_string f (acc @ [c]) r"
proof -
  let ?n = "of_char c :: nat"
  consider "?n = 34" | "?n = 92" | "?n = 8" | "?n = 9" | "?n = 10" | "?n = 12" | "?n = 13"
    | "?n \<notin> {34, 92, 8, 9, 10, 12, 13}" "?n < 32" | "?n \<notin> {34, 92}" "\<not> ?n < 32" by auto
  then show ?thesis
  proof cases
    case 8
    then have j: "json_char c = [CHR 0x5C, CHR ''u'', CHR ''0'', CHR ''0'', hex_digit (?n div 16), hex_digit (?n mod 16)]"
      by (auto simp: json_char_def Let_def)
    then show ?thesis using unicode_escape_char [OF refl 8(2)] by simp
  next
    case 9
    then have "json_char c = [c]" "c \<noteq> CHR 0x22" "c \<noteq> CHR 0x5C" by (auto simp: json_char_def Let_def)
    then show ?thesis using 9 by simp
  qed ((drule of_char_eq, simp add: json_char_def simple_escape_def special_chars; fail)+)
qed

lemma read_json_string:
  "length s < f \<Longrightarrow> read_string f acc (concat (map json_char s) @ CHR 0x22 # r) = Some (acc @ s, r)"
proof (induction s arbitrary: f acc)
  case Nil
  then show ?case by (cases f) simp_all
next
  case (Cons c s)
  then show ?case using read_json_char by (cases f) simp_all
qed

lemma length_json_string: "length s \<le> length (concat (map json_char s))"
proof (induction s)
  case (Cons c s)
  then show ?case using json_char_nonempty [of c] by (cases "json_char c") simp_all
qed simp

section \<open>White space and heads\<close>

abbreviation ws :: "string \<Rightarrow> bool" where
  "ws u \<equiv> list_all is_json_ws u"

lemma skip_ws_append [simp]: "ws u \<Longrightarrow> skip_ws (u @ s) = skip_ws s"
  by (simp add: skip_ws_def list_all_iff dropWhile_append2)

lemma skip_ws_Cons [simp]: "skip_ws (c # s) = (if is_json_ws c then skip_ws s else c # s)"
  by (simp add: skip_ws_def)

lemma skip_ws_head: "s \<noteq> [] \<Longrightarrow> \<not> is_json_ws (hd s) \<Longrightarrow> skip_ws (s @ r) = s @ r"
  by (cases s) simp_all

lemma json_ws_chars [simp]:
  "\<not> is_json_ws (CHR ''['')" "\<not> is_json_ws (CHR '']'')" "\<not> is_json_ws (CHR ''{'')" "\<not> is_json_ws (CHR ''}'')"
  "\<not> is_json_ws (CHR '','')" "\<not> is_json_ws (CHR '':'')" "\<not> is_json_ws (CHR 0x22)" "is_json_ws (CHR 0x20)" "is_json_ws (CHR 0x0A)"
  "\<not> is_json_ws (CHR ''n'')" "\<not> is_json_ws (CHR ''t'')" "\<not> is_json_ws (CHR ''f'')"
  by (simp_all add: is_json_ws_def)

lemma ws_sep [simp]: "ws ind \<Longrightarrow> ws pad \<Longrightarrow> ws (json_sep ind pad)"
  by (simp add: json_sep_def)

lemma num_char_not:
  "is_num_char c \<Longrightarrow> \<not> is_json_ws c \<and> c \<notin> {CHR 0x22, CHR ''['', CHR '']'', CHR ''{'', CHR ''}'', CHR '','', CHR ''t'', CHR ''f'', CHR ''n''}"
  by (auto simp: is_num_char_def is_json_ws_def is_digit_def)

section \<open>Values that JSON represents\<close>

text \<open>A number that is read back from the text that is written for it.\<close>

definition number_ok :: "jsnum \<Rightarrow> bool" where
  "number_ok n \<longleftrightarrow> is_finite_num n \<and> num_to_string n \<noteq> [] \<and> list_all is_num_char (num_to_string n) \<and>
     json_number (num_to_string n) = Some n"

fun representable :: "jsval \<Rightarrow> bool" where
  "representable Undefined \<longleftrightarrow> False"
| "representable Null \<longleftrightarrow> True"
| "representable (Bool b) \<longleftrightarrow> True"
| "representable (Num n) \<longleftrightarrow> number_ok n"
| "representable (Big i) \<longleftrightarrow> False"
| "representable (Str s) \<longleftrightarrow> True"
| "representable (Arr xs) \<longleftrightarrow> list_all representable xs"
| "representable (Obj fs) \<longleftrightarrow> distinct (map fst fs) \<and> list_all (\<lambda>(k, v). representable v) fs"

fun json_fuel :: "jsval \<Rightarrow> nat" where
  "json_fuel (Arr xs) = 2 + sum_list (map (\<lambda>x. Suc (json_fuel x)) xs)"
| "json_fuel (Obj fs) = 2 + sum_list (map (\<lambda>(k, x). Suc (json_fuel x)) fs)"
| "json_fuel _ = 1"

definition value_text :: "string \<Rightarrow> string \<Rightarrow> jsval \<Rightarrow> string" where
  "value_text ind pad v = (case json_text ind pad v of None \<Rightarrow> ''null'' | Some t \<Rightarrow> t)"

lemma representable_text: "representable v \<Longrightarrow> json_text ind pad v = Some (value_text ind pad v)"
  by (cases v) (simp_all add: value_text_def)

definition member_text :: "string \<Rightarrow> string \<Rightarrow> string \<times> jsval \<Rightarrow> string" where
  "member_text ind pad = (\<lambda>(k, v). json_string k @ (if ind = [] then '':'' else '': '') @ value_text ind pad v)"

lemma value_text_Arr:
  "value_text ind pad (Arr xs) = json_block ind pad (CHR ''['') (CHR '']'') (map (value_text ind (pad @ ind)) xs)"
  by (simp add: value_text_def [abs_def])

lemma value_text_Obj:
  assumes "list_all (\<lambda>(k, v). representable v) fs"
  shows "value_text ind pad (Obj fs) = json_block ind pad (CHR ''{'') (CHR ''}'') (map (member_text ind (pad @ ind)) fs)"
proof -
  have "concat (map (\<lambda>(k, v). case json_text ind (pad @ ind) v of None \<Rightarrow> []
      | Some t \<Rightarrow> [json_string k @ (if ind = [] then '':'' else '': '') @ t]) fs) = map (member_text ind (pad @ ind)) fs"
    using assms by (induction fs) (auto simp: representable_text member_text_def)
  then show ?thesis by (simp add: value_text_def)
qed

lemma value_text_head:
  assumes "representable v"
  shows "value_text ind pad v \<noteq> [] \<and> \<not> is_json_ws (hd (value_text ind pad v)) \<and>
    hd (value_text ind pad v) \<notin> {CHR '']'', CHR ''}''}"
  using assms
proof (cases v)
  case (Num n)
  then have "num_to_string n \<noteq> []" "is_num_char (hd (num_to_string n))" "is_finite_num n"
    using assms by (auto simp: number_ok_def list_all_iff)
  then show ?thesis using num_char_not Num by (auto simp: value_text_def)
qed (auto simp: value_text_def json_block_def json_string_def)

section \<open>Reading\<close>

text \<open>The text \<open>t\<close> is read as the value \<open>v\<close> in any place where a number ends.\<close>

definition ends_value :: "string \<Rightarrow> bool" where
  "ends_value r \<longleftrightarrow> r = [] \<or> \<not> is_num_char (hd r)"

definition reads :: "jsval \<Rightarrow> string \<Rightarrow> bool" where
  "reads v t \<longleftrightarrow> (\<forall>f u r. json_fuel v \<le> f \<longrightarrow> ws u \<longrightarrow> ends_value r \<longrightarrow> read_value f (u @ t @ r) = Some (v, r))"

lemma ends_value_ws: "ws u \<Longrightarrow> ends_value r \<Longrightarrow> ends_value (u @ r)"
  by (cases u) (auto simp: ends_value_def dest: num_char_not)

lemma ends_value_Cons: "c \<in> {CHR '','', CHR '']'', CHR ''}''} \<Longrightarrow> ends_value (c # r)"
  by (auto simp: ends_value_def dest: num_char_not)

lemma starts_with_Cons [simp]: "starts_with (c # s) [d] \<longleftrightarrow> c = d" "\<not> starts_with [] [d]"
  by (auto simp: starts_with_def)

lemma read_elems_text:
  assumes "xs \<noteq> []" "\<forall>x\<in>set xs. reads x (txt x)" "ws w1" "ws w2" "ws w3"
    "sum_list (map (\<lambda>x. Suc (json_fuel x)) xs) \<le> f"
  shows "read_elems f acc (w1 @ join_with (CHR '','' # w2) (map txt xs) @ w3 @ CHR '']'' # r) = Some (Arr (acc @ xs), r)"
  using assms
proof (induction xs arbitrary: f acc w1)
  case (Cons x xs)
  obtain f' where f: "f = Suc f'" "json_fuel x \<le> f'" using Cons.prems(6) by (cases f) auto
  have x: "read_value f' (w1 @ txt x @ s) = Some (x, s)" if "ends_value s" for s
    using Cons.prems(2,3) f(2) that by (simp add: reads_def)
  show ?case
  proof (cases xs)
    case Nil
    have "ends_value (w3 @ CHR '']'' # r)" by (intro ends_value_ws Cons.prems(5) ends_value_Cons) simp
    then show ?thesis using x Cons.prems(5) Nil by (simp add: f(1))
  next
    case (Cons y ys)
    let ?rest = "w2 @ join_with (CHR '','' # w2) (map txt xs) @ w3 @ CHR '']'' # r"
    have "ends_value (CHR '','' # ?rest)" by (rule ends_value_Cons) simp
    moreover have "read_elems f' (acc @ [x]) ?rest = Some (Arr ((acc @ [x]) @ xs), r)"
      using Cons.prems Cons f by (intro Cons.IH) auto
    ultimately show ?thesis using x [of "CHR '','' # ?rest"] Cons by (simp add: f(1))
  qed
qed simp

lemma obj_put_new: "k \<notin> fst ` set fs \<Longrightarrow> obj_put fs k v = fs @ [(k, v)]"
  by (induction fs k v rule: obj_put.induct) auto

lemma read_key:
  "ws w1 \<Longrightarrow> \<exists>n. skip_ws (w1 @ json_string k @ s) = CHR 0x22 # n \<and>
     read_string (length (CHR 0x22 # n)) [] n = Some (k, s)"
  using read_json_string [of k _ "[]" s] length_json_string [of k] by (simp add: json_string_def)

lemma read_members_text:
  assumes "fs \<noteq> []" "\<forall>(k, x)\<in>set fs. reads x (txt x)" "ws w1" "ws w2" "ws w3" "ws c"
    "sum_list (map (\<lambda>(k, x). Suc (json_fuel x)) fs) \<le> f" "distinct (map fst (acc @ fs))"
    and mt: "\<And>k x. mt (k, x) = json_string k @ CHR '':'' # c @ txt x"
  shows "read_members f acc (w1 @ join_with (CHR '','' # w2) (map mt fs)
      @ w3 @ CHR ''}'' # r) = Some (Obj (acc @ fs), r)"
  using assms(1-8)
proof (induction fs arbitrary: f acc w1)
  case (Cons kx fs)
  obtain k x where kx: "kx = (k, x)" by (cases kx)
  obtain f' where f: "f = Suc f'" "json_fuel x \<le> f'" using Cons.prems(7) kx by (cases f) auto
  have x: "read_value f' (c @ txt x @ s) = Some (x, s)" if "ends_value s" for s
    using Cons.prems(2,6) f(2) kx that by (simp add: reads_def)
  have new: "obj_put acc k x = acc @ [(k, x)]" using Cons.prems(8) kx by (intro obj_put_new) auto
  show ?case
  proof (cases fs)
    case Nil
    have e: "ends_value (w3 @ CHR ''}'' # r)" by (intro ends_value_ws Cons.prems(5) ends_value_Cons) simp
    obtain n where n: "skip_ws (w1 @ json_string k @ CHR '':'' # c @ txt x @ w3 @ CHR ''}'' # r) = CHR 0x22 # n"
      "read_string (length (CHR 0x22 # n)) [] n = Some (k, CHR '':'' # c @ txt x @ w3 @ CHR ''}'' # r)"
      using read_key [OF Cons.prems(3)] by blast
    show ?thesis using n x [OF e] Cons.prems(5) new Nil kx by (simp add: f(1) Let_def mt)
  next
    case (Cons y ys)
    let ?rest = "w2 @ join_with (CHR '','' # w2) (map mt fs) @ w3 @ CHR ''}'' # r"
    have e: "ends_value (CHR '','' # ?rest)" by (rule ends_value_Cons) simp
    obtain n where n: "skip_ws (w1 @ json_string k @ CHR '':'' # c @ txt x @ CHR '','' # ?rest) = CHR 0x22 # n"
      "read_string (length (CHR 0x22 # n)) [] n = Some (k, CHR '':'' # c @ txt x @ CHR '','' # ?rest)"
      using read_key [OF Cons.prems(3)] by blast
    have "read_members f' (acc @ [(k, x)]) ?rest = Some (Obj ((acc @ [(k, x)]) @ fs), r)"
      using Cons.prems Cons f kx by (intro Cons.IH) auto
    then show ?thesis using n x [OF e] new Cons kx by (simp add: f(1) Let_def mt)
  qed
qed simp

lemma readsI:
  assumes "t \<noteq> []" "\<not> is_json_ws (hd t)"
    and "\<And>f r. json_fuel v \<le> Suc f \<Longrightarrow> ends_value r \<Longrightarrow> read_value (Suc f) (t @ r) = Some (v, r)"
  shows "reads v t"
  unfolding reads_def
proof (intro allI impI)
  fix f u r
  assume "json_fuel v \<le> f" "ws u" "ends_value r"
  moreover have "0 < json_fuel v" by (cases v) simp_all
  ultimately obtain f' where "f = Suc f'" by (cases f) auto
  moreover have "read_value (Suc f') (u @ t @ r) = read_value (Suc f') (t @ r)"
    using \<open>ws u\<close> skip_ws_head [OF assms(1,2)] by simp
  ultimately show "read_value f (u @ t @ r) = Some (v, r)" using assms(3) \<open>json_fuel v \<le> f\<close> \<open>ends_value r\<close> by simp
qed

lemma readsD: "reads v t \<Longrightarrow> json_fuel v \<le> f \<Longrightarrow> ends_value r \<Longrightarrow> read_value f (t @ r) = Some (v, r)"
  unfolding reads_def by (metis append_Nil list.pred_inject(1))

lemma reads_string: "reads (Str s) (json_string s)"
proof (rule readsI)
  fix f r
  show "read_value (Suc f) (json_string s @ r) = Some (Str s, r)"
    using read_json_string [of s _ "[]" r] length_json_string [of s] by (simp add: json_string_def)
qed (simp_all add: json_string_def)

lemma takeWhile_number:
  "list_all is_num_char t \<Longrightarrow> ends_value r \<Longrightarrow> takeWhile is_num_char (t @ r) = t \<and> dropWhile is_num_char (t @ r) = r"
  by (cases r) (auto simp: ends_value_def list_all_iff takeWhile_append dropWhile_append)

lemma reads_number:
  assumes "number_ok n"
  shows "reads (Num n) (num_to_string n)"
proof (rule readsI)
  let ?t = "num_to_string n"
  have t: "?t \<noteq> []" "list_all is_num_char ?t" "json_number ?t = Some n" using assms by (simp_all add: number_ok_def)
  then have h: "is_num_char (hd ?t)" by (cases ?t) simp_all
  note nc = num_char_not [OF h]
  show "?t \<noteq> []" by (fact t(1))
  show "\<not> is_json_ws (hd ?t)" using nc by simp
  fix f r
  assume r: "ends_value r"
  obtain c s where cs: "?t = c # s" using t(1) by (cases ?t) auto
  have "\<not> starts_with (?t @ r) ''true''" "\<not> starts_with (?t @ r) ''false''" "\<not> starts_with (?t @ r) ''null''"
    using nc unfolding cs by (simp_all add: starts_with_def)
  moreover have "skip_ws (?t @ r) = ?t @ r" using skip_ws_head t(1) nc by blast
  ultimately show "read_value (Suc f) (?t @ r) = Some (Num n, r)"
    using takeWhile_number [OF t(2) r] t(3) nc cs by (simp add: Let_def)
qed

lemma ws_colon: "ws (if ind = [] then [] else '' '')"
  by simp

lemma member_text_colon:
  "member_text ind pad (k, x) = json_string k @ CHR '':'' # (if ind = [] then [] else '' '') @ value_text ind pad x"
  by (simp add: member_text_def)

lemma join_with_first: "\<exists>rest. join_with s (x # xs) = x @ rest"
  by (cases xs) auto

lemma first_not_closing:
  assumes "ws u" "xs \<noteq> []" "\<forall>x\<in>set xs. txt x \<noteq> [] \<and> \<not> is_json_ws (hd (txt x)) \<and> hd (txt x) \<noteq> c"
  shows "\<not> starts_with (skip_ws (u @ join_with s (map txt xs) @ r)) [c]"
proof -
  obtain x ys where xs: "xs = x # ys" using assms(2) by (cases xs) auto
  obtain rest where rest: "join_with s (map txt xs) = txt x @ rest" using join_with_first [of s "txt x"] xs by auto
  have x: "txt x \<noteq> []" "\<not> is_json_ws (hd (txt x))" "hd (txt x) \<noteq> c" using assms(3) xs by auto
  have "skip_ws (u @ join_with s (map txt xs) @ r) = txt x @ rest @ r"
    using assms(1) rest skip_ws_head [OF x(1,2)] by simp
  then show ?thesis using x(1,3) by (cases "txt x") simp_all
qed

lemma reads_value_text: "representable v \<Longrightarrow> ws ind \<Longrightarrow> ws pad \<Longrightarrow> reads v (value_text ind pad v)"
proof (induction v arbitrary: pad)
  case (Bool b)
  show ?case by (rule readsI; cases b) (simp_all add: value_text_def starts_with_def)
next
  case Null
  show ?case by (rule readsI) (simp_all add: value_text_def starts_with_def)
next
  case (Num n)
  then show ?case using reads_number [of n] by (simp add: value_text_def number_ok_def)
next
  case (Str s)
  show ?case using reads_string by (simp add: value_text_def)
next
  case (Arr xs)
  have wp: "ws (pad @ ind)" using Arr.prems by simp
  have rep: "\<forall>x\<in>set xs. representable x" using Arr.prems(1) by (simp add: list_all_iff)
  then have el: "\<forall>x\<in>set xs. reads x (value_text ind (pad @ ind) x)" using Arr.IH Arr.prems(2) wp by blast
  have sep: "ws (json_sep ind (pad @ ind))" "ws (json_sep ind pad)" using Arr.prems by simp_all
  show ?case
  proof (rule readsI)
    fix f r
    assume f: "json_fuel (Arr xs) \<le> Suc f"
    show "read_value (Suc f) (value_text ind pad (Arr xs) @ r) = Some (Arr xs, r)"
    proof (cases "xs = []")
      case False
      let ?t = "json_sep ind (pad @ ind) @ join_with (CHR '','' # json_sep ind (pad @ ind)) (map (value_text ind (pad @ ind)) xs)
        @ json_sep ind pad @ CHR '']'' # r"
      have "read_elems f [] ?t = Some (Arr ([] @ xs), r)"
        using f by (intro read_elems_text False el sep) simp
      moreover have "\<not> starts_with (skip_ws ?t) '']''"
        using rep value_text_head by (intro first_not_closing sep False) blast
      ultimately show ?thesis using False by (simp add: value_text_Arr json_block_def Let_def)
    qed (simp add: value_text_Arr json_block_def)
  qed (simp_all add: value_text_Arr json_block_def)
next
  case (Obj fs)
  have rep: "list_all (\<lambda>(k, v). representable v) fs" and dist: "distinct (map fst fs)" using Obj.prems(1) by simp_all
  have wp: "ws (pad @ ind)" using Obj.prems by simp
  have el: "\<forall>(k, x)\<in>set fs. reads x (value_text ind (pad @ ind) x)"
    using Obj.IH rep Obj.prems(2) wp by (fastforce simp: list_all_iff)
  have sep: "ws (json_sep ind (pad @ ind))" "ws (json_sep ind pad)" using Obj.prems by simp_all
  note otext = value_text_Obj [OF rep, of ind pad]
  show ?case
  proof (rule readsI)
    fix f r
    assume f: "json_fuel (Obj fs) \<le> Suc f"
    show "read_value (Suc f) (value_text ind pad (Obj fs) @ r) = Some (Obj fs, r)"
    proof (cases "fs = []")
      case False
      let ?t = "json_sep ind (pad @ ind) @ join_with (CHR '','' # json_sep ind (pad @ ind)) (map (member_text ind (pad @ ind)) fs)
        @ json_sep ind pad @ CHR ''}'' # r"
      have "read_members f [] ?t = Some (Obj ([] @ fs), r)"
        using f dist by (intro read_members_text [OF False el sep(1,1,2) ws_colon _ _ member_text_colon]) simp_all
      moreover have "\<not> starts_with (skip_ws ?t) ''}''"
        by (intro first_not_closing sep False) (auto simp: member_text_def json_string_def)
      ultimately show ?thesis using False by (simp add: otext json_block_def Let_def)
    qed (simp add: value_text_def json_block_def)
  qed (simp_all add: otext json_block_def)
qed simp_all

section \<open>The round trip\<close>

lemma length_join: "xs \<noteq> [] \<Longrightarrow> sum_list (map length xs) + length xs \<le> Suc (length (join_with (c # s) xs))"
  by (induction "c # s" xs rule: join_with.induct) auto

lemma length_block:
  "2 + 2 * sum_list (map length ts) + length ts \<le> 2 * length (json_block ind pad l r ts)"
proof (cases "ts = []")
  case False
  then have "sum_list (map length ts) + length ts \<le> Suc (length (join_with (CHR '','' # json_sep ind (pad @ ind)) ts))"
    by (rule length_join)
  then show ?thesis using False by (simp add: json_block_def)
qed (simp add: json_block_def)

lemma sum_fuel:
  assumes "\<And>x. x \<in> set xs \<Longrightarrow> g x \<le> 2 * length (txt x)"
  shows "sum_list (map (\<lambda>x. Suc (g x)) xs) \<le> 2 * sum_list (map length (map txt xs)) + length xs"
  using assms
proof (induction xs)
  case (Cons x xs)
  then have "g x \<le> 2 * length (txt x)" "sum_list (map (\<lambda>x. Suc (g x)) xs) \<le> 2 * sum_list (map length (map txt xs)) + length xs"
    by auto
  then show ?case by simp
qed simp

lemma json_fuel_text: "representable v \<Longrightarrow> json_fuel v \<le> 2 * length (value_text ind pad v)"
proof (induction v arbitrary: pad)
  case (Arr xs)
  have rep: "\<forall>x\<in>set xs. representable x" using Arr.prems by (simp add: list_all_iff)
  have "sum_list (map (\<lambda>x. Suc (json_fuel x)) xs) \<le>
      2 * sum_list (map length (map (value_text ind (pad @ ind)) xs)) + length (map (value_text ind (pad @ ind)) xs)"
    using sum_fuel [of xs json_fuel "value_text ind (pad @ ind)"] Arr.IH rep by simp
  then show ?case
    using length_block [of "map (value_text ind (pad @ ind)) xs" ind pad "CHR ''[''" "CHR '']''"]
    unfolding value_text_Arr json_fuel.simps by linarith
next
  case (Obj fs)
  have rep: "list_all (\<lambda>(k, v). representable v) fs" using Obj.prems by simp
  have el: "json_fuel (snd p) \<le> 2 * length (member_text ind (pad @ ind) p)" if "p \<in> set fs" for p
  proof -
    have "representable (snd p)" using rep that by (auto simp: list_all_iff)
    then have "json_fuel (snd p) \<le> 2 * length (value_text ind (pad @ ind) (snd p))"
      using Obj.IH [OF that, of "snd p"] by (cases p) simp
    then show ?thesis by (cases p) (simp add: member_text_def)
  qed
  have "sum_list (map (\<lambda>p. Suc (json_fuel (snd p))) fs) \<le>
      2 * sum_list (map length (map (member_text ind (pad @ ind)) fs)) + length (map (member_text ind (pad @ ind)) fs)"
    using sum_fuel [of fs "\<lambda>p. json_fuel (snd p)" "member_text ind (pad @ ind)"] el by simp
  then show ?case
    using length_block [of "map (member_text ind (pad @ ind)) fs" ind pad "CHR ''{''" "CHR ''}''"]
    unfolding value_text_Obj [OF rep] json_fuel.simps case_prod_beta by linarith
qed (use value_text_head in \<open>auto simp: Suc_le_eq\<close>)

lemma json_roundtrip:
  assumes "representable v"
  shows "JSON_parse (JSON_stringify v) = Some v" "JSON_parse (JSON_stringify_2 v) = Some v"
    "ws u \<Longrightarrow> JSON_parse (JSON_stringify_2 v @ u) = Some v"
proof -
  have parse: "JSON_parse (value_text ind [] v @ u) = Some v" if "ws ind" "ws u" for ind u
  proof -
    have "ends_value u" using ends_value_ws [OF that(2), of "[]"] by (simp add: ends_value_def)
    moreover have "json_fuel v \<le> Suc (2 * length (value_text ind [] v @ u))" using json_fuel_text [OF assms, of ind "[]"] by simp
    ultimately have "read_value (Suc (2 * length (value_text ind [] v @ u))) (value_text ind [] v @ u) = Some (v, u)"
      by (intro readsD [OF reads_value_text [OF assms that(1)]]) simp_all
    moreover have "skip_ws u = []" using skip_ws_append [OF that(2), of "[]"] by (simp add: skip_ws_def)
    ultimately show ?thesis by (simp add: JSON_parse_def del: read_value.simps)
  qed
  show "JSON_parse (JSON_stringify v) = Some v" "JSON_parse (JSON_stringify_2 v) = Some v"
    using parse [of "[]" "[]"] parse [of "''  ''" "[]"] assms
    by (simp_all add: JSON_stringify_def JSON_stringify_2_def representable_text)
  show "ws u \<Longrightarrow> JSON_parse (JSON_stringify_2 v @ u) = Some v"
    using parse [of "''  ''" u] assms by (simp add: JSON_stringify_2_def representable_text)
qed

end
