(* ===== verification/WalletProps.thy ===== *)
theory WalletProps
  imports SignerProps JsonProps
begin

text \<open>
  The key files of bound Nexus wallets as a store: an abstract map from key files to bindings, which creating a wallet and
  loading it implement through JSON files.
\<close>

section \<open>The abstract store\<close>

record binding =
  bound_crylo :: jsval
  bound_nexus :: jsval
  bound_key :: jsval

text \<open>A binding is created once and never replaced, and found only under the CryLo address it is bound to.\<close>

definition store_create :: "string \<Rightarrow> binding \<Rightarrow> (string \<rightharpoonup> binding) \<Rightarrow> (string \<rightharpoonup> binding)" where
  "store_create p b m = (if p \<in> dom m then m else m(p \<mapsto> b))"

definition store_find :: "string \<Rightarrow> jsval \<Rightarrow> (string \<rightharpoonup> binding) \<Rightarrow> binding option" where
  "store_find p a m = (case m p of Some b \<Rightarrow> if strict_eq (bound_crylo b) a then Some b else None | None \<Rightarrow> None)"

section \<open>The files\<close>

definition binding_of :: "jsval \<Rightarrow> binding" where
  "binding_of d = \<lparr>bound_crylo = jprop d ''cryloAddress'', bound_nexus = jprop d ''nexusAddress'', bound_key = jprop d ''privateKey''\<rparr>"

definition bindings :: "world \<Rightarrow> (string \<rightharpoonup> binding)" where
  "bindings w p = (case map_of (files w) p of None \<Rightarrow> None | Some t \<Rightarrow> map_option binding_of (JSON_parse t))"

text \<open>Every key file holds a JSON object, and the directory of the wallets exists.\<close>

definition store_ok :: "env \<Rightarrow> world \<Rightarrow> bool" where
  "store_ok E w \<longleftrightarrow> path_join E [getUserDataPath E, WALLET_DIR_NAME] \<in> set (dirs w) \<and>
     (\<forall>n. key_file E n \<notin> set (dirs w)) \<and>
     (\<forall>n t. map_of (files w) (key_file E n) = Some t \<longrightarrow> (\<exists>fs. JSON_parse t = Some (Obj fs)))"

lemma key_file_cases:
  assumes "store_ok E w"
  obtains "map_of (files w) (key_file E n) = None" "bindings w (key_file E n) = None" "\<not> exists_path (key_file E n) w"
  | t fs where "map_of (files w) (key_file E n) = Some t" "JSON_parse t = Some (Obj fs)"
      "bindings w (key_file E n) = Some (binding_of (Obj fs))" "exists_path (key_file E n) w"
proof (cases "map_of (files w) (key_file E n)")
  case None
  then have "bindings w (key_file E n) = None" "\<not> exists_path (key_file E n) w"
    using assms by (auto simp: bindings_def exists_path_def map_of_eq_None_iff [symmetric] store_ok_def)
  then show ?thesis using None that(1) by blast
next
  case (Some t)
  then obtain fs where "JSON_parse t = Some (Obj fs)" using assms unfolding store_ok_def by blast
  moreover have "exists_path (key_file E n) w" using Some by (force simp: exists_path_def dest: map_of_SomeD)
  ultimately show ?thesis using that(2) Some by (simp add: bindings_def)
qed

lemma nexus_file_ok: "store_ok E w \<Longrightarrow> nexus_file n E w = (Ok (key_file E n), w)"
  by (simp add: nexus_file_def getWalletDir_def ensure_dir_def fs_existsSync_def key_file_def bind_def asks_def gets_def
      andthen_def do_if_def ret_def exists_path_def store_ok_def)

section \<open>Loading\<close>

lemmas file_run_defs = bind_def fs_existsSync_def gets_def fs_readFileSync_def parse_text_def ret_def get_prop_def nullish_def
  asks_def lift_outcome_def throw_def try_catch_def

lemma load_refines:
  assumes "store_ok E w" "n \<noteq> []" "a \<noteq> []"
  shows "ipc_nexus_wallet_load (Str n) (Str a) E w =
    (Ok (ok_reply [(''nexusAddress'',
       case store_find (key_file E (Str n)) (Str a) (bindings w) of Some b \<Rightarrow> js_or (bound_nexus b) (Str []) | None \<Rightarrow> Str [])]), w)"
proof (rule key_file_cases [OF assms(1), of "Str n"])
  assume "map_of (files w) (key_file E (Str n)) = None" "bindings w (key_file E (Str n)) = None" "\<not> exists_path (key_file E (Str n)) w"
  then show ?thesis
    using assms(2,3) nexus_file_ok [OF assms(1)]
    by (simp add: ipc_nexus_wallet_load_def with_message_def file_run_defs store_find_def)
next
  fix t fs
  assume "map_of (files w) (key_file E (Str n)) = Some t" "JSON_parse t = Some (Obj fs)"
      "bindings w (key_file E (Str n)) = Some (binding_of (Obj fs))" "exists_path (key_file E (Str n)) w"
  then show ?thesis
    using assms(2,3) nexus_file_ok [OF assms(1)]
    by (simp add: ipc_nexus_wallet_load_def with_message_def file_run_defs store_find_def binding_of_def)
qed

lemma signer_refines:
  assumes "store_ok E w" "n \<noteq> []" "a \<noteq> []"
  shows "fst (loadBoundNexusWallet (Str n) (Str a) E w) = Ok s \<longleftrightarrow>
    (\<exists>b. store_find (key_file E (Str n)) (Str a) (bindings w) = Some b \<and> truthy (bound_key b) \<and> walletAddress E (bound_key b) = Ok s)"
proof (rule key_file_cases [OF assms(1), of "Str n"])
  assume "map_of (files w) (key_file E (Str n)) = None" "bindings w (key_file E (Str n)) = None" "\<not> exists_path (key_file E (Str n)) w"
  then show ?thesis
    using assms(2,3) nexus_file_ok [OF assms(1)] by (simp add: loadBoundNexusWallet_def file_run_defs store_find_def)
next
  fix t fs
  assume "map_of (files w) (key_file E (Str n)) = Some t" "JSON_parse t = Some (Obj fs)"
      "bindings w (key_file E (Str n)) = Some (binding_of (Obj fs))" "exists_path (key_file E (Str n)) w"
  then show ?thesis
    using assms(2,3) nexus_file_ok [OF assms(1)]
    by (simp add: loadBoundNexusWallet_def file_run_defs store_find_def binding_of_def)
qed

section \<open>Creating\<close>

text \<open>Code that runs in between leaves the files alone.\<close>

definition calm_files :: "env \<Rightarrow> bool" where
  "calm_files E \<longleftrightarrow> (\<forall>h v. files (meddle E h v) = files v \<and> dirs (meddle E h v) = dirs v)"

definition files_kept :: "env \<Rightarrow> world \<Rightarrow> world \<Rightarrow> bool" where
  "files_kept E w w' \<longleftrightarrow> calm_files E \<longrightarrow> files w' = files w \<and> dirs w' = dirs w"

interpretation filed: step_order files_kept
  by unfold_locales (auto simp: files_kept_def)

lemma filed_calls [rw_intros]: "runs_within files_kept (sync_call c)" "runs_within files_kept (await_call c)"
  by (auto simp: runs_within_def files_kept_def calm_files_def sync_call_def await_call_def)

lemma register_keeps_files: "runs_within files_kept (registerBoundNexusWallet v)"
  unfolding registerBoundNexusWallet_def parse_text_def by (rule rw_intros | (simp; fail))+

definition key_text_of :: "env \<Rightarrow> jsval \<Rightarrow> string \<Rightarrow> string \<Rightarrow> string \<Rightarrow> string \<Rightarrow> string" where
  "key_text_of E now n a s k = JSON_stringify_2 (Obj
     [(''walletName'', Str n), (''cryloAddress'', Str a), (''nexusAddress'', Str s), (''privateKey'', Str k),
      (''createdAt'', Str (isoTime E now))])"

lemma key_text_parses:
  "\<exists>fs. JSON_parse (key_text_of E now n a s k) = Some (Obj fs) \<and>
     binding_of (Obj fs) = \<lparr>bound_crylo = Str a, bound_nexus = Str s, bound_key = Str k\<rparr>"
  unfolding key_text_of_def by (subst json_roundtrip(2)) (simp_all add: binding_of_def)

text \<open>What the random wallet, the clock and the file system answer when a wallet is created.\<close>

definition creates_key :: "env \<Rightarrow> call list \<Rightarrow> string \<Rightarrow> string \<Rightarrow> string \<Rightarrow> jsval \<Rightarrow> bool" where
  "creates_key E h p s k now \<longleftrightarrow>
     answer E h CreateRandomWallet = Ok (Obj [(''address'', Str s), (''privateKey'', Str k)]) \<and>
     answer E (h @ [CreateRandomWallet]) DateNow = Ok now \<and>
     (\<exists>v. answer E (h @ [CreateRandomWallet, DateNow]) (FsCall ''write'' p) = Ok v)"

lemma create_files:
  assumes "store_ok E w" "n \<noteq> []" "a \<noteq> []" "calm_files E" "creates_key E (trace w) (key_file E (Str n)) s k now"
  shows "files (snd (ipc_nexus_wallet_create (Str n) (Str a) E w)) =
      (if key_file E (Str n) \<in> dom (bindings w) then files w
       else put_assoc (key_file E (Str n)) (key_text_of E now n a s k) (files w)) \<and>
    dirs (snd (ipc_nexus_wallet_create (Str n) (Str a) E w)) = dirs w"
proof -
  have reg: "wp E (registerBoundNexusWallet v) R w'"
    if "\<And>r w''. files w'' = files w' \<Longrightarrow> dirs w'' = dirs w' \<Longrightarrow> R r w''" for v R w'
    using register_keeps_files [of v] that assms(4) by (simp add: runs_within_def files_kept_def wp_run)
  have kfile: "wp E (nexus_file m) R w = R (Ok (key_file E m)) w" for m R
    using nexus_file_ok [OF assms(1), of m] by (simp add: wp_run)
  have "wp E (ipc_nexus_wallet_create (Str n) (Str a)) (\<lambda>_ w'. files w' =
      (if key_file E (Str n) \<in> dom (bindings w) then files w
       else put_assoc (key_file E (Str n)) (key_text_of E now n a s k) (files w)) \<and> dirs w' = dirs w) w"
  proof (rule key_file_cases [OF assms(1), of "Str n"])
    assume none: "bindings w (key_file E (Str n)) = None" "\<not> exists_path (key_file E (Str n)) w"
    show ?thesis
      using assms(2,3,5) none
      by (simp add: ipc_nexus_wallet_create_def with_message_def wp_eval kfile fs_existsSync_def fs_writeFileSync_def
          creates_key_def dom_def)
        (auto simp: wp_eval nullish_def key_text_of_def intro!: reg split: on_ok_split on_throw_split)
  next
    fix t fs
    assume some: "map_of (files w) (key_file E (Str n)) = Some t" "JSON_parse t = Some (Obj fs)"
        "bindings w (key_file E (Str n)) = Some (binding_of (Obj fs))" "exists_path (key_file E (Str n)) w"
    show ?thesis
      using assms(2,3) some
      by (simp add: ipc_nexus_wallet_create_def with_message_def wp_eval kfile fs_existsSync_def fs_readFileSync_def
          parse_text_def dom_def)
        (auto simp: wp_eval intro!: reg split: on_ok_split on_throw_split)
  qed
  then show ?thesis by (simp add: wp_run)
qed

lemma create_refines:
  assumes "store_ok E w" "n \<noteq> []" "a \<noteq> []" "calm_files E" "creates_key E (trace w) (key_file E (Str n)) s k now"
  defines "w' \<equiv> snd (ipc_nexus_wallet_create (Str n) (Str a) E w)"
  shows "store_ok E w' \<and> bindings w' = store_create (key_file E (Str n)) \<lparr>bound_crylo = Str a, bound_nexus = Str s, bound_key = Str k\<rparr> (bindings w)"
proof -
  obtain fs where fs: "JSON_parse (key_text_of E now n a s k) = Some (Obj fs)"
    "binding_of (Obj fs) = \<lparr>bound_crylo = Str a, bound_nexus = Str s, bound_key = Str k\<rparr>"
    using key_text_parses by blast
  note files = create_files [OF assms(1-5), folded w'_def]
  show ?thesis
  proof (cases "key_file E (Str n) \<in> dom (bindings w)")
    case True
    then show ?thesis using files assms(1) by (auto simp: store_ok_def bindings_def store_create_def)
  next
    case False
    then have f: "files w' = put_assoc (key_file E (Str n)) (key_text_of E now n a s k) (files w)" "dirs w' = dirs w" using files by auto
    then have "bindings w' = (bindings w)(key_file E (Str n) \<mapsto> binding_of (Obj fs))" using fs(1) by (auto simp: bindings_def)
    moreover have "store_ok E w'" using assms(1) f fs(1) by (auto simp: store_ok_def)
    ultimately show ?thesis using False fs(2) by (simp add: store_create_def)
  qed
qed

section \<open>Properties\<close>

text \<open>
  C6. Creating a bound wallet and loading it implement the abstract store, in which a binding is created once and found only under its
  CryLo address: from a directory whose key files are JSON objects, creating adds exactly the new binding, or
  nothing when the key file exists; loading replies with the Nexus address of the binding the store finds; and the signer of a
  transaction is the one of the key of that binding. The new binding is read back from the JSON text that was written for it.
\<close>

theorem key_files_refine_store:
  assumes "store_ok E w" "n \<noteq> []" "a \<noteq> []" "calm_files E" "creates_key E (trace w) (key_file E (Str n)) s k now"
  defines "w' \<equiv> snd (ipc_nexus_wallet_create (Str n) (Str a) E w)"
  shows "store_ok E w' \<and>
    bindings w' = store_create (key_file E (Str n)) \<lparr>bound_crylo = Str a, bound_nexus = Str s, bound_key = Str k\<rparr> (bindings w) \<and>
    (\<forall>m c. m \<noteq> [] \<longrightarrow> c \<noteq> [] \<longrightarrow>
      fst (ipc_nexus_wallet_load (Str m) (Str c) E w') = Ok (ok_reply [(''nexusAddress'',
        case store_find (key_file E (Str m)) (Str c) (bindings w') of Some b \<Rightarrow> js_or (bound_nexus b) (Str []) | None \<Rightarrow> Str [])]) \<and>
      (\<forall>t. fst (loadBoundNexusWallet (Str m) (Str c) E w') = Ok t \<longleftrightarrow>
        (\<exists>b. store_find (key_file E (Str m)) (Str c) (bindings w') = Some b \<and> truthy (bound_key b) \<and>
          walletAddress E (bound_key b) = Ok t)))"
  using create_refines [OF assms(1-5), folded w'_def] load_refines [of E w'] signer_refines [of E w'] by auto

fun key_answers :: "call list \<Rightarrow> call \<Rightarrow> jsval outcome" where
  "key_answers h CreateRandomWallet = Ok (Obj [(''address'', Str ''0xN''), (''privateKey'', Str ''K'')])"
| "key_answers h (FetchCall u m v) = Ok (Obj [(''ok'', Bool True)])"
| "key_answers h (FetchBody u) = Ok (Str ''{\"ok\":true}'')"
| "key_answers h c = Ok (Obj [])"

lemma sample_store_ok: "store_ok (sample_env ans) sample_world"
  by (auto simp: store_ok_def sample_world_def key_file_def path_join_def path_sep_def IS_WIN_def getUserDataPath_def
      WALLET_DIR_NAME_def)

theorem key_files_refine_store_witness:
  "fst (ipc_nexus_wallet_load (Str ''alice'') (Str ''C1'') (sample_env key_answers)
     (snd (ipc_nexus_wallet_create (Str ''alice'') (Str ''C1'') (sample_env key_answers) sample_world))) =
   Ok (ok_reply [(''nexusAddress'', Str ''0xN'')])"
proof -
  let ?E = "sample_env key_answers"
  have "creates_key ?E (trace sample_world) (key_file ?E (Str ''alice'')) ''0xN'' ''K'' (Obj [])"
    by (simp add: creates_key_def)
  moreover have "calm_files ?E" by (simp add: calm_files_def)
  moreover have "bindings sample_world p = None" for p by (simp add: bindings_def sample_world_def)
  ultimately show ?thesis
    using key_files_refine_store [OF sample_store_ok, of "''alice''" "''C1''" key_answers "''0xN''" "''K''" "Obj []"]
    by (simp add: store_create_def store_find_def strict_eq_def js_or_def dom_def)
qed


lemma ok_text_parse: "JSON_parse ''{\"ok\":true}'' = Some (Obj [(''ok'', Bool True)])"
  by code_simp

lemma register_ok: "\<exists>w'. registerBoundNexusWallet v (sample_env key_answers) w = (Ok (Obj [(''ok'', Bool True)]), w')"
  by (simp add: registerBoundNexusWallet_def await_call_def ok_text_parse file_run_defs Let_def)


end
