(* ===== verification/PaymentProps.thy ===== *)
theory PaymentProps
  imports BridgeProps Samples
begin

text \<open>
  Amounts on their way from the page to the wallet service: the number in a transfer, the parts of a bridge session,
  and the text of a part.
\<close>

definition transfer_amount :: "jsval \<Rightarrow> jsval" where
  "transfer_amount params = jprop (elem_at (jprop params ''destinations'') 0) ''amount''"

lemma transfer_amount_send [simp]: "transfer_amount (send_params addr t pid note) = Num (string_to_number t)"
  by (simp add: transfer_amount_def send_params_def)

lemma transfer_amount_deposit [simp]: "transfer_amount (deposit_params a t) = Num (string_to_number t)"
  by (simp add: transfer_amount_def deposit_params_def)

lemma round_even_down: "of_int f \<le> y \<Longrightarrow> y \<le> of_int f + 1 / 2 \<Longrightarrow> even f \<Longrightarrow> round_even y = f"
proof -
  assume a: "of_int f \<le> y" "y \<le> of_int f + 1 / 2" "even f"
  then have "\<lfloor>y\<rfloor> = f" by (intro floor_unique) linarith+
  then show ?thesis using a by (simp add: round_even_def Let_def)
qed

lemma first_lost_integer: "round_double 9007199254740993 = 9007199254740992"
proof -
  have "log2_floor 9007199254740993 = 53" by code_simp
  then have u: "ulp_exp 9007199254740993 = 1" by (simp add: ulp_exp_def)
  have "round_even (9007199254740993 / 2) = 4503599627370496" by (rule round_even_down) simp_all
  then show ?thesis by (simp add: round_double_def u)
qed

text \<open>
  C19. The number that sending puts into the transfer is exactly the typed amount in atomic units, as long as that is at most \<open>2 ^ 53\<close>
  units, about 90072 CRYLO.
\<close>

theorem sent_amount_exact:
  assumes "cryloToAtomic (Str s) = Ok t" "decimal_value (trim s) = Some q" "q * 10 ^ 11 \<le> 2 ^ 53"
  shows "transfer_amount (send_params addr t pid note) = Num (Fin (q * 10 ^ 11))"
  using send_amount_exact [OF assms] by simp

theorem sent_amount_exact_witness:
  "transfer_amount (send_params ''A'' ''123'' [] []) = Num (Fin 123)"
proof -
  have "decimal_value (trim ''0.00000000123'') = Some (123 / 10 ^ 11)" by code_simp
  then show ?thesis
    using sent_amount_exact [of "''0.00000000123''" "''123''" "123 / 10 ^ 11" "''A''" "[]" "[]"] cryloToAtomic_fixed_text [of 123]
    by (simp add: sample_amount)
qed


text \<open>
  C18. The loop that splits a typed amount of at most 150 CRYLO ends within three rounds, and the parts add up to the typed amount in
  atomic units, with no rounding error: each part is the double nearest to a number of units of at most 50 CRYLO.
\<close>

theorem bridge_split_exact:
  assumes "string_to_number amount = Fin x" "0 < x" "x \<le> 150"
  shows "\<exists>ks. bridge_chunks 3 (string_to_number amount) = Some (map atomic_num ks) \<and> sum_list ks = fixed_digits 11 x \<and>
    ks \<noteq> [] \<and> length ks \<le> 3 \<and> (\<forall>k\<in>set ks. 0 \<le> k \<and> k \<le> 50 * 10 ^ 11)"
proof -
  have "round_double x = x" using assms(1) by (rule string_to_number_double)
  then show ?thesis using bridge_chunks_sum [of x 3] assms by auto
qed

theorem bridge_split_exact_witness:
  "\<exists>ks. bridge_chunks 3 (string_to_number ''120'') = Some (map atomic_num ks) \<and> sum_list ks = fixed_digits 11 120 \<and>
    ks \<noteq> [] \<and> length ks \<le> 3 \<and> (\<forall>k\<in>set ks. 0 \<le> k \<and> k \<le> 50 * 10 ^ 11)"
proof (rule bridge_split_exact)
  have "int_str 120 = ''120''" by code_simp
  then show "string_to_number ''120'' = Fin 120" using string_to_number_int_str [of 120] rnd_int [of 120] by simp
qed simp_all

text \<open>
  C21. The text that JavaScript writes for a part of at least \<open>10 ^ 5\<close> units (a millionth of a CRYLO) is converted back to
  exactly these units, although the part is a double.
\<close>

theorem chunk_text_roundtrip:
  assumes "10 ^ 5 \<le> k" "k \<le> 50 * 10 ^ 11"
  shows "cryloToAtomic (Str (num_to_string (atomic_num k))) = Ok (int_str k)"
  using amount_text_atomic [of k] assms by simp

theorem chunk_text_roundtrip_witness:
  "cryloToAtomic (Str (num_to_string (atomic_num 123456))) = Ok (int_str 123456)"
  by (rule chunk_text_roundtrip) simp_all

text \<open>
  C22. A part of fewer than \<open>10 ^ 5\<close> units is written with an exponent, which the conversion refuses: such an amount cannot be bridged,
  and a session whose last part is that small fails after the parts before it are paid.
\<close>

theorem small_chunk_refused:
  assumes "0 < k" "k < 10 ^ 5"
  shows "\<exists>e. cryloToAtomic (Str (num_to_string (atomic_num k))) = Throw e"
  using small_amount_refused [OF assms] .

theorem small_chunk_refused_witness:
  "\<exists>e. cryloToAtomic (Str (num_to_string (atomic_num 99999))) = Throw e"
  by (rule small_chunk_refused) simp_all

end
