(* ===== verification/ReplyProps.thy ===== *)
theory ReplyProps
  imports IpcProps NexusProps AmountProps
begin

text \<open>
  What the replies of the main process are: their type on every channel, the list of wallets, and the list of Nexus
  transactions.
\<close>

section \<open>Values a program returns\<close>

definition yields :: "env \<Rightarrow> ('a \<Rightarrow> bool) \<Rightarrow> 'a js \<Rightarrow> bool" where
  "yields E P m \<longleftrightarrow> (\<forall>w v. fst (m E w) = Ok v \<longrightarrow> P v)"

named_theorems yd_intros

lemma yields_bind:
  assumes "yields E Q m" "\<And>x. Q x \<Longrightarrow> yields E P (k x)"
  shows "yields E P (bind m k)"
  unfolding yields_def
proof (intro allI impI)
  fix w v
  assume v: "fst (bind m k E w) = Ok v"
  obtain r w' where m: "m E w = (r, w')" by (cases "m E w")
  then obtain x where "r = Ok x" using v by (cases r) (auto simp: bind_def)
  then show "P v" using assms m v unfolding yields_def by (simp add: bind_def) (metis fst_conv)
qed

lemma yields_any: "yields E (\<lambda>_. True) m"
  by (simp add: yields_def)

lemma yd_bind [yd_intros]: "(\<And>x. yields E P (k x)) \<Longrightarrow> yields E P (bind m k)"
  by (rule yields_bind [OF yields_any])

lemma yd_andthen [yd_intros]: "yields E P k \<Longrightarrow> yields E P (andthen m k)"
  unfolding andthen_def by (rule yd_bind)

lemma yd_ret [yd_intros]: "P x \<Longrightarrow> yields E P (ret x)"
  by (simp add: yields_def ret_def)

lemma yd_throw [yd_intros]: "yields E P (throw e)"
  by (simp add: yields_def throw_def)

lemma yd_try_catch [yd_intros]:
  "yields E P m \<Longrightarrow> (\<And>e. yields E P (h e)) \<Longrightarrow> yields E P (try_catch m h)"
  by (auto simp: yields_def try_catch_def split: prod.splits outcome.splits) (metis fst_conv)+

lemma yd_if [yd_intros]: "(b \<Longrightarrow> yields E P m) \<Longrightarrow> (\<not> b \<Longrightarrow> yields E P n) \<Longrightarrow> yields E P (if b then m else n)"
  by simp

lemma yd_let [yd_intros]: "yields E P (f x) \<Longrightarrow> yields E P (let y = x in f y)"
  by simp

lemma yields_fold_loop:
  "(\<And>x s. x \<in> set xs \<Longrightarrow> Q s \<Longrightarrow> yields E Q (f x s)) \<Longrightarrow> Q s \<Longrightarrow> yields E Q (fold_loop xs s f)"
proof (induction xs arbitrary: s)
  case (Cons x xs)
  show ?case
    unfolding fold_loop.simps by (rule yields_bind [where Q = Q]) (use Cons in auto)
qed (simp add: yd_ret)

section \<open>The type of replies\<close>

definition bridge_channels :: "string list" where
  "bridge_channels = [''bridge-request'', ''bridge-status'', ''bridge-release-status'']"

text \<open>
  A reply is an object whose first member is \<open>ok\<close>: true, or false and followed by the error. What the bridge service sent is
  spread over the successful replies of its channels, so there only the object and its member are certain.
\<close>

fun is_reply :: "jsval \<Rightarrow> bool" where
  "is_reply (Obj ((k, Bool b) # fs)) \<longleftrightarrow> k = ''ok'' \<and> (b \<or> (\<exists>m gs. fs = (''error'', m) # gs))"
| "is_reply _ \<longleftrightarrow> False"

definition is_bridge_reply :: "jsval \<Rightarrow> bool" where
  "is_bridge_reply v \<longleftrightarrow> v = error_reply (jprop v ''error'') \<or> (\<exists>d. v = Obj (obj_spread [(''ok'', Bool True)] d))"

lemma is_reply_intros [simp]: "is_reply (ok_reply fs)" "is_reply (error_reply m)" "is_bridge_reply (error_reply m)"
  "is_bridge_reply (Obj (obj_spread [(''ok'', Bool True)] d))"
  by (auto simp: ok_reply_def error_reply_def is_bridge_reply_def obj_get_def)

lemma yd_frames [yd_intros]:
  "yields E P m \<Longrightarrow> (\<And>m. P (error_reply m)) \<Longrightarrow> yields E P (with_message m)"
  "yields E P m \<Longrightarrow> (\<And>m. P (error_reply m)) \<Longrightarrow> yields E P (with_reason m)"
  unfolding with_message_def with_reason_def by (intro yd_intros; simp)+

lemma yd_tx_reply [yd_intros]: "yields E is_reply (tx_reply tx r fs)"
  unfolding tx_reply_def by (intro yd_intros) simp

lemma yd_handlers [simp]:
  "yields E is_reply (ipc_daemon_rpc a b)" "yields E is_reply (ipc_wallet_rpc a b c)" "yields E is_reply ipc_list_wallets"
  "yields E is_reply (ipc_nexus_wallet_create a b)" "yields E is_reply (ipc_nexus_wallet_load a b)"
  "yields E is_reply (ipc_miner_start a)" "yields E is_reply ipc_miner_stop" "yields E is_reply ipc_miner_get_status"
  "yields E is_reply (ipc_nexus_scan_nfts a)" "yields E is_reply (ipc_nexus_buyback_nft a b c)"
  "yields E is_reply (ipc_nexus_burn_nft a b c)" "yields E is_reply (ipc_nexus_gas_status a)"
  "yields E is_reply (ipc_nexus_transactions a)" "yields E is_reply (ipc_nexus_claim_daily_gas a b)"
  "yields E is_reply (ipc_nexus_buy_gas_wcrylo a b c)" "yields E is_reply (ipc_nexus_wcrylo_balance a)"
  "yields E is_reply (ipc_nexus_staked_balance a)" "yields E is_reply (ipc_nexus_stake_wcrylo a b c)"
  "yields E is_reply (ipc_nexus_pending_rewards a)" "yields E is_reply (ipc_nexus_claim_rewards a b)"
  "yields E is_reply (ipc_nexus_unstake_wcrylo a b c)" "yields E is_reply (ipc_nexus_node_status a)"
  "yields E is_reply (ipc_nexus_register_operator a b)" "yields E is_reply (ipc_nexus_register_validator a b)"
  "yields E is_reply (ipc_nexus_unregister_node a b)" "yields E is_reply (ipc_nexus_claim_node_rewards a b)"
  "yields E is_bridge_reply (ipc_bridge_request a)" "yields E is_bridge_reply (ipc_bridge_status a)"
  "yields E is_bridge_reply (ipc_bridge_release_status a)" "yields E is_reply (ipc_nexus_burn_for_crylo a b c)"
  unfolding frame_handlers bridge_reply_def Let_def
  by (rule yd_intros | (simp add: ok_reply_def; fail))+

lemma handlers_reply:
  "list_all (\<lambda>(ch, h). ch \<in> set unframed_channels \<or>
     (\<forall>args. yields E (if ch \<in> set bridge_channels then is_bridge_reply else is_reply) (h args))) ipc_handlers"
  by (simp add: ipc_handlers_def unframed_channels_def bridge_channels_def)



section \<open>The list of wallets\<close>

lemma str_less_irrefl [simp]: "\<not> str_less s s"
  by (induction s) auto

lemma str_less_linear: "str_less s t \<or> s = t \<or> str_less t s"
proof (induction s t rule: str_less.induct)
  case (1 s)
  then show ?case by (cases s) auto
next
  case (3 x xs y ys)
  then show ?case by (cases "(of_char x :: nat) < of_char y"; cases "(of_char y :: nat) < of_char x") (auto simp: of_char_eq_iff)
qed auto

lemma str_less_trans: "str_less s t \<Longrightarrow> str_less t u \<Longrightarrow> str_less s u"
proof (induction s t arbitrary: u rule: str_less.induct)
  case (2 y ys)
  then show ?case by (cases u) auto
next
  case (3 x xs y ys)
  then show ?case by (cases u) auto
qed simp

lemma js_sort_str: "sorted_wrt (\<lambda>a b. \<not> str_less b a) (js_sort str_cmp xs)"
proof (rule js_sort_sorted_wrt)
  show "\<not> str_less y x" if "\<not> Fin 0 < str_cmp x y" for x y
  proof
    assume "str_less y x"
    moreover have "\<not> str_less x y" using calculation str_less_trans str_less_irrefl by blast
    ultimately show False using that by (simp add: str_cmp_def)
  qed
  show "\<not> str_less x y" if "Fin 0 < str_cmp x y" for x y
    using that by (simp add: str_cmp_def split: if_splits)
  show "\<not> str_less z x" if "\<not> str_less y x" "\<not> str_less z y" for x y z
    using that str_less_linear [of y z] str_less_trans [of y z x] by blast
qed

lemma join_two: "path_join E [a, b] = a @ path_sep E @ b"
  by (simp add: path_join_def)

lemma starts_with_iff: "starts_with p q \<longleftrightarrow> (\<exists>r. p = q @ r)"
  unfolding starts_with_def by (metis append_eq_conv_conj append_take_drop_id)

lemma dir_entry_iff:
  "f \<in> set (dir_entries E dir w) \<longleftrightarrow> exists_path (path_join E [dir, f]) w \<and> \<not> str_includes f (path_sep E)"
proof -
  define pre where "pre = dir @ path_sep E"
  have pick: "starts_with p pre \<and> f = drop (length pre) p \<longleftrightarrow> p = pre @ f" for p by (auto simp: starts_with_iff)
  have "f \<in> set (dir_entries E dir w) \<longleftrightarrow> \<not> str_includes f (path_sep E) \<and>
      (\<exists>p \<in> set (map fst (files w) @ dirs w). starts_with p pre \<and> f = drop (length pre) p)"
    unfolding dir_entries_def Let_def pre_def [symmetric] by auto
  also have "(\<exists>p \<in> set (map fst (files w) @ dirs w). starts_with p pre \<and> f = drop (length pre) p) \<longleftrightarrow>
      pre @ f \<in> set (map fst (files w) @ dirs w)"
    by (simp only: pick bex_triv_one_point1)
  finally show ?thesis by (auto simp: exists_path_def join_two pre_def)
qed

text \<open>
  C31. The list of wallets: when the wallet directory exists, the reply lists, in order of their names, exactly the files of that
  directory that have a key file beside them and are not themselves a key file, an address file or a lock.
\<close>

theorem list_wallets_exact:
  assumes "path_join E [getUserDataPath E, WALLET_DIR_NAME] \<in> set (dirs w)"
  shows "\<exists>names. fst (ipc_list_wallets E w) = Ok (ok_reply [(''wallets'', Arr (map Str names))]) \<and>
    sorted_wrt (\<lambda>a b. \<not> str_less b a) names \<and>
    set names = {f. path_join E [path_join E [getUserDataPath E, WALLET_DIR_NAME], f] \<in> fst ` set (files w) \<and>
      exists_path (path_join E [path_join E [getUserDataPath E, WALLET_DIR_NAME], f @ ''.keys'']) w \<and>
      \<not> str_includes f (path_sep E) \<and> \<not> ends_with f ''.keys'' \<and> \<not> ends_with f ''.address.txt'' \<and> \<not> ends_with f ''.lock''}"
proof -
  let ?dir = "path_join E [getUserDataPath E, WALLET_DIR_NAME]"
  let ?names = "js_sort str_cmp (filter (is_wallet_file E w ?dir) (dir_entries E ?dir w))"
  have "fst (ipc_list_wallets E w) = Ok (ok_reply [(''wallets'', Arr (map Str ?names))])"
    using assms
    by (simp add: ipc_list_wallets_def with_message_def try_catch_def bind_def getWalletDir_def ensure_dir_def asks_def
        fs_existsSync_def gets_def exists_path_def andthen_def do_if_def ret_def Let_def)
  moreover have "set ?names = {f. path_join E [?dir, f] \<in> fst ` set (files w) \<and> exists_path (path_join E [?dir, f @ ''.keys'']) w \<and>
      \<not> str_includes f (path_sep E) \<and> \<not> ends_with f ''.keys'' \<and> \<not> ends_with f ''.address.txt'' \<and> \<not> ends_with f ''.lock''}"
    by (auto simp: dir_entry_iff is_wallet_file_def Let_def) (force simp: exists_path_def)
  ultimately show ?thesis using js_sort_str by blast
qed

theorem list_wallets_exact_witness:
  "\<exists>names. fst (ipc_list_wallets (sample_env (\<lambda>h c. Throw Undefined)) (sample_world\<lparr>files :=
      [(''/data/wallets/zoe'', []), (''/data/wallets/zoe.keys'', []), (''/data/wallets/stray'', [])]\<rparr>)) =
      Ok (ok_reply [(''wallets'', Arr (map Str names))]) \<and> ''zoe'' \<in> set names \<and> ''stray'' \<notin> set names"
proof -
  let ?E = "sample_env (\<lambda>h c. Throw Undefined)"
  let ?w = "sample_world\<lparr>files := [(''/data/wallets/zoe'', []), (''/data/wallets/zoe.keys'', []), (''/data/wallets/stray'', [])]\<rparr>"
  have sep: "path_sep ?E = ''/''" by (simp add: path_sep_def IS_WIN_def sample_env_def)
  have dir: "path_join ?E [getUserDataPath ?E, WALLET_DIR_NAME] = ''/data/wallets''"
    by (simp add: path_join_def sep getUserDataPath_def WALLET_DIR_NAME_def) (simp add: sample_env_def)
  have "path_join ?E [getUserDataPath ?E, WALLET_DIR_NAME] \<in> set (dirs ?w)" by (simp add: dir sample_world_def)
  from list_wallets_exact [OF this, unfolded dir, unfolded join_two sep] obtain names where
    ok: "fst (ipc_list_wallets ?E ?w) = Ok (ok_reply [(''wallets'', Arr (map Str names))])" and
    names: "f \<in> set names \<longleftrightarrow> ''/data/wallets'' @ ''/'' @ f \<in> fst ` set (files ?w) \<and>
      exists_path (''/data/wallets'' @ ''/'' @ f @ ''.keys'') ?w \<and> \<not> str_includes f ''/'' \<and>
      \<not> ends_with f ''.keys'' \<and> \<not> ends_with f ''.address.txt'' \<and> \<not> ends_with f ''.lock''" for f
    by (elim exE conjE) (rule that, assumption, simp only: mem_Collect_eq)
  have "''zoe'' \<in> set names" "''stray'' \<notin> set names"
    unfolding names by (simp_all add: exists_path_def sample_world_def ends_with_def starts_with_def)
  then show ?thesis using ok by blast
qed

section \<open>The list of Nexus transactions\<close>

text \<open>The block number of a log or of an entry of the list: what ethers documents is an integer.\<close>

definition block_of :: "jsval \<Rightarrow> rat" where
  "block_of t = (case jprop t ''blockNumber'' of Num (Fin q) \<Rightarrow> q | _ \<Rightarrow> 0)"

definition has_block :: "jsval \<Rightarrow> bool" where
  "has_block t \<longleftrightarrow> (\<exists>k. 0 \<le> k \<and> k \<le> 2 ^ 53 \<and> jprop t ''blockNumber'' = jint k)"

definition numbered_logs :: "env \<Rightarrow> bool" where
  "numbered_logs E \<longleftrightarrow> (\<forall>h f ls. answer E h (ProviderCall ''getLogs'' [f]) = Ok (Arr ls) \<longrightarrow> list_all has_block ls)"

lemma yields_await: "(\<And>h v. answer E h c = Ok v \<Longrightarrow> P v) \<Longrightarrow> yields E P (await_call c)"
  by (simp add: yields_def await_call_def)

lemma yields_get_prop: "P (jprop v k) \<Longrightarrow> yields E P (get_prop v k)"
  by (simp add: yields_def get_prop_def ret_def throw_def)

lemma yields_safeLogs:
  assumes "numbered_logs E" "list_all (\<lambda>i. has_block (li_log i)) logs"
  shows "yields E (list_all (\<lambda>i. has_block (li_log i))) (safeLogs f parser label logs)"
  unfolding safeLogs_def
proof (intro yd_try_catch yd_ret assms(2))
  show "yields E (list_all (\<lambda>i. has_block (li_log i))) (bind (await_call (ProviderCall ''getLogs'' [f]))
      (\<lambda>got. bind (js_items got) (\<lambda>ls. fold_loop ls logs (push_log parser label))))"
  proof (rule yields_bind)
    show "yields E (\<lambda>got. \<forall>ls. got = Arr ls \<longrightarrow> list_all has_block ls) (await_call (ProviderCall ''getLogs'' [f]))"
      using assms(1) by (intro yields_await) (auto simp: numbered_logs_def)
    fix got
    assume got: "\<forall>ls. got = Arr ls \<longrightarrow> list_all has_block ls"
    show "yields E (list_all (\<lambda>i. has_block (li_log i))) (bind (js_items got) (\<lambda>ls. fold_loop ls logs (push_log parser label)))"
    proof (rule yields_bind)
      show "yields E (list_all has_block) (js_items got)" using got by (cases got) (simp_all add: yd_intros)
      show "yields E (list_all (\<lambda>i. has_block (li_log i))) (fold_loop ls logs (push_log parser label))" if "list_all has_block ls" for ls
        using that assms(2) unfolding push_log_def
        by (intro yields_fold_loop yd_intros) (auto simp: list_all_iff)
    qed
  qed
qed

lemma yields_tx_entry:
  assumes "has_block (li_log i)" "list_all has_block txs"
  shows "yields E (list_all has_block) (tx_entry i txs)"
  unfolding tx_entry_def
proof (rule yields_bind)
  show "yields E (\<lambda>bn. bn = jprop (li_log i) ''blockNumber'') (get_prop (li_log i) ''blockNumber'')"
    by (rule yields_get_prop) simp
qed (intro yd_intros; use assms in \<open>simp add: has_block_def obj_get_def\<close>)

lemma sorted_by_block:
  assumes "list_all has_block txs"
  shows "sorted_wrt (\<lambda>a b. block_of b \<le> block_of a) (js_sort by_block_desc txs)"
proof -
  have cmp: "Fin 0 < by_block_desc a b \<longleftrightarrow> block_of a < block_of b" if ab: "a \<in> set txs" "b \<in> set txs" for a b
  proof -
    obtain i j where ij: "0 \<le> i" "i \<le> 2 ^ 53" "jprop a ''blockNumber'' = jint i" "0 \<le> j" "j \<le> 2 ^ 53" "jprop b ''blockNumber'' = jint j"
      using assms ab unfolding list_all_iff has_block_def by blast
    then have "by_block_desc a b = rnd (of_int (j - i))" by (simp add: by_block_desc_def minus_jsnum_def)
    also have "\<dots> = Fin (of_int (j - i))" using ij by (intro rnd_int) simp
    finally show ?thesis using ij by (simp add: block_of_def)
  qed
  show ?thesis by (rule js_sort_sorted_wrt) (use cmp in auto)
qed


text \<open>A provider at block 7 that finds one transfer of the user, and none of the other events.\<close>

definition chain_answer :: "call list \<Rightarrow> call \<Rightarrow> jsval outcome" where
  "chain_answer h c =
     (if c = ProviderCall ''getBlockNumber'' [] then Ok (jint 7)
      else case c of ProviderCall m args \<Rightarrow>
          if m = ''getLogs'' \<and> h = [ProviderCall ''getBlockNumber'' []] 
          then Ok (Arr [Obj [(''blockNumber'', jint 5), (''name'', Str ''Transfer''), (''args'', Obj [(''value'', Big 1)])]])
          else Ok (Arr [])
        | _ \<Rightarrow> Ok Null)"


end
