(* ===== verification/IntText.thy ===== *)
theory IntText
  imports NumberText
begin

text \<open>
  The text of an integer: String(k) of an integer below \<open>2 ^ 53\<close> is its decimal digits.
\<close>

lemma digit_char_zero [simp]: "digit_char 0 = CHR ''0''"
  by code_simp

lemma digits_of_times_ten: "0 < s \<Longrightarrow> digits_of (s * 10 ^ e) = digits_of s @ zeros e"
proof (induction e)
  case (Suc e)
  define m where "m = s * 10 ^ e"
  have m: "s * 10 ^ Suc e = 10 * m" by (simp add: m_def)
  have "0 < m" using Suc.prems by (simp add: m_def)
  then have "digits_of (10 * m) = digits_of m @ ''0''" by (simp add: digits_of.simps [of "10 * m"])
  then show ?case unfolding m using Suc by (simp add: m_def zeros_def replicate_append_same)
qed (simp add: zeros_def)

lemma digits_of_upper: "0 \<le> n \<Longrightarrow> n < 10 ^ length (digits_of n)"
proof (induction n rule: digits_of.induct)
  case (1 n)
  show ?case
  proof (cases "n < 10")
    case False
    then have "n div 10 < 10 ^ length (digits_of (n div 10))" using 1 by simp
    then show ?thesis using False by (simp add: digits_of.simps [of n])
  qed (use 1 in \<open>simp add: digits_of.simps [of n]\<close>)
qed

lemma round_double_int_eq:
  assumes "0 \<le> k" "k < 2 ^ 53"
  shows "round_double (of_int m) = of_int k \<longleftrightarrow> m = k"
proof
  assume r: "round_double (of_int m) = of_int k"
  show "m = k"
  proof (cases "\<bar>m\<bar> \<le> 2 ^ 53")
    case False
    then consider "2 ^ 53 \<le> m" | "m \<le> - (2 ^ 53)" by linarith
    then show ?thesis
    proof cases
      case 1
      then have "of_int (2 ^ 53) \<le> round_double (of_int m)" by (intro dbl.r_lower round_double_of_int) (simp_all only: of_int_le_iff, simp)
      then have "2 ^ 53 \<le> k" unfolding r of_int_le_iff .
      then show ?thesis using assms by simp
    next
      case 2
      then have "round_double (of_int m) \<le> of_int (- (2 ^ 53))" by (intro dbl.r_upper round_double_of_int) (simp_all only: of_int_le_iff, simp)
      then have "k \<le> - (2 ^ 53)" unfolding r of_int_le_iff .
      then show ?thesis using assms by simp
    qed
  qed (use r in simp)
qed (use assms in simp)

lemma digit_candidate_int:
  assumes k: "0 < k" "k < 2 ^ 53" and j: "j \<le> n"
  shows "digit_candidate (of_int k) (int n) j = Some s \<longleftrightarrow> s * 10 ^ (n - j) = k"
proof -
  define y where "y = (of_int k * 10 powi (int j - int n) :: rat)"
  define good where "good = (\<lambda>s. round_double (of_int s * 10 powi (int n - int j)) = (of_int k :: rat))"
  have p: "(10 :: rat) powi (int n - int j) = of_int (10 ^ (n - j))" using j by (simp add: power_int_def nat_diff_distrib)
  have good: "good t \<longleftrightarrow> t * 10 ^ (n - j) = k" for t
    unfolding good_def p of_int_mult [symmetric] using k by (intro round_double_int_eq) simp_all
  have inv: "(10 :: rat) powi (int j - int n) * 10 powi (int n - int j) = 1" by (simp flip: power_int_add)
  have y: "y = of_int t" if "t * 10 ^ (n - j) = k" for t
  proof -
    have "y = of_int t * (10 powi (int n - int j) * 10 powi (int j - int n))"
      unfolding y_def that [symmetric] of_int_mult p [symmetric] by (simp add: ac_simps)
    then show ?thesis using inv by (simp add: mult.commute)
  qed
  have cand: "digit_candidate (of_int k) (int n) j =
    (if good \<lfloor>y\<rfloor> \<and> (\<not> good \<lceil>y\<rceil> \<or> y - of_int \<lfloor>y\<rfloor> \<le> of_int \<lceil>y\<rceil> - y) then Some \<lfloor>y\<rfloor>
     else if good \<lceil>y\<rceil> then Some \<lceil>y\<rceil> else None)"
    by (simp add: digit_candidate_def y_def good_def Let_def)
  show ?thesis
  proof
    assume "digit_candidate (of_int k) (int n) j = Some s"
    then have "good s" unfolding cand by (auto split: if_splits)
    then show "s * 10 ^ (n - j) = k" unfolding good .
  next
    assume s: "s * 10 ^ (n - j) = k"
    then show "digit_candidate (of_int k) (int n) j = Some s" unfolding cand using good [of s] y [OF s] by simp
  qed
qed

lemma shortest_int:
  assumes k: "0 < k" "k < 2 ^ 53" and j: "1 \<le> j" "j \<le> n" "n < j + f"
  shows "\<exists>s j'. shortest_digits f (of_int k) (int n) j = (s, j') \<and> 1 \<le> j' \<and> j' \<le> n \<and> s * 10 ^ (n - j') = k"
  using j
proof (induction f arbitrary: j)
  case (Suc f)
  note cand = digit_candidate_int [OF k Suc.prems(2)]
  show ?case
  proof (cases "digit_candidate (of_int k) (int n) j")
    case None
    then have "j \<noteq> n" using cand [of k] by auto
    then have "\<exists>s j'. shortest_digits f (of_int k) (int n) (Suc j) = (s, j') \<and> 1 \<le> j' \<and> j' \<le> n \<and> s * 10 ^ (n - j') = k"
      using Suc.prems by (intro Suc.IH) simp_all
    then show ?thesis using None by simp
  next
    case (Some s)
    then have "s * 10 ^ (n - j) = k" using cand by blast
    then show ?thesis using Some Suc.prems by (intro exI [of _ s] exI [of _ j]) simp
  qed
qed simp

lemma num_to_string_int:
  assumes "0 \<le> k" "k < 2 ^ 53"
  shows "num_to_string (Fin (of_int k)) = int_str k"
proof (cases "k = 0")
  case True
  then show ?thesis by (simp add: int_str_def digits_of.simps)
next
  case False
  define n where "n = length (digits_of k)"
  have k: "0 < k" "k < 2 ^ 53" using assms False by simp_all
  have lo: "10 ^ (n - 1) \<le> k" and hi: "k < 10 ^ n" unfolding n_def using k digits_of_lower digits_of_upper by simp_all
  have n1: "1 \<le> n" using k by (simp add: n_def Suc_le_eq)
  have n17: "n \<le> 16"
  proof (rule ccontr)
    assume "\<not> n \<le> 16"
    then have "(10 :: int) ^ 16 \<le> 10 ^ (n - 1)" by (intro power_increasing) simp_all
    then show False using lo k(2) by simp
  qed
  have dec: "dec_exp (of_int k) = int n" using k(1) by (simp add: dec_exp_def n_def)
  obtain s j where sj: "shortest_digits 17 (of_int k) (int n) 1 = (s, j)" "1 \<le> j" "j \<le> n" "s * 10 ^ (n - j) = k"
    using shortest_int [OF k, of 1 n 17] n1 n17 by auto
  have s0: "0 < s" using sj(4) k(1) by (metis zero_less_mult_pos2 zero_less_power zero_less_numeral)
  have n_split: "n = j + (n - j)" "n - 1 = (j - 1) + (n - j)" using sj(2,3) by simp_all
  have "s * 10 ^ (n - j) < 10 ^ j * 10 ^ (n - j)" using hi sj(4) n_split(1) by (metis power_add)
  then have lt: "s < 10 ^ j" by simp
  have "10 ^ (j - 1) * 10 ^ (n - j) \<le> s * 10 ^ (n - j)" using lo sj(4) n_split(2) by (metis power_add)
  then have ge: "10 ^ (j - 1) \<le> s" by simp
  have len: "length (digits_of s) = j" using length_digits_of [OF s0 ge] lt sj(2) by simp
  have "positive_text (of_int k) = decimal_text (digits_of s) (int n)"
    unfolding positive_text_def dec Let_def sj(1) using lt by simp
  also have "\<dots> = digits_of s @ zeros (n - j)" using len sj(3) n17 by (simp add: decimal_text_def Let_def nat_diff_distrib)
  also have "\<dots> = digits_of k" using digits_of_times_ten [OF s0, of "n - j"] sj(4) by simp
  finally show ?thesis using k by (simp add: int_str_def)
qed

end
