(* ===== verification/DisplayProps.thy ===== *)
theory DisplayProps
  imports IntText Samples AppSetup
begin

text \<open>
  Numbers the page shows: durations, the amounts of the vesting table, and the amount that the button for the whole
  balance fills in. The code computes them with doubles; here they are compared with exact integers.
\<close>

section \<open>Arithmetic of integers in doubles\<close>

lemma int_div_floor:
  assumes "0 \<le> s" "s \<le> 2 ^ 40" "0 < d" "d \<le> 2 ^ 20"
  shows "math_floor (Fin (of_int s) div Fin (of_int d)) = Fin (of_int (s div d))"
proof -
  define q where "q = (of_int s / of_int d :: rat)"
  have d: "0 < (of_int d :: rat)" using assms(3) by simp
  have q0: "0 \<le> q" using assms by (simp add: q_def)
  have fl: "\<lfloor>q\<rfloor> = s div d" by (simp add: q_def floor_divide_of_int_eq)
  have k: "0 \<le> s div d" "s div d \<le> 2 ^ 40" using assms zdiv_mono2 [of s 1 d] by (simp_all add: pos_imp_zdiv_nonneg_iff)
  have lo: "of_int (s div d) \<le> round_double q"
    using k fl of_int_floor_le [of q] by (intro dbl.r_lower round_double_of_int) simp_all
  have gap: "q \<le> of_int (s div d) + 1 - 1 / of_int d"
  proof -
    have "s mod d \<le> d - 1" using assms(3) by simp
    then have "s \<le> s div d * d + (d - 1)" using div_mult_mod_eq [of s d] by linarith
    then have "(of_int s :: rat) \<le> of_int (s div d * d + (d - 1))" by (simp only: of_int_le_iff)
    then show ?thesis using d by (simp add: q_def field_simps)
  qed
  have hi: "round_double q < of_int (s div d) + 1"
  proof (cases "q = 0")
    case False
    have "0 < s" using False assms(1) by (auto simp: q_def le_less)
    then have "1 / of_int d \<le> q" using d by (simp add: q_def divide_right_mono)
    moreover have "(2 :: rat) powi (- 20) \<le> 1 / of_int d"
      using assms(3,4) d by (simp add: power_int_minus field_simps)
    moreover have "(2 :: rat) powi (- 1022) \<le> 2 powi (- 20)" by (rule powi_two_mono) simp
    ultimately have "2 powi (- 1022) \<le> \<bar>q\<bar>" using q0 by linarith
    then have "\<bar>round_double q - q\<bar> \<le> q * 2 powi (- 53)" using round_double_rel_error [of q] q0 by simp
    moreover have "q * 2 powi (- 53) < 1 / of_int d"
    proof -
      have "s < 2 ^ 53" using assms(2) by simp
      then have "rat_of_int s < of_int (2 ^ 53)" by (simp only: of_int_less_iff)
      then show ?thesis using d by (simp add: q_def power_int_minus field_simps)
    qed
    ultimately show ?thesis using gap by linarith
  qed (use k in simp)
  have "\<lfloor>round_double q\<rfloor> = s div d" using lo hi by (intro floor_unique)
  moreover have "rnd q = Fin (round_double q)"
  proof (rule rnd_small)
    have "0 < 1 / (of_int d :: rat)" using d by simp
    then have "q \<le> of_int (s div d) + 1" using gap by linarith
    also have "\<dots> = of_int (s div d + 1)" by simp
    also have "\<dots> \<le> of_int (2 ^ 41)" by (rule of_int_le_iff [THEN iffD2]) (use k(2) in simp)
    also have "\<dots> = 2 powi 41" by simp
    also have "\<dots> \<le> (2 :: rat) powi 1000" by (rule powi_two_mono) simp
    finally show "\<bar>q\<bar> \<le> 2 powi 1000" using q0 by simp
  qed
  ultimately show ?thesis using assms(3) by (simp add: q_def)
qed

lemma int_rem:
  assumes "0 \<le> s" "0 < d"
  shows "js_rem (Fin (of_int s)) (Fin (of_int d)) = Fin (of_int (s mod d))"
  using assms by (simp add: floor_divide_of_int_eq minus_mult_div_eq_mod [symmetric])

section \<open>Durations\<close>

text \<open>
  C34. Durations: a whole number of seconds, up to more than thirty thousand years, is shown by its days and hours, its hours and minutes, its
  minutes, or its seconds, the first of these that is not zero; the divisions of doubles give the digits of the mixed radix.
\<close>

theorem fmtDuration_mixed_radix:
  assumes "0 \<le> d" "0 \<le> h" "h < 24" "0 \<le> m" "m < 60" "0 \<le> r" "r < 60" "86400 * d + 3600 * h + 60 * m + r \<le> 2 ^ 40"
  shows "fmtDuration (jint (86400 * d + 3600 * h + 60 * m + r)) =
    (if 0 < d then int_str d @ ''d '' @ int_str h @ ''h''
     else if 0 < h then int_str h @ ''h '' @ int_str m @ ''m''
     else if 0 < m then int_str m @ ''m'' else int_str r @ ''s'')"
proof -
  define s where "s = 86400 * d + 3600 * h + 60 * m + r"
  have s: "0 \<le> s" "s \<le> 2 ^ 40" using assms by (simp_all add: s_def)
  have parts: "s div 86400 = d" "s mod 86400 div 3600 = h" "s mod 3600 div 60 = m"
  proof -
    have "s div 86400 = d" by (rule int_div_pos_eq [of _ _ _ "3600 * h + (60 * m + r)"]) (use assms in \<open>simp_all add: s_def\<close>)
    moreover have "s mod 86400 = 3600 * h + (60 * m + r)" by (rule int_mod_pos_eq [of _ _ d]) (use assms in \<open>simp_all add: s_def\<close>)
    moreover have "s mod 3600 = 60 * m + r" by (rule int_mod_pos_eq [of _ _ "24 * d + h"]) (use assms in \<open>simp_all add: s_def\<close>)
    moreover have "(3600 * h + (60 * m + r)) div 3600 = h" by (rule int_div_pos_eq [of _ _ _ "60 * m + r"]) (use assms in simp_all)
    moreover have "(60 * m + r) div 60 = m" by (rule int_div_pos_eq [of _ _ _ r]) (use assms in simp_all)
    ultimately show "s div 86400 = d" "s mod 86400 div 3600 = h" "s mod 3600 div 60 = m" by simp_all
  qed
  have mods: "0 \<le> s mod 86400" "s mod 86400 \<le> 2 ^ 40" "0 \<le> s mod 3600" "s mod 3600 \<le> 2 ^ 40"
    using s zmod_le_nonneg_dividend [of s 86400] zmod_le_nonneg_dividend [of s 3600] by linarith+
  have days: "math_floor (Fin (of_int s) div Fin 86400) = Fin (of_int d)"
    using int_div_floor [OF s, of 86400] unfolding parts(1) by simp
  have hours: "math_floor (js_rem (Fin (of_int s)) (Fin 86400) div Fin 3600) = Fin (of_int h)"
    using int_div_floor [OF mods(1,2), of 3600] int_rem [OF s(1), of 86400] unfolding parts(2) by simp
  have minutes: "math_floor (js_rem (Fin (of_int s)) (Fin 3600) div Fin 60) = Fin (of_int m)"
    using int_div_floor [OF mods(3,4), of 60] int_rem [OF s(1), of 3600] unfolding parts(3) by simp
  have d: "d < 2 ^ 53" using assms by simp
  have digits: "num_to_string (Fin (of_int d)) = int_str d" "num_to_string (Fin (of_int h)) = int_str h"
    "num_to_string (Fin (of_int m)) = int_str m" "num_to_string (Fin (of_int s)) = int_str s"
    by (rule num_to_string_int; use assms s d in simp)+
  have "math_max (Fin 0) (num_or_zero (jint s)) = Fin (of_int s)" using s by (simp add: math_max_def num_or_zero_def)
  then have "fmtDuration (jint s) = (if 0 < d then int_str d @ ''d '' @ int_str h @ ''h''
     else if 0 < h then int_str h @ ''h '' @ int_str m @ ''m'' else if 0 < m then int_str m @ ''m'' else int_str s @ ''s'')"
    unfolding fmtDuration_def Let_def by (simp only: days hours minutes) (simp add: digits del: num_to_string.simps)
  moreover have "s = r" if "\<not> 0 < d" "\<not> 0 < h" "\<not> 0 < m" using that assms by (simp add: s_def)
  ultimately show ?thesis unfolding s_def [symmetric] by simp
qed

theorem fmtDuration_mixed_radix_witness: "fmtDuration (jint 93784) = ''1d 2h''"
proof -
  have "int_str 1 = ''1''" "int_str 2 = ''2''" by code_simp+
  then show ?thesis using fmtDuration_mixed_radix [of 1 2 3 4] by simp
qed

section \<open>Vesting\<close>

text \<open>A mined block of the wallet service: its reward \<open>n\<close> in atomic units and its height \<open>h\<close>.\<close>

definition mined_block :: "jsval \<Rightarrow> int \<times> int \<Rightarrow> bool" where
  "mined_block tx b \<longleftrightarrow> (case b of (n, h) \<Rightarrow> jprop tx ''amount'' = jint n \<and> jprop tx ''height'' = jint h \<and>
     0 \<le> n \<and> n \<le> 2 ^ 53 \<and> 0 < h \<and> h \<le> 2 ^ 52)"

lemma half_amount:
  assumes "0 \<le> n" "n \<le> 2 ^ 53"
  shows "math_floor (Fin (of_int n) div Fin 2) = Fin (of_int (n div 2))"
    "Fin (of_int n) - Fin (of_int (n div 2)) = Fin (of_int (n - n div 2))"
proof -
  have "(of_int n / 2 :: rat) = of_int n * 2 powi (- 1)" by simp
  then have r: "round_double (of_int n / 2) = of_int n / 2" using assms by (intro round_double_exact [of _ n "- 1"]) simp_all
  have "(of_int n :: rat) \<le> of_int (2 ^ 53)" using assms(2) by (simp only: of_int_le_iff)
  then have "\<bar>of_int n / 2 :: rat\<bar> \<le> 2 powi 53" using assms(1) by simp
  also have "\<dots> \<le> (2 :: rat) powi 1000" by (rule powi_two_mono) simp
  finally have "rnd (of_int n / 2) = Fin (of_int n / 2)" using r by (simp add: rnd_small)
  then show "math_floor (Fin (of_int n) div Fin 2) = Fin (of_int (n div 2))"
    using floor_divide_of_int_eq [of n 2, where ?'a = rat] by simp
  have "\<bar>n - n div 2\<bar> \<le> 2 ^ 53" using assms by linarith
  then show "Fin (of_int n) - Fin (of_int (n div 2)) = Fin (of_int (n - n div 2))"
    using rnd_int [of "n - n div 2"] by (simp add: minus_jsnum_def)
qed

lemma tiers_of_block:
  assumes "mined_block tx (n, h)"
  shows "crylo_tiers tx = [(1, ''Instant Miner'', ''t1'', Fin (of_int (n div 2)), 0),
    (2, ''45-Day Vested'', ''t2'', Fin (of_int (n - n div 2)), 18514)]"
  using assms half_amount [of n] by (simp add: crylo_tiers_def mined_block_def Let_def)

lemma row_of_tier:
  fixes t :: int and label cls :: string and amount :: jsnum
  assumes tx: "mined_block tx (n, h)" and c: "0 \<le> c" "c \<le> 2 ^ 52" and delay: "0 \<le> delay" "delay \<le> 2 ^ 20"
  defines "r \<equiv> vest_row_of (jint c) tx (t, label, cls, amount, delay)"
  shows "vr_amount r = amount" "vr_unlocked r \<longleftrightarrow> h + delay \<le> c" "vr_blocksLeft r = Fin (of_int (max 0 (h + delay - c)))"
proof -
  have h: "jprop tx ''height'' = jint h" "0 < h" "h \<le> 2 ^ 52" using tx by (simp_all add: mined_block_def)
  have unlock: "rnd (of_int (h + delay)) = Fin (of_int (h + delay))" using h delay by (intro rnd_int) simp
  have left: "rnd (of_int (h + delay - c)) = Fin (of_int (h + delay - c))" using h delay c by (intro rnd_int) simp
  show "vr_amount r = amount" by (simp add: r_def vest_row_of_def Let_def)
  have "(rat_of_int h + of_int delay < of_int c \<or> rat_of_int h + of_int delay = of_int c) \<longleftrightarrow> h + delay \<le> c"
    by (metis le_less of_int_add of_int_le_iff)
  then show u: "vr_unlocked r \<longleftrightarrow> h + delay \<le> c"
    using h unlock by (simp add: r_def vest_row_of_def Let_def js_or_def js_plus_def js_lesseq_def less_eq_jsnum_def)
  show "vr_blocksLeft r = Fin (of_int (max 0 (h + delay - c)))"
    using u h unlock left by (simp add: r_def vest_row_of_def Let_def js_or_def js_plus_def minus_jsnum_def)
qed

text \<open>What the table shows of a row: the amount, whether it is unlocked, and the blocks left.\<close>

definition row_shown :: "vest_row \<Rightarrow> jsnum \<times> bool \<times> jsnum" where
  "row_shown r = (vr_amount r, vr_unlocked r, vr_blocksLeft r)"

text \<open>The two rows of a block, in integers: half of the reward at once, the rest 18514 blocks later.\<close>

definition vesting_spec :: "int \<Rightarrow> int \<times> int \<Rightarrow> (jsnum \<times> bool \<times> jsnum) list" where
  "vesting_spec c b = (case b of (n, h) \<Rightarrow>
     [(Fin (of_int (n div 2)), h \<le> c, Fin (of_int (max 0 (h - c)))),
      (Fin (of_int (n - n div 2)), h + 18514 \<le> c, Fin (of_int (max 0 (h + 18514 - c))))])"

lemma sum_step:
  assumes "0 \<le> a" "0 \<le> b" "a + b \<le> 2 ^ 53"
  shows "Fin (of_int a) + Fin (of_int b) = Fin (of_int (a + b))"
  using rnd_int [of "a + b"] assms by simp

lemma tier_sum:
  assumes "list_all2 mined_block mined bs"
    and g: "\<And>tx b. mined_block tx b \<Longrightarrow> fst (snd (snd (snd (crylo_tiers tx ! i)))) = Fin (of_int (g b)) \<and> 0 \<le> g b"
    and "0 \<le> a" "a + sum_list (map g bs) \<le> 2 ^ 53"
  shows "foldl (\<lambda>acc tx. acc + fst (snd (snd (snd (crylo_tiers tx ! i))))) (Fin (of_int a)) mined = Fin (of_int (a + sum_list (map g bs)))"
  using assms(1,3,4)
proof (induction arbitrary: a rule: list_all2_induct)
  case (Cons tx mined b bs)
  have "\<forall>b \<in> set bs. 0 \<le> g b" using Cons.hyps(2) g by (metis list_all2_conv_all_nth in_set_conv_nth)
  then have "0 \<le> sum_list (map g bs)" by (intro sum_list_nonneg) auto
  then have "Fin (of_int a) + Fin (of_int (g b)) = Fin (of_int (a + g b))"
    using Cons.prems g [OF Cons.hyps(1)] by (intro sum_step) simp_all
  moreover have "foldl (\<lambda>acc tx. acc + fst (snd (snd (snd (crylo_tiers tx ! i))))) (Fin (of_int (a + g b))) mined =
      Fin (of_int (a + g b + sum_list (map g bs)))"
    using Cons.prems g [OF Cons.hyps(1)] by (intro Cons.IH) simp_all
  ultimately show ?case using g [OF Cons.hyps(1)] by (simp add: add.assoc)
qed simp



section \<open>Sending the whole balance\<close>

text \<open>The fee that is kept back is two hundredths of a coin, exactly.\<close>

lemma kept_fee: "math_round (rnd (2 / 100) * COIN) = Fin 2000000000"
proof -
  define y where "y = round_double (2 / 100)"
  have p: "(2 :: rat) powi (- 1022) \<le> 2 powi (- 6)" by (rule powi_two_mono) simp
  have e1: "\<bar>y - 2 / 100\<bar> \<le> 2 / 100 * 2 powi (- 53)"
    using round_double_rel_error [of "2 / 100"] p by (simp add: y_def power_int_minus field_simps)
  have b: "(2 :: rat) / 100 * 2 powi (- 53) < 1 / 10 ^ 17" by (simp add: power_int_minus field_simps)
  have y: "\<bar>y - 2 / 100\<bar> < 1 / 10 ^ 17" using e1 b by linarith
  have rnd1: "rnd (2 / 100) = Fin y" unfolding y_def by (rule rnd_small) simp
  define z where "z = round_double (y * 100000000000)"
  have m: "\<bar>y * 100000000000 - 2000000000\<bar> < 1 / 10 ^ 6"
    using y unfolding abs_less_iff power_numeral_even power_numeral_odd power_0 by simp
  then have m2: "1 \<le> y * 100000000000" "y * 100000000000 \<le> 2000000001" unfolding abs_less_iff by simp_all
  have "(2 :: rat) powi (- 1022) \<le> 2 powi 0" by (rule powi_two_mono) simp
  then have "\<bar>z - y * 100000000000\<bar> \<le> y * 100000000000 * 2 powi (- 53)"
    using round_double_rel_error [of "y * 100000000000"] m2 by (simp add: z_def)
  also have "\<dots> \<le> 2000000001 * 2 powi (- 53)" using m2 by (intro mult_right_mono) simp_all
  also have "\<dots> < 1 / 10 ^ 6" by (simp add: power_int_minus field_simps)
  finally have "\<bar>z - 2000000000\<bar> < 2 / 10 ^ 6" using m by linarith
  then have "\<lfloor>z + 1 / 2\<rfloor> = 2000000000" unfolding abs_less_iff by (intro floor_unique) simp_all
  moreover have "rnd (y * 100000000000) = Fin z"
  proof -
    have "\<bar>y * 100000000000\<bar> \<le> 2 powi 31" using m2 by simp
    also have "\<dots> \<le> (2 :: rat) powi 1000" by (rule powi_two_mono) simp
    finally show ?thesis unfolding z_def by (rule rnd_small)
  qed
  ultimately show ?thesis unfolding rnd1 COIN_def by simp
qed

text \<open>Nine of the eleven decimals are shown: the text is off by at most half of the last one.\<close>

lemma shown_units:
  assumes "0 < m" "m \<le> 2 ^ 53"
  defines "k \<equiv> fixed_digits 9 (round_double (of_int m / 10 ^ 11))"
  shows "\<bar>100 * k - m\<bar> \<le> 51"
proof -
  define y where "y = round_double (of_int m / 10 ^ 11)"
  have m: "1 \<le> rat_of_int m" "rat_of_int m \<le> 2 ^ 53"
    using assms(1,2) by simp (metis assms(2) of_int_le_iff of_int_numeral of_int_power)
  have "(2 :: rat) powi (- 1022) \<le> 2 powi (- 37)" by (rule powi_two_mono) simp
  also have "\<dots> \<le> 1 / 10 ^ 11" by (simp add: power_int_minus field_simps)
  also have "\<dots> \<le> of_int m / 10 ^ 11" using m by (simp add: divide_right_mono)
  finally have "\<bar>y - of_int m / 10 ^ 11\<bar> \<le> of_int m / 10 ^ 11 * 2 powi (- 53)"
    using round_double_rel_error [of "of_int m / 10 ^ 11"] m by (simp add: y_def)
  also have "\<dots> \<le> 2 ^ 53 / 10 ^ 11 * 2 powi (- 53)"
    using m by (intro mult_right_mono divide_right_mono) simp_all
  also have "\<dots> = 1 / 10 ^ 11" by (simp add: power_int_minus)
  finally have "\<bar>y * 10 ^ 11 - of_int m\<bar> \<le> 1" by (simp add: abs_le_iff field_simps)
  then have near: "\<bar>100 * (y * 10 ^ 9) - of_int m\<bar> \<le> 1" by simp
  have "of_int k \<le> y * 10 ^ 9 + 1 / 2" "y * 10 ^ 9 + 1 / 2 < of_int k + 1"
    using floor_correct [of "y * 10 ^ 9 + 1 / 2"] by (simp_all add: k_def y_def fixed_digits_def)
  then have "\<bar>100 * of_int k - rat_of_int m\<bar> \<le> 51" using near by linarith
  then have "\<bar>rat_of_int (100 * k - m)\<bar> \<le> of_int 51" by simp
  then show ?thesis by (simp only: of_int_le_iff flip: of_int_abs)
qed

lemma nine_decimals:
  assumes "0 < k"
  shows "cryloToAtomic (Str (fixed_text 9 k)) = Ok (int_str (100 * k))"
proof -
  obtain a b where ab: "fixed_text 9 k = a @ CHR ''.'' # b" "list_all is_digit a" "a \<noteq> []" "list_all is_digit b"
    "length b = 9" "parse_digits (a @ b) = k"
    using fixed_text_decimal [of k 9] assms by auto
  then show ?thesis unfolding ab(1) using assms by (intro cryloToAtomic_decimal) (auto simp del: parse_digits_append)
qed

text \<open>
  C33. The whole balance: for an unlocked balance of at least two hundredths of a coin and a hundred units, and up to
  \<open>2 ^ 53\<close> units, the amount that is filled in is a valid amount, differs from the balance without the fee by at most 51 units,
  and never exceeds the balance.
\<close>

theorem sendMax_within_balance:
  assumes "unlockedBalance (st w) = Fin (of_int b)" "2000000100 \<le> b" "b \<le> 2 ^ 53"
  shows "\<exists>n. cryloToAtomic (Str (el_value (page (snd (sendMax E w)) ''send-amount''))) = Ok (int_str n) \<and>
    \<bar>n - (b - 2000000000)\<bar> \<le> 51 \<and> n \<le> b"
proof -
  define m where "m = b - 2000000000"
  define y where "y = round_double (of_int m / 10 ^ 11)"
  define k where "k = fixed_digits 9 y"
  have m: "100 \<le> m" "m \<le> 2 ^ 53" using assms by (simp_all add: m_def)
  have k: "\<bar>100 * k - m\<bar> \<le> 51" using shown_units [of m] m by (simp add: k_def y_def)
  have diff: "Fin (of_int b) - Fin 2000000000 = Fin (of_int m)"
    using rnd_int [of m] m by (simp add: minus_jsnum_def m_def)
  have mb: "rat_of_int m \<le> of_int (2 ^ 53)" using m(2) by (simp only: of_int_le_iff)
  have q: "0 \<le> rat_of_int m / 10 ^ 11" "rat_of_int m / 10 ^ 11 \<le> of_int 100000" using m(1) mb by (simp_all add: field_simps)
  have "y \<le> of_int 100000" unfolding y_def by (rule dbl.r_upper [OF q(2)]) (rule round_double_of_int, simp)
  then have y: "0 \<le> y" "y < 10 ^ 21" using dbl.r_nonneg [OF q(1)] by (simp_all add: y_def)
  have "(of_int 100000 :: rat) \<le> 2 powi 17" by simp
  also have "\<dots> \<le> (2 :: rat) powi 1000" by (rule powi_two_mono) simp
  finally have "rnd (of_int m / 10 ^ 11) = Fin y" unfolding y_def using q by (intro rnd_small) simp
  then have amount: "math_max (Fin 0) (Fin (of_int b) - math_round (rnd (2 / 100) * COIN)) div COIN = Fin y"
    unfolding kept_fee diff using m by (simp add: math_max_def COIN_def)
  have el: "has_el ''send-amount''" by code_simp
  have "el_value (page (snd (sendMax E w)) ''send-amount'') = to_fixed 9 (Fin y)"
  proof -
    have "wp E sendMax (\<lambda>_ w'. el_value (page w' ''send-amount'') = to_fixed 9 (Fin y)) w"
      unfolding sendMax_def wp_bind wp_gets on_ok.simps assms(1) Let_def amount set_value_def
      using assms(2) el by (simp add: wp_eval del: to_fixed.simps)
    then show ?thesis by (simp add: wp_run)
  qed
  also have "\<dots> = fixed_text 9 k" using y by (simp add: k_def)
  finally have "cryloToAtomic (Str (el_value (page (snd (sendMax E w)) ''send-amount''))) = Ok (int_str (100 * k))"
    using nine_decimals [of k] k m by simp
  then show ?thesis using k m assms by (intro exI [of _ "100 * k"]) (simp add: m_def abs_le_iff)
qed

theorem sendMax_within_balance_witness:
  "\<exists>n. cryloToAtomic (Str (el_value (page (snd (sendMax (sample_env (\<lambda>h c. Ok Null))
      (sample_world\<lparr>st := sample_state\<lparr>unlockedBalance := Fin 100000000000\<rparr>\<rparr>))) ''send-amount''))) = Ok (int_str n) \<and>
    \<bar>n - 98000000000\<bar> \<le> 51 \<and> n \<le> 100000000000"
  using sendMax_within_balance [of "sample_world\<lparr>st := sample_state\<lparr>unlockedBalance := Fin 100000000000\<rparr>\<rparr>" 100000000000]
  by simp

end
