(* ===== verification/RecordProps.thy ===== *)
theory RecordProps
  imports WalletProps DisplayProps
begin

text \<open>
  What the application keeps and lists: the operator configuration survives a second registration, and the order of the
  transaction list.
\<close>

section \<open>Integers in JSON\<close>

lemma digits_of_head: "0 < k \<Longrightarrow> hd (digits_of k) \<noteq> CHR ''0''"
proof (induction k rule: digits_of.induct)
  case (1 n)
  show ?case
  proof (cases "n < 10")
    case True
    have "n \<in> {1, 2, 3, 4, 5, 6, 7, 8, 9}" using True 1(2) by auto
    moreover have "list_all (\<lambda>d. digit_char d \<noteq> CHR ''0'') [1, 2, 3, 4, 5, 6, 7, 8, 9]" by code_simp
    ultimately show ?thesis using True by (auto simp: digits_of.simps [of n])
  next
    case False
    then have "0 < n div 10" by (simp add: pos_imp_zdiv_pos_iff)
    then show ?thesis using 1(1) False by (simp add: digits_of.simps [of n])
  qed
qed

lemma number_ok_int:
  assumes "0 \<le> k" "k < 2 ^ 53"
  shows "number_ok (Fin (of_int k))"
proof -
  let ?t = "digits_of k"
  have t: "num_to_string (Fin (of_int k)) = ?t" using num_to_string_int [OF assms] assms(1) by (simp add: int_str_def)
  have ds: "list_all is_digit ?t" "?t \<noteq> []" "parse_digits ?t = k" using assms(1) by simp_all
  have minus: "\<not> starts_with ?t ''-''" using ds(1,2) by (cases ?t) (auto simp: starts_with_def is_digit_def)
  have zero: "\<not> (1 < length ?t \<and> hd ?t = CHR ''0'')"
  proof (cases "k = 0")
    case True
    then show ?thesis by (simp add: digits_of.simps)
  qed (use digits_of_head assms(1) in simp)
  have "json_number ?t = Some (rnd (of_int k))"
    using ds minus zero by (simp add: json_number_def Let_def decimal_value_int starts_with_def)
  moreover have "rnd (of_int k) = Fin (of_int k)" using assms by (intro rnd_int) simp
  moreover have "list_all is_num_char ?t" using ds(1) by (auto simp: list_all_iff is_num_char_def)
  ultimately show ?thesis unfolding number_ok_def t using ds(2) by simp
qed

section \<open>The operator configuration\<close>

definition config_file :: "env \<Rightarrow> string" where
  "config_file E = path_join E [operator_dir E, ''operator.json'']"

text \<open>The member \<open>createdAt\<close> of the configuration in a file, if it has one.\<close>

definition kept_date :: "env \<Rightarrow> world \<Rightarrow> jsval option" where
  "kept_date E w =
     (case map_of (files w) (config_file E) of
        None \<Rightarrow> None
      | Some t \<Rightarrow> case JSON_parse t of
          Some d \<Rightarrow> if truthy (jprop d ''createdAt'') then Some (jprop d ''createdAt'') else None
        | None \<Rightarrow> None)"

definition operator_config :: "jsval \<Rightarrow> string \<Rightarrow> string \<Rightarrow> string \<Rightarrow> int \<Rightarrow> string \<Rightarrow> jsval \<Rightarrow> jsval \<Rightarrow> jsval" where
  "operator_config a n t u i c created now =
     Obj [(''version'', jint 1), (''cryloAddress'', a), (''nexusAddress'', Str n), (''tier'', Str t), (''nodeRpc'', Str u),
       (''chainId'', jint i), (''nodeStakingContract'', Str c), (''createdAt'', created), (''updatedAt'', now)]"

lemma wp_created_at:
  assumes "\<And>v. (\<forall>d. kept_date E w = Some d \<longrightarrow> v = d) \<Longrightarrow> (kept_date E w = None \<longrightarrow> v = now) \<Longrightarrow> R (Ok v) w"
  shows "wp E (if exists_path (config_file E) w then try_catch
      (bind (fs_readFileSync (config_file E)) (\<lambda>c. bind (parse_text (Str c)) (\<lambda>old. bind (get_prop old ''createdAt'') (\<lambda>c. ret (js_or c now)))))
      (\<lambda>_. ret now) else ret now) R w"
proof (cases "map_of (files w) (config_file E)")
  case None
  then show ?thesis using assms [of now] by (auto simp: wp_eval fs_readFileSync_def kept_date_def)
next
  case (Some t)
  then have "exists_path (config_file E) w" by (force simp: exists_path_def dest: map_of_SomeD)
  then show ?thesis using Some assms [of now] assms [of "js_or _ now"]
    by (auto simp: wp_eval fs_readFileSync_def parse_text_def kept_date_def js_or_def nullish_def split: option.split)
qed

lemma wp_mkdir_files:
  assumes "\<And>w'. files w' = files w \<Longrightarrow> R (Ok ()) w'" "\<And>r w'. (\<And>x. r \<noteq> Ok x) \<Longrightarrow> R r w'"
  shows "wp E (fs_mkdirSync p) R w"
  using assms by (simp add: fs_mkdirSync_def wp_eval split: on_ok_split)

lemma wp_sync_files:
  assumes "\<And>v w'. files w' = files w \<Longrightarrow> R (Ok v) w'" "\<And>r w'. (\<And>x. r \<noteq> Ok x) \<Longrightarrow> R r w'"
  shows "wp E (sync_call c) R w"
  using assms by (cases "answer E (trace w) c") (simp_all add: wp_eval)

lemma wp_write_files:
  assumes "\<And>w'. map_of (files w') p = Some t \<Longrightarrow> R (Ok ()) w'" "\<And>r w'. (\<And>x. r \<noteq> Ok x) \<Longrightarrow> R r w'"
  shows "wp E (fs_writeFileSync p t) R w"
  using assms by (simp add: fs_writeFileSync_def wp_eval split: on_ok_split)

lemma kept_date_cong: "files w' = files w \<Longrightarrow> kept_date E w' = kept_date E w"
  by (simp add: kept_date_def)

lemma wp_save_config:
  assumes ok: "\<And>stamp created w'. (\<forall>d. kept_date E w = Some d \<longrightarrow> created = d) \<Longrightarrow>
      (kept_date E w = None \<longrightarrow> created = Str (isoTime E stamp)) \<Longrightarrow>
      map_of (files w') (config_file E) = Some (JSON_stringify_2 (operator_config a n t u i c created (Str (isoTime E stamp))) @ newline) \<Longrightarrow>
      R (Ok (operator_config a n t u i c created (Str (isoTime E stamp)))) w'"
    and bad: "\<And>r w'. (\<And>x. r \<noteq> Ok x) \<Longrightarrow> R r w'"
  shows "wp E (saveOperatorConfig a n t u i c) R w"
  unfolding saveOperatorConfig_def operator_dir_def [symmetric] wp_bind wp_andthen wp_asks on_ok.simps config_file_def [symmetric]
  apply (rule wp_mkdir_files)
  subgoal for w1
    unfolding on_ok.simps
    apply (rule wp_sync_files)
    subgoal for stamp w2
      unfolding on_ok.simps fs_existsSync_def wp_gets
      apply (rule wp_created_at)
      subgoal for created
        unfolding on_ok.simps Let_def wp_andthen operator_config_def [symmetric]
        apply (rule wp_write_files)
        subgoal for w3 unfolding on_ok.simps wp_ret by (rule ok) (simp_all add: kept_date_cong [of w2 w])
        subgoal for r w3 by (cases r) (auto simp: bad)
        done
      done
    subgoal for r w2 by (cases r) (auto simp: bad)
    done
  subgoal for r w1 by (cases r) (auto simp: bad)
  done

text \<open>
  C37. The operator configuration: the file that a registration writes parses back to the configuration in its reply, and a
  later registration, whatever it registers, keeps its date of creation.
\<close>

theorem operator_config_kept:
  assumes "fst (saveOperatorConfig (Str a) n t u i c E w) = Ok config" "kept_date E w = None" "0 \<le> i" "i < 2 ^ 53"
    and "\<And>v. isoTime E v \<noteq> []"
  defines "w1 \<equiv> snd (saveOperatorConfig (Str a) n t u i c E w)"
  shows "(\<exists>s. map_of (files w1) (config_file E) = Some s \<and> JSON_parse s = Some config) \<and>
    (\<forall>a' n' t' u' i' c' w2 config'. files w2 = files w1 \<longrightarrow> fst (saveOperatorConfig a' n' t' u' i' c' E w2) = Ok config' \<longrightarrow>
       jprop config' ''createdAt'' = jprop config ''createdAt'')"
proof -
  have "wp E (saveOperatorConfig (Str a) n t u i c) (\<lambda>r w'. \<forall>config. r = Ok config \<longrightarrow>
      (\<exists>stamp. config = operator_config (Str a) n t u i c (Str (isoTime E stamp)) (Str (isoTime E stamp))) \<and>
      map_of (files w') (config_file E) = Some (JSON_stringify_2 config @ newline)) w"
    by (rule wp_save_config) (auto simp: assms(2))
  then obtain stamp where cfg: "config = operator_config (Str a) n t u i c (Str (isoTime E stamp)) (Str (isoTime E stamp))"
    and written: "map_of (files w1) (config_file E) = Some (JSON_stringify_2 config @ newline)"
    using assms(1) by (auto simp: wp_run w1_def)
  have "representable config" unfolding cfg using number_ok_int [of i] number_ok_int [of 1] assms(3,4) by (simp add: operator_config_def)
  then have parse: "JSON_parse (JSON_stringify_2 config @ newline) = Some config"
    by (rule json_roundtrip(3)) (simp add: is_json_ws_def)
  have created: "jprop config ''createdAt'' = Str (isoTime E stamp)" by (simp add: cfg operator_config_def obj_get_def)
  have "jprop config' ''createdAt'' = jprop config ''createdAt''"
    if "files w2 = files w1" "fst (saveOperatorConfig a' n' t' u' i' c' E w2) = Ok config'" for a' n' t' u' i' c' w2 config'
  proof -
    have "kept_date E w2 = Some (jprop config ''createdAt'')"
      using that(1) written parse created assms(5) by (simp add: kept_date_def)
    then have "wp E (saveOperatorConfig a' n' t' u' i' c') (\<lambda>r _. \<forall>x. r = Ok x \<longrightarrow> jprop x ''createdAt'' = jprop config ''createdAt'') w2"
      by (intro wp_save_config) (auto simp: operator_config_def obj_get_def)
    then show ?thesis using that(2) by (simp add: wp_run)
  qed
  then show ?thesis using written parse by blast
qed

theorem operator_config_kept_witness:
  "\<exists>s config. map_of (files (snd (saveOperatorConfig (Str ''C1'') ''0xA'' ''Operator'' ''rpc'' 5546 ''0xB'' (sample_env (\<lambda>h c. Ok Null)) sample_world)))
      (config_file (sample_env (\<lambda>h c. Ok Null))) = Some s \<and> JSON_parse s = Some config"
proof -
  let ?E = "sample_env (\<lambda>h c. Ok Null)"
  let ?m = "saveOperatorConfig (Str ''C1'') ''0xA'' ''Operator'' ''rpc'' 5546 ''0xB'' ?E sample_world"
  have none: "kept_date ?E sample_world = None" by (simp add: kept_date_def sample_world_def)
  have iso: "isoTime ?E v \<noteq> []" for v by (simp add: sample_env_def)
  have "\<exists>config. fst ?m = Ok config"
    by (simp add: saveOperatorConfig_def bind_def asks_def andthen_def fs_mkdirSync_def sync_call_def modify_def fs_existsSync_def gets_def
        fs_writeFileSync_def fs_readFileSync_def try_catch_def throw_def ret_def sample_world_def Let_def)
  then obtain config where "fst ?m = Ok config" by blast
  from operator_config_kept [OF this none _ _ iso] show ?thesis by auto
qed

section \<open>The list of transactions\<close>

definition height_of :: "jsval \<Rightarrow> rat" where
  "height_of t = (case tx_height t of Num (Fin q) \<Rightarrow> q | _ \<Rightarrow> 0)"

definition has_height :: "jsval \<Rightarrow> bool" where
  "has_height t \<longleftrightarrow> (\<exists>h. 0 \<le> h \<and> h \<le> 2 ^ 53 \<and> tx_height t = jint h)"

text \<open>The unconfirmed transactions, without a height, come first, and then the highest blocks.\<close>

definition listed_before :: "jsval \<Rightarrow> jsval \<Rightarrow> bool" where
  "listed_before s t \<longleftrightarrow> height_of s = 0 \<or> height_of t \<noteq> 0 \<and> height_of t \<le> height_of s"

lemma by_height_listed:
  assumes "has_height s" "has_height t"
  shows "Fin 0 < by_height s t \<longleftrightarrow> \<not> listed_before s t"
proof -
  obtain i j where ij: "0 \<le> i" "i \<le> 2 ^ 53" "tx_height s = jint i" "0 \<le> j" "j \<le> 2 ^ 53" "tx_height t = jint j"
    using assms unfolding has_height_def by blast
  have "rnd (of_int (j - i)) = Fin (of_int (j - i))" using ij by (intro rnd_int) simp
  then have "to_number (jint j) - to_number (jint i) = Fin (of_int (j - i))" by (simp add: minus_jsnum_def)
  then show ?thesis using ij by (auto simp: by_height_def listed_before_def height_of_def Let_def strict_eq_def)
qed

lemma sorted_by_height:
  assumes "list_all has_height txs"
  shows "sorted_wrt listed_before (js_sort by_height txs)"
proof (rule js_sort_sorted_wrt)
  show "listed_before s t" if "s \<in> set txs" "t \<in> set txs" "\<not> Fin 0 < by_height s t" for s t
    using that assms by_height_listed by (auto simp: list_all_iff)
  show "listed_before t s" if "s \<in> set txs" "t \<in> set txs" "Fin 0 < by_height s t" for s t
    using that assms by_height_listed by (auto simp: list_all_iff listed_before_def)
  show "listed_before s u" if "listed_before s t" "listed_before t u" for s t u
    using that by (auto simp: listed_before_def)
qed

lemma tx_item_pure: "\<exists>n. \<forall>v. tx_item outs tx E v = (Ok n, v)"
  by (auto simp: tx_item_def Let_def bind_def ret_def locale_text_def fmtDate_def asks_def)

text \<open>The nodes of a list of transactions: each is what \<open>tx_item\<close> makes of one, and does not depend on the state.\<close>

definition shows_items :: "env \<Rightarrow> jsval list \<Rightarrow> jsval list \<Rightarrow> node list \<Rightarrow> bool" where
  "shows_items E outs = list_all2 (\<lambda>tx n. \<forall>v. tx_item outs tx E v = (Ok n, v))"

lemma wp_items:
  assumes "\<And>ns. shows_items E outs txs ns \<Longrightarrow> R (Ok (acc @ ns)) w"
  shows "wp E (fold_loop txs acc (\<lambda>tx acc. bind (tx_item outs tx) (\<lambda>n. ret (acc @ [n])))) R w"
  using assms
proof (induction txs arbitrary: acc)
  case (Cons tx txs)
  obtain n where n: "\<And>v. tx_item outs tx E v = (Ok n, v)" using tx_item_pure by blast
  have "wp E (fold_loop txs (acc @ [n]) (\<lambda>tx acc. bind (tx_item outs tx) (\<lambda>n. ret (acc @ [n])))) R w"
  proof (rule Cons.IH)
    fix ns
    assume "shows_items E outs txs ns"
    then have "R (Ok (acc @ n # ns)) w" using n by (intro Cons.prems) (simp add: shows_items_def)
    then show "R (Ok ((acc @ [n]) @ ns)) w" by simp
  qed
  then show ?case using n by (simp add: wp_eval wp_run [of E "tx_item outs tx"])
qed (simp add: wp_eval shows_items_def)

text \<open>The transfers of a reply: its four groups one after the other.\<close>

fun as_items :: "jsval \<Rightarrow> jsval list option" where
  "as_items (Arr xs) = Some xs"
| "as_items _ = None"

definition transfers :: "jsval \<Rightarrow> jsval list option" where
  "transfers r =
     (let gs = map (\<lambda>k. as_items (js_or (jprop r k) (Arr []))) [''in'', ''out'', ''pool'', ''pending'']
      in if None \<in> set gs then None else Some (concat (map the gs)))"

lemma wp_js_items: "wp E (js_items v) R = (case as_items v of Some xs \<Rightarrow> R (Ok xs) | None \<Rightarrow> R (Throw (type_error (to_str v @ '' is not iterable''))))"
  by (cases v) (simp_all add: wp_eval)

lemma wp_merged:
  assumes "\<And>txs. transfers r = Some txs \<Longrightarrow> R (Ok txs) w" "\<And>e. R (Throw e) w"
  shows "wp E (merged_transfers r) R w"
  unfolding merged_transfers_def using assms
  by (auto simp: wp_eval wp_js_items transfers_def Let_def split: option.split)

definition transfers_reply :: "env \<Rightarrow> world \<Rightarrow> jsval outcome" where
  "transfers_reply E w = fst (crylo_walletRpc (Str ''get_transfers'')
     (Obj [(''in'', Bool True), (''out'', Bool True), (''pending'', Bool True), (''failed'', Bool False), (''pool'', Bool True),
       (''coinbase'', Bool True)]) Undefined E w)"

lemma walletRpc_reply_cong: "trace w' = trace w \<Longrightarrow> fst (crylo_walletRpc m p t E w') = fst (crylo_walletRpc m p t E w)"
  by (cases "answer E (trace w) (wallet_post m p t)")
    (auto simp: crylo_relay relay_def ipc_wallet_rpc_def with_message_def walletRpc_def rpcCall_def try_catch_def bind_def await_call_def
      parse_text_def get_prop_def ret_def throw_def rpc_post_def split: option.splits)

text \<open>What the container shows after a reply: a message, or the nodes of the sorted transfers.\<close>

definition list_shown :: "env \<Rightarrow> jsval outcome \<Rightarrow> world \<Rightarrow> bool" where
  "list_shown E reply w \<longleftrightarrow> (\<exists>h. el_nodes (page w ''tx-list-container'') = [Markup h]) \<or>
     (\<exists>res txs ns. reply = Ok res \<and> transfers (jprop res ''result'') = Some txs \<and>
        el_nodes (page w ''tx-list-container'') = [Element ''div'' [(''class'', ''tx-list'')] ns] \<and>
        shows_items E (out_txids (js_sort by_height txs)) (js_sort by_height txs) ns)"

abbreviation if_returned :: "(world \<Rightarrow> bool) \<Rightarrow> unit outcome \<Rightarrow> world \<Rightarrow> bool" where
  "if_returned P \<equiv> (\<lambda>r w. r = Ok () \<longrightarrow> P w)"

lemma container: "has_el ''tx-list-container''"
  by code_simp

lemma wp_list_message: "h \<noteq> [] \<Longrightarrow> wp E (set_html ''tx-list-container'' h) (if_returned (list_shown E reply)) w"
  using container by (simp add: set_html_def wp_eval list_shown_def)

lemma wp_list_nodes:
  assumes "reply = Ok res" "transfers (jprop res ''result'') = Some txs"
    "shows_items E (out_txids (js_sort by_height txs)) (js_sort by_height txs) ns"
  shows "wp E (andthen (set_html ''tx-list-container'' [])
     (append_node ''tx-list-container'' (Element ''div'' [(''class'', ''tx-list'')] ns))) (if_returned (list_shown E reply)) w"
  using container assms by (auto simp: set_html_def append_node_def wp_eval list_shown_def)

lemma wp_listing:
  assumes "reply = Ok res"
  shows "wp E (bind (merged_transfers (jprop res ''result'')) (\<lambda>txs. if txs = []
      then set_html ''tx-list-container'' (empty_state mailbox_sign ''No transactions yet'')
      else if list_ex nullish txs then throw (type_error ''Cannot read properties of a transfer'')
      else bind (fold_loop (js_sort by_height txs) [] (\<lambda>tx acc. bind (tx_item (out_txids (js_sort by_height txs)) tx) (\<lambda>n. ret (acc @ [n]))))
        (\<lambda>items. andthen (set_html ''tx-list-container'' [])
          (append_node ''tx-list-container'' (Element ''div'' [(''class'', ''tx-list'')] items))))) (if_returned (list_shown E reply)) w"
  unfolding wp_bind [of _ "merged_transfers _"]
  apply (rule wp_merged)
  subgoal for txs
    unfolding on_ok.simps wp_if
    apply (rule if_app)
    subgoal by (rule wp_list_message) (simp add: empty_state_def)
    apply (rule if_app)
    subgoal by (simp add: wp_throw)
    unfolding wp_bind
    apply (rule wp_items)
    subgoal for ns using wp_list_nodes [OF assms] by simp
    done
  by simp


definition one_transfer :: env where
  "one_transfer = sample_env (\<lambda>h c. Ok (Str ''{\"result\":{\"in\":[{\"type\":\"in\"}]}}''))"


end
