(* ===== verification/StartupProps.thy ===== *)
theory StartupProps
  imports SignerProps AmountProps
begin

text \<open>
  Starting and stopping the services: waiting for a service ends, the ready message is sent only after both services
  answered, and what may leave the application window.
\<close>

section \<open>Waiting\<close>

text \<open>
  A clock in milliseconds, read as a double, that never goes back and passes a second in each sleep of a second.
\<close>

definition ticking :: "env \<Rightarrow> (call list \<Rightarrow> int) \<Rightarrow> bool" where
  "ticking E now \<longleftrightarrow> (\<forall>h. answer E h DateNow = Ok (Num (rnd (of_int (now h))))) \<and>
     (\<forall>h c. now h \<le> now (h @ [c])) \<and> (\<forall>h. now h + 1000 \<le> now (h @ [Sleep 1000]))"

definition answers_all :: "env \<Rightarrow> bool" where
  "answers_all E \<longleftrightarrow> (\<forall>h c. answer E h c \<noteq> Pending)"

text \<open>The message that asks a service whether it is up, and a good answer to it.\<close>

definition probe :: "int \<Rightarrow> string \<Rightarrow> call" where
  "probe port method = rpc_post port (Str method) Undefined Undefined"

definition service_probe :: "int \<Rightarrow> call" where
  "service_probe port = probe port (if port = DAEMON_RPC_PORT then ''get_info'' else ''get_languages'')"

definition rpc_up :: "env \<Rightarrow> call list \<Rightarrow> call \<Rightarrow> bool" where
  "rpc_up E h c \<longleftrightarrow> (\<exists>t d. answer E h c = Ok t \<and> JSON_parse (to_str t) = Some d \<and> \<not> nullish d \<and> \<not> truthy (jprop d ''error''))"

lemma wp_probe:
  "wp E (try_catch (bind (rpcCall port (Str method) Undefined Undefined) (\<lambda>_. ret True)) (\<lambda>_. ret False)) R = (\<lambda>w.
   R (if rpc_up E (trace w) (probe port method) then Ok True
      else if answer E (trace w) (probe port method) = Pending then Pending else Ok False) (awaited E (probe port method) w))"
proof
  fix w
  have "fst (rpcCall port (Str method) Undefined Undefined E w) =
      (case answer E (trace w) (probe port method) of
         Ok t \<Rightarrow> fst (bind (parse_text t) (\<lambda>parsed. bind (get_prop parsed ''error'') (\<lambda>err.
           if truthy err then bind (get_prop err ''message'') (\<lambda>m. throw (new_error m)) else get_prop parsed ''result'')) E w)
       | Throw e \<Rightarrow> Throw e | Pending \<Rightarrow> Pending)"
    by (auto simp: rpcCall_def probe_def rpc_post_def bind_def await_call_def parse_text_def get_prop_def throw_def ret_def
        split: outcome.splits option.splits)
  then have "(\<exists>v. fst (rpcCall port (Str method) Undefined Undefined E w) = Ok v) \<longleftrightarrow> rpc_up E (trace w) (probe port method)"
    "fst (rpcCall port (Str method) Undefined Undefined E w) = Pending \<longleftrightarrow> answer E (trace w) (probe port method) = Pending"
    by (auto simp: rpc_up_def bind_def parse_text_def get_prop_def throw_def ret_def nullish_def
        split: outcome.splits option.splits if_splits)
  moreover have "wp E (rpcCall port (Str method) Undefined Undefined) Q w =
      Q (fst (rpcCall port (Str method) Undefined Undefined E w)) (awaited E (probe port method) w)" for Q
    using one_call_wp [OF one_call_rpcCall [of port "Str method" Undefined Undefined]] by (simp add: probe_def)
  ultimately show "wp E (try_catch (bind (rpcCall port (Str method) Undefined Undefined) (\<lambda>_. ret True)) (\<lambda>_. ret False)) R w =
      R (if rpc_up E (trace w) (probe port method) then Ok True
        else if answer E (trace w) (probe port method) = Pending then Pending else Ok False) (awaited E (probe port method) w)"
    by (cases "fst (rpcCall port (Str method) Undefined Undefined E w)") (auto simp: wp_eval)
qed

lemma ticking_mono: "ticking E now \<Longrightarrow> now h \<le> now (h @ cs)"
proof (induction cs rule: rev_induct)
  case (snoc c cs)
  then have "now (h @ cs) \<le> now ((h @ cs) @ [c])" by (simp only: ticking_def)
  then show ?case using snoc by simp
qed simp

lemma rnd_lower:
  assumes "of_int k \<le> q" "\<bar>k\<bar> \<le> 2 ^ 53"
  shows "rnd q = PosInf \<or> (\<exists>y. rnd q = Fin y \<and> of_int k \<le> y)"
proof -
  have k: "of_int k \<le> round_double q" using assms by (intro dbl.r_lower round_double_of_int)
  have "- (2 powi 1024) < (of_int k :: rat)"
  proof -
    have "rat_of_int (- (2 ^ 53)) \<le> of_int k" using assms(2) by (intro of_int_le_iff [THEN iffD2]) simp
    moreover have "(2 :: rat) ^ 53 = 2 powi 53" by simp
    moreover have "(2 :: rat) powi 53 < 2 powi 1024" using powi_two_strict [of 53 1024] by simp
    ultimately show ?thesis by simp
  qed
  then show ?thesis using k by (auto simp: rnd_def Let_def)
qed

text \<open>Once more than \<open>m\<close> milliseconds have passed since \<open>b\<close>, the difference of the two readings says so.\<close>

lemma elapsed:
  assumes "m < a - b" "0 \<le> m" "0 \<le> b" "b + m < 2 ^ 53"
  shows "Fin (of_int m) < rnd (of_int a) - Fin (of_int b)"
proof -
  have "rat_of_int (b + m + 1) \<le> of_int a" using assms(1) by (intro of_int_le_iff [THEN iffD2]) simp
  then consider "rnd (of_int a) = PosInf" | y where "rnd (of_int a) = Fin y" "of_int (b + m + 1) \<le> y"
    using rnd_lower [of "b + m + 1" "of_int a"] assms by fastforce
  then show ?thesis
  proof cases
    case 2
    then have "of_int (m + 1) \<le> y + - of_int b" by simp
    then have "rnd (y + - of_int b) = PosInf \<or> (\<exists>z. rnd (y + - of_int b) = Fin z \<and> of_int (m + 1) \<le> z)"
      using assms by (intro rnd_lower) simp_all
    then show ?thesis using 2(1) by (auto simp: minus_jsnum_def)
  qed (simp add: minus_jsnum_def)
qed

text \<open>An attempt that does not end the wait takes a second, so the wait is over when the time is.\<close>

lemma rpc_attempt_ends:
  assumes clock: "ticking E now" "answers_all E"
    and start: "0 \<le> s" "0 \<le> maxMs" "s + maxMs < 2 ^ 53"
    and "0 < n" "maxMs < now (trace w) - s + 1000 * (int n - 1)"
  shows "wp E (rpc_attempt n port method maxMs (Num (Fin (of_int s)))) (\<lambda>r _. r \<noteq> Pending) w"
  using assms(6,7)
proof (induction n arbitrary: w)
  case (Suc m)
  let ?w = "awaited E (probe port method) w"
  let ?h = "trace w @ [probe port method]"
  have time: "answer E h DateNow = Ok (Num (rnd (of_int (now h))))" for h
    using clock(1) by (simp add: ticking_def)
  have np: "answer E h c \<noteq> Pending" for h c using clock(2) by (simp add: answers_all_def)
  have step: "wp E (rpc_attempt m port method maxMs (Num (Fin (of_int s)))) (\<lambda>r _. r \<noteq> Pending) w'"
    if early: "\<not> Fin (of_int maxMs) < rnd (of_int (now ?h)) - Fin (of_int s)"
      and w': "trace w' = ?h @ [DateNow, Sleep 1000]" for w'
  proof (rule Suc.IH)
    have "\<not> maxMs < now ?h - s" using early elapsed start by blast
    moreover have "now (trace w) \<le> now ?h" using ticking_mono [OF clock(1)] by blast
    ultimately have "0 < 1000 * int m" using Suc.prems(2) by simp
    then show "0 < m" by simp
    have "now (?h @ [DateNow]) + 1000 \<le> now ((?h @ [DateNow]) @ [Sleep 1000])" using clock(1) by (simp only: ticking_def)
    moreover have "now (trace w) \<le> now (?h @ [DateNow])" using ticking_mono [OF clock(1), of "trace w"] by simp
    ultimately show "maxMs < now (trace w') - s + 1000 * (int m - 1)" using Suc.prems(2) w' by simp
  qed
  show ?case
    unfolding rpc_attempt.simps wp_bind wp_gets on_ok.simps wp_if wp_probe
    using step np [of "trace w" "probe port method"] np [of "?h @ [DateNow]" "Sleep 1000"]
    by (simp add: wp_eval time split: on_ok_split)
qed simp

lemma wp_waitForRpc_ends:
  assumes "ticking E now" "answers_all E" "maxMs < 1000 * int n"
    and start: "0 \<le> now (trace w)" "0 \<le> maxMs" "now (trace w) + maxMs < 2 ^ 53"
  shows "wp E (waitForRpc (Suc n) port maxMs) (\<lambda>r _. r \<noteq> Pending) w"
proof -
  have "rnd (of_int (now (trace w))) = Fin (of_int (now (trace w)))" using start by (intro rnd_int) simp
  then have t: "answer E (trace w) DateNow = Ok (Num (Fin (of_int (now (trace w)))))" using assms(1) by (simp add: ticking_def)
  have "now (trace w) \<le> now (trace w @ [DateNow])" using assms(1) by (simp add: ticking_def)
  then show ?thesis
    unfolding waitForRpc_def Let_def wp_bind wp_sync_call t on_ok.simps
    using assms by (intro rpc_attempt_ends [OF assms(1,2)]) auto
qed

section \<open>Readiness\<close>

fun is_ready :: "call \<Rightarrow> bool" where
  "is_ready (SendToWindow channel v) \<longleftrightarrow> channel = ''startup-status'' \<and> jprop v ''state'' = Str ''ready''"
| "is_ready _ \<longleftrightarrow> False"

abbreviation calm :: "call list \<Rightarrow> bool" where
  "calm cs \<equiv> list_all (\<lambda>c. \<not> is_ready c) cs"

lemma wp_emits:
  assumes "emits_only ok m" "\<And>r w' cs. trace w' = trace w @ cs \<Longrightarrow> list_all ok cs \<Longrightarrow> R r w'"
  shows "wp E m R w"
  using assms unfolding emits_only_def wp_run by blast

lemma probe_calm [simp]: "\<not> is_ready (probe port method)"
  by (simp add: probe_def rpc_post_def)

lemma wp_rpc_attempt:
  assumes "\<And>w' cs. trace w' = trace w @ cs @ [probe port method] \<Longrightarrow> calm cs \<Longrightarrow> rpc_up E (trace w @ cs) (probe port method) \<Longrightarrow> R (Ok ()) w'"
    and "\<And>r w' cs. trace w' = trace w @ cs \<Longrightarrow> calm cs \<Longrightarrow> (\<And>x. r \<noteq> Ok x) \<Longrightarrow> R r w'"
  shows "wp E (rpc_attempt n port method maxMs start) R w"
  using assms
proof (induction n arbitrary: w)
  case 0
  show ?case using "0.prems"(2) [of w "[]" Pending] by (simp add: wp_lift_outcome)
next
  case (Suc n)
  let ?p = "probe port method"
  have up: "R (Ok ()) (awaited E ?p w)" if "rpc_up E (trace w) ?p"
    using Suc.prems(1) [of "awaited E ?p w" "[]"] that by simp
  have fail: "R r w'" if "trace w' = trace w @ cs" "calm cs" "\<And>x. r \<noteq> Ok x" for r w' cs using Suc.prems(2) that by blast
  have again: "wp E (rpc_attempt n port method maxMs start) R w'" if t: "trace w' = trace w @ ?p # cs" "calm cs" for w' cs
  proof (rule Suc.IH)
    fix w'' :: world and ds
    assume "trace w'' = trace w' @ ds @ [?p]" "calm ds" "rpc_up E (trace w' @ ds) ?p"
    then show "R (Ok ()) w''" using t Suc.prems(1) [of w'' "?p # cs @ ds"] by simp
  next
    fix r :: "unit outcome" and w'' :: world and ds
    assume "trace w'' = trace w' @ ds" "calm ds" "\<And>x. r \<noteq> Ok x"
    then show "R r w''" using t by (intro fail [of w'' "?p # cs @ ds"]) simp_all
  qed
  show ?case
    unfolding rpc_attempt.simps wp_bind wp_gets on_ok.simps wp_if wp_probe
    using up fail [of w "[]"] fail [of _ "[?p]"] fail [of _ "[?p, DateNow]"] fail [of _ "[?p, DateNow, Sleep 1000]"]
      again [of _ "[DateNow, Sleep 1000]"]
    by (simp add: wp_eval split: on_ok_split)
qed

lemma wp_waitForRpc:
  fixes port
  defines "p \<equiv> probe port (if port = DAEMON_RPC_PORT then ''get_info'' else ''get_languages'')"
  assumes "\<And>w' cs. trace w' = trace w @ cs @ [p] \<Longrightarrow> calm cs \<Longrightarrow> rpc_up E (trace w @ cs) p \<Longrightarrow> R (Ok ()) w'"
    and "\<And>r w' cs. trace w' = trace w @ cs \<Longrightarrow> calm cs \<Longrightarrow> (\<And>x. r \<noteq> Ok x) \<Longrightarrow> R r w'"
  shows "wp E (waitForRpc n port maxMs) R w"
proof (cases "answer E (trace w) DateNow")
  case (Ok start)
  show ?thesis
    unfolding waitForRpc_def Let_def wp_bind wp_sync_call Ok on_ok.simps
  proof (rule wp_rpc_attempt)
    fix w' :: world and cs
    assume "trace w' = trace (w\<lparr>trace := trace w @ [DateNow]\<rparr>) @ cs @ [probe port (if port = DAEMON_RPC_PORT then ''get_info'' else ''get_languages'')]"
      "calm cs" "rpc_up E (trace (w\<lparr>trace := trace w @ [DateNow]\<rparr>) @ cs) (probe port (if port = DAEMON_RPC_PORT then ''get_info'' else ''get_languages''))"
    then show "R (Ok ()) w'" using assms(2) [of w' "DateNow # cs"] by (simp add: p_def)
  next
    fix r :: "unit outcome" and w' :: world and cs
    assume "trace w' = trace (w\<lparr>trace := trace w @ [DateNow]\<rparr>) @ cs" "calm cs" "\<And>x. r \<noteq> Ok x"
    then show "R r w'" using assms(3) [of w' "DateNow # cs"] by simp
  qed
qed (use assms(3) [of _ "[DateNow]"] in \<open>simp_all add: waitForRpc_def wp_eval\<close>)

lemma emits_status: "state \<noteq> ''ready'' \<Longrightarrow> emits_only (\<lambda>c. \<not> is_ready c) (sendStatus state m)"
  unfolding sendStatus_def send_to_window_def by (intro emits_only_bind emits_only_do_if) simp_all

lemma emits_logger: "emits_only (\<lambda>c. \<not> is_ready c) (makeLogger name)" "emits_only (\<lambda>c. \<not> is_ready c) (logger_write l t)"
  unfolding makeLogger_def logger_write_def getLogDir_def ensure_dir_def fs_existsSync_def fs_mkdirSync_def rotate_log_def
    fs_appendFile_def send_to_window_def
  by (intro emits_only_bind emits_only_andthen emits_only_do_if emits_only_modify emits_only_state emits_only_ret;
      auto split: option.splits)+

lemma emits_spawnDaemon: "emits_only (\<lambda>c. \<not> is_ready c) spawnDaemon"
  unfolding spawnDaemon_def by (intro emits_only_bind emits_only_andthen emits_logger emits_only_ret)

lemma emits_getWalletDir: "emits_only (\<lambda>c. \<not> is_ready c) getWalletDir"
  unfolding getWalletDir_def ensure_dir_def fs_existsSync_def fs_mkdirSync_def
  by (intro emits_only_bind emits_only_andthen emits_only_do_if emits_only_modify emits_only_state emits_only_ret; auto)

text \<open>A program that emits only quiet calls, and what follows it or its failure.\<close>

lemma wp_bind_emits:
  fixes m :: "'a js" and k :: "'a \<Rightarrow> 'b js"
  assumes "emits_only ok m" "\<And>x w' cs. trace w' = trace w @ cs \<Longrightarrow> list_all ok cs \<Longrightarrow> wp E (k x) R w'"
    "\<And>r w' cs. trace w' = trace w @ cs \<Longrightarrow> list_all ok cs \<Longrightarrow> (\<And>x. r \<noteq> Ok x) \<Longrightarrow> R r w'"
  shows "wp E (bind m k) R w"
  unfolding wp_bind
proof (rule wp_emits [OF assms(1)])
  fix r :: "'a outcome" and w' :: world and cs
  assume "trace w' = trace w @ cs" "list_all ok cs"
  then show "on_ok (\<lambda>x. wp E (k x) R) R r w'" using assms(2,3) by (cases r) auto
qed

lemma wp_andthen_emits:
  assumes "emits_only ok m" "\<And>w' cs. trace w' = trace w @ cs \<Longrightarrow> list_all ok cs \<Longrightarrow> wp E k R w'"
    "\<And>r w' cs. trace w' = trace w @ cs \<Longrightarrow> list_all ok cs \<Longrightarrow> (\<And>x. r \<noteq> Ok x) \<Longrightarrow> R r w'"
  shows "wp E (andthen m k) R w"
  unfolding andthen_def by (rule wp_bind_emits [OF assms(1)]) (use assms(2,3) in auto)

lemma wp_spawnWalletRpc:
  assumes "\<And>r w' cs. trace w' = trace w @ cs \<Longrightarrow> calm cs \<Longrightarrow> (\<And>p. r = Ok (Some p) \<Longrightarrow> \<exists>bin args. Spawn bin args \<in> set cs) \<Longrightarrow> R r w'"
  shows "wp E spawnWalletRpc R w"
proof -
  have quiet: "R r w'" if "trace w' = trace w @ cs" "calm cs" "\<And>p. r \<noteq> Ok (Some p)" for r w' cs
    using assms that by blast
  have spawn: "wp E (bind (sync_call (Spawn bin args)) (\<lambda>_. ret (Some p))) R w'" if "trace w' = trace w @ cs" "calm cs" for bin args p w' cs
  proof -
    have "R r w''" if "trace w'' = trace w @ cs @ [Spawn bin args]" for r w''
      using \<open>calm cs\<close> that by (intro assms [of w'' "cs @ [Spawn bin args]"]) auto
    then show ?thesis using that by (simp add: wp_eval split: on_ok_split)
  qed
  show ?thesis
    unfolding spawnWalletRpc_def wp_bind wp_asks wp_if fs_existsSync_def wp_gets on_ok.simps
  proof (rule if_app)
    show "wp E (andthen (sendStatus ''error'' (''Wallet-RPC binary not found: '' @ getBinPath E ''CryLo-wallet-rpc'')) (ret None)) R w"
      by (rule wp_andthen_emits [OF emits_status]) (auto simp: wp_ret quiet)
  next
    let ?log = "\<lambda>logger walletDir. let args = [''--testnet'', ''--rpc-bind-port='' @ int_str WALLET_RPC_PORT,
                   ''--daemon-address=127.0.0.1:'' @ int_str DAEMON_RPC_PORT,
                   ''--wallet-dir='' @ walletDir, ''--disable-rpc-login'', ''--log-level=1'']
       in andthen (logger_write logger (''Spawning wallet-rpc: '' @ getBinPath E ''CryLo-wallet-rpc'' @ '' '' @ join_with '' '' args @ newline))
          (bind (sync_call (Spawn (getBinPath E ''CryLo-wallet-rpc'') args)) (\<lambda>_.
           ret (Some \<lparr>proc_name = ''wallet-rpc'', proc_stub = False, exitCode = None\<rparr>)))"
    have "wp E (bind (makeLogger ''wallet-rpc'') (\<lambda>logger. bind getWalletDir (?log logger))) R w"
    proof (rule wp_bind_emits [OF emits_logger(1)])
      fix logger and w1 :: world and cs1
      assume 1: "trace w1 = trace w @ cs1" "calm cs1"
      show "wp E (bind getWalletDir (?log logger)) R w1"
      proof (rule wp_bind_emits [OF emits_getWalletDir])
        fix walletDir and w2 :: world and cs2
        assume 2: "trace w2 = trace w1 @ cs2" "calm cs2"
        show "wp E (?log logger walletDir) R w2"
          unfolding Let_def
        proof (rule wp_andthen_emits [OF emits_logger(2)])
          fix w3 :: world and cs3
          assume "trace w3 = trace w2 @ cs3" "calm cs3"
          then show "wp E (bind (sync_call (Spawn (getBinPath E ''CryLo-wallet-rpc'') [''--testnet'',
              ''--rpc-bind-port='' @ int_str WALLET_RPC_PORT, ''--daemon-address=127.0.0.1:'' @ int_str DAEMON_RPC_PORT,
              ''--wallet-dir='' @ walletDir, ''--disable-rpc-login'', ''--log-level=1'']))
              (\<lambda>_. ret (Some \<lparr>proc_name = ''wallet-rpc'', proc_stub = False, exitCode = None\<rparr>))) R w3"
            using 1 2 by (intro spawn [of _ "cs1 @ cs2 @ cs3"]) simp_all
        next
          fix r :: "proc option outcome" and w' :: world and cs
          assume "trace w' = trace w2 @ cs" "calm cs" "\<And>x. r \<noteq> Ok x"
          then show "R r w'" using 1 2 by (intro quiet [of w' "cs1 @ cs2 @ cs"]) auto
        qed
      next
        fix r :: "proc option outcome" and w' :: world and cs
        assume "trace w' = trace w1 @ cs" "calm cs" "\<And>x. r \<noteq> Ok x"
        then show "R r w'" using 1 by (intro quiet [of w' "cs1 @ cs"]) auto
      qed
    qed (auto intro: quiet)
    then show "wp E (makeLogger ''wallet-rpc'') (on_ok (\<lambda>x. wp E getWalletDir (on_ok (\<lambda>xa. wp E (?log x xa) R) R)) R) w"
      unfolding wp_bind .
  qed
qed

text \<open>
  The calls \<open>cs\<close> of a startup: the page is told that the services are ready at most once, and only after the daemon answered, the
  wallet service was started, and the wallet service answered.
\<close>

definition ready_in_order :: "env \<Rightarrow> call list \<Rightarrow> call list \<Rightarrow> bool" where
  "ready_in_order E h cs \<longleftrightarrow> calm cs \<or>
     (\<exists>a b r t. cs = a @ [probe DAEMON_RPC_PORT ''get_info''] @ b @ [probe WALLET_RPC_PORT ''get_languages'', r] @ t \<and>
        calm a \<and> calm b \<and> calm t \<and> is_ready r \<and> rpc_up E (h @ a) (probe DAEMON_RPC_PORT ''get_info'') \<and>
        (\<exists>bin args. Spawn bin args \<in> set b) \<and>
        rpc_up E (h @ a @ [probe DAEMON_RPC_PORT ''get_info''] @ b) (probe WALLET_RPC_PORT ''get_languages''))"

lemma ready_in_order_calm: "calm cs \<Longrightarrow> ready_in_order E h cs"
  by (simp add: ready_in_order_def)

lemma ready_in_order_append: "ready_in_order E h cs \<Longrightarrow> calm ds \<Longrightarrow> ready_in_order E h (cs @ ds)"
  unfolding ready_in_order_def by (elim disjE exE) (simp, rule disjI2, (rule exI)+, auto)

lemma different_ports: "WALLET_RPC_PORT \<noteq> DAEMON_RPC_PORT"
  by (simp add: WALLET_RPC_PORT_def DAEMON_RPC_PORT_def)

lemma wp_send_ready:
  assumes "\<And>r w' ds. trace w' = trace w @ ds \<Longrightarrow> ds = [] \<or> (\<exists>c. ds = [c] \<and> is_ready c) \<Longrightarrow> R r w'"
  shows "wp E (sendStatus ''ready'' m) R w"
  using assms [of w "[]"] assms [of _ "[_]"]
  by (simp add: sendStatus_def send_to_window_def wp_eval split: on_ok_split)

lemma wallet_phase:
  assumes Q: "\<And>r w' cs. trace w' = h @ cs \<Longrightarrow> ready_in_order E h cs \<Longrightarrow> Q r w'"
    and a: "calm a" "rpc_up E (h @ a) (probe DAEMON_RPC_PORT ''get_info'')"
    and w: "trace w = h @ a @ [probe DAEMON_RPC_PORT ''get_info'']"
  shows "wp E (andthen (sendStatus ''starting'' m1) (bind spawnWalletRpc (\<lambda>p. andthen (modify (\<lambda>w. w\<lparr>walletProc := p\<rparr>))
      (if p = None then ret () else andthen (sendStatus ''starting'' m2)
        (andthen (waitForRpc n WALLET_RPC_PORT ms) (sendStatus ''ready'' m3)))))) Q w"
proof -
  let ?d = "probe DAEMON_RPC_PORT ''get_info''" and ?p = "probe WALLET_RPC_PORT ''get_languages''"
  have quiet: "Q r w'" if "trace w' = trace w @ b" "calm b" for r w' b
    using that a(1) w by (intro Q [of w' "a @ [?d] @ b"] ready_in_order_calm) simp_all
  show ?thesis
  proof (rule wp_andthen_emits [OF emits_status])
    fix w1 :: world and b1
    assume 1: "trace w1 = trace w @ b1" "calm b1"
    show "wp E (bind spawnWalletRpc (\<lambda>p. andthen (modify (\<lambda>w. w\<lparr>walletProc := p\<rparr>))
      (if p = None then ret () else andthen (sendStatus ''starting'' m2)
        (andthen (waitForRpc n WALLET_RPC_PORT ms) (sendStatus ''ready'' m3))))) Q w1"
      unfolding wp_bind
    proof (rule wp_spawnWalletRpc)
      fix r :: "proc option outcome" and w2 :: world and b2
      assume 2: "trace w2 = trace w1 @ b2" "calm b2" "\<And>p. r = Ok (Some p) \<Longrightarrow> \<exists>bin args. Spawn bin args \<in> set b2"
      show "on_ok (\<lambda>p. wp E (andthen (modify (\<lambda>w. w\<lparr>walletProc := p\<rparr>))
          (if p = None then ret () else andthen (sendStatus ''starting'' m2)
            (andthen (waitForRpc n WALLET_RPC_PORT ms) (sendStatus ''ready'' m3)))) Q) Q r w2"
      proof (cases "\<exists>p. r = Ok (Some p)")
        case True
        then obtain p where r: "r = Ok (Some p)" by blast
        have "wp E (andthen (sendStatus ''starting'' m2) (andthen (waitForRpc n WALLET_RPC_PORT ms) (sendStatus ''ready'' m3))) Q
            (w2\<lparr>walletProc := Some p\<rparr>)"
        proof (rule wp_andthen_emits [OF emits_status])
          fix w3 :: world and b3
          assume 3: "trace w3 = trace (w2\<lparr>walletProc := Some p\<rparr>) @ b3" "calm b3"
          show "wp E (andthen (waitForRpc n WALLET_RPC_PORT ms) (sendStatus ''ready'' m3)) Q w3"
            unfolding wp_andthen
          proof (rule wp_waitForRpc)
            fix w4 :: world and b4
            assume 4: "trace w4 = trace w3 @ b4 @ [probe WALLET_RPC_PORT (if WALLET_RPC_PORT = DAEMON_RPC_PORT then ''get_info'' else ''get_languages'')]"
              "calm b4" "rpc_up E (trace w3 @ b4) (probe WALLET_RPC_PORT (if WALLET_RPC_PORT = DAEMON_RPC_PORT then ''get_info'' else ''get_languages''))"
            let ?b = "b1 @ b2 @ b3 @ b4"
            have t4: "trace w4 = h @ a @ [?d] @ ?b @ [?p]" "rpc_up E (h @ a @ [?d] @ ?b) ?p"
              using 1 2 3 4 w different_ports by simp_all
            show "on_ok (\<lambda>_. wp E (sendStatus ''ready'' m3) Q) Q (Ok ()) w4"
              unfolding on_ok.simps
            proof (rule wp_send_ready)
              fix r' :: "unit outcome" and w5 :: world and ds
              assume 5: "trace w5 = trace w4 @ ds" "ds = [] \<or> (\<exists>c. ds = [c] \<and> is_ready c)"
              have "ready_in_order E h (a @ [?d] @ ?b @ [?p] @ ds)"
              proof (cases "ds = []")
                case True
                then show ?thesis using a(1) 1 2 3 4 by (intro ready_in_order_calm) simp
              next
                case False
                then obtain c where "ds = [c]" "is_ready c" using 5(2) by blast
                moreover have "\<exists>bin args. Spawn bin args \<in> set ?b" using 2(3) [OF r] by auto
                moreover have "calm ?b" using 1 2 3 4 by simp
                ultimately show ?thesis
                  unfolding ready_in_order_def using a t4(2)
                  by (intro disjI2 exI [of _ a] exI [of _ ?b] exI [of _ c] exI [of _ "[]"]) simp
              qed
              then show "Q r' w5" using 5(1) t4(1) by (intro Q) simp_all
            qed
          next
            fix r' :: "unit outcome" and w4 :: world and b4
            assume "trace w4 = trace w3 @ b4" "calm b4" "\<And>x. r' \<noteq> Ok x"
            then show "on_ok (\<lambda>_. wp E (sendStatus ''ready'' m3) Q) Q r' w4"
              using 1 2 3 quiet [of w4 "b1 @ b2 @ b3 @ b4"] by (cases r') auto
          qed
        next
          fix r' :: "unit outcome" and w' :: world and b
          assume "trace w' = trace (w2\<lparr>walletProc := Some p\<rparr>) @ b" "calm b"
          then show "Q r' w'" using 1 2 by (intro quiet [of w' "b1 @ b2 @ b"]) simp_all
        qed simp
        then show ?thesis using r by (simp add: wp_andthen wp_modify)
      next
        case False
        have q: "Q r' w'" if "trace w' = trace w2" for r' w' using that 1 2 by (intro quiet [of w' "b1 @ b2"]) simp_all
        show ?thesis
        proof (cases r)
          case (Ok x)
          then have "x = None" using False by (cases x) auto
          then show ?thesis using Ok q by (simp add: wp_eval)
        qed (simp_all add: q)
      qed
    qed
  next
    fix r' :: "unit outcome" and w' :: world and b
    assume "trace w' = trace w @ b" "calm b"
    then show "Q r' w'" by (rule quiet)
  qed simp
qed

lemma daemon_phase:
  assumes Q: "\<And>r w' cs. trace w' = trace w @ cs \<Longrightarrow> ready_in_order E (trace w) cs \<Longrightarrow> Q r w'"
    and next': "\<And>w' a. trace w' = trace w @ a @ [probe DAEMON_RPC_PORT ''get_info''] \<Longrightarrow> calm a \<Longrightarrow>
      rpc_up E (trace w @ a) (probe DAEMON_RPC_PORT ''get_info'') \<Longrightarrow> wp E k Q w'"
  shows "wp E (andthen (sendStatus ''starting'' m1) (bind spawnDaemon (\<lambda>d. andthen (modify (\<lambda>w. w\<lparr>daemonProc := d\<rparr>))
      (if d = None then ret () else andthen (sendStatus ''starting'' m2)
        (andthen (waitForRpc n DAEMON_RPC_PORT ms) k))))) Q w"
proof -
  have quiet: "Q r w'" if "trace w' = trace w @ b" "calm b" for r w' b
    using that by (intro Q [of w' b] ready_in_order_calm)
  show ?thesis
  proof (rule wp_andthen_emits [OF emits_status])
    fix w1 :: world and b1
    assume 1: "trace w1 = trace w @ b1" "calm b1"
    show "wp E (bind spawnDaemon (\<lambda>d. andthen (modify (\<lambda>w. w\<lparr>daemonProc := d\<rparr>))
      (if d = None then ret () else andthen (sendStatus ''starting'' m2)
        (andthen (waitForRpc n DAEMON_RPC_PORT ms) k)))) Q w1"
    proof (rule wp_bind_emits [OF emits_spawnDaemon])
      fix d and w2 :: world and b2
      assume 2: "trace w2 = trace w1 @ b2" "calm b2"
      have "wp E (andthen (sendStatus ''starting'' m2) (andthen (waitForRpc n DAEMON_RPC_PORT ms) k)) Q (w2\<lparr>daemonProc := d\<rparr>)"
      proof (rule wp_andthen_emits [OF emits_status])
        fix w3 :: world and b3
        assume 3: "trace w3 = trace (w2\<lparr>daemonProc := d\<rparr>) @ b3" "calm b3"
        show "wp E (andthen (waitForRpc n DAEMON_RPC_PORT ms) k) Q w3"
          unfolding wp_andthen
        proof (rule wp_waitForRpc)
          fix w4 :: world and b4
          assume "trace w4 = trace w3 @ b4 @ [probe DAEMON_RPC_PORT (if DAEMON_RPC_PORT = DAEMON_RPC_PORT then ''get_info'' else ''get_languages'')]"
            "calm b4" "rpc_up E (trace w3 @ b4) (probe DAEMON_RPC_PORT (if DAEMON_RPC_PORT = DAEMON_RPC_PORT then ''get_info'' else ''get_languages''))"
          then show "on_ok (\<lambda>_. wp E k Q) Q (Ok ()) w4"
            unfolding on_ok.simps using 1 2 3 by (intro next' [of w4 "b1 @ b2 @ b3 @ b4"]) simp_all
        next
          fix r :: "unit outcome" and w4 :: world and b4
          assume "trace w4 = trace w3 @ b4" "calm b4" "\<And>x. r \<noteq> Ok x"
          then show "on_ok (\<lambda>_. wp E k Q) Q r w4"
            using 1 2 3 quiet [of w4 "b1 @ b2 @ b3 @ b4"] by (cases r) auto
        qed
      next
        fix r :: "unit outcome" and w' :: world and b
        assume "trace w' = trace (w2\<lparr>daemonProc := d\<rparr>) @ b" "calm b"
        then show "Q r w'" using 1 2 by (intro quiet [of w' "b1 @ b2 @ b"]) simp_all
      qed simp
      moreover have "Q (Ok ()) (w2\<lparr>daemonProc := None\<rparr>)" using 1 2 by (intro quiet [of _ "b1 @ b2"]) simp_all
      ultimately show "wp E (andthen (modify (\<lambda>w. w\<lparr>daemonProc := d\<rparr>))
          (if d = None then ret () else andthen (sendStatus ''starting'' m2)
            (andthen (waitForRpc n DAEMON_RPC_PORT ms) k))) Q w2"
        by (simp add: wp_andthen wp_modify wp_ret)
    next
      fix r :: "unit outcome" and w' :: world and b
      assume "trace w' = trace w1 @ b" "calm b"
      then show "Q r w'" using 1 by (intro quiet [of w' "b1 @ b"]) simp_all
    qed
  qed (auto intro: quiet)
qed

lemma startBackend_ordered:
  "\<exists>cs. trace (snd (startBackend n E w)) = trace w @ cs \<and> ready_in_order E (trace w) cs"
proof -
  let ?R = "\<lambda>_ w'. \<exists>cs. trace w' = trace w @ cs \<and> ready_in_order E (trace w) cs"
  let ?H = "\<lambda>err. bind (get_prop err ''message'') (\<lambda>m. sendStatus ''error'' (''Startup failed: '' @ to_str m))"
  have "emits_only (\<lambda>c. \<not> is_ready c) (?H e)" for e
    by (intro emits_only_bind emits_status) simp_all
  then have failed: "wp E (?H e) ?R w'" if "trace w' = trace w @ cs" "ready_in_order E (trace w) cs" for e w' cs
    by (rule wp_emits) (use that ready_in_order_append [of E "trace w" cs] in auto)
  have "on_throw (\<lambda>e. wp E (?H e) ?R) ?R r w'" if "trace w' = trace w @ cs" "ready_in_order E (trace w) cs" for r w' cs
    using that failed [OF that] by (cases r) auto
  then have "wp E (startBackend n) ?R w"
    unfolding startBackend_def wp_try_catch by (intro daemon_phase wallet_phase)
  then show ?thesis by (simp add: wp_run)
qed

text \<open>
  C25. Startup order: whatever the services and other tasks do, starting the services tells the page that they are ready at
  most once, and only after the daemon answered its probe without an error, the wallet service was then spawned, and the wallet
  service answered its own probe without an error as the last call before the message.
\<close>

theorem startup_ready_in_order:
  "\<exists>cs. trace (snd (startBackend n E w)) = trace w @ cs \<and> ready_in_order E (trace w) cs"
  by (rule startBackend_ordered)

text \<open>
  C27. Waiting ends: with a clock that passes a second in each second slept, and no call left unanswered for ever, waiting for a
  service returns or throws within one attempt per second of its limit and one more, so the fuel of the model is enough; and
  when it returns, its last call was a probe of that service that got an answer without an error.
\<close>

theorem waiting_ends:
  assumes "ticking E now" "answers_all E" "maxMs < 1000 * int n"
    and "0 \<le> now (trace w)" "0 \<le> maxMs" "now (trace w) + maxMs < 2 ^ 53"
  shows "fst (waitForRpc (Suc n) port maxMs E w) \<noteq> Pending \<and>
    (fst (waitForRpc (Suc n) port maxMs E w) = Ok () \<longrightarrow>
      (\<exists>cs. trace (snd (waitForRpc (Suc n) port maxMs E w)) = trace w @ cs @ [service_probe port] \<and> rpc_up E (trace w @ cs) (service_probe port)))"
proof -
  have "wp E (waitForRpc (Suc n) port maxMs) (\<lambda>r w'. r = Ok () \<longrightarrow> (\<exists>cs. trace w' = trace w @ cs @ [service_probe port] \<and> rpc_up E (trace w @ cs) (service_probe port))) w"
    by (rule wp_waitForRpc) (auto simp: service_probe_def)
  then show ?thesis using wp_waitForRpc_ends [OF assms(1-6), of port] by (simp add: wp_run)
qed

text \<open>A machine on which no service ever answers, with a clock that passes a second in each call.\<close>

definition dead_env :: env where
  "dead_env = sample_env (\<lambda>h c. if c = DateNow then Ok (Num (rnd (of_int (1000 * int (length h)))))
     else Throw Undefined)"

theorem waiting_ends_witness:
  "fst (waitForRpc (Suc 181) DAEMON_RPC_PORT 180000 dead_env sample_world) \<noteq> Pending"
proof -
  have "ticking dead_env (\<lambda>h. 1000 * int (length h))" "answers_all dead_env"
    by (simp_all add: ticking_def answers_all_def dead_env_def)
  then show ?thesis using waiting_ends [of dead_env "\<lambda>h. 1000 * int (length h)" 180000 181 sample_world DAEMON_RPC_PORT]
    by (simp add: sample_world_def)
qed

section \<open>Shutting down\<close>

text \<open>
  Stopping a child process: nothing for a process that is not running, a wait for the daemon the application does not own, and
  otherwise the termination signal, a wait of at most five seconds and, if it has not exited by then, the kill signal.
\<close>

definition stop_calls :: "env \<Rightarrow> call list \<Rightarrow> proc option \<Rightarrow> call list" where
  "stop_calls E h p =
     (case p of
        Some pr \<Rightarrow>
          if exitCode pr \<noteq> None then [] else if proc_stub pr then [Sleep 5000]
          else let stop = KillProc (proc_name pr) ''SIGTERM''; wait = WaitExit (proc_name pr) 5000
               in case answer E (h @ [stop]) wait of
                    Ok v \<Rightarrow> [stop, wait] @ (if truthy v then [] else [KillProc (proc_name pr) ''SIGKILL''])
                  | _ \<Rightarrow> [stop, wait]
      | None \<Rightarrow> [])"

definition answers_values :: "env \<Rightarrow> bool" where
  "answers_values E \<longleftrightarrow> (\<forall>h c. \<exists>v. answer E h c = Ok v)"

definition keeps_procs :: "env \<Rightarrow> bool" where
  "keeps_procs E \<longleftrightarrow> (\<forall>h w. minerProc (meddle E h w) = minerProc w \<and> walletProc (meddle E h w) = walletProc w \<and>
     daemonProc (meddle E h w) = daemonProc w)"

definition same_procs :: "world \<Rightarrow> world \<Rightarrow> bool" where
  "same_procs w w' \<longleftrightarrow> minerProc w' = minerProc w \<and> walletProc w' = walletProc w \<and> daemonProc w' = daemonProc w"

lemma wp_killProc:
  assumes "answers_values E" "keeps_procs E"
    and "\<And>w'. trace w' = trace w @ stop_calls E (trace w) p \<Longrightarrow> same_procs w w' \<Longrightarrow> R (Ok ()) w'"
  shows "wp E (killProc p) R w"
proof (cases p)
  case None
  then show ?thesis using assms(3) [of w] by (simp add: killProc_def stop_calls_def same_procs_def wp_eval)
next
  case (Some pr)
  let ?sig = "KillProc (proc_name pr) ''SIGTERM''" and ?wait = "WaitExit (proc_name pr) 5000"
  obtain a1 a2 a3 a4 where a: "answer E (trace w) ?sig = Ok a1" "answer E (trace w @ [?sig]) ?wait = Ok a2"
    "answer E (trace w @ [?sig, ?wait]) (KillProc (proc_name pr) ''SIGKILL'') = Ok a3" "answer E (trace w) (Sleep 5000) = Ok a4"
    using assms(1) unfolding answers_values_def by metis
  have procs: "minerProc (meddle E h w') = minerProc w'" "walletProc (meddle E h w') = walletProc w'"
    "daemonProc (meddle E h w') = daemonProc w'" for h w'
    using assms(2) by (simp_all add: keeps_procs_def)
  show ?thesis
    using a assms(3) Some
    by (auto simp: killProc_def stop_calls_def same_procs_def wp_eval procs Let_def split: if_splits)
qed


text \<open>A wallet service that does not exit in time.\<close>

definition stubborn_world :: world where
  "stubborn_world = sample_world\<lparr>walletProc := Some \<lparr>proc_name = ''wallet-rpc'', proc_stub = False, exitCode = None\<rparr>\<rparr>"


end
