(* ===== verification/ActionProps.thy ===== *)
theory ActionProps
  imports StartupProps
begin

text \<open>
  Actions of the renderer: what a gas top-up may spend and when, and two places where the code does not do what it
  says, restoring a wallet and the report of a failed buyback.
\<close>

section \<open>The gas top-up\<close>

abbreviation unsent :: "call list \<Rightarrow> bool" where
  "unsent cs \<equiv> list_all (\<lambda>c. \<not> is_send c) cs"

lemma wp_unsigned:
  assumes "runs_within no_send m" "\<And>r w' cs. trace w' = trace w @ cs \<Longrightarrow> unsent cs \<Longrightarrow> R r w'"
  shows "wp E m R w"
  using assms unfolding runs_within_def no_send_def wp_run by blast

text \<open>The transactions of a top-up of \<open>v\<close> units: the gas manager is approved for them and called with them.\<close>

fun gas_send :: "int \<Rightarrow> call \<Rightarrow> bool" where
  "gas_send v (ContractSend s target fn args k) \<longleftrightarrow>
     target = tokenAddress \<and> fn = ''approve'' \<and> args = [Str GAS_MANAGER_ADDRESS, Big v] \<or>
     target = GAS_MANAGER_ADDRESS \<and> fn = ''buyGasWithWcrylo'' \<and> args = [Big v]"
| "gas_send v _ \<longleftrightarrow> True"

lemma gas_send_unsent: "\<not> is_send c \<Longrightarrow> gas_send v c"
  by (cases c) simp_all

lemma signed_calls_step:
  "c \<in> set (signed_calls E n a steps w) \<Longrightarrow> (\<exists>p. c = FsCall ''mkdir'' p) \<or> (\<exists>s f us. f \<in> set (steps s) \<and> f us = Some c)"
proof -
  assume c: "c \<in> set (signed_calls E n a steps w)"
  obtain cs where cs: "trace (snd (loadBoundNexusWallet n a E w)) = trace w @ cs" "mkdirs cs" using load_trace by blast
  show ?thesis
  proof (cases "c \<in> set cs")
    case True
    then show ?thesis using cs(2) by (auto simp: mkdirs_def list_all_iff)
  next
    case False
    obtain r w' where l: "loadBoundNexusWallet n a E w = (r, w')" by (cases "loadBoundNexusWallet n a E w")
    then obtain s where "c \<in> set (script E (trace w') [] (steps s))"
      using False c cs(1) unfolding signed_calls_def by (cases r) auto
    then show ?thesis using script_step by blast
  qed
qed

lemma buy_gas_sends:
  "\<exists>cs. trace (snd (crylo_nexusBuyGasWithWcrylo amount n a E w)) = trace w @ cs \<and>
     (unsent cs \<or> (\<exists>v. parseUnits E (to_str amount) WCRYLO_DECIMALS = Ok v \<and> list_all (gas_send v) cs))"
proof -
  let ?cs = "signed_calls E n a (\<lambda>s. units_steps E amount (\<lambda>v. approve_steps s tokenAddress GAS_MANAGER_ADDRESS v ''buyGasWithWcrylo'' [v])) w"
  have t: "trace (snd (crylo_nexusBuyGasWithWcrylo amount n a E w)) = trace w @ ?cs"
    unfolding crylo_relay relay_def relay_trace by (rule buy_gas.calls)
  show ?thesis
  proof (cases "parseUnits E (to_str amount) WCRYLO_DECIMALS")
    case (Ok v)
    have "list_all (gas_send v) ?cs"
      unfolding list_all_iff using Ok signed_calls_step [of _ E n a _ w] by (fastforce simp: step_defs)
    then show ?thesis using t Ok by blast
  qed (use t in \<open>fastforce simp: list_all_iff step_defs dest: signed_calls_step\<close>)+
qed

lemmas unsigned_handlers [rw_intros]

lemma unsigned_views [rw_intros]:
  "runs_within no_send getLinkedNexusAddress" "runs_within no_send (crylo_nexusGasStatus v)"
  "runs_within no_send refreshNexusGasStatus" "runs_within no_send refreshNexusWcryloBalance"
  unfolding getLinkedNexusAddress_def refreshNexusGasStatus_def refreshNexusWcryloBalance_def crylo_relay relay_def
    set_text_if_def set_html_if_def set_text_def set_html_def write_el_def fmtUnix_def
  by (rule rw_intros | (simp; fail))+

lemma wp_buy_gas:
  assumes "\<And>r w' cs. trace w' = trace w @ cs \<Longrightarrow>
      unsent cs \<or> (\<exists>v. parseUnits E (to_str amount) WCRYLO_DECIMALS = Ok v \<and> list_all (gas_send v) cs) \<Longrightarrow> R r w'"
  shows "wp E (crylo_nexusBuyGasWithWcrylo amount n a) R w"
  using assms buy_gas_sends [of amount n a E w] unfolding wp_run by blast

text \<open>The parts of a gas check: after the purchase, the purchase, the question, and the decision.\<close>

definition gas_needed :: "jsnum \<Rightarrow> jsnum" where
  "gas_needed g = to_number (js_or (Num g) (Num (rnd (3 / 100))))"

definition gas_after :: "jsnum \<Rightarrow> jsval \<Rightarrow> jsval js" where
  "gas_after amount buy = bind (get_prop buy ''ok'') (\<lambda>bok. if \<not> truthy bok
     then ret (error_reply (js_or (jprop buy ''error'') (Str ''Gas top-up failed.'')))
     else andthen refreshNexusGasStatus (andthen refreshNexusWcryloBalance
       (ret (ok_reply [(''toppedUp'', Bool True), (''txHash'', jprop buy ''txHash''), (''wcryloUsed'', Num amount)]))))"

definition gas_pay :: "jsnum \<Rightarrow> jsval js" where
  "gas_pay amount = bind wallet_name (\<lambda>n. bind wallet_address (\<lambda>a.
     bind (crylo_nexusBuyGasWithWcrylo (Str (num_to_string amount)) n a) (gas_after amount)))"

definition gas_ask :: "string \<Rightarrow> jsnum \<Rightarrow> jsnum \<Rightarrow> jsval js" where
  "gas_ask label need cur = bind (sync_call (BrowserConfirm (gas_question label cur need (wcrylo_needed need cur)))) (\<lambda>yes.
     if \<not> truthy yes then ret (Obj [(''ok'', Bool False), (''cancelled'', Bool True), (''error'', Str ''User cancelled gas top-up.'')])
     else gas_pay (wcrylo_needed need cur))"

definition gas_decide :: "string \<Rightarrow> jsnum \<Rightarrow> jsval \<Rightarrow> jsval js" where
  "gas_decide label need status = bind (get_prop status ''ok'') (\<lambda>ok. if \<not> truthy ok
     then ret (error_reply (js_or (jprop status ''error'') (Str ''Unable to check Nexus gas.'')))
     else if need \<le> to_number (js_or (jprop status ''nativeGas'') (jint 0)) then ret (ok_reply [(''toppedUp'', Bool False)])
     else gas_ask label need (to_number (js_or (jprop status ''nativeGas'') (jint 0))))"

lemma ensure_gas_parts:
  "ensureNexusGasForAction label g = bind getLinkedNexusAddress (\<lambda>l.
     if \<not> truthy l then ret (error_reply (Str ''No bound Nexus wallet.''))
     else bind (crylo_nexusGasStatus l) (gas_decide label (gas_needed g)))"
  unfolding ensureNexusGasForAction_def gas_decide_def gas_ask_def gas_pay_def gas_after_def gas_needed_def Let_def by (rule refl)

text \<open>What a gas check has spent: nothing, or the top-up the user agreed to.\<close>

definition topped_up :: "env \<Rightarrow> call list \<Rightarrow> string \<Rightarrow> jsnum \<Rightarrow> call list \<Rightarrow> bool" where
  "topped_up E h label need cs \<longleftrightarrow> (\<exists>a q b cur y v. cs = a @ [q] @ b \<and> unsent a \<and>
     q = BrowserConfirm (gas_question label cur need (wcrylo_needed need cur)) \<and> \<not> need \<le> cur \<and>
     answer E (h @ a) q = Ok y \<and> truthy y \<and>
     parseUnits E (num_to_string (wcrylo_needed need cur)) WCRYLO_DECIMALS = Ok v \<and> list_all (gas_send v) b)"

definition gas_spent :: "env \<Rightarrow> call list \<Rightarrow> string \<Rightarrow> jsnum \<Rightarrow> world \<Rightarrow> bool" where
  "gas_spent E h label need w \<longleftrightarrow> (\<exists>cs. trace w = h @ cs \<and> (unsent cs \<or> topped_up E h label need cs))"

lemma gas_unspent: "trace w = h @ cs \<Longrightarrow> unsent cs \<Longrightarrow> gas_spent E h label need w"
  unfolding gas_spent_def by blast

lemma gas_paid:
  assumes "trace w = h @ a @ [q] @ cs @ ds" "unsent a" "unsent ds"
    "q = BrowserConfirm (gas_question label cur need (wcrylo_needed need cur))" "\<not> need \<le> cur"
    "answer E (h @ a) q = Ok y" "truthy y"
    "unsent cs \<or> (\<exists>v. parseUnits E (num_to_string (wcrylo_needed need cur)) WCRYLO_DECIMALS = Ok v \<and> list_all (gas_send v) cs)"
  shows "gas_spent E h label need w"
proof (cases "unsent cs")
  case True
  then have "unsent (a @ [q] @ cs @ ds)" using assms by simp
  then show ?thesis using assms(1) by (rule gas_unspent [rotated])
next
  case False
  then obtain v where v: "parseUnits E (num_to_string (wcrylo_needed need cur)) WCRYLO_DECIMALS = Ok v" "list_all (gas_send v) cs"
    using assms(8) by blast
  have "list_all (gas_send v) ds" using assms(3) gas_send_unsent by (auto simp: list_all_iff)
  then have "list_all (gas_send v) (cs @ ds)" using v(2) by simp
  then have "topped_up E h label need (a @ [q] @ cs @ ds)"
    unfolding topped_up_def using assms(2,4-7) v(1) by blast
  then show ?thesis unfolding gas_spent_def using assms(1) by blast
qed

lemma wp_gas_pay:
  assumes q: "q = BrowserConfirm (gas_question label cur need (wcrylo_needed need cur))" "answer E (h @ a) q = Ok y" "truthy y"
    and "trace w = h @ a @ [q]" "unsent a" "\<not> need \<le> cur"
  shows "wp E (gas_pay (wcrylo_needed need cur)) (\<lambda>_. gas_spent E h label need) w"
  unfolding gas_pay_def wallet_name_def wallet_address_def wp_bind wp_gets on_ok.simps
proof (rule wp_buy_gas)
  let ?n = "wcrylo_needed need cur"
  fix r :: "jsval outcome" and w' :: world and cs
  assume cs: "trace w' = trace w @ cs"
    "unsent cs \<or> (\<exists>v. parseUnits E (to_str (Str (num_to_string ?n))) WCRYLO_DECIMALS = Ok v \<and> list_all (gas_send v) cs)"
  have unsigned: "runs_within no_send (gas_after ?n buy)" for buy
    unfolding gas_after_def by (rule rw_intros | (simp; fail))+
  have paid: "gas_spent E h label need w''" if "trace w'' = trace w' @ ds" "unsent ds" for w'' :: world and ds
    by (rule gas_paid [of w'' h a q cs ds]) (use assms cs that in simp_all)
  have "wp E (gas_after ?n buy) (\<lambda>_. gas_spent E h label need) w'" for buy
    by (rule wp_unsigned [OF unsigned]) (rule paid)
  then show "on_ok (\<lambda>buy. wp E (gas_after ?n buy) (\<lambda>_. gas_spent E h label need)) (\<lambda>_. gas_spent E h label need) r w'"
    using paid [of w' "[]"] by (cases r) auto
qed

lemma wp_gas_ask:
  assumes "trace w = h @ a" "unsent a" "\<not> need \<le> cur"
  shows "wp E (gas_ask label need cur) (\<lambda>_. gas_spent E h label need) w"
proof -
  let ?q = "BrowserConfirm (gas_question label cur need (wcrylo_needed need cur))"
  have "gas_spent E h label need (w\<lparr>trace := trace w @ [?q]\<rparr>)" using assms by (intro gas_unspent [of _ _ "a @ [?q]"]) simp_all
  moreover have "wp E (gas_pay (wcrylo_needed need cur)) (\<lambda>_. gas_spent E h label need) (w\<lparr>trace := trace w @ [?q]\<rparr>)"
    if "answer E (trace w) ?q = Ok y" "truthy y" for y
    using assms that by (intro wp_gas_pay [of ?q]) simp_all
  ultimately show ?thesis
    unfolding gas_ask_def by (simp add: wp_bind wp_sync_call wp_if wp_ret split: on_ok_split)
qed

lemma wp_gas_decide:
  assumes "trace w = h @ a" "unsent a"
  shows "wp E (gas_decide label need status) (\<lambda>_. gas_spent E h label need) w"
  unfolding gas_decide_def using wp_gas_ask [OF assms] gas_unspent [OF assms]
  by (simp add: wp_bind wp_get_prop wp_if wp_ret)

lemma ensure_gas_spent:
  "\<exists>cs. trace (snd (ensureNexusGasForAction label g E w)) = trace w @ cs \<and>
     (unsent cs \<or> topped_up E (trace w) label (gas_needed g) cs)"
proof -
  let ?R = "\<lambda>_. gas_spent E (trace w) label (gas_needed g)"
  have "wp E (crylo_nexusGasStatus l) (on_ok (\<lambda>s. wp E (gas_decide label (gas_needed g) s) ?R) ?R) w" for l
  proof (rule wp_unsigned [OF unsigned_views(2)])
    fix r :: "jsval outcome" and w' :: world and a
    assume "trace w' = trace w @ a" "unsent a"
    then show "on_ok (\<lambda>s. wp E (gas_decide label (gas_needed g) s) ?R) ?R r w'"
      using wp_gas_decide gas_unspent by (cases r) auto
  qed
  then have "wp E (ensureNexusGasForAction label g) ?R w"
    using gas_unspent [of w "trace w" "[]"] by (simp add: ensure_gas_parts getLinkedNexusAddress_def wp_bind wp_gets wp_if wp_ret) blast
  then show ?thesis by (simp add: wp_run gas_spent_def)
qed

text \<open>
  C12. Gas top-ups need consent: whatever the chain, the services and other tasks do, a gas check sends no transaction, or
  it asked the user first, with a question that names the amount of wCRYLO, because the gas was not enough, the user said yes,
  and every transaction after it approves the gas manager for, or exchanges, exactly that amount.
\<close>

theorem gas_topup_consented:
  "\<exists>cs. trace (snd (ensureNexusGasForAction label g E w)) = trace w @ cs \<and>
     (unsent cs \<or> topped_up E (trace w) label (gas_needed g) cs)"
  by (rule ensure_gas_spent)

section \<open>The report of a buyback\<close>

lemma wp_bind_any:
  fixes m :: "'a js" and k :: "'a \<Rightarrow> 'b js"
  assumes "\<And>x w'. wp E (k x) R w'" "\<And>r w'. (\<And>x. r \<noteq> Ok x) \<Longrightarrow> R r w'"
  shows "wp E (bind m k) R w"
  unfolding wp_bind wp_run [of _ m] using assms by (cases "fst (m E w)") auto

lemma wp_andthen_any:
  assumes "\<And>w'. wp E k R w'" "\<And>r w'. (\<And>x. r \<noteq> Ok x) \<Longrightarrow> R r w'"
  shows "wp E (andthen m k) R w"
  unfolding andthen_def by (rule wp_bind_any) (use assms in auto)

text \<open>The text of an element is \<open>t\<close>.\<close>

definition shows_text :: "string \<Rightarrow> string \<Rightarrow> world \<Rightarrow> bool" where
  "shows_text i t w \<longleftrightarrow> el_nodes (page w i) = [Txt t]"

lemma wp_set_text: "has_el i \<Longrightarrow> (\<And>w'. shows_text i t w' \<Longrightarrow> R (Ok ()) w') \<Longrightarrow> wp E (set_text i t) R w"
  by (simp add: set_text_def wp_eval shows_text_def)


definition unlinked_world :: world where
  "unlinked_world = sample_world\<lparr>st := sample_state\<lparr>nexusAddress := Str []\<rparr>\<rparr>"


section \<open>Restoring a wallet\<close>

lemma select_wallet_ok: "fst (select_wallet n E w) = Ok ()"
proof -
  have "wp E (select_wallet n) (\<lambda>r _. r = Ok ()) w"
    unfolding select_wallet_def clearNexusUiForWalletSwitch_def set_text_if_def set_html_if_def
    by (simp add: wp_eval set_state_def set_value_def set_attr_def set_text_def set_html_def)
  then show ?thesis by (simp add: wp_run)
qed

lemma wp_select_wallet: "wp E (select_wallet n) R = (\<lambda>w. R (Ok ()) (snd (select_wallet n E w)))"
  by (simp add: fun_eq_iff wp_run select_wallet_ok)

text \<open>The message that restores a wallet from the fields of the page.\<close>

definition restore_params :: "world \<Rightarrow> jsval" where
  "restore_params w =
     Obj [(''filename'', Str (trim (el_value (page w ''restore-name'')))), (''seed'', Str (trim (el_value (page w ''restore-seed'')))),
       (''password'', Str (el_value (page w ''restore-pass''))),
       (''restore_height'', js_or (Num (parse_int (el_value (page w ''restore-height'')))) (jint 0)),
       (''language'', Str ''English''), (''autosave_current'', Bool True)]"

text \<open>
  C39. Restoring a wallet: when the fields are filled in with a seed of 25 words and the wallet service restored the wallet,
  the action still ends with a ReferenceError, because it calls a function that is declared nowhere; the main screen is
  never opened.
\<close>

theorem restore_ends_in_error:
  assumes "trim (el_value (page w ''restore-name'')) \<noteq> []"
    "length (words_ws [] (trim (el_value (page w ''restore-seed'')))) = 25"
    "fst (crylo_walletRpc (Str ''restore_deterministic_wallet'') (restore_params w) (jint 60000) E w) = Ok res" "truthy (jprop res ''ok'')"
  shows "fst (restoreWallet E w) = Throw (reference_error ''refreshWalletList'')"
proof -
  have el: "has_el ''restore-name''" "has_el ''restore-seed''" "has_el ''restore-height''" "has_el ''restore-pass''" by code_simp+
  have "length (words_ws [] []) = 1" by (simp add: words_ws.simps)
  then have seed: "trim (el_value (page w ''restore-seed'')) \<noteq> []" using assms(2) by auto
  have res: "\<not> nullish res" using assms(4) truthy_prop by blast
  have "wp E restoreWallet (\<lambda>r _. r = Throw (reference_error ''refreshWalletList'')) w"
    unfolding restoreWallet_def Let_def
    using assms el seed res
    by (simp add: wp_eval get_value_def wp_select_wallet restore_params_def)
  then show ?thesis by (simp add: wp_run)
qed

definition restore_page :: world where
  "restore_page = sample_world\<lparr>page := (\<lambda>i. blank_elem\<lparr>el_value :=
     (if i = ''restore-seed'' then ''a b c d e f g h i j k l m n o p q r s t u v w x y''
      else if i = ''restore-name'' then ''bob'' else [])\<rparr>)\<rparr>"

theorem restore_ends_in_error_witness:
  "fst (restoreWallet (sample_env (\<lambda>h c. Ok (Str ''{\"result\":{}}''))) restore_page) = Throw (reference_error ''refreshWalletList'')"
proof -
  have json: "JSON_parse ''{\"result\":{}}'' = Some (Obj [(''result'', Obj [])])" by code_simp
  have seed: "length (words_ws [] (trim ''a b c d e f g h i j k l m n o p q r s t u v w x y'')) = 25" by code_simp
  have name: "trim ''bob'' \<noteq> []" by code_simp
  have "fst (crylo_walletRpc (Str ''restore_deterministic_wallet'') p (jint 60000) (sample_env (\<lambda>h c. Ok (Str ''{\"result\":{}}''))) w) =
      Ok (ok_reply [(''result'', Obj [])])" for p w
    by (simp add: crylo_relay relay_def ipc_wallet_rpc_def with_message_def walletRpc_def rpcCall_def try_catch_def bind_def
        await_call_def sample_env_def parse_text_def json ret_def get_prop_def obj_get_def nullish_def)
  then show ?thesis
    using name seed
    by (intro restore_ends_in_error [of restore_page _ "ok_reply [(''result'', Obj [])]"])
       (simp_all add: restore_page_def ok_reply_def obj_get_def)
qed

end
