(* ===== verification/TypedProps.thy ===== *)
theory TypedProps
  imports ActionProps
begin

text \<open>
  From the page to the chain: the amount in the transactions of an action on the Nexus chain is the amount the user typed.
  An action checks the gas first, which may add the top-up of ActionProps, and then calls its handler.
\<close>

section \<open>Actions behind a gas check\<close>

text \<open>Every transaction satisfies a test.\<close>

definition sends_only :: "(env \<Rightarrow> call \<Rightarrow> bool) \<Rightarrow> Steps.step" where
  "sends_only P E w w' \<longleftrightarrow> (\<exists>cs. trace w' = trace w @ cs \<and> list_all (\<lambda>c. is_send c \<longrightarrow> P E c) cs)"

lemma harmless_unsent: "harmless c \<Longrightarrow> \<not> is_send c"
  by (cases c) simp_all

lemma sends_only_frame: "trace w' = trace w \<Longrightarrow> sends_only P E w w'"
  by (simp add: sends_only_def)

interpretation sent: view_steps "sends_only P" for P
proof
  show "sends_only P E w w" for E w by (simp add: sends_only_frame)
  show "sends_only P E w u" if "sends_only P E w v" "sends_only P E v u" for E w v u
    using that by (fastforce simp: sends_only_def)
  show "sends_only P E w (w\<lparr>trace := trace w @ [c]\<rparr>)" if "harmless c" for E w c
    using harmless_unsent [OF that] by (simp add: sends_only_def)
  show "sends_only P E w (awaited E c w)" if "harmless c" for E w c
    using harmless_unsent [OF that] by (simp add: sends_only_def)
qed (auto simp: sends_only_frame runs_within_def drop_release_poll_def drop_bridge_poll_def bind_def gets_def andthen_def
    clear_timer_def clear_interval_def modify_def ret_def split: option.splits)

text \<open>What an action has spent: the gas check, and then only transactions that satisfy the test.\<close>

definition gas_then :: "env \<Rightarrow> call list \<Rightarrow> string \<Rightarrow> jsnum \<Rightarrow> (call \<Rightarrow> bool) \<Rightarrow> call list \<Rightarrow> bool" where
  "gas_then E h label need P cs \<longleftrightarrow> (\<exists>gs as. cs = gs @ as \<and> (unsent gs \<or> topped_up E h label need gs) \<and>
     list_all (\<lambda>c. is_send c \<longrightarrow> P c) as)"

lemma gas_then_unsent: "unsent cs \<Longrightarrow> gas_then E h label need P cs"
  unfolding gas_then_def by (intro exI [of _ cs] exI [of _ "[]"]) simp

abbreviation gas_calls :: "env \<Rightarrow> call list \<Rightarrow> string \<Rightarrow> jsnum \<Rightarrow> call list \<Rightarrow> bool" where
  "gas_calls E h label g gs \<equiv> unsent gs \<or> topped_up E h label (gas_needed g) gs"

lemma wp_after_gas:
  assumes "\<And>x w' gs. trace w' = trace w @ gs \<Longrightarrow> gas_calls E (trace w) label g gs \<Longrightarrow> wp E (k x) R w'"
    and "\<And>r w' gs. trace w' = trace w @ gs \<Longrightarrow> gas_calls E (trace w) label g gs \<Longrightarrow> R r w'"
  shows "wp E (bind (ensureNexusGasForAction label g) k) R w"
proof -
  obtain gs where "trace (snd (ensureNexusGasForAction label g E w)) = trace w @ gs" "gas_calls E (trace w) label g gs"
    using ensure_gas_spent by blast
  then show ?thesis
    using assms unfolding wp_bind wp_run [of _ "ensureNexusGasForAction label g"]
    by (cases "fst (ensureNexusGasForAction label g E w)") simp_all
qed

lemma wp_sends_only:
  assumes "runs_within (sends_only P) m"
    and "\<And>r w' cs. trace w' = trace w @ cs \<Longrightarrow> list_all (\<lambda>c. is_send c \<longrightarrow> P E c) cs \<Longrightarrow> R r w'"
  shows "wp E m R w"
  using assms unfolding runs_within_def sends_only_def wp_run by blast

lemma wp_gas_then:
  assumes k: "\<And>x. runs_within (sends_only P) (k x)"
    and R: "\<And>r w' cs. trace w' = trace w @ cs \<Longrightarrow> gas_then E (trace w) label (gas_needed g) (P E) cs \<Longrightarrow> R r w'"
  shows "wp E (bind (ensureNexusGasForAction label g) k) R w"
proof (rule wp_after_gas)
  fix w1 :: world and gs
  assume gs: "trace w1 = trace w @ gs" "gas_calls E (trace w) label g gs"
  have ends: "R r w'" if "trace w' = trace w1 @ as" "list_all (\<lambda>c. is_send c \<longrightarrow> P E c) as" for r w' as
    using that gs by (intro R [of w' "gs @ as"]) (auto simp: gas_then_def)
  show "wp E (k x) R w1" for x by (rule wp_sends_only [OF k ends])
  show "R r w1" for r by (rule ends [of w1 "[]"]) simp_all
qed

section \<open>Staking\<close>

text \<open>The transactions that stake, unstake and burn \<open>v\<close> units.\<close>

fun stake_send :: "int \<Rightarrow> call \<Rightarrow> bool" where
  "stake_send v (ContractSend s target fn args k) \<longleftrightarrow>
     target = tokenAddress \<and> fn = ''approve'' \<and> args = [Str stakingAddress, Big v] \<or>
     target = stakingAddress \<and> fn = ''stake'' \<and> args = [Big v]"
| "stake_send v _ \<longleftrightarrow> False"

fun unstake_send :: "int \<Rightarrow> call \<Rightarrow> bool" where
  "unstake_send v (ContractSend s target fn args k) \<longleftrightarrow> target = stakingAddress \<and> fn = ''unstake'' \<and> args = [Big v]"
| "unstake_send v _ \<longleftrightarrow> False"

fun burn_send :: "jsval \<Rightarrow> int \<Rightarrow> call \<Rightarrow> bool" where
  "burn_send a v (ContractSend s target fn args k) \<longleftrightarrow> target = bridgeAddress \<and> fn = ''burnForCryLo'' \<and> args = [a, Big v]"
| "burn_send a v _ \<longleftrightarrow> False"

text \<open>A transaction with the amount of a text, in the units of wCRYLO.\<close>

definition of_text :: "string \<Rightarrow> (int \<Rightarrow> call \<Rightarrow> bool) \<Rightarrow> env \<Rightarrow> call \<Rightarrow> bool" where
  "of_text t P E c \<longleftrightarrow> (\<exists>v. parseUnits E t WCRYLO_DECIMALS = Ok v \<and> P v c)"

lemma signed_sends:
  assumes "\<And>E w. trace (snd (m E w)) = trace w @ signed_calls E n a (steps E) w"
    and "\<And>E s f us c. f \<in> set (steps E s) \<Longrightarrow> f us = Some c \<Longrightarrow> is_send c \<Longrightarrow> P E c"
  shows "runs_within (sends_only P) m"
  unfolding runs_within_def sends_only_def
proof (intro allI exI conjI, rule assms(1))
  fix E w
  show "list_all (\<lambda>c. is_send c \<longrightarrow> P E c) (signed_calls E n a (steps E) w)"
    unfolding list_all_iff using signed_calls_step [of _ E n a "steps E" w] assms(2) by fastforce
qed

lemma stake_sends [rw_intros]:
  "runs_within (sends_only (of_text t stake_send)) (crylo_nexusStakeWcrylo (Str t) n a)"
  "runs_within (sends_only (of_text t unstake_send)) (crylo_nexusUnstakeWcrylo (Str t) n a)"
  "runs_within (sends_only (of_text t (burn_send a))) (crylo_nexusBurnForCryLo (Str t) n a)"
proof -
  have relayed: "runs_within (sends_only P) (relay ch m)" if "runs_within (sends_only P) m" for P ch and m :: "jsval js"
    using that by (rule sent.rw_relay)
  show "runs_within (sends_only (of_text t stake_send)) (crylo_nexusStakeWcrylo (Str t) n a)"
    unfolding crylo_relay
    by (rule relayed [OF signed_sends [OF stake.calls]]) (auto simp: step_defs of_text_def split: outcome.splits)
  show "runs_within (sends_only (of_text t unstake_send)) (crylo_nexusUnstakeWcrylo (Str t) n a)"
    unfolding crylo_relay
    by (rule relayed [OF signed_sends [OF unstake.calls]]) (auto simp: step_defs of_text_def split: outcome.splits)
  show "runs_within (sends_only (of_text t (burn_send a))) (crylo_nexusBurnForCryLo (Str t) n a)"
    unfolding crylo_relay
    by (rule relayed [OF signed_sends [OF burn_for_crylo.calls]]) (auto simp: step_defs of_text_def split: outcome.splits)
qed

text \<open>What the two actions do after the gas check.\<close>

definition stake_run :: "string \<Rightarrow> jsval \<Rightarrow> unit js" where
  "stake_run amount gasCheck = bind (get_prop gasCheck ''ok'') (\<lambda>ok. if \<not> truthy ok
     then set_text ''nexus-staking-status'' (gas_failure ''Stake cancelled.'' ''Stake failed: '' gasCheck)
     else andthen (set_text ''nexus-staking-status'' (''Staking '' @ amount @ '' wCRYLO...''))
       (try_catch (bind wallet_name (\<lambda>n. bind wallet_address (\<lambda>a. bind (crylo_nexusStakeWcrylo (Str amount) n a) (\<lambda>result.
          bind (get_prop result ''ok'') (\<lambda>rok. if \<not> truthy rok
            then bind (name_includes (js_or (jprop result ''error'') (Str [])) ''insufficient funds'') (\<lambda>broke.
              set_text ''nexus-staking-status'' (''Stake failed: '' @
                (if broke then ''Bound Nexus wallet needs gas for staking transactions.''
                 else text_or (jprop result ''error'') ''Unknown error'')))
            else block [set_text ''nexus-staking-status'' (''Staked '' @ amount @ '' wCRYLO successfully.''),
              set_value ''nexus-stake-amount'' [], after_staking])))))
         (\<lambda>_. set_text ''nexus-staking-status'' ''Stake failed.'')))"

definition unstake_run :: "string \<Rightarrow> jsval \<Rightarrow> unit js" where
  "unstake_run amount gasCheck = bind (get_prop gasCheck ''ok'') (\<lambda>ok. if \<not> truthy ok
     then set_text ''nexus-staking-status'' (gas_failure ''Unstake cancelled.'' ''Unstake failed: '' gasCheck)
     else andthen (set_text ''nexus-staking-status'' (''Unstaking '' @ amount @ '' wCRYLO...''))
       (try_catch (bind wallet_name (\<lambda>n. bind wallet_address (\<lambda>a. bind (crylo_nexusUnstakeWcrylo (Str amount) n a) (\<lambda>result.
          bind (get_prop result ''ok'') (\<lambda>rok. if \<not> truthy rok
            then bind (name_includes (js_or (jprop result ''error'') (Str [])) ''insufficient funds'') (\<lambda>broke.
              set_text ''nexus-staking-status'' (''Unstake failed: '' @
                (if broke then ''Bound Nexus wallet needs gas for unstaking transactions.''
                 else text_or (jprop result ''error'') ''Unknown error'')))
            else block [set_text ''nexus-staking-status'' (''Unstaked '' @ amount @ '' wCRYLO successfully.''),
              set_value ''nexus-stake-amount'' [], after_staking])))))
         (\<lambda>_. set_text ''nexus-staking-status'' ''Unstake failed.'')))"

lemma run_sends:
  "runs_within (sends_only (of_text t stake_send)) (stake_run t x)"
  "runs_within (sends_only (of_text t unstake_send)) (unstake_run t x)"
  unfolding stake_run_def unstake_run_def after_staking_def later_refreshes_def Let_def append.simps by (rule rw_intros)+

lemma staking_parts:
  "stakeNexusWcrylo = bind (get_value ''nexus-stake-amount'') (\<lambda>v.
     if invalid_amount (trim v) then set_text ''nexus-staking-status'' ''Enter a valid staking amount.''
     else bind (get_text ''bal-wcrylo'') (\<lambda>t. if available_wcrylo t < string_to_number (trim v)
       then set_text ''nexus-staking-status'' (''Stake failed: only '' @ to_fixed 4 (available_wcrylo t) @ '' wCRYLO available.'')
       else andthen (set_text ''nexus-staking-status'' ''Checking Nexus gas for staking...'')
         (bind (ensureNexusGasForAction ''staking'' (rnd (4 / 100))) (stake_run (trim v)))))"
  "unstakeNexusWcrylo = bind (get_value ''nexus-stake-amount'') (\<lambda>v.
     if invalid_amount (trim v) then set_text ''nexus-staking-status'' ''Enter a valid unstaking amount.''
     else andthen (set_text ''nexus-staking-status'' ''Checking Nexus gas for unstaking...'')
         (bind (ensureNexusGasForAction ''unstaking'' (rnd (4 / 100))) (unstake_run (trim v))))"
  unfolding stakeNexusWcrylo_def unstakeNexusWcrylo_def stake_run_def unstake_run_def Let_def by (rule refl)+

text \<open>The text typed into a field.\<close>

definition typed :: "string \<Rightarrow> world \<Rightarrow> string" where
  "typed i w = trim (el_value (page w i))"

text \<open>
  C15. Staking moves the typed amount: whatever the chain, the services and other tasks do, the transactions of staking are
  those of a gas check the user agreed to, followed by an approval of the staking contract for, and a stake of, exactly the units
  of the text in the amount field when the button was pressed; unstaking, by an unstake of exactly those units.
\<close>

theorem staking_amount_typed:
  "(\<exists>cs. trace (snd (stakeNexusWcrylo E w)) = trace w @ cs \<and>
      gas_then E (trace w) ''staking'' (gas_needed (rnd (4 / 100))) (of_text (typed ''nexus-stake-amount'' w) stake_send E) cs) \<and>
   (\<exists>cs. trace (snd (unstakeNexusWcrylo E w)) = trace w @ cs \<and>
      gas_then E (trace w) ''unstaking'' (gas_needed (rnd (4 / 100))) (of_text (typed ''nexus-stake-amount'' w) unstake_send E) cs)"
proof
  define R :: "string \<Rightarrow> (int \<Rightarrow> call \<Rightarrow> bool) \<Rightarrow> unit outcome \<Rightarrow> world \<Rightarrow> bool" where "R = (\<lambda>l P r w'. \<exists>cs. trace w' = trace w @ cs \<and>
    gas_then E (trace w) l (gas_needed (rnd (4 / 100))) (of_text (typed ''nexus-stake-amount'' w) P E) cs)"
  define g where "g = rnd (4 / 100)"
  have quiet: "R l P r w'" if "trace w' = trace w" for l P r w'
    unfolding R_def using that by (intro exI [of _ "[]"]) (simp add: gas_then_unsent)
  have act: "wp E (bind (ensureNexusGasForAction l g) k) (R l P) w'"
    if "trace w' = trace w" "\<And>x. runs_within (sends_only (of_text (typed ''nexus-stake-amount'' w) P)) (k x)" for l P k w'
    using that unfolding R_def g_def by (intro wp_gas_then) auto
  note wps = wp_bind [of _ "get_value _"] wp_bind [of _ "get_text _"] wp_get_value wp_get_text wp_if wp_andthen
    set_text_def wp_write_el
  have el: "has_el ''nexus-stake-amount''" "has_el ''bal-wcrylo''" "has_el ''nexus-staking-status''" by code_simp+
  have "wp E stakeNexusWcrylo (R ''staking'' stake_send) w" "wp E unstakeNexusWcrylo (R ''unstaking'' unstake_send) w"
    using run_sends unfolding staking_parts g_def [symmetric] by (simp_all add: wps el typed_def quiet act)
  then show "\<exists>cs. trace (snd (stakeNexusWcrylo E w)) = trace w @ cs \<and> gas_then E (trace w) ''staking'' (gas_needed (rnd (4 / 100)))
      (of_text (typed ''nexus-stake-amount'' w) stake_send E) cs"
    "\<exists>cs. trace (snd (unstakeNexusWcrylo E w)) = trace w @ cs \<and> gas_then E (trace w) ''unstaking'' (gas_needed (rnd (4 / 100)))
      (of_text (typed ''nexus-stake-amount'' w) unstake_send E) cs"
    unfolding wp_run R_def .
qed

section \<open>Releasing CRYLO\<close>

definition release_question :: "string \<Rightarrow> jsval \<Rightarrow> string" where
  "release_question amountText a = ''Burn '' @ amountText @ '' wCRYLO and release CRYLO back to your CryLo wallet?'' @ newline @ newline
     @ ''Destination CryLo wallet:'' @ newline @ to_str a"

text \<open>The parts of a release: after the burn, the burn, and the question after the gas check.\<close>

definition release_after :: "jsval \<Rightarrow> unit js" where
  "release_after result = bind (get_prop result ''ok'') (\<lambda>rok. if \<not> truthy rok
     then throw (new_error (js_or (jprop result ''error'') (Str ''Burn failed.'')))
     else andthen (setBridgeOutStatus (''Burn confirmed. Reserve release is processing. Nexus TX: '' @ to_str (jprop result ''txHash'')))
       (andthen (do_if (has_el ''bridge-out-amount'') (set_value ''bridge-out-amount'' []))
       (andthen refreshNexusWcryloBalance (andthen refreshAll (andthen loadNexusTransactions
       (andthen (set_timeout CbRefreshAll 5000) (andthen (set_timeout CbRefreshAll 15000)
       (andthen (set_timeout CbRefreshWcrylo 5000) (set_timeout CbRefreshWcrylo 15000)))))))))"

definition release_burn :: "string \<Rightarrow> unit js" where
  "release_burn t = andthen (setBridgeOutStatus ''Burning wCRYLO on Nexus...'') (bind wallet_name (\<lambda>n. bind wallet_address (\<lambda>a.
     bind (crylo_nexusBurnForCryLo (Str t) n a) release_after)))"

definition release_ask :: "string \<Rightarrow> jsval \<Rightarrow> unit js" where
  "release_ask t gasCheck = bind (get_prop gasCheck ''ok'') (\<lambda>ok. if \<not> truthy ok
     then setBridgeOutStatus (gas_failure ''Release cancelled.'' ''Release failed: '' gasCheck)
     else bind wallet_address (\<lambda>a. bind (sync_call (BrowserConfirm (release_question t a))) (\<lambda>yes.
       if \<not> truthy yes then setBridgeOutStatus ''Release cancelled.'' else release_burn t)))"

definition release_check :: "unit js" where
  "release_check = bind (get_value ''bridge-out-amount'') (\<lambda>t.
     if \<not> is_finite_num (string_to_number t) \<or> string_to_number t \<le> Fin 0 then throw (mk_error ''Invalid wCRYLO amount.'')
     else andthen (setBridgeOutStatus ''Checking Nexus gas...'')
       (bind (ensureNexusGasForAction ''wCRYLO to CRYLO bridge release'' (rnd (4 / 100))) (release_ask t)))"

lemma release_parts:
  "bridge_out = bind ensureCryLoAddressLoaded (\<lambda>loaded. if \<not> loaded then throw (mk_error ''Open a CryLo wallet first.'')
     else bind getLinkedNexusAddress (\<lambda>naddr. if \<not> truthy naddr then throw (mk_error ''Create/load the bound Nexus wallet first.'')
       else release_check))"
  unfolding bridge_out_def release_check_def release_ask_def release_burn_def release_after_def release_question_def Let_def
    append_assoc by (rule refl)

text \<open>What a release has spent after the gas check: nothing, or the burn the user agreed to.\<close>

definition burned :: "env \<Rightarrow> call list \<Rightarrow> call list \<Rightarrow> bool" where
  "burned E h bs \<longleftrightarrow> unsent bs \<or> (\<exists>t a y b. bs = BrowserConfirm (release_question t a) # b \<and>
     answer E h (BrowserConfirm (release_question t a)) = Ok y \<and> truthy y \<and> list_all (\<lambda>c. is_send c \<longrightarrow> of_text t (burn_send a) E c) b)"

lemma wp_out_status: "wp E (setBridgeOutStatus m) R = (\<lambda>w. R (Ok ()) (snd (setBridgeOutStatus m E w)))"
  by (auto simp: setBridgeOutStatus_def set_text_if_def set_text_def wp_eval fun_eq_iff wp_run write_el_def do_if_def modify_def ret_def)

lemma out_status_frame [simp]:
  "trace (snd (setBridgeOutStatus m E w)) = trace w" "st (snd (setBridgeOutStatus m E w)) = st w"
  by (auto simp: setBridgeOutStatus_def set_text_if_def set_text_def write_el_def do_if_def modify_def ret_def throw_def)

lemma wp_release_burn:
  assumes "\<And>r w' b. trace w' = trace w @ b \<Longrightarrow> list_all (\<lambda>c. is_send c \<longrightarrow> of_text t (burn_send (address (st w))) E c) b \<Longrightarrow> R r w'"
  shows "wp E (release_burn t) R w"
proof -
  have after: "runs_within (sends_only P) (release_after x)" for P x
    unfolding release_after_def by (rule rw_intros)+
  let ?P = "of_text t (burn_send (address (st w)))"
  have "runs_within (sends_only ?P) (bind (crylo_nexusBurnForCryLo (Str t) n (address (st w))) release_after)" for n
    by (rule rw_intros after)+
  then have "wp E (bind (crylo_nexusBurnForCryLo (Str t) n (address (st w))) release_after) R (snd (setBridgeOutStatus m E w))" for n m
    by (rule wp_sends_only) (use assms in simp)
  then show ?thesis
    unfolding release_burn_def wallet_name_def wallet_address_def
    by (simp add: wp_andthen wp_out_status wp_bind [of _ "gets _"] wp_gets)
qed

lemma wp_release_ask:
  assumes "\<And>r w' bs. trace w' = trace w @ bs \<Longrightarrow> burned E (trace w) bs \<Longrightarrow> R r w'"
  shows "wp E (release_ask t x) R w"
proof -
  let ?q = "BrowserConfirm (release_question t (address (st w)))"
  have quiet: "R r w'" if "trace w' = trace w @ bs" "unsent bs" for r w' bs
    using assms [OF that(1)] that(2) unfolding burned_def by blast
  have "wp E (release_burn t) R (w\<lparr>trace := trace w @ [?q]\<rparr>)" if "answer E (trace w) ?q = Ok y" "truthy y" for y
  proof (rule wp_release_burn)
    fix r :: "unit outcome" and w' :: world and b
    assume "trace w' = trace (w\<lparr>trace := trace w @ [?q]\<rparr>) @ b"
      "list_all (\<lambda>c. is_send c \<longrightarrow> of_text t (burn_send (address (st (w\<lparr>trace := trace w @ [?q]\<rparr>)))) E c) b"
    then show "R r w'" using that by (intro assms [of w' "?q # b"]) (auto simp: burned_def)
  qed
  then show ?thesis
    using quiet [of _ "[]"] quiet [of _ "[?q]"]
    by (simp add: release_ask_def wallet_address_def wp_bind wp_gets wp_get_prop wp_if wp_out_status wp_sync_call split: on_ok_split)
qed

text \<open>
  C14. A release burns what the user agreed to: whatever the chain, the services and other tasks do, the transactions of a release
  are those of a gas check the user agreed to, followed by a burn only after the user said yes to a question that names an amount
  and the destination, and then of exactly the units of that amount, released to exactly that CryLo address.
\<close>

theorem release_consented:
  "\<exists>a gs bs. trace (snd (startCryLoBridgeOut E w)) = trace w @ a @ gs @ bs \<and> unsent a \<and>
     gas_calls E (trace w @ a) ''wCRYLO to CRYLO bridge release'' (rnd (4 / 100)) gs \<and> burned E (trace w @ a @ gs) bs"
proof -
  define g where "g = rnd (4 / 100)"
  define R :: "unit outcome \<Rightarrow> world \<Rightarrow> bool" where "R = (\<lambda>r w'. \<exists>a gs bs. trace w' = trace w @ a @ gs @ bs \<and> unsent a \<and>
     gas_calls E (trace w @ a) ''wCRYLO to CRYLO bridge release'' g gs \<and> burned E (trace w @ a @ gs) bs)"
  define Q :: "unit outcome \<Rightarrow> world \<Rightarrow> bool" where
    "Q = on_throw (\<lambda>e. wp E (bind (get_prop e ''message'') (\<lambda>m. setBridgeOutStatus (text_or m ''release failed''))) R) R"
  have RQ: "Q r w'" if "\<And>r' v. trace v = trace w' \<Longrightarrow> R r' v" for r w'
    using that by (cases r) (simp_all add: Q_def wp_bind wp_get_prop wp_out_status)
  have ends: "Q r w'" if "trace w' = trace w @ a @ gs @ bs" "unsent a" "gas_calls E (trace w @ a) ''wCRYLO to CRYLO bridge release'' g gs"
    "burned E (trace w @ a @ gs) bs" for r w' a gs bs
    using that by (intro RQ) (auto simp: R_def)
  have quiet: "Q r w'" if "trace w' = trace w @ a" "unsent a" for r w' a
    by (rule ends [of w' a "[]" "[]"]) (use that in \<open>simp_all add: burned_def\<close>)
  have check: "wp E release_check Q w1" if w1: "trace w1 = trace w @ a" "unsent a" for w1 a
  proof -
    have "wp E (bind (ensureNexusGasForAction ''wCRYLO to CRYLO bridge release'' g) (release_ask t)) Q v" if "trace v = trace w1" for v t
    proof (rule wp_after_gas)
      fix r and x and v' :: world and gs
      assume gs: "trace v' = trace v @ gs" "gas_calls E (trace v) ''wCRYLO to CRYLO bridge release'' g gs"
      have e: "Q r u" if "trace u = trace v' @ bs" "burned E (trace v') bs" for r u bs
        using gs w1 that \<open>trace v = trace w1\<close> by (intro ends [of u a gs bs]) simp_all
      show "wp E (release_ask t x) Q v'" by (rule wp_release_ask [OF e])
      show "Q r v'" by (rule e [of v' "[]"]) (simp_all add: burned_def)
    qed
    then show ?thesis
      using quiet [of _ a] w1
      unfolding release_check_def g_def [symmetric]
      by (simp add: wp_bind [of _ "get_value _"] wp_get_value wp_if wp_throw wp_andthen wp_out_status)
  qed
  have "runs_within (sends_only (\<lambda>_ _. False)) ensureCryLoAddressLoaded" by (rule rw_intros)
  then have "wp E bridge_out Q w"
    unfolding release_parts wp_bind [of _ ensureCryLoAddressLoaded]
  proof (rule wp_sends_only)
    fix r :: "bool outcome" and w1 :: world and a
    assume "trace w1 = trace w @ a" "list_all (\<lambda>c. is_send c \<longrightarrow> False) a"
    then show "on_ok (\<lambda>loaded. wp E (if \<not> loaded then throw (mk_error ''Open a CryLo wallet first.'')
        else bind getLinkedNexusAddress (\<lambda>naddr. if \<not> truthy naddr then throw (mk_error ''Create/load the bound Nexus wallet first.'')
          else release_check)) Q) Q r w1"
      using quiet [of w1 a] check [of w1 a]
      by (cases r) (simp_all add: getLinkedNexusAddress_def wp_if wp_throw wp_bind [of _ "gets _"] wp_gets)
  qed
  then have "wp E startCryLoBridgeOut R w" unfolding startCryLoBridgeOut_def wp_try_catch Q_def .
  then show ?thesis unfolding wp_run R_def g_def .
qed

end
