(* ===== verification/OpenedProps.thy ===== *)
theory OpenedProps
  imports StartupProps Guarantees
begin

text \<open>
  Which wallet is open: in every run the name the renderer keeps is empty, or that of a wallet which the wallet service
  opened, created or restored when it was asked to, so a refused password never selects a wallet. And after the user closed
  a wallet, nothing polls for it any more.
\<close>

section \<open>Requests that open a wallet\<close>

definition opening_methods :: "string list" where
  "opening_methods = [''open_wallet'', ''create_wallet'', ''restore_deterministic_wallet'']"

text \<open>A request to the wallet service to open, create or restore the wallet of a name, which it answered without an error.\<close>

definition opens :: "env \<Rightarrow> call list \<Rightarrow> call \<Rightarrow> string \<Rightarrow> bool" where
  "opens E h c n \<longleftrightarrow> (\<exists>m ps t. m \<in> set opening_methods \<and> c = wallet_post (Str m) ps t \<and> jprop ps ''filename'' = Str n \<and> rpc_up E h c)"

definition opened :: "env \<Rightarrow> call list \<Rightarrow> string \<Rightarrow> bool" where
  "opened E h n \<longleftrightarrow> (\<exists>h1 c h2. h = h1 @ c # h2 \<and> opens E h1 c n)"

lemma opened_append: "opened E h n \<Longrightarrow> opened E (h @ cs) n"
  unfolding opened_def by fastforce

text \<open>Other tasks leave the name, clear it, or set it to a wallet that was opened.\<close>

definition names_opened :: "env \<Rightarrow> bool" where
  "names_opened E \<longleftrightarrow> (\<forall>h v. let n = walletName (st (meddle E h v)) in n = walletName (st v) \<or> n = [] \<or> opened E h n)"

text \<open>The guarantee, for a program that may select the wallet in \<open>S\<close>, if it was opened before.\<close>

definition name_kept :: "string option \<Rightarrow> Steps.step" where
  "name_kept S E w w' \<longleftrightarrow> names_opened E \<longrightarrow> (\<forall>n \<in> set_option S. opened E (trace w) n) \<longrightarrow>
     (\<exists>cs. trace w' = trace w @ cs) \<and>
     (let n = walletName (st w') in n = walletName (st w) \<or> n = [] \<or> opened E (trace w') n)"

lemma name_kept_frame: "trace w' = trace w \<Longrightarrow> walletName (st w') = walletName (st w) \<Longrightarrow> name_kept S E w w'"
  by (simp add: name_kept_def)

lemma name_kept_trans:
  assumes "name_kept S E w v" "name_kept S E v u"
  shows "name_kept S E w u"
  unfolding name_kept_def Let_def
proof (intro impI)
  assume E: "names_opened E" and S: "\<forall>n \<in> set_option S. opened E (trace w) n"
  obtain cs where v: "trace v = trace w @ cs"
      "walletName (st v) = walletName (st w) \<or> walletName (st v) = [] \<or> opened E (trace v) (walletName (st v))"
    using assms(1) E S by (auto simp: name_kept_def Let_def)
  have "\<forall>n \<in> set_option S. opened E (trace v) n" using S opened_append v(1) by auto
  then obtain ds where "trace u = trace v @ ds"
      "walletName (st u) = walletName (st v) \<or> walletName (st u) = [] \<or> opened E (trace u) (walletName (st u))"
    using assms(2) E by (auto simp: name_kept_def Let_def)
  then show "(\<exists>cs. trace u = trace w @ cs) \<and>
      (walletName (st u) = walletName (st w) \<or> walletName (st u) = [] \<or> opened E (trace u) (walletName (st u)))"
    using v opened_append [of E "trace v"] by auto
qed

lemma name_kept_await: "name_kept S E w (awaited E c w)"
  unfolding name_kept_def names_opened_def Let_def by (auto simp: awaited_def)

interpretation nc: call_steps "name_kept S" for S
proof
  show "name_kept S E w u" if "name_kept S E w v" "name_kept S E v u" for E w v u
    using that by (rule name_kept_trans)
  show "name_kept S E w (w\<lparr>trace := trace w @ [c]\<rparr>)" for E w c by (simp add: name_kept_def)
  then show "name_kept S E w (w\<lparr>trace := trace w @ [c]\<rparr>)" for E w c .
qed (auto intro!: name_kept_await name_kept_frame simp: runs_within_def drop_release_poll_def drop_bridge_poll_def bind_def gets_def
    andthen_def clear_timer_def clear_interval_def modify_def ret_def split: option.splits)

lemma name_kept_write [rw_intros]: "runs_within (name_kept S) (fs_writeFileSync p t)"
  unfolding fs_writeFileSync_def
  by (rule rw_intros)+ (simp add: runs_within_def modify_def name_kept_frame)

interpretation na: app_steps "name_kept S" for S
proof
  show "runs_within (name_kept S) (ipc_nexus_wallet_create n a)" for n a
    unfolding ipc_nexus_wallet_create_def by (rule rw_intros)+
  show "runs_within (name_kept S) (saveOperatorConfig a naddr tier rpc chain c')" for a naddr tier rpc chain c'
    unfolding saveOperatorConfig_def by (rule rw_intros)+
qed (auto intro!: name_kept_frame simp: runs_within_def start_pollers_def drop_pollers_def
    pollBridgeReleaseStatus_def pollCryLoBridgeStatus_def bind_def gets_def andthen_def clear_timer_def clear_interval_def
    modify_def ret_def set_state_def set_interval_def add_timer_def block.simps split: option.splits)

section \<open>Selecting a wallet\<close>

lemma name_kept_select [rw_intros]: "runs_within (name_kept (Some n)) (select_wallet n)"
proof -
  have "runs_within (name_kept (Some n)) (set_state (\<lambda>s. s\<lparr>walletName := n, address := a, nexusAddress := b\<rparr>))" for a b
    by (simp add: runs_within_def set_state_def modify_def name_kept_def)
  note set_name = this
  show ?thesis unfolding select_wallet_def by (rule set_name | rule rw_intros)+
qed

lemma walletRpc_up:
  assumes "fst (crylo_walletRpc m p t E w) = Ok res" "truthy (jprop res ''ok'')"
  shows "rpc_up E (trace w) (wallet_post m p t)"
  using assms
  by (auto simp: crylo_relay relay_def ipc_wallet_rpc_def with_message_def walletRpc_def rpcCall_def rpc_post_def rpc_up_def
      try_catch_def bind_def await_call_def parse_text_def throw_def ret_def get_prop_def error_reply_def obj_get_def
      split: outcome.splits option.splits if_splits)

text \<open>A request that opens a wallet: if it succeeds, the rest may select the wallet.\<close>

lemma name_kept_open:
  assumes m: "m \<in> set opening_methods" "jprop ps ''filename'' = Str n"
    and no: "\<And>res. runs_within (name_kept None) (no res)" and yes: "\<And>res. runs_within (name_kept (Some n)) (yes res)"
  shows "runs_within (name_kept None) (bind (crylo_walletRpc (Str m) ps t) (\<lambda>res. bind (get_prop res ''ok'') (\<lambda>ok.
    if \<not> truthy ok then no res else yes res)))"
proof -
  have "name_kept None E w (snd (yes res E v))"
    if "fst (crylo_walletRpc (Str m) ps t E w) = Ok res" "truthy (jprop res ''ok'')" "v = awaited E (wallet_post (Str m) ps t) w" for E w v res
  proof -
    have "opens E (trace w) (wallet_post (Str m) ps t) n"
      unfolding opens_def using walletRpc_up [OF that(1,2)] m by blast
    then have "opened E (trace w @ [wallet_post (Str m) ps t]) n" unfolding opened_def by blast
    then have "opened E (trace v) n" using that(3) by simp
    then have "name_kept None E v (snd (yes res E v))" using yes [of res] unfolding runs_within_def name_kept_def by simp
    then show ?thesis using name_kept_await that(3) name_kept_trans by blast
  qed
  moreover have "name_kept None E w (snd (no res E v))" if "v = awaited E (wallet_post (Str m) ps t) w" for E w v res
    using no [of res] that name_kept_await name_kept_trans unfolding runs_within_def by blast
  ultimately show ?thesis
    unfolding runs_within_wp by (auto simp: wp_bind wp_walletRpc wp_get_prop wp_if wp_run name_kept_await split: on_ok_split)
qed

interpretation names: main_steps "name_kept None"
proof
  show "runs_within (name_kept None) createWallet"
    unfolding createWallet_def close_current_wallet_def
    by (rule name_kept_open rw_intros | (simp add: opening_methods_def same_timers_def; fail))+
  show "runs_within (name_kept None) openWallet"
    unfolding openWallet_def close_current_wallet_def setOpenWalletLoading_def
    by (rule name_kept_open rw_intros | (simp add: opening_methods_def same_timers_def; fail))+
  show "runs_within (name_kept None) restoreWallet"
    unfolding restoreWallet_def close_current_wallet_def
    by (rule name_kept_open rw_intros | (simp add: opening_methods_def same_timers_def; fail))+
  have closed: "runs_within (name_kept None) (set_state (\<lambda>s. s\<lparr>walletName := [], address := a\<rparr>))" for a
    by (simp add: runs_within_def set_state_def modify_def name_kept_def)
  show "runs_within (name_kept None) switchWallet"
    unfolding switchWallet_def drop_pollers_seq by (rule closed | rule rw_intros)+
qed (auto simp: runs_within_def fs_appendFile_def rotate_log_def modify_def name_kept_frame split: option.splits)

text \<open>
  C16. The open wallet was opened: in every run of the application from a state without a wallet, by any events in any order, the
  wallet the renderer takes for open, whose name goes to every Nexus action, is none or one that the wallet service was asked by
  name to open, create or restore, and answered without an error.
\<close>

theorem open_wallet_accepted:
  assumes "names_opened E" "reachable E start w" "walletName (st start) = []"
  shows "walletName (st w) = [] \<or> opened E (trace w) (walletName (st w))"
  using names.rw_reachable [OF assms(2)] assms(1,3) by (auto simp: name_kept_def Let_def)

definition open_page :: world where
  "open_page = sample_world\<lparr>st := sample_state\<lparr>walletName := []\<rparr>, page := (\<lambda>i. blank_elem\<lparr>el_value :=
     (if i = ''open-select'' then ''bob'' else if i = ''open-pass'' then ''secret'' else [])\<rparr>)\<rparr>"

theorem open_wallet_accepted_witness:
  "let w = snd (handle (Act ''openWallet'') (sample_env (\<lambda>h c. Ok (Str ''{\"result\":{}}''))) open_page)
   in walletName (st w) = [] \<or> opened (sample_env (\<lambda>h c. Ok (Str ''{\"result\":{}}''))) (trace w) (walletName (st w))"
  unfolding Let_def
  by (rule open_wallet_accepted [OF _ reach_event [OF reach_start]]) (simp_all add: names_opened_def sample_env_def open_page_def)

section \<open>Closing a wallet\<close>

text \<open>A program that changes neither the renderer's state nor its timers.\<close>

definition page_only :: Steps.step where
  "page_only E w w' \<longleftrightarrow> st w' = st w \<and> timers w' = timers w"

interpretation shown: step_order page_only
  by unfold_locales (simp_all add: page_only_def)

lemma page_only_ops [rw_intros]:
  "runs_within page_only (write_el i k f)" "runs_within page_only (change_el i k f)" "runs_within page_only (sync_call c)"
  "runs_within page_only (modify (\<lambda>w. w\<lparr>dirs := d w\<rparr>))"
  by (simp_all add: runs_within_def page_only_def write_el_def change_el_def sync_call_def modify_def throw_def)

lemma showSetup_page_only: "runs_within page_only showSetup"
  unfolding showSetup_def backToSetupCards_def loadWalletList_def crylo_relay ipc_list_wallets_def getWalletDir_def ensure_dir_def
    fs_existsSync_def fs_mkdirSync_def clear_options_def append_option_def add_class_def remove_class_def
  by (rule rw_intros)+

lemma drop_pollers_state:
  "fst (drop_pollers E w) = Ok ()" "refreshTimer (st (snd (drop_pollers E w))) = None" "blockPoller (st (snd (drop_pollers E w))) = None"
  "walletName (st (snd (drop_pollers E w))) = walletName (st w)" "address (st (snd (drop_pollers E w))) = address (st w)"
  by (auto simp: drop_pollers_def run_simps block.simps clear_interval_def split: option.splits)

lemma no_live_interval:
  assumes "timers_ok w" "single_poll c" "handle_of w c = None"
  shows "live_intervals (\<lambda>d. d = c) w = []"
proof -
  have "(i, Interval c ms) \<notin> set (timers w)" for i ms using timers_okD(3) [OF assms(1)] assms(2,3) by fastforce
  then show ?thesis by (auto simp: live_intervals_def filter_empty_conv split: timer.splits)
qed

definition switch_question :: jsval where
  "switch_question = Obj [(''title'', Str ''Switch Wallet''), (''message'', Str ''Close current wallet and go back to wallet selection?''),
     (''buttons'', Arr [Str ''Yes'', Str ''Cancel''])]"

text \<open>
  C17. Closing a wallet: in every run of the application from a page without timers, when the user agreed to close the wallet and
  the action returns, no wallet and no address is selected any more, and neither the refresh interval nor the block poll is alive,
  however often and in whatever order wallets were opened before.
\<close>

theorem switch_stops_polling:
  assumes "\<And>h v. timers_ok v \<Longrightarrow> timers_ok (meddle E h v)" "reachable E start w" "timers start = []"
    and "fst (crylo_confirm switch_question E w) = Ok v" "truthy v" "fst (switchWallet E w) = Ok ()"
  shows "let w' = snd (switchWallet E w) in walletName (st w') = [] \<and> address (st w') = Str [] \<and>
    live_intervals (\<lambda>c. c = CbRefreshAll) w' = [] \<and> live_intervals (\<lambda>c. c = CbBlockPoll) w' = []"
proof -
  define R :: "unit outcome \<Rightarrow> world \<Rightarrow> bool" where "R = (\<lambda>r w'. r = Ok () \<longrightarrow> walletName (st w') = [] \<and> address (st w') = Str [] \<and>
    live_intervals (\<lambda>c. c = CbRefreshAll) w' = [] \<and> live_intervals (\<lambda>c. c = CbBlockPoll) w' = [])"
  have awaits: "timers_ok (awaited E c u)" if "timers_ok u" for c u
    using assms(1) [OF that] by (simp add: awaited_def)
  have "timers_ok start" using assms(3) by (simp add: timers_ok_def)
  then have "timers_ok w" using polls.rw_reachable [OF assms(2)] assms(1) by (simp add: timers_kept_def)
  note ok = awaits [OF awaits [OF this]]
  have closed: "wp E (andthen drop_pollers showSetup) R (u\<lparr>st := (st u)\<lparr>walletName := [], address := Str []\<rparr>\<rparr>)" if "timers_ok u" for u
  proof -
    let ?u = "u\<lparr>st := (st u)\<lparr>walletName := [], address := Str []\<rparr>\<rparr>"
    let ?x = "snd (drop_pollers E ?u)"
    have "timers_ok ?u" using that timers_ok_frame [of ?u u] by (simp add: same_timers_def)
    then have x: "timers_ok ?x" using timers_kept_stop assms(1) unfolding runs_within_def timers_kept_def by blast
    have "live_intervals (\<lambda>c. c = CbRefreshAll) ?x = []" "live_intervals (\<lambda>c. c = CbBlockPoll) ?x = []"
      by (rule no_live_interval [OF x]; simp add: drop_pollers_state)+
    moreover have "st (snd (showSetup E ?x)) = st ?x" "timers (snd (showSetup E ?x)) = timers ?x"
      using showSetup_page_only by (simp_all add: runs_within_def page_only_def)
    ultimately have "R (fst (showSetup E ?x)) (snd (showSetup E ?x))"
      by (simp add: R_def live_intervals_def drop_pollers_state)
    then show ?thesis by (simp add: wp_andthen wp_run drop_pollers_state)
  qed
  have bad: "R r w'" if "\<And>x. r \<noteq> Ok x" for r w' using that by (simp add: R_def)
  have "\<not> nullish switch_question" by (simp add: switch_question_def nullish_def)
  then have "wp E switchWallet R w"
    unfolding switchWallet_def drop_pollers_seq switch_question_def [symmetric]
    using closed [OF ok] assms(4,5)
    by (simp add: wp_bind wp_confirm wp_if wp_walletRpc wp_andthen [of _ "modify _"] set_state_def wp_modify bad split: on_ok_split)
  then show ?thesis using assms(6) by (simp add: wp_run R_def Let_def)
qed

text \<open>A user who says yes to everything and a wallet service that answers everything.\<close>

definition willing_env :: env where
  "willing_env = sample_env (\<lambda>h c. case c of ShowMessageBox o' \<Rightarrow> Ok (Obj [(''response'', jint 0)]) | _ \<Rightarrow> Ok (Str ''{\"result\":{}}''))"

theorem switch_stops_polling_witness:
  "walletName (st (snd (switchWallet willing_env (snd (handle (Act ''openMainScreen'') willing_env sample_world))))) = [] \<and>
   live_intervals (\<lambda>c. c = CbRefreshAll) (snd (switchWallet willing_env (snd (handle (Act ''openMainScreen'') willing_env sample_world)))) = []"
proof -
  let ?w = "snd (handle (Act ''openMainScreen'') willing_env sample_world)"
  have json: "JSON_parse ''{\"result\":{}}'' = Some (Obj [(''result'', Obj [])])" by code_simp
  have yes: "fst (crylo_confirm switch_question willing_env w) = Ok (Bool True)" for w
    by (simp add: crylo_relay relay_def ipc_confirm_dialog_def switch_question_def willing_env_def sample_env_def try_catch_def bind_def
        get_prop_def nullish_def ret_def await_call_def obj_get_def strict_eq_def)
  have rpc: "fst (crylo_walletRpc m p t willing_env w) = Ok (ok_reply [(''result'', Obj [])])" for m p t w
    by (simp add: crylo_relay relay_def ipc_wallet_rpc_def with_message_def walletRpc_def rpcCall_def try_catch_def bind_def
        await_call_def willing_env_def sample_env_def parse_text_def json ret_def get_prop_def obj_get_def nullish_def)
  have el: "has_el ''setup-screen''" "has_el ''main-screen''" "has_el ''setup-cards''" "list_all has_el setup_forms" by code_simp+
  have "wp willing_env showSetup (\<lambda>r _. r = Ok ()) w" for w
    using el by (simp add: showSetup_def backToSetupCards_def setup_forms_def wp_eval wp_run [of _ loadWalletList])
  then have shown: "fst (showSetup willing_env w) = Ok ()" for w by (simp add: wp_run)
  have "\<not> nullish switch_question" by (simp add: switch_question_def nullish_def)
  then have "wp willing_env switchWallet (\<lambda>r _. r = Ok ()) ?w"
    unfolding switchWallet_def drop_pollers_seq switch_question_def [symmetric]
    by (simp add: wp_bind wp_confirm wp_if wp_walletRpc wp_andthen set_state_def wp_modify yes rpc wp_run drop_pollers_state shown
        split: on_ok_split)
  then have ret: "fst (switchWallet willing_env ?w) = Ok ()" by (simp add: wp_run)
  have calm: "timers_ok (meddle willing_env h v)" if "timers_ok v" for h v using that by (simp add: willing_env_def sample_env_def)
  have start: "timers sample_world = []" and true: "truthy (Bool True)" by (simp_all add: sample_world_def)
  from switch_stops_polling [OF calm reach_event [OF reach_start] start yes true ret] show ?thesis unfolding Let_def by blast
qed

end
