(* ===== verification/WiringProps.thy ===== *)
theory WiringProps
  imports StartupProps
begin

text \<open>
  The listeners of the page: what the page subscribes to when it is loaded, that the events of the model are what these
  listeners run, and what the messages of a startup do to the page.
\<close>

section \<open>Listeners\<close>

abbreviation loaded_page :: page_listeners where
  "loaded_page \<equiv> on_DOMContentLoaded \<lparr>on_dom = [], on_ipc = []\<rparr>"

lemma andthen_ret [simp]: "andthen m (ret ()) = m"
  by (auto simp: andthen_def bind_def ret_def fun_eq_iff split: prod.splits outcome.splits)

lemma page_has_passwords: "list_all has_el password_fields"
  by code_simp

lemma loaded_dom:
  "on_dom loaded_page = concat (map (\<lambda>i. [(i, ''input'', \<lambda>_. clearPasswordInvalid i),
     (i, ''keydown'', \<lambda>key. if key \<noteq> ''Enter'' then ret () else on_password_enter i)]) password_fields)"
  using page_has_passwords by (simp add: on_DOMContentLoaded_def setupPasswordEnterSubmit_def password_fields_def)

lemma loaded_ipc:
  "on_ipc loaded_page = [(''startup-status'', onStartupStatus), (''daemon-exit'', onDaemonExit), (''wallet-rpc-exit'', onWalletRpcExit)]"
  by (simp add: on_DOMContentLoaded_def crylo_onStartupStatus_def crylo_onDaemonExit_def crylo_onWalletRpcExit_def ipc_on_def)

lemma emit_loaded:
  "emit (on_ipc loaded_page) channel v =
     (if channel = ''startup-status'' then onStartupStatus v else if channel = ''daemon-exit'' then onDaemonExit v
      else if channel = ''wallet-rpc-exit'' then onWalletRpcExit v else ret ())"
  unfolding loaded_ipc by (simp add: emit_def)


section \<open>The messages of a startup\<close>

text \<open>The page handles the messages of a list of calls one after the other; a listener that throws does not stop the next.\<close>

definition deliver :: "subscriptions \<Rightarrow> call list \<Rightarrow> unit js" where
  "deliver subs cs = for_each cs (\<lambda>c. case c of SendToWindow channel v \<Rightarrow> spawn_task (emit subs channel v) | _ \<Rightarrow> ret ())"

text \<open>The timers that leave the splash screen.\<close>

definition setup_timers :: "world \<Rightarrow> nat" where
  "setup_timers w = length (filter (\<lambda>(_, t). t = Timeout CbShowSetupOrMain 600) (timers w))"

lemma toast_frame:
  "wp E (toast_for m k ms) (\<lambda>_ w'. ready (st w') = ready (st w) \<and> setup_timers w' = setup_timers w) w"
  unfolding toast_for_def by (simp add: wp_eval setup_timers_def split: on_ok_split)

definition startup_effect :: "bool \<Rightarrow> world \<Rightarrow> world \<Rightarrow> bool" where
  "startup_effect r p p' \<longleftrightarrow> (ready (st p') \<longleftrightarrow> ready (st p) \<or> r) \<and> setup_timers p' = setup_timers p + (if r then 1 else 0)"

lemma status_effect: "startup_effect (jprop v ''state'' = Str ''ready'') p (snd (onStartupStatus v E p))"
proof -
  have el: "has_el ''splash-msg''" "has_el ''splash-error''" "has_el ''splash-progress''" by code_simp+
  have st: "setup_timers (upd_page i f w) = setup_timers w"
    "setup_timers (w\<lparr>st := s\<rparr>) = setup_timers w" "setup_timers (w\<lparr>timers := timers w @ [(j, Timeout CbShowSetupOrMain 600)], next_timer := k\<rparr>) = Suc (setup_timers w)"
    for i f w s j k by (simp_all add: setup_timers_def)
  have "wp E (onStartupStatus v) (\<lambda>_. startup_effect (jprop v ''state'' = Str ''ready'') p) p"
  proof (cases "nullish v")
    case True
    then have "v = Undefined \<or> v = Null" by (cases v) (simp_all add: nullish_def)
    then show ?thesis by (auto simp: onStartupStatus_def wp_bind wp_get_prop startup_effect_def nullish_def)
  next
    case False
    then show ?thesis
      by (cases "jprop v ''state'' = Str ''ready''"; cases "jprop v ''state'' = Str ''error''")
        (simp_all add: onStartupStatus_def Let_def wp_eval el st startup_effect_def set_state_def strict_eq_def)
  qed
  then show ?thesis by (simp add: wp_run)
qed

lemma message_effect:
  "startup_effect (is_ready (SendToWindow channel v)) p (snd (emit (on_ipc loaded_page) channel v E p))"
proof -
  have exits: "startup_effect False p (snd (onDaemonExit v E p))" "startup_effect False p (snd (onWalletRpcExit v E p))"
    using toast_frame unfolding onDaemonExit_def onWalletRpcExit_def do_if_def startup_effect_def wp_run
    by (auto simp: ret_def)
  show ?thesis
    using status_effect [of v p E] exits unfolding emit_loaded by (auto simp: ret_def startup_effect_def)
qed

lemma deliver_effect:
  "(ready (st (snd (deliver (on_ipc loaded_page) cs E p))) \<longleftrightarrow> ready (st p) \<or> list_ex is_ready cs) \<and>
   setup_timers (snd (deliver (on_ipc loaded_page) cs E p)) = setup_timers p + length (filter is_ready cs)"
proof (induction cs arbitrary: p)
  case (Cons c cs)
  show ?case
  proof (cases "\<exists>channel v. c = SendToWindow channel v")
    case True
    then obtain channel v where c: "c = SendToWindow channel v" by blast
    then have "snd (deliver (on_ipc loaded_page) (c # cs) E p) =
        snd (deliver (on_ipc loaded_page) cs E (snd (emit (on_ipc loaded_page) channel v E p)))"
      by (simp add: deliver_def andthen_def bind_def spawn_task_def)
    then show ?thesis
      using Cons.IH [of "snd (emit (on_ipc loaded_page) channel v E p)"] message_effect [of channel v p E] c
      by (auto simp: startup_effect_def)
  next
    case False
    then have "snd (deliver (on_ipc loaded_page) (c # cs) E p) = snd (deliver (on_ipc loaded_page) cs E p)" "\<not> is_ready c"
      by (cases c; simp add: deliver_def andthen_def bind_def ret_def)+
    then show ?thesis using Cons.IH [of p] by simp
  qed
qed (simp add: deliver_def ret_def)

lemma ready_once: "ready_in_order E h cs \<Longrightarrow> length (filter is_ready cs) = (if list_ex is_ready cs then 1 else 0)"
proof -
  have none: "filter is_ready xs = []" if "calm xs" for xs using that by (induction xs) auto
  assume "ready_in_order E h cs"
  then show ?thesis
    unfolding ready_in_order_def using none by (auto simp: list_ex_iff list_all_iff)
qed

text \<open>
  C26. From the main process to the page: when the messages of a startup reach a loaded page, the page becomes ready exactly if
  the startup reported so, it then sets exactly one timer to leave the splash screen, and otherwise none; and the report came
  after the daemon and the wallet service answered.
\<close>

theorem startup_reaches_page:
  "\<exists>cs. trace (snd (startBackend n E w)) = trace w @ cs \<and> ready_in_order E (trace w) cs \<and>
     (let p' = snd (deliver (on_ipc loaded_page) cs E p)
      in (ready (st p') \<longleftrightarrow> ready (st p) \<or> list_ex is_ready cs) \<and>
         setup_timers p' = setup_timers p + (if list_ex is_ready cs then 1 else 0))"
proof -
  obtain cs where cs: "trace (snd (startBackend n E w)) = trace w @ cs" "ready_in_order E (trace w) cs"
    using startBackend_ordered by blast
  then show ?thesis
    using deliver_effect [of cs E p] ready_once [OF cs(2)] by (intro exI [of _ cs]) (simp add: Let_def)
qed

end
