(* ===== verification/NftProps.thy ===== *)
theory NftProps
  imports IpcProps
begin

text \<open>
  The scan for the NFTs of an address: while the chain does not change, the loop of contract reads lists exactly the tokens of the
  address, as a function of the chain.
\<close>

section \<open>The chain\<close>

definition chain_read :: "env \<Rightarrow> string \<Rightarrow> string \<Rightarrow> jsval list \<Rightarrow> jsval outcome" where
  "chain_read E contract fn args = answer E [] (ContractRead contract fn args)"

text \<open>
  During a scan the contracts answer a read the same every time, with a value or an error, and the library functions return or
  throw.
\<close>

definition chain_stable :: "env \<Rightarrow> bool" where
  "chain_stable E \<longleftrightarrow>
     (\<forall>h contract fn args. answer E h (ContractRead contract fn args) = chain_read E contract fn args \<and>
        chain_read E contract fn args \<noteq> Pending) \<and>
     (\<forall>v. keccakUtf8 E v \<noteq> Pending) \<and> (\<forall>v d. formatUnits E v d \<noteq> Pending)"

text \<open>The value of an outcome, if it is one.\<close>

fun ok_value :: "'a outcome \<Rightarrow> 'a option" where
  "ok_value (Ok x) = Some x"
| "ok_value _ = None"

text \<open>
  What the scan reports of a token: nothing if the token has no owner, another owner, or a mint code or pool that cannot be read.
\<close>

definition nft_entry :: "env \<Rightarrow> string \<Rightarrow> nat \<Rightarrow> jsval option" where
  "nft_entry E linked k =
     Option.bind (ok_value (chain_read E nftAddress ''ownerOf'' [num_of_nat k])) (\<lambda>owner.
     if \<not> (\<exists>s. owner = Str s \<and> to_lower s = linked) then None
     else Option.bind (ok_value (chain_read E nftAddress ''getMintCode'' [num_of_nat k])) (\<lambda>code.
          Option.bind (ok_value (keccakUtf8 E code)) (\<lambda>codeHash.
          Option.bind (ok_value (chain_read E vaultAddress ''codePools'' [Str codeHash])) (\<lambda>pool.
          Option.bind (ok_value (formatUnits E (elem_at pool 1) WCRYLO_DECIMALS)) (\<lambda>amount.
          if nullish pool \<or> nullish (elem_at pool 2) then None
          else Some (Obj [(''tokenId'', num_of_nat k), (''owner'', owner), (''code'', code),
            (''eligible'', Bool (truthy (elem_at pool 0))), (''codePool'', Str amount), (''redeemed'', Str (to_str (elem_at pool 2)))]))))))"

lemma scan_token_entry:
  assumes "chain_stable E"
  shows "fst (scan_token linked k owned E w) = Ok (owned @ (case nft_entry E linked k of None \<Rightarrow> [] | Some x \<Rightarrow> [x]))"
proof -
  have reads: "answer E h (ContractRead c f as) = chain_read E c f as" "chain_read E c f as \<noteq> Pending"
    "keccakUtf8 E v \<noteq> Pending" "formatUnits E v d \<noteq> Pending" for h c f as v d
    using assms unfolding chain_stable_def by blast+
  have lower: "wp E (lower_of v) R = (case v of Str s \<Rightarrow> R (Ok (to_lower s)) | _ \<Rightarrow> R (Throw (type_error ''toLowerCase is not a function'')))" for v R
    by (cases v) (simp_all add: lower_of_def wp_eval)
  have "wp E (scan_token linked k owned) (\<lambda>r _. r = Ok (owned @ (case nft_entry E linked k of None \<Rightarrow> [] | Some x \<Rightarrow> [x]))) w"
    using reads
    by (simp add: scan_token_def nft_entry_def read_contract_def formatWcryloUnits_def item_of_def text_of_def wp_eval lower
        split: on_ok_split on_throw_split outcome.split jsval.split)
  then show ?thesis by (simp add: wp_run)
qed

lemma scan_loop:
  assumes "chain_stable E"
  shows "fst (fold_loop ks owned (scan_token linked) E w) = Ok (owned @ List.map_filter (nft_entry E linked) ks)"
proof (induction ks arbitrary: owned w)
  case (Cons k ks)
  obtain w' where "scan_token linked k owned E w = (Ok (owned @ (case nft_entry E linked k of None \<Rightarrow> [] | Some x \<Rightarrow> [x])), w')"
    using scan_token_entry [OF assms, of linked k owned w] by (metis prod.collapse)
  then show ?case using Cons.IH by (simp add: bind_def List.map_filter_simps split: option.split)
qed (simp add: ret_def List.map_filter_simps)

text \<open>
  C35. The NFT scan is exact: while the chain does not change, the reply to a valid address lists, in the order of their numbers,
  exactly the tokens below the next token number whose owner is the address up to the case of its letters and whose mint code and
  pool can be read, each once and with the values of the chain; tokens that fail to be read do not stop the scan.
\<close>

theorem nft_scan_exact:
  assumes "chain_stable E" "isAddress E (Str (to_lower a))"
    and "chain_read E nftAddress ''nextTokenId'' [] = Ok nv" "to_number nv = Fin (of_nat n)" "n \<le> 2 ^ 53"
    and "chain_read E tokenAddress ''balanceOf'' [Str vaultAddress] = Ok b" "formatUnits E b WCRYLO_DECIMALS = Ok vb"
  shows "fst (ipc_nexus_scan_nfts (Str a) E w) =
    Ok (ok_reply [(''linkedAddress'', Str a), (''nextTokenId'', Num (Fin (of_nat n))), (''vaultBalance'', Str vb),
      (''nfts'', Arr (List.map_filter (nft_entry E (to_lower a)) [0..<n]))])"
proof -
  have reads: "answer E h (ContractRead c f as) = chain_read E c f as" for h c f as
    using assms(1) unfolding chain_stable_def by blast
  have addr: "js_or (Str a) (Str []) = Str a" by (simp add: js_or_def)
  have "(of_nat n :: rat) \<le> 2 ^ 53" using assms(5) by (metis of_nat_le_iff of_nat_numeral of_nat_power)
  then have loop: "fst (counter_loop (Fin (of_nat n)) [] (scan_token l) E v) = Ok (List.map_filter (nft_entry E l) [0..<n])" for l v
    using scan_loop [OF assms(1), of "[0..<n]" "[]" l v] by (simp add: counter_loop_def)
  have "wp E (ipc_nexus_scan_nfts (Str a)) (\<lambda>r _. r = Ok (ok_reply [(''linkedAddress'', Str a), (''nextTokenId'', Num (Fin (of_nat n))),
      (''vaultBalance'', Str vb), (''nfts'', Arr (List.map_filter (nft_entry E (to_lower a)) [0..<n]))])) w"
    using assms
    by (simp add: ipc_nexus_scan_nfts_def with_message_def read_contract_def formatWcryloUnits_def wp_eval Let_def reads
        wp_run [of _ "counter_loop _ _ _"] loop addr)
  then show ?thesis by (simp add: wp_run)
qed

text \<open>A chain with two tokens, of which the second belongs to the address 0xAb.\<close>

definition two_tokens :: env where
  "two_tokens = sample_env (\<lambda>h c. case c of ContractRead contract fn args \<Rightarrow>
     if fn = ''nextTokenId'' then Ok (jint 2)
     else if fn = ''ownerOf'' then Ok (Str (if args = [num_of_nat 1] then ''0xAB'' else ''0xC''))
     else if fn = ''getMintCode'' then Ok (Str ''GOLD'')
     else if fn = ''codePools'' then Ok (Arr [Bool True, jint 5, jint 0]) else Ok (jint 7)
   | _ \<Rightarrow> Ok Null)"

theorem nft_scan_exact_witness:
  "\<exists>nft. fst (ipc_nexus_scan_nfts (Str ''0xAb'') two_tokens sample_world) =
     Ok (ok_reply [(''linkedAddress'', Str ''0xAb''), (''nextTokenId'', Num (Fin 2)), (''vaultBalance'', Str ''1.0''), (''nfts'', Arr [nft])]) \<and>
     jprop nft ''tokenId'' = num_of_nat 1"
proof -
  have stable: "chain_stable two_tokens"
    by (simp add: chain_stable_def chain_read_def two_tokens_def sample_env_def)
  have lower: "to_lower ''0xAb'' = ''0xab''" "to_lower ''0xAB'' = ''0xab''" "to_lower ''0xC'' = ''0xc''" by code_simp+
  have entries: "nft_entry two_tokens ''0xab'' 0 = None" "\<exists>nft. nft_entry two_tokens ''0xab'' 1 = Some nft \<and> jprop nft ''tokenId'' = num_of_nat 1"
    by (simp_all add: nft_entry_def chain_read_def two_tokens_def sample_env_def lower num_of_nat_def nullish_def obj_get_def)
  then obtain nft where "nft_entry two_tokens ''0xab'' 1 = Some nft" "jprop nft ''tokenId'' = num_of_nat 1" by blast
  then have "List.map_filter (nft_entry two_tokens ''0xab'') [0..<2] = [nft]" "jprop nft ''tokenId'' = num_of_nat 1"
    using entries(1) by (simp_all add: List.map_filter_simps upt_rec)
  moreover have "fst (ipc_nexus_scan_nfts (Str ''0xAb'') two_tokens sample_world) = Ok (ok_reply [(''linkedAddress'', Str ''0xAb''),
      (''nextTokenId'', Num (Fin (of_nat 2))), (''vaultBalance'', Str ''1.0''),
      (''nfts'', Arr (List.map_filter (nft_entry two_tokens (to_lower ''0xAb'')) [0..<2]))])"
    by (rule nft_scan_exact [OF stable, where nv = "jint 2" and b = "jint 7"]) (simp_all add: chain_read_def two_tokens_def sample_env_def)
  ultimately show ?thesis by (auto simp: lower)
qed

end
