(* ===== verification/Spec2Isabelle.thy ===== *)
theory Spec2Isabelle
  imports WalletProps PaymentProps ReplyProps RecordProps TypedProps OpenedProps WiringProps NftProps
begin

text \<open>
  A verification of the CryLo desktop wallet, the Electron application under src/electron: the main process (main.js), the
  preload script (preload.js) and the renderer (src/app.js). This theory imports the whole development.

  \<^bold>\<open>The program.\<close> The main process starts and stops the local services (the daemon on port 22641 and the wallet service on port
  22643), keeps the log files, the wallet directory and the key files of the bound Nexus wallets, signs transactions on the Nexus
  chain, and answers the messages of the page over named channels. The preload script gives the page one function per channel. The
  renderer is the page: it keeps the State object, shows balances, transactions, vesting, mining and Nexus data, polls by timers,
  and performs the user's actions: sending, consolidating, bridging in both directions, staking, nodes, gas and NFTs. What is
  outside both processes, the daemon, the wallet service, the bridge service, the chain, the user, the clock and the operating
  system, answers calls.

  \<^bold>\<open>The model of a program.\<close> The theories \<open>JsNumber\<close>, \<open>JsText\<close>, \<open>JsValue\<close> and \<open>JsJson\<close> model what the code uses of JavaScript:
  doubles as rationals rounded after every operation, strings as their UTF-8 bytes, dynamic values, \<open>parseInt\<close>, \<open>toFixed\<close>,
  \<open>String\<close> of a number, and JSON. \<open>World\<close> has the state of both processes as one record, the calls to the outside as a datatype,
  and programs: a program takes an environment and a world and yields a value, a thrown value, or nothing yet, with the next
  world. The environment answers every call as any function of the calls made so far, or never, and at every await it may change
  the world as other tasks could; theorems over all environments therefore cover every reply and every interleaving. Where a
  theorem restricts the interference it says so as a hypothesis, and the restriction is one that the program's own functions
  satisfy. \<open>Page\<close> has the elements of index.html and the operations on them. The ethers library, the locale and the platform are
  parameters in the record \<^typ>\<open>env\<close>.

  \<^bold>\<open>The components\<close>, in the order of the code, each function a definition of the same name:
  \<^item> \<open>MainCore\<close>: constants, paths, logs and their rotation, \<open>rpcCall\<close>, \<open>daemonHttp\<close>, \<open>waitForRpc\<close>, the child processes, \<open>startBackend\<close>.
  \<^item> \<open>MainIpc\<close>: the handlers that forward to the daemon and the wallet service, the wallet list, dialogs, the miner, the bridge
    service, and the lifecycle of the application (windows, quitting, navigation). \<open>ipc_x_y\<close> is the handler of the channel x-y.
  \<^item> \<open>MainWallet\<close>: the key files that bind a Nexus wallet to a CryLo address.
  \<^item> \<open>MainNexus\<close>, \<open>MainNexusTx\<close>: contract reads and transactions; the history of Nexus transactions.
  \<^item> \<open>Preload\<close>: the channel table \<^const>\<open>ipc_handlers\<close>, \<^const>\<open>invoke\<close>, the functions of window.crylo and the subscriptions to
    messages of the main process.
  \<^item> \<open>AppHelpers\<close>, \<open>AppNexus\<close>, \<open>AppWallet\<close>, \<open>AppTransactions\<close>, \<open>AppVesting\<close>, \<open>AppMining\<close>, \<open>AppActions\<close>, \<open>AppMain\<close>, \<open>AppSetup\<close>: the
    renderer, by the sections of app.js. \<open>AppSetup\<close> ends with the events: what a timer runs (\<^const>\<open>run_callback\<close>), the actions of
    window.App (\<^const>\<open>app_actions\<close>) and the handler of any event (\<^const>\<open>handle\<close>).

  \<^bold>\<open>The library of the proofs.\<close> \<open>World\<close> has weakest preconditions (the collection \<open>wp_eval\<close>) and \<^const>\<open>emits_only\<close>. \<open>Dispatch\<close>
  resolves the channels and describes programs that make one call. \<open>Steps\<close> has guarantees: a relation between the worlds before
  and after a run that every step of a program keeps. Its locales \<open>step_order\<close>, \<open>view_steps\<close>, \<open>call_steps\<close>, \<open>app_steps\<close>,
  \<open>wallet_steps\<close>, \<open>any_state_steps\<close> and \<open>main_steps\<close> name the steps, and prove once that every function of the wallet, every event
  and every reachable state (\<^const>\<open>reachable\<close>) keeps a guarantee that these steps keep; the rules are in the collection
  \<open>rw_intros\<close>. They are interpreted for: only harmless calls, key files kept, intervals in order (\<open>Guarantees\<close>), transactions that
  satisfy a test (\<open>TypedProps\<close>), the open wallet was opened (\<open>OpenedProps\<close>), no transaction (\<open>SignerProps\<close>), files kept
  (\<open>WalletProps\<close>). The locale \<open>signing_handler\<close> of \<open>NexusProps\<close> is the contract of a handler that signs, with twelve
  interpretations. \<open>property_store\<close> and \<open>grid_rounding\<close> are the contracts of object properties and of rounding. \<open>Samples\<close> has the
  concrete environments of the witnesses.

  \<^bold>\<open>What the theorems show.\<close>
  \<^item> Money on CryLo: \<open>SpendProps\<close> (sending and consolidating, call by call, only after consent), \<open>BridgeProps\<close> (a bridge session
    pays only the typed amount, to addresses the bridge returned), \<open>AmountProps\<close>, \<open>NumberText\<close> and \<open>PaymentProps\<close> (amounts are
    converted exactly, and where they are not: above \<open>2 ^ 53\<close> units, and parts written with an exponent).
  \<^item> Money on Nexus: \<open>NexusProps\<close> and \<open>SignerProps\<close> (the exact calls of every signing handler, over every channel the signer is the
    key bound to the address of the message), \<open>ActionProps\<close> and \<open>TypedProps\<close> (gas top-ups, staking and releases spend what the
    user typed or agreed to).
  \<^item> State in every run: \<open>Guarantees\<close> (views never spend, key files are never lost, polls never stack), \<open>OpenedProps\<close> (the open
    wallet was opened, a closed one is not polled), \<open>WalletProps\<close> (the key files implement an abstract store of bindings).
  \<^item> The processes: \<open>IpcProps\<close> and \<open>ReplyProps\<close> (handlers reply, and with what type; the wallet list and the Nexus history),
    \<open>StartupProps\<close> (order of the startup, waiting ends, shutting down), \<open>WiringProps\<close> (the listeners of the page and the
    messages of a startup).
  \<^item> What is shown and stored: \<open>DisplayProps\<close> (durations, vesting, the whole balance), \<open>NftProps\<close> (the NFT scan), \<open>RecordProps\<close>
    (the operator configuration, the transaction list), over \<open>JsonProps\<close>, \<open>TextProps\<close> and \<open>IntText\<close>.

  \<^bold>\<open>Bounds.\<close> \<^const>\<open>rpc_attempt\<close> follows a given number of attempts and counts as pending beyond it; an attempt takes at least the
  second it sleeps, so one per second of the limit and two more are enough (182 for the daemon, 62 for the wallet service), as
  \<open>StartupProps\<close> proves. \<^const>\<open>bridge_chunks\<close> gets three rounds: 150 CRYLO in parts of 50, and
  \<open>PaymentProps\<close> proves that they suffice. \<^const>\<open>counter_loop\<close> ends below \<open>2 ^ 53\<close>, above which the counter
  of the code stops growing. \<^const>\<open>JSON_parse\<close> spends a unit of fuel per nesting step and list element, each of which consumes a
  byte, and has more than two per byte. The exponent of a number's text is searched over 400 values, more than doubles have, and
  its digits up to 17, which identify every double.

  \<^bold>\<open>Not modelled.\<close> The C++ daemon, wallet service and libraries under src/src, src/external and src/contrib: they are the outside
  that answers JSON-RPC calls, and the wallet is verified against any answers. The contracts and the bridge service, which are not in
  the repository. index.html and the style sheet, beyond the table of element ids; the window options and the macOS menu, which
  are data for Electron; the standard output of the child processes, which only reaches the log; console output. Negative zero, which no
  modelled code can tell from zero, and unpaired surrogates. Electron's delivery of messages and the scheduling of tasks are
  represented by the interference at awaits, not by a scheduler. Layout and rendering of the page.
\<close>

end
